(* ===== verification/Mesh_Prelude.thy ===== *)
theory Mesh_Prelude
  imports Complex_Main
begin

text \<open>
  Shared vocabulary of the development: the glm vector operations the generators
  call (\<open>glm::cross\<close>, \<open>glm::normalize\<close>, ...), the \<open>Vertex\<close> struct of
  \<open>ShapeMeshes.h\<close>, the host-side mesh buffer (vertex list and index list), the
  8-float interleaved encoding written by every \<open>Load*\<close> function and read back through
  the attribute layout of \<open>SetShaderMemoryLayout\<close>, the C++ counting loops as
  \<open>upt\<close> ranges, and the list lemmas the component proofs share.
  Floats are modelled as exact reals: rounding of \<open>float\<close> arithmetic is not modelled.
\<close>

named_theorems mesh_len "length equations of generated vertex and index lists"
named_theorems mesh_bound "index-bound facts of generated index lists"

section \<open>glm vectors\<close>

type_synonym vec3 = "real \<times> real \<times> real"
type_synonym vec2 = "real \<times> real"

fun vadd :: "vec3 \<Rightarrow> vec3 \<Rightarrow> vec3" where
  "vadd (a, b, c) (x, y, z) = (a + x, b + y, c + z)"

fun vsub :: "vec3 \<Rightarrow> vec3 \<Rightarrow> vec3" where
  "vsub (a, b, c) (x, y, z) = (a - x, b - y, c - z)"

fun vscale :: "real \<Rightarrow> vec3 \<Rightarrow> vec3" where
  "vscale s (x, y, z) = (s * x, s * y, s * z)"

fun dot :: "vec3 \<Rightarrow> vec3 \<Rightarrow> real" where
  "dot (a, b, c) (x, y, z) = a * x + b * y + c * z"

fun cross :: "vec3 \<Rightarrow> vec3 \<Rightarrow> vec3" where
  "cross (a, b, c) (x, y, z) = (b * z - c * y, c * x - a * z, a * y - b * x)"

definition vlength :: "vec3 \<Rightarrow> real" where
  "vlength v = sqrt (dot v v)"

text \<open>\<open>glm::normalize v = v * inversesqrt (dot v v)\<close>. On the zero vector glm yields NaN;
  HOL's \<open>inverse 0 = 0\<close> gives the zero vector instead, so every unit-length lemma below
  carries the hypothesis that the normalized vector is non-zero.\<close>

definition normalize :: "vec3 \<Rightarrow> vec3" where
  "normalize v = vscale (inverse (vlength v)) v"

text \<open>\<open>glm::radians\<close>.\<close>

definition radians :: "real \<Rightarrow> real" where
  "radians d = d * pi / 180"

text \<open>\<open>ShapeMeshes::CalculateTriangleNormal\<close> and \<open>ShapeMeshes::QuadCrossProduct\<close>
  (declared private, never called by the generators).\<close>

definition CalculateTriangleNormal :: "vec3 \<Rightarrow> vec3 \<Rightarrow> vec3 \<Rightarrow> vec3" where
  "CalculateTriangleNormal p1 p2 p3 = normalize (cross (vsub p2 p1) (vsub p3 p1))"

definition QuadCrossProduct :: "vec3 \<Rightarrow> vec3 \<Rightarrow> vec3 \<Rightarrow> vec3 \<Rightarrow> vec3" where
  "QuadCrossProduct p1 p2 p3 p4 =
     (let n1 = cross (vsub p2 p1) (vsub p3 p1); n2 = cross (vsub p4 p1) (vsub p3 p1)
      in normalize (vadd n1 n2))"

section \<open>Vertices and host-side mesh buffers\<close>

text \<open>\<open>struct Vertex { glm::vec3 position; glm::vec3 normal; glm::vec2 texCoord; }\<close>\<close>

record vertex =
  position :: vec3
  normal :: vec3
  texCoord :: vec2

text \<open>The two \<open>std::vector\<close>s every generator fills before \<open>InitializeMesh\<close>:
  the vertices (one \<open>vertex\<close> per 8 floats) and the \<open>GLuint\<close> indices.\<close>

record mesh_buffer =
  mb_verts :: "vertex list"
  mb_indices :: "nat list"

definition mk_vertex :: "vec3 \<Rightarrow> vec3 \<Rightarrow> vec2 \<Rightarrow> vertex" where
  "mk_vertex p n t = \<lparr>position = p, normal = n, texCoord = t\<rparr>"

text \<open>Every index names a vertex, and the list is a whole number of triangles.\<close>

definition indices_below :: "nat \<Rightarrow> nat list \<Rightarrow> bool" where
  "indices_below n xs = list_all (\<lambda>i. i < n) xs"

definition mesh_wf :: "mesh_buffer \<Rightarrow> bool" where
  "mesh_wf m = (indices_below (length (mb_verts m)) (mb_indices m)
                \<and> length (mb_indices m) mod 3 = 0)"

text \<open>Every stored normal has length 1 (the unit-normal invariant of the spec).\<close>

definition unit_normals :: "vertex list \<Rightarrow> bool" where
  "unit_normals vs = list_all (\<lambda>v. vlength (normal v) = 1) vs"

text \<open>Orientation of triangle \<open>[a, b, c]\<close> of an index list against the normal stored
  at its first vertex: positive when the counter-clockwise (OpenGL front) face points
  the way the stored normal does, negative when it points the other way.\<close>

fun front_dot :: "vertex list \<Rightarrow> nat list \<Rightarrow> real" where
  "front_dot vs [a, b, c] =
     dot (cross (vsub (position (vs ! b)) (position (vs ! a)))
                (vsub (position (vs ! c)) (position (vs ! a))))
         (normal (vs ! a))"
| "front_dot vs _ = 0"

section \<open>The interleaved vertex buffer\<close>

text \<open>\<open>Constants::FloatsPerVertex + FloatsPerNormal + FloatsPerUV\<close>.\<close>

definition FloatsPerVertex :: nat where "FloatsPerVertex = 3"
definition FloatsPerNormal :: nat where "FloatsPerNormal = 3"
definition FloatsPerUV :: nat where "FloatsPerUV = 2"

definition floats_per_record :: nat where
  "floats_per_record = FloatsPerVertex + FloatsPerNormal + FloatsPerUV"

text \<open>The order in which a generator inserts one vertex: \<open>px,py,pz, nx,ny,nz, u,v\<close>.\<close>

definition vertex_floats :: "vertex \<Rightarrow> real list" where
  "vertex_floats v =
     (case position v of (px, py, pz) \<Rightarrow> case normal v of (nx, ny, nz) \<Rightarrow>
      case texCoord v of (u, w) \<Rightarrow> [px, py, pz, nx, ny, nz, u, w])"

definition interleave :: "vertex list \<Rightarrow> real list" where
  "interleave vs = concat (map vertex_floats vs)"

text \<open>Attribute layout of \<open>SetShaderMemoryLayout\<close>: location, component count, stride
  and offset, in floats (\<open>sizeof(Vertex)\<close> is 8 floats; \<open>offsetof\<close> gives 0, 3, 6).\<close>

record attrib =
  attr_loc :: nat
  attr_size :: nat
  attr_stride :: nat
  attr_offset :: nat

definition shader_layout :: "attrib list" where
  "shader_layout =
     [\<lparr>attr_loc = 0, attr_size = 3, attr_stride = 8, attr_offset = 0\<rparr>,
      \<lparr>attr_loc = 1, attr_size = 3, attr_stride = 8, attr_offset = 3\<rparr>,
      \<lparr>attr_loc = 2, attr_size = 2, attr_stride = 8, attr_offset = 6\<rparr>]"

text \<open>What the vertex fetch stage reads for attribute \<open>a\<close> of vertex \<open>i\<close>.\<close>

definition fetch_attrib :: "real list \<Rightarrow> attrib \<Rightarrow> nat \<Rightarrow> real list" where
  "fetch_attrib buf a i = take (attr_size a) (drop (i * attr_stride a + attr_offset a) buf)"

fun vec3_of :: "real list \<Rightarrow> vec3" where
  "vec3_of [x, y, z] = (x, y, z)"
| "vec3_of _ = (0, 0, 0)"

fun vec2_of :: "real list \<Rightarrow> vec2" where
  "vec2_of [x, y] = (x, y)"
| "vec2_of _ = (0, 0)"

text \<open>The vertex the shader sees at index \<open>i\<close> through locations 0, 1 and 2.\<close>

definition read_vertex :: "attrib list \<Rightarrow> real list \<Rightarrow> nat \<Rightarrow> vertex" where
  "read_vertex lay buf i =
     \<lparr>position = vec3_of (fetch_attrib buf (lay ! 0) i),
      normal = vec3_of (fetch_attrib buf (lay ! 1) i),
      texCoord = vec2_of (fetch_attrib buf (lay ! 2) i)\<rparr>"

section \<open>Counting loops\<close>

text \<open>\<open>for (int i = 0; i < n; ++i)\<close> and \<open>for (int i = 0; i <= n; ++i)\<close> over a C++
  \<open>int\<close> bound: no iteration when the bound is too small.\<close>

definition loop_lt :: "int \<Rightarrow> nat list" where
  "loop_lt n = [0..<nat n]"

definition loop_le :: "int \<Rightarrow> nat list" where
  "loop_le n = [0..<nat (n + 1)]"

text \<open>\<open>if (n < 3) n = 3;\<close> and \<open>std::max(3, n)\<close>.\<close>

definition clamp_min :: "int \<Rightarrow> int \<Rightarrow> int" where
  "clamp_min lo n = (if n < lo then lo else n)"

text \<open>C++ \<open>int\<close> division \<open>a / b\<close> truncates toward zero (HOL's \<open>div\<close> rounds down).\<close>

definition cdiv :: "int \<Rightarrow> int \<Rightarrow> int" where
  "cdiv a b = (if (a < 0) = (b < 0) then \<bar>a\<bar> div \<bar>b\<bar> else - (\<bar>a\<bar> div \<bar>b\<bar>))"

section \<open>Shared lemmas\<close>

lemma length_concat_map_const [mesh_len]:
  assumes "\<And>x. x \<in> set xs \<Longrightarrow> length (f x) = k"
  shows "length (concat (map f xs)) = k * length xs"
  using assms by (induction xs) auto

lemma indices_below_append [simp]:
  "indices_below n (xs @ ys) \<longleftrightarrow> indices_below n xs \<and> indices_below n ys"
  by (simp add: indices_below_def)

lemma indices_below_Cons [simp]:
  "indices_below n (x # xs) \<longleftrightarrow> x < n \<and> indices_below n xs"
  by (simp add: indices_below_def)

lemma indices_below_Nil [simp]: "indices_below n []"
  by (simp add: indices_below_def)

lemma indices_below_concat_map:
  "indices_below n (concat (map f xs)) \<longleftrightarrow> (\<forall>x \<in> set xs. indices_below n (f x))"
  by (induction xs) auto

lemma indices_below_mono:
  "indices_below n xs \<Longrightarrow> n \<le> m \<Longrightarrow> indices_below m xs"
  by (auto simp: indices_below_def list_all_iff)

lemma indices_below_iff:
  "indices_below n xs \<longleftrightarrow> (\<forall>i \<in> set xs. i < n)"
  by (simp add: indices_below_def list_all_iff)

lemma loop_lt_set [simp]: "set (loop_lt n) = {k. int k < n}"
  by (auto simp: loop_lt_def)

lemma loop_le_set [simp]: "set (loop_le n) = {k. int k \<le> n}"
  by (auto simp: loop_le_def)

lemma length_loop_lt [simp]: "length (loop_lt n) = nat n"
  by (simp add: loop_lt_def)

lemma length_loop_le [simp]: "length (loop_le n) = nat (n + 1)"
  by (simp add: loop_le_def)

lemma clamp_min_ge [simp]: "lo \<le> clamp_min lo n"
  by (simp add: clamp_min_def)

lemma clamp_min_below: "n \<le> lo \<Longrightarrow> clamp_min lo n = lo"
  by (simp add: clamp_min_def)

lemma clamp_min_above: "lo \<le> n \<Longrightarrow> clamp_min lo n = n"
  by (simp add: clamp_min_def)

lemma length_vertex_floats [simp]: "length (vertex_floats v) = 8"
  by (simp add: vertex_floats_def split: prod.splits)

lemma length_interleave [mesh_len]: "length (interleave vs) = 8 * length vs"
  by (induction vs) (simp_all add: interleave_def)

lemma dot_self_pos:
  assumes "v \<noteq> (0, 0, 0)"
  shows "0 < dot v v"
proof (cases v)
  case (fields x y z)
  have sq: "0 \<le> x * x" "0 \<le> y * y" "0 \<le> z * z" by simp_all
  have "x \<noteq> 0 \<or> y \<noteq> 0 \<or> z \<noteq> 0" using assms fields by auto
  then have "0 < x * x \<or> 0 < y * y \<or> 0 < z * z" by (auto simp: zero_less_mult_iff)
  then have "0 < x * x + y * y + z * z" using sq by linarith
  with fields show ?thesis by simp
qed

lemma dot_vscale [simp]: "dot (vscale s v) (vscale s v) = s * s * dot v v"
  by (cases v) (simp add: algebra_simps)

text \<open>\<open>glm::normalize\<close> of a non-zero vector has length 1.\<close>

lemma vlength_normalize:
  assumes "v \<noteq> (0, 0, 0)"
  shows "vlength (normalize v) = 1"
proof -
  have d: "0 < dot v v" using assms by (rule dot_self_pos)
  have "dot (normalize v) (normalize v) = dot v v / (sqrt (dot v v) * sqrt (dot v v))"
    by (simp add: normalize_def vlength_def field_simps)
  also have "\<dots> = 1" using d by simp
  finally show ?thesis by (simp add: vlength_def)
qed

lemma vlength_axis [simp]:
  "vlength (0, 1, 0) = 1" "vlength (0, -1, 0) = 1" "vlength (1, 0, 0) = 1"
  "vlength (-1, 0, 0) = 1" "vlength (0, 0, 1) = 1" "vlength (0, 0, -1) = 1"
  by (simp_all add: vlength_def)

lemma unit_normals_append [simp]:
  "unit_normals (xs @ ys) \<longleftrightarrow> unit_normals xs \<and> unit_normals ys"
  by (simp add: unit_normals_def)

lemma unit_normals_Cons [simp]:
  "unit_normals (x # xs) \<longleftrightarrow> vlength (normal x) = 1 \<and> unit_normals xs"
  by (simp add: unit_normals_def)

lemma unit_normals_Nil [simp]: "unit_normals []"
  by (simp add: unit_normals_def)

lemma unit_normals_concat_map:
  "unit_normals (concat (map f xs)) \<longleftrightarrow> (\<forall>x \<in> set xs. unit_normals (f x))"
  by (induction xs) auto

lemma unit_normals_map:
  "unit_normals (map f xs) \<longleftrightarrow> (\<forall>x \<in> set xs. vlength (normal (f x)) = 1)"
  by (induction xs) auto

subsection \<open>Slice angles\<close>

text \<open>The angular step \<open>2 * Pi / numSlices\<close> of a ring with at least three slices lies in
  \<open>(0, pi)\<close>, and the wrapped successor \<open>(i + 1) % n\<close> of the last slice has the angle of
  slice \<open>n\<close>, a full turn.\<close>

lemma slice_step_sin_pos: "3 \<le> n \<Longrightarrow> 0 < sin (2 * pi / real n)"
proof -
  assume n: "3 \<le> n"
  have "2 * pi / real n < pi" using n pi_gt_zero by (simp add: field_simps)
  moreover have "0 < 2 * pi / real n" using n by simp
  ultimately show ?thesis by (rule sin_gt_zero [rotated])
qed

lemma slice_angle_mod:
  assumes "0 < n" "i < n"
  shows "cos (real ((i + 1) mod n) * (2 * pi / real n)) = cos (real (i + 1) * (2 * pi / real n))"
    and "sin (real ((i + 1) mod n) * (2 * pi / real n)) = sin (real (i + 1) * (2 * pi / real n))"
proof -
  consider "i + 1 < n" | "i + 1 = n" using assms by linarith
  then have "cos (real ((i + 1) mod n) * (2 * pi / real n)) = cos (real (i + 1) * (2 * pi / real n))
           \<and> sin (real ((i + 1) mod n) * (2 * pi / real n)) = sin (real (i + 1) * (2 * pi / real n))"
  proof cases
    case 1
    then show ?thesis by simp
  next
    case 2
    then have "real (i + 1) * (2 * pi / real n) = 2 * pi" using assms(1) by simp
    then show ?thesis using 2 by simp
  qed
  then show "cos (real ((i + 1) mod n) * (2 * pi / real n)) = cos (real (i + 1) * (2 * pi / real n))"
    and "sin (real ((i + 1) mod n) * (2 * pi / real n)) = sin (real (i + 1) * (2 * pi / real n))"
    by simp_all
qed

text \<open>Consecutive slice angles differ by one step.\<close>

lemma slice_sin_diff:
  "sin (real (i + 1) * s) * cos (real i * s) - cos (real (i + 1) * s) * sin (real i * s) = sin s"
proof -
  have "sin (real (i + 1) * s) * cos (real i * s) - cos (real (i + 1) * s) * sin (real i * s)
        = sin (real (i + 1) * s - real i * s)" by (simp add: sin_diff)
  also have "real (i + 1) * s - real i * s = (real (i + 1) - real i) * s"
    by (simp only: left_diff_distrib)
  finally show ?thesis by simp
qed

lemma cos_sin_not_both_zero: "\<not> (cos x = 0 \<and> sin x = (0::real))"
proof
  assume "cos x = 0 \<and> sin x = (0::real)"
  with sin_cos_squared_add [of x] show False by simp
qed

lemma clamp_min_nonneg: "0 \<le> lo \<Longrightarrow> 0 \<le> clamp_min lo n"
  using clamp_min_ge [of lo n] by linarith

text \<open>The index loops \<open>for (i = 0; i <= n; ++i) if (i < n) ...\<close> emit what a loop
  \<open>i < n\<close> emits.\<close>

lemma loop_le_guarded:
  "concat (map (\<lambda>i. if int i < n then f i else []) (loop_le n)) = concat (map f (loop_lt n))"
proof (cases "0 \<le> n")
  case True
  then have le: "loop_le n = loop_lt n @ [nat n]"
    by (simp add: loop_le_def loop_lt_def nat_add_distrib)
  have m: "map (\<lambda>i. if int i < n then f i else []) (loop_lt n) = map f (loop_lt n)"
    by (auto simp: loop_lt_def)
  show ?thesis using True by (simp only: le map_append concat_append m) simp
next
  case False
  then show ?thesis by (simp add: loop_le_def loop_lt_def)
qed

text \<open>Reading into a list built from fixed-size chunks.\<close>

lemma nth_concat_map_const:
  assumes "\<And>x. length (f x) = k" and "i < length xs" and "j < k"
  shows "concat (map f xs) ! (k * i + j) = f (xs ! i) ! j"
  using assms(2)
proof (induction xs arbitrary: i)
  case Nil
  then show ?case by simp
next
  case (Cons x xs)
  show ?case
  proof (cases i)
    case 0
    then show ?thesis using assms(1,3) by (simp add: nth_append)
  next
    case (Suc i')
    have "concat (map f (x # xs)) ! (k * i + j) = concat (map f xs) ! (k * i' + j)"
      using Suc assms(1) by (simp add: nth_append algebra_simps)
    then show ?thesis using Cons Suc by simp
  qed
qed

lemma nth_concat_map_set:
  assumes "\<And>x. x \<in> set xs \<Longrightarrow> length (f x) = k" and "i < length xs" and "j < k"
  shows "concat (map f xs) ! (k * i + j) = f (xs ! i) ! j"
  using assms(1,2)
proof (induction xs arbitrary: i)
  case Nil
  then show ?case by simp
next
  case (Cons x xs)
  show ?case
  proof (cases i)
    case 0
    then show ?thesis using Cons.prems(1) assms(3) by (simp add: nth_append)
  next
    case (Suc i')
    have "concat (map f (x # xs)) ! (k * i + j) = concat (map f xs) ! (k * i' + j)"
      using Suc Cons.prems(1) by (simp add: nth_append algebra_simps)
    then show ?thesis using Cons Suc by simp
  qed
qed

lemma concat_map_Nil [simp]: "concat (map (\<lambda>x. []) xs) = []"
  by (induction xs) simp_all

lemma dot_commute: "dot a b = dot b a"
  by (cases a, cases b) (simp add: mult.commute)

lemma dot_vscale_right: "dot a (vscale s v) = s * dot a v"
  by (cases a, cases v) (simp add: algebra_simps)

text \<open>Normalizing the second argument of a dot product keeps its sign.\<close>

lemma dot_normalize_sign:
  assumes "v \<noteq> (0, 0, 0)"
  shows "0 < dot a (normalize v) \<longleftrightarrow> 0 < dot a v"
    and "dot a (normalize v) < 0 \<longleftrightarrow> dot a v < 0"
proof -
  have "0 < vlength v" using dot_self_pos [OF assms] by (simp add: vlength_def)
  then have p: "0 < inverse (vlength v)" by simp
  show "0 < dot a (normalize v) \<longleftrightarrow> 0 < dot a v"
    using p by (simp add: normalize_def dot_vscale_right zero_less_mult_iff)
  show "dot a (normalize v) < 0 \<longleftrightarrow> dot a v < 0"
    using p by (simp add: normalize_def dot_vscale_right mult_less_0_iff)
qed

lemma floats_per_record_eq [simp]: "floats_per_record = 8"
  by (simp add: floats_per_record_def FloatsPerVertex_def FloatsPerNormal_def FloatsPerUV_def)

section \<open>The attribute layout reads back the encoding\<close>

lemma drop_interleave:
  "i < length vs \<Longrightarrow> drop (8 * i) (interleave vs) = vertex_floats (vs ! i) @ interleave (drop (Suc i) vs)"
proof (induction vs arbitrary: i)
  case Nil then show ?case by simp
next
  case (Cons v vs)
  show ?case
  proof (cases i)
    case 0 then show ?thesis by (simp add: interleave_def)
  next
    case (Suc j)
    have "drop (8 * i) (interleave (v # vs)) = drop (8 * j) (interleave vs)"
      using Suc by (simp add: interleave_def)
    then show ?thesis using Cons Suc by simp
  qed
qed

text \<open>An attribute of stride 8 whose components lie inside the 8-float record reads those
  components of vertex \<open>i\<close>.\<close>

lemma fetch_interleave:
  assumes "i < length vs" "attr_stride a = 8" "attr_offset a + attr_size a \<le> 8"
  shows "fetch_attrib (interleave vs) a i = take (attr_size a) (drop (attr_offset a) (vertex_floats (vs ! i)))"
proof -
  have "drop (i * attr_stride a + attr_offset a) (interleave vs)
        = drop (attr_offset a) (vertex_floats (vs ! i) @ interleave (drop (Suc i) vs))"
    using drop_interleave [OF assms(1)] assms(2) by (simp add: mult.commute add.commute drop_drop [symmetric])
  then show ?thesis using assms(3) by (simp add: fetch_attrib_def)
qed

text \<open>C5. Round trip of the vertex encoding: reading vertex \<open>i\<close> of an interleaved buffer
  through the attribute layout of \<open>SetShaderMemoryLayout\<close> (position at float 0, normal
  at 3, texture coordinate at 6, stride 8) gives back the vertex the generator pushed
  as \<open>px, py, pz, nx, ny, nz, u, v\<close>, for every vertex of the buffer.\<close>

theorem read_vertex_interleave:
  assumes "i < length vs"
  shows "read_vertex shader_layout (interleave vs) i = vs ! i"
  using assms
  by (simp add: read_vertex_def shader_layout_def fetch_interleave vertex_floats_def split: prod.splits)

theorem read_vertex_interleave_witness:
  "read_vertex shader_layout (interleave [\<lparr>position = (1, 2, 3), normal = (0, 1, 0), texCoord = (1 / 2, 1)\<rparr>,
                                          \<lparr>position = (4, 5, 6), normal = (0, 0, 1), texCoord = (0, 1 / 4)\<rparr>]) 1
   = \<lparr>position = (4, 5, 6), normal = (0, 0, 1), texCoord = (0, 1 / 4)\<rparr>"
  using read_vertex_interleave [of 1 "[\<lparr>position = (1, 2, 3), normal = (0, 1, 0), texCoord = (1 / 2, 1)\<rparr>,
                                      \<lparr>position = (4, 5, 6), normal = (0, 0, 1), texCoord = (0, 1 / 4)\<rparr>]"]
  by simp

end
