(* ===== verification/Topology.thy ===== *)
theory Topology
  imports Mesh_Prelude
begin

text \<open>
  Index-emission patterns shared by several generators of \<open>ShapeMeshes.cpp\<close>, and the
  way \<open>glDrawElements(GL_TRIANGLES, ...)\<close> groups an index list into triangles.
  The rectangular grid of \<open>LoadTorusMesh\<close> is emitted, with the same triangle order, by
  \<open>LoadSpringMesh\<close>, \<open>LoadCurvedConeMesh\<close>, \<open>DrawTaperedTorusMesh\<close>,
  \<open>DrawSineConeMesh\<close> and \<open>DrawSuperellipsoidMesh\<close>; the sphere and hemisphere emit the
  same cells with the second triangle rotated.
\<close>

section \<open>Triangle assembly\<close>

text \<open>\<open>GL_TRIANGLES\<close>: consecutive groups of three indices; a trailing partial group
  is ignored by OpenGL.\<close>

fun triangles :: "'a list \<Rightarrow> ('a \<times> 'a \<times> 'a) list" where
  "triangles (a # b # c # rest) = (a, b, c) # triangles rest"
| "triangles _ = []"

text \<open>Rotation of a triangle that keeps its orientation.\<close>

fun rotate_tri :: "'a \<times> 'a \<times> 'a \<Rightarrow> 'a \<times> 'a \<times> 'a" where
  "rotate_tri (a, b, c) = (b, c, a)"

text \<open>\<open>GL_TRIANGLE_STRIP\<close> (OpenGL 4.6, section 10.1.7): triangle \<open>i\<close> is
  \<open>(v i, v (i+1), v (i+2))\<close> for even \<open>i\<close> and \<open>(v (i+1), v i, v (i+2))\<close> for odd \<open>i\<close>,
  so that all triangles of a strip keep one orientation. \<open>GL_TRIANGLE_FAN\<close>: triangle
  \<open>i\<close> is \<open>(v 0, v (i+1), v (i+2))\<close>.\<close>

fun strip_from :: "bool \<Rightarrow> 'a list \<Rightarrow> ('a \<times> 'a \<times> 'a) list" where
  "strip_from flip (a # b # c # rest) =
     (if flip then (b, a, c) else (a, b, c)) # strip_from (\<not> flip) (b # c # rest)"
| "strip_from _ _ = []"

definition strip_triangles :: "'a list \<Rightarrow> ('a \<times> 'a \<times> 'a) list" where
  "strip_triangles xs = strip_from False xs"

fun fan_from :: "'a \<Rightarrow> 'a list \<Rightarrow> ('a \<times> 'a \<times> 'a) list" where
  "fan_from c (a # b # rest) = (c, a, b) # fan_from c (b # rest)"
| "fan_from c _ = []"

definition fan_triangles :: "'a list \<Rightarrow> ('a \<times> 'a \<times> 'a) list" where
  "fan_triangles xs = (case xs of [] \<Rightarrow> [] | c # rest \<Rightarrow> fan_from c rest)"

text \<open>The primitive modes the draw calls of \<open>ShapeMeshes.cpp\<close> pass, and the triangles
  the pipeline assembles from the vertex (or index) sequence a draw call selects:
  \<open>glDrawArrays(mode, first, count)\<close> selects \<open>first, ..., first + count - 1\<close>;
  \<open>glDrawElements(mode, count, GL_UNSIGNED_INT, offset)\<close> selects \<open>count\<close> entries of
  the index buffer from entry \<open>offset / sizeof(GLuint)\<close>.\<close>

datatype prim_mode = GL_TRIANGLES | GL_TRIANGLE_STRIP | GL_TRIANGLE_FAN

fun assemble :: "prim_mode \<Rightarrow> 'a list \<Rightarrow> ('a \<times> 'a \<times> 'a) list" where
  "assemble GL_TRIANGLES xs = triangles xs"
| "assemble GL_TRIANGLE_STRIP xs = strip_triangles xs"
| "assemble GL_TRIANGLE_FAN xs = fan_triangles xs"

definition draw_arrays :: "prim_mode \<Rightarrow> nat \<Rightarrow> nat \<Rightarrow> (nat \<times> nat \<times> nat) list" where
  "draw_arrays mode first count = assemble mode [first..<first + count]"

definition draw_elements :: "prim_mode \<Rightarrow> nat \<Rightarrow> nat \<Rightarrow> nat list \<Rightarrow> (nat \<times> nat \<times> nat) list" where
  "draw_elements mode count first idx = assemble mode (take count (drop first idx))"

section \<open>The rectangular grid\<close>

text \<open>One cell of the grid of \<open>LoadTorusMesh\<close>:
  \<open>current = i * (cols + 1) + j; next = (i + 1) * (cols + 1) + j\<close>, triangles
  \<open>(current, next, current + 1)\<close> and \<open>(current + 1, next, next + 1)\<close>.\<close>

definition grid_cell :: "nat \<Rightarrow> nat \<Rightarrow> nat \<Rightarrow> nat list" where
  "grid_cell cols i j =
     (let current = i * (cols + 1) + j; next = (i + 1) * (cols + 1) + j
      in [current, next, current + 1, current + 1, next, next + 1])"

definition grid_indices :: "nat \<Rightarrow> nat \<Rightarrow> nat list" where
  "grid_indices rows cols =
     concat (map (\<lambda>i. concat (map (grid_cell cols i) [0..<cols])) [0..<rows])"

text \<open>The cell of \<open>LoadSphereMesh\<close>/\<open>LoadHemisphereMesh\<close>:
  \<open>first = lat * (lon + 1) + j; second = first + lon + 1\<close>, triangles
  \<open>(first, second, first + 1)\<close> and \<open>(second, second + 1, first + 1)\<close>.\<close>

definition sphere_cell :: "nat \<Rightarrow> nat \<Rightarrow> nat \<Rightarrow> nat list" where
  "sphere_cell lon lat j =
     (let first = lat * (lon + 1) + j; second = first + lon + 1
      in [first, second, first + 1, second, second + 1, first + 1])"

definition sphere_indices :: "nat \<Rightarrow> nat \<Rightarrow> nat list" where
  "sphere_indices lats lons =
     concat (map (\<lambda>lat. concat (map (sphere_cell lons lat) [0..<lons])) [0..<lats])"

section \<open>Lemmas\<close>

lemma length_grid_cell [simp]: "length (grid_cell cols i j) = 6"
  by (simp add: grid_cell_def Let_def)

lemma length_sphere_cell [simp]: "length (sphere_cell lon lat j) = 6"
  by (simp add: sphere_cell_def Let_def)

lemma length_grid_indices [mesh_len]: "length (grid_indices rows cols) = 6 * rows * cols"
  by (simp add: grid_indices_def length_concat_map_const)

lemma length_sphere_indices [mesh_len]: "length (sphere_indices lats lons) = 6 * lats * lons"
  by (simp add: sphere_indices_def length_concat_map_const)

text \<open>A cell whose row and column are inside the grid only names vertices of the
  \<open>(rows + 1) \<times> (cols + 1)\<close> vertex grid.\<close>

lemma grid_vertex_bound:
  assumes "i < rows" and "j < (cols :: nat)"
  shows "(i + 1) * (cols + 1) + j + 1 < (rows + 1) * (cols + 1)"
proof -
  from assms(1) have "i + 1 \<le> rows" by simp
  then have "(i + 1) * (cols + 1) \<le> rows * (cols + 1)"
    by (rule mult_le_mono1)
  then show ?thesis using assms(2) by (simp add: algebra_simps)
qed

lemma grid_indices_below [mesh_bound]:
  "indices_below ((rows + 1) * (cols + 1)) (grid_indices rows cols)"
proof -
  have "indices_below ((rows + 1) * (cols + 1)) (grid_cell cols i j)"
    if "i < rows" "j < cols" for i j
    using grid_vertex_bound [OF that] by (simp add: grid_cell_def Let_def)
  then show ?thesis by (auto simp: grid_indices_def indices_below_concat_map)
qed

lemma sphere_indices_below [mesh_bound]:
  "indices_below ((lats + 1) * (lons + 1)) (sphere_indices lats lons)"
proof -
  have "indices_below ((lats + 1) * (lons + 1)) (sphere_cell lons lat j)"
    if "lat < lats" "j < lons" for lat j
    using grid_vertex_bound [OF that] by (simp add: sphere_cell_def Let_def algebra_simps)
  then show ?thesis by (auto simp: sphere_indices_def indices_below_concat_map)
qed

lemma triangles_append:
  "length xs mod 3 = 0 \<Longrightarrow> triangles (xs @ ys) = triangles xs @ triangles ys"
  by (induction xs rule: triangles.induct) auto

lemma nth_triangles:
  "3 * k + 2 < length xs \<Longrightarrow> triangles xs ! k = (xs ! (3 * k), xs ! (3 * k + 1), xs ! (3 * k + 2))"
proof (induction xs arbitrary: k rule: triangles.induct)
  case (1 a b c rest)
  then show ?case by (cases k) (simp_all add: nth_Cons')
qed (auto)

lemma triangles_concat_map:
  assumes "\<And>x. x \<in> set xs \<Longrightarrow> length (f x) mod 3 = 0"
  shows "triangles (concat (map f xs)) = concat (map (\<lambda>x. triangles (f x)) xs)"
  using assms
proof (induction xs)
  case Nil
  then show ?case by simp
next
  case (Cons x xs)
  have "length (f x) mod 3 = 0" using Cons.prems by simp
  then show ?case using Cons by (simp add: triangles_append)
qed

end
