(* ===== verification/Disk_Solids.thy ===== *)
theory Disk_Solids
  imports Topology
begin

text \<open>
  The disk-capped axisymmetric generators of \<open>ShapeMeshes.cpp\<close>: \<open>LoadConeMesh\<close>,
  \<open>LoadCylinderMesh\<close>, \<open>LoadTaperedCylinderMesh\<close>, \<open>LoadTubeMesh\<close> and the
  per-draw \<open>DrawPartialConeMesh\<close>. Each is a function from its parameters to the host
  buffer (\<open>mesh_buffer\<close>) the C++ code fills before \<open>InitializeMesh\<close>; the loops become
  maps over \<open>loop_lt\<close>/\<open>loop_le\<close>, each loop body one definition. Vertex and index
  pushes of one loop are modelled as two lists built from the same counter: the index
  values the code computes depend only on the counter and on the vertex count reached
  before the loop, which the model computes as \<open>vertices.size() / 8\<close> does.
\<close>

section \<open>LoadConeMesh\<close>

text \<open>Rim vertex \<open>i\<close> of the bottom cap (lines 208--213).\<close>

definition cone_rim_vertex :: "real \<Rightarrow> real \<Rightarrow> nat \<Rightarrow> vertex" where
  "cone_rim_vertex radius angleStep i =
     (let a = real i * angleStep
      in mk_vertex (radius * cos a, 0, radius * sin a) (0, -1, 0)
                   (0.5 + 0.5 * cos a, 0.5 + 0.5 * sin a))"

text \<open>Fan triangle \<open>i\<close> of the bottom cap (lines 215--217).\<close>

definition cone_fan_tri :: "nat \<Rightarrow> nat \<Rightarrow> nat \<Rightarrow> nat list" where
  "cone_fan_tri bottomCenterIndex n i =
     [bottomCenterIndex, bottomCenterIndex + ((i + 1) mod n) + 1, bottomCenterIndex + i + 1]"

text \<open>The two side vertices of slice \<open>i\<close> with their shared averaged normal
  (lines 228--244).\<close>

definition cone_side_verts :: "real \<Rightarrow> real \<Rightarrow> real \<Rightarrow> int \<Rightarrow> nat \<Rightarrow> vertex list" where
  "cone_side_verts radius height angleStep numSlices i =
     (let a0 = real i * angleStep; a1 = real (i + 1) * angleStep;
          p0 = (radius * cos a0, 0, radius * sin a0);
          p1 = (radius * cos a1, 0, radius * sin a1);
          n = normalize ((fst p0 + fst p1) * 0.5, height * 0.5,
                         (snd (snd p0) + snd (snd p1)) * 0.5)
      in [mk_vertex p0 n (real i / real_of_int numSlices, 1),
          mk_vertex p1 n (real (i + 1) / real_of_int numSlices, 1)])"

text \<open>Side triangle \<open>i\<close>: apex and the two side vertices of the slice (lines 246--252).\<close>

definition cone_side_tri :: "nat \<Rightarrow> nat \<Rightarrow> nat \<Rightarrow> nat list" where
  "cone_side_tri apexIndex sideStart i = [apexIndex, sideStart + 2 * i, sideStart + 2 * i + 1]"

text \<open>The whole host buffer of \<open>LoadConeMesh(radius, height, numSlices)\<close>.\<close>

definition LoadConeMesh_data :: "real \<Rightarrow> real \<Rightarrow> int \<Rightarrow> mesh_buffer" where
  "LoadConeMesh_data radius height numSlices0 =
     (let numSlices = clamp_min 3 numSlices0;
          n = nat numSlices;
          angleStep = 2 * pi / real_of_int numSlices;
          bottomCenterIndex = 0;
          center = mk_vertex (0, 0, 0) (0, -1, 0) (0.5, 0.5);
          rim = map (cone_rim_vertex radius angleStep) (loop_lt numSlices);
          fan = concat (map (cone_fan_tri bottomCenterIndex n) (loop_lt numSlices));
          apexIndex = length (center # rim);
          apex = mk_vertex (0, height, 0) (0, 1, 0) (0.5, 0.5);
          sideStart = apexIndex + 1;
          side = concat (map (cone_side_verts radius height angleStep numSlices) (loop_lt numSlices));
          sideTris = concat (map (cone_side_tri apexIndex sideStart) (loop_lt numSlices))
      in \<lparr>mb_verts = center # rim @ apex # side, mb_indices = fan @ sideTris\<rparr>)"

section \<open>LoadCylinderMesh\<close>

text \<open>A cap vertex at height \<open>y\<close> with the cap's normal (bottom cap lines 292--296,
  top cap lines 308--312).\<close>

definition cyl_cap_vertex :: "real \<Rightarrow> real \<Rightarrow> real \<Rightarrow> vec3 \<Rightarrow> nat \<Rightarrow> vertex" where
  "cyl_cap_vertex radius y angleStep capNormal i =
     (let angle = real i * angleStep; x = radius * cos angle; z = radius * sin angle
      in mk_vertex (x, y, z) capNormal (0.5 + 0.5 * cos angle, 0.5 + 0.5 * sin angle))"

text \<open>Fan triangle of either cap: \<open>center, center + i + 1, center + (i + 1) % n + 1\<close>
  (lines 298--303 and 314--319).\<close>

definition cyl_cap_tri :: "nat \<Rightarrow> nat \<Rightarrow> nat \<Rightarrow> nat list" where
  "cyl_cap_tri n centerIndex i = [centerIndex, centerIndex + i + 1, centerIndex + (i + 1) mod n + 1]"

text \<open>Bottom and top side-ring vertices of column \<open>i\<close> with the radial normal
  (lines 324--334).\<close>

definition cyl_side_verts :: "real \<Rightarrow> real \<Rightarrow> real \<Rightarrow> int \<Rightarrow> nat \<Rightarrow> vertex list" where
  "cyl_side_verts radius height angleStep numSlices i =
     (let angle = real i * angleStep; x = radius * cos angle; z = radius * sin angle;
          nx = cos angle; nz = sin angle
      in [mk_vertex (x, 0, z) (nx, 0, nz) (real i / real_of_int numSlices, 1),
          mk_vertex (x, height, z) (nx, 0, nz) (real i / real_of_int numSlices, 0)])"

text \<open>The two side triangles of column \<open>i\<close> (lines 336--345).\<close>

definition cyl_side_tris :: "nat \<Rightarrow> nat \<Rightarrow> nat list" where
  "cyl_side_tris sideStartIndex i =
     [sideStartIndex + i * 2, sideStartIndex + i * 2 + 1, sideStartIndex + (i + 1) * 2,
      sideStartIndex + i * 2 + 1, sideStartIndex + (i + 1) * 2, sideStartIndex + (i + 1) * 2 + 1]"

definition LoadCylinderMesh_data :: "real \<Rightarrow> real \<Rightarrow> int \<Rightarrow> mesh_buffer" where
  "LoadCylinderMesh_data radius height numSlices0 =
     (let numSlices = clamp_min 3 numSlices0;
          n = nat numSlices;
          angleStep = 2 * pi / real_of_int numSlices;
          bottomCenterIndex = 0;
          bottom = mk_vertex (0, 0, 0) (0, -1, 0) (0.5, 0.5)
                   # map (cyl_cap_vertex radius 0 angleStep (0, -1, 0)) (loop_le numSlices);
          bottomTris = concat (map (\<lambda>i. if int i < numSlices then cyl_cap_tri n bottomCenterIndex i else [])
                                   (loop_le numSlices));
          topCenterIndex = length bottom;
          top = mk_vertex (0, height, 0) (0, 1, 0) (0.5, 0.5)
                # map (cyl_cap_vertex radius height angleStep (0, 1, 0)) (loop_le numSlices);
          topTris = concat (map (\<lambda>i. if int i < numSlices then cyl_cap_tri n topCenterIndex i else [])
                                (loop_le numSlices));
          sideStartIndex = length (bottom @ top);
          side = concat (map (cyl_side_verts radius height angleStep numSlices) (loop_le numSlices));
          sideTris = concat (map (\<lambda>i. if int i < numSlices then cyl_side_tris sideStartIndex i else [])
                                 (loop_le numSlices))
      in \<lparr>mb_verts = bottom @ top @ side, mb_indices = bottomTris @ topTris @ sideTris\<rparr>)"

section \<open>LoadTaperedCylinderMesh\<close>

text \<open>Cap rim vertex (bottom lines 841--846, top lines 861--866).\<close>

definition taper_cap_vertex :: "real \<Rightarrow> real \<Rightarrow> real \<Rightarrow> vec3 \<Rightarrow> nat \<Rightarrow> vertex" where
  "taper_cap_vertex r y angleStep capNormal i =
     (let a = real i * angleStep; x = r * cos a; z = r * sin a;
          u = 0.5 + 0.5 * cos a; v = 0.5 + 0.5 * sin a
      in mk_vertex (x, y, z) capNormal (u, v))"

text \<open>Bottom fan \<open>(center, i, i + 1)\<close> (lines 849--851) and top fan
  \<open>(center, next, current)\<close> (lines 869--871).\<close>

definition taper_bottom_tri :: "nat \<Rightarrow> nat \<Rightarrow> nat \<Rightarrow> nat list" where
  "taper_bottom_tri n bottomCenterIndex i =
     [bottomCenterIndex, bottomCenterIndex + 1 + i, bottomCenterIndex + 1 + (i + 1) mod n]"

definition taper_top_tri :: "nat \<Rightarrow> nat \<Rightarrow> nat \<Rightarrow> nat list" where
  "taper_top_tri n topCenterIndex i =
     [topCenterIndex, topCenterIndex + 1 + (i + 1) mod n, topCenterIndex + 1 + i]"

text \<open>Side vertices of column \<open>i\<close> with the slope-tilted normal (lines 877--898).\<close>

definition taper_side_verts ::
  "real \<Rightarrow> real \<Rightarrow> real \<Rightarrow> real \<Rightarrow> int \<Rightarrow> nat \<Rightarrow> vertex list" where
  "taper_side_verts bottomRadius topRadius height angleStep numSlices i =
     (let slope = (bottomRadius - topRadius) / height;
          a = real i * angleStep; cb = cos a; sb = sin a;
          xB = bottomRadius * cb; zB = bottomRadius * sb;
          xT = topRadius * cb; zT = topRadius * sb;
          n = normalize (cb, slope, sb)
      in [mk_vertex (xB, 0, zB) n (real i / real_of_int numSlices, 1),
          mk_vertex (xT, height, zT) n (real i / real_of_int numSlices, 0)])"

text \<open>The side quad of column \<open>i\<close>: \<open>(B, Bn, T)\<close> and \<open>(T, Bn, Tn)\<close> (lines 901--917).\<close>

definition taper_side_tris :: "nat \<Rightarrow> nat \<Rightarrow> nat \<Rightarrow> nat list" where
  "taper_side_tris n sideStartIndex i =
     (let iNext = (i + 1) mod n;
          B = sideStartIndex + 2 * i; T = B + 1;
          Bn = sideStartIndex + 2 * iNext; Tn = Bn + 1
      in [B, Bn, T, T, Bn, Tn])"

definition LoadTaperedCylinderMesh_data :: "real \<Rightarrow> real \<Rightarrow> real \<Rightarrow> int \<Rightarrow> mesh_buffer" where
  "LoadTaperedCylinderMesh_data bottomRadius topRadius height numSlices0 =
     (let numSlices = clamp_min 3 numSlices0;
          n = nat numSlices;
          angleStep = 2 * pi / real_of_int numSlices;
          bottomCenterIndex = 0;
          bottom = mk_vertex (0, 0, 0) (0, -1, 0) (0.5, 0.5)
                   # map (taper_cap_vertex bottomRadius 0 angleStep (0, -1, 0)) (loop_lt numSlices);
          bottomTris = concat (map (taper_bottom_tri n bottomCenterIndex) (loop_lt numSlices));
          topCenterIndex = length bottom;
          top = mk_vertex (0, height, 0) (0, 1, 0) (0.5, 0.5)
                # map (taper_cap_vertex topRadius height angleStep (0, 1, 0)) (loop_lt numSlices);
          topTris = concat (map (taper_top_tri n topCenterIndex) (loop_lt numSlices));
          sideStartIndex = length (bottom @ top);
          side = concat (map (taper_side_verts bottomRadius topRadius height angleStep numSlices)
                             (loop_lt numSlices));
          sideTris = concat (map (taper_side_tris n sideStartIndex) (loop_lt numSlices))
      in \<lparr>mb_verts = bottom @ top @ side, mb_indices = bottomTris @ topTris @ sideTris\<rparr>)"

section \<open>LoadTubeMesh\<close>

text \<open>Column \<open>i\<close>: outer bottom, outer top, inner bottom, inner top (lines 1538--1549).\<close>

definition tube_column_verts ::
  "real \<Rightarrow> real \<Rightarrow> real \<Rightarrow> real \<Rightarrow> int \<Rightarrow> nat \<Rightarrow> vertex list" where
  "tube_column_verts outerRadius innerRadius height angleStep numSlices i =
     (let angle = real i * angleStep; x = cos angle; z = sin angle;
          u = real i / real_of_int numSlices
      in [mk_vertex (outerRadius * x, 0, outerRadius * z) (0, -1, 0) (u, 1),
          mk_vertex (outerRadius * x, height, outerRadius * z) (0, 1, 0) (u, 0),
          mk_vertex (innerRadius * x, 0, innerRadius * z) (0, -1, 0) (u, 1),
          mk_vertex (innerRadius * x, height, innerRadius * z) (0, 1, 0) (u, 0)])"

text \<open>Outer and inner wall of column \<open>i\<close> (lines 1552--1569).\<close>

definition tube_wall_tris :: "nat \<Rightarrow> nat list" where
  "tube_wall_tris i =
     (let outerBottom1 = i * 4; outerTop1 = outerBottom1 + 1;
          outerBottom2 = outerBottom1 + 4; outerTop2 = outerTop1 + 4;
          innerBottom1 = outerBottom1 + 2; innerTop1 = outerTop1 + 2;
          innerBottom2 = innerBottom1 + 4; innerTop2 = innerTop1 + 4
      in [outerBottom1, outerBottom2, outerTop1, outerTop1, outerBottom2, outerTop2,
          innerBottom1, innerTop1, innerBottom2, innerTop1, innerTop2, innerBottom2])"

text \<open>Annular bottom and top cap of column \<open>i\<close> (lines 1572--1590).\<close>

definition tube_cap_tris :: "nat \<Rightarrow> nat list" where
  "tube_cap_tris i =
     (let outerBottom1 = i * 4; innerBottom1 = outerBottom1 + 2;
          outerBottom2 = outerBottom1 + 4; innerBottom2 = innerBottom1 + 4;
          outerTop1 = outerBottom1 + 1; innerTop1 = innerBottom1 + 1;
          outerTop2 = outerBottom2 + 1; innerTop2 = innerBottom2 + 1
      in [outerBottom1, outerBottom2, innerBottom1, innerBottom1, outerBottom2, innerBottom2,
          innerTop1, outerTop1, innerTop2, innerTop2, outerTop1, outerTop2])"

definition LoadTubeMesh_data :: "real \<Rightarrow> real \<Rightarrow> real \<Rightarrow> int \<Rightarrow> mesh_buffer" where
  "LoadTubeMesh_data outerRadius innerRadius height numSlices0 =
     (let numSlices = clamp_min 3 numSlices0;
          angleStep = 2 * pi / real_of_int numSlices
      in \<lparr>mb_verts = concat (map (tube_column_verts outerRadius innerRadius height angleStep numSlices)
                                (loop_le numSlices)),
          mb_indices = concat (map tube_wall_tris (loop_lt numSlices))
                       @ concat (map tube_cap_tris (loop_lt numSlices))\<rparr>)"

section \<open>DrawPartialConeMesh\<close>

text \<open>\<open>glm::clamp(arcDegrees, 0.0f, 360.0f)\<close>.\<close>

definition clamp_arc :: "real \<Rightarrow> real" where
  "clamp_arc d = min (max d 0) 360"

text \<open>Sample \<open>i\<close>: a bottom vertex and an apex vertex sharing the side normal
  (lines 1743--1763).\<close>

definition pcone_sample_verts :: "real \<Rightarrow> real \<Rightarrow> real \<Rightarrow> real \<Rightarrow> int \<Rightarrow> nat \<Rightarrow> vertex list" where
  "pcone_sample_verts radius height halfArc angleStep numSlices i =
     (let angle = - halfArc + real i * angleStep;
          x = radius * cos angle; z = radius * sin angle;
          u = real i / real_of_int numSlices;
          n = normalize (cos angle, radius / height, sin angle)
      in [mk_vertex (x, 0, z) n (u, 1), mk_vertex (0, height, 0) n (u, 0)])"

text \<open>The two triangles of slice \<open>i\<close> (lines 1767--1782).\<close>

definition pcone_slice_tris :: "nat \<Rightarrow> nat list" where
  "pcone_slice_tris i =
     (let b0 = 2 * i; a0 = b0 + 1; b1 = 2 * (i + 1); a1 = b1 + 1
      in [b0, a1, a0, b0, b1, a1])"

definition DrawPartialConeMesh_data :: "real \<Rightarrow> real \<Rightarrow> int \<Rightarrow> real \<Rightarrow> mesh_buffer" where
  "DrawPartialConeMesh_data radius height numSlices0 arcDegrees0 =
     (let numSlices = clamp_min 3 numSlices0;
          arcDegrees = clamp_arc arcDegrees0;
          arcRadians = radians arcDegrees;
          angleStep = arcRadians / real_of_int numSlices;
          halfArc = arcRadians * 0.5
      in \<lparr>mb_verts = concat (map (pcone_sample_verts radius height halfArc angleStep numSlices)
                                (loop_le numSlices)),
          mb_indices = concat (map pcone_slice_tris (loop_lt numSlices))\<rparr>)"

section \<open>LoadConeMesh: counts, bounds, clamping and orientation\<close>

lemma length_cone_side_verts [simp]: "length (cone_side_verts r h s k i) = 2"
  by (simp add: cone_side_verts_def Let_def)

lemma length_cone_fan_tri [simp]: "length (cone_fan_tri c n i) = 3"
  by (simp add: cone_fan_tri_def)

lemma length_cone_side_tri [simp]: "length (cone_side_tri a s i) = 3"
  by (simp add: cone_side_tri_def)

lemma LoadConeMesh_verts_length [mesh_len]:
  "length (mb_verts (LoadConeMesh_data radius height numSlices))
     = 3 * nat (clamp_min 3 numSlices) + 2"
  by (simp add: LoadConeMesh_data_def Let_def length_concat_map_const)

lemma LoadConeMesh_indices_length [mesh_len]:
  "length (mb_indices (LoadConeMesh_data radius height numSlices))
     = 6 * nat (clamp_min 3 numSlices)"
  by (simp add: LoadConeMesh_data_def Let_def length_concat_map_const)

lemma cone_fan_tri_below:
  "0 < n \<Longrightarrow> i < n \<Longrightarrow> indices_below (n + 1) (cone_fan_tri 0 n i)"
  by (simp add: cone_fan_tri_def)

lemma cone_side_tri_below:
  "i < n \<Longrightarrow> indices_below (3 * n + 2) (cone_side_tri (n + 1) (n + 2) i)"
  by (simp add: cone_side_tri_def)

lemma LoadConeMesh_vert_nth:
  assumes "i < nat (clamp_min 3 numSlices)"
  shows "mb_verts (LoadConeMesh_data radius height numSlices) ! 0
           = mk_vertex (0, 0, 0) (0, -1, 0) (0.5, 0.5)"
    and "mb_verts (LoadConeMesh_data radius height numSlices) ! (i + 1)
           = cone_rim_vertex radius (2 * pi / real_of_int (clamp_min 3 numSlices)) i"
  using assms by (simp_all add: LoadConeMesh_data_def Let_def nth_append loop_lt_def)

lemma LoadConeMesh_wf_lemma: "mesh_wf (LoadConeMesh_data radius height numSlices)"
proof -
  let ?n = "nat (clamp_min 3 numSlices)"
  have pos: "0 < ?n" using clamp_min_ge [of 3 numSlices] by linarith
  have fan: "indices_below (3 * ?n + 2) (cone_fan_tri 0 ?n i)" if "i < ?n" for i
    using cone_fan_tri_below [OF pos that] by (rule indices_below_mono) simp
  have side: "indices_below (3 * ?n + 2) (cone_side_tri (?n + 1) (?n + 2) i)" if "i < ?n" for i
    using that by (rule cone_side_tri_below)
  show ?thesis
    using fan side
    by (simp add: mesh_wf_def LoadConeMesh_data_def Let_def length_concat_map_const
                  indices_below_concat_map loop_lt_def)
qed

text \<open>C12. The cone has \<open>3 n + 2\<close> vertices (centre, \<open>n\<close> rim vertices, apex,
  \<open>2 n\<close> side vertices) and \<open>6 n\<close> indices (\<open>n\<close> fan and \<open>n\<close> side triangles), with
  \<open>n\<close> the clamped slice count; for \<open>numSlices = 3\<close> that is 11 and 18.\<close>

theorem LoadConeMesh_counts:
  "length (mb_verts (LoadConeMesh_data radius height numSlices)) = 3 * nat (clamp_min 3 numSlices) + 2
   \<and> length (mb_indices (LoadConeMesh_data radius height numSlices)) = 6 * nat (clamp_min 3 numSlices)"
  by (simp add: LoadConeMesh_verts_length LoadConeMesh_indices_length)

text \<open>C13. A slice count below the minimum is clamped silently: \<open>LoadConeMesh\<close> with
  \<open>numSlices \<le> 3\<close> (for instance 1) builds exactly the mesh of \<open>numSlices = 3\<close>.\<close>

theorem LoadConeMesh_clamp:
  "numSlices \<le> 3 \<Longrightarrow> LoadConeMesh_data radius height numSlices = LoadConeMesh_data radius height 3"
  by (simp add: LoadConeMesh_data_def clamp_min_def)

theorem LoadConeMesh_clamp_witness:
  "(1::int) \<le> 3 \<and> LoadConeMesh_data 1 1 1 = LoadConeMesh_data 1 1 3"
  using LoadConeMesh_clamp [of 1 1 1] by simp

text \<open>C16. For a cone of non-zero height every stored normal has unit length: the caps
  store \<open>(0, -1, 0)\<close> and \<open>(0, 1, 0)\<close>, the sides a normalized vector whose
  \<open>y\<close> component is \<open>height / 2\<close>.\<close>

theorem LoadConeMesh_unit_normals:
  assumes "height \<noteq> 0"
  shows "unit_normals (mb_verts (LoadConeMesh_data radius height numSlices))"
proof -
  have nz: "vlength (normalize (a, height * 0.5, b)) = 1" for a b
    by (rule vlength_normalize) (use assms in simp)
  have side: "unit_normals (cone_side_verts radius height s k i)" for s k i
    using nz by (simp add: cone_side_verts_def Let_def mk_vertex_def)
  have rim: "vlength (normal (cone_rim_vertex radius s i)) = 1" for s i
    by (simp add: cone_rim_vertex_def Let_def mk_vertex_def)
  show ?thesis
    using side rim
    by (simp add: LoadConeMesh_data_def Let_def unit_normals_concat_map unit_normals_map mk_vertex_def)
qed

theorem LoadConeMesh_unit_normals_witness:
  "(1::real) \<noteq> 0 \<and> unit_normals (mb_verts (LoadConeMesh_data 1 1 3))"
  using LoadConeMesh_unit_normals [of 1 1 3] by simp

text \<open>C30. The bottom-cap fan of \<open>LoadConeMesh\<close> is wound counter-clockwise as seen from
  above: for a non-zero radius, the front face of every fan triangle points up, against
  the stored cap normal \<open>(0, -1, 0)\<close>. The comment at the fan ("CCW order as seen from
  below") says the opposite; with back-face culling the base is invisible from below.\<close>

theorem LoadConeMesh_base_faces_inward:
  assumes "radius \<noteq> 0" and "i < nat (clamp_min 3 numSlices)"
  shows "front_dot (mb_verts (LoadConeMesh_data radius height numSlices))
                   (cone_fan_tri 0 (nat (clamp_min 3 numSlices)) i) < 0"
proof -
  let ?n = "nat (clamp_min 3 numSlices)"
  let ?s = "2 * pi / real ?n"
  let ?vs = "mb_verts (LoadConeMesh_data radius height numSlices)"
  have n3: "3 \<le> ?n" using clamp_min_ge [of 3 numSlices] by linarith
  have sN: "2 * pi / real_of_int (clamp_min 3 numSlices) = ?s"
    using clamp_min_nonneg [of 3 numSlices] by simp
  have j: "(i + 1) mod ?n < ?n" using n3 by simp
  have v0: "?vs ! 0 = mk_vertex (0, 0, 0) (0, -1, 0) (0.5, 0.5)"
    using LoadConeMesh_vert_nth(1) [OF assms(2)] .
  have vi: "?vs ! (i + 1) = cone_rim_vertex radius ?s i"
    using LoadConeMesh_vert_nth(2) [OF assms(2)] unfolding sN .
  have vj: "?vs ! ((i + 1) mod ?n + 1) = cone_rim_vertex radius ?s ((i + 1) mod ?n)"
    using LoadConeMesh_vert_nth(2) [OF j] unfolding sN .
  have ang: "cos (real ((i + 1) mod ?n) * ?s) = cos (real (i + 1) * ?s)"
            "sin (real ((i + 1) mod ?n) * ?s) = sin (real (i + 1) * ?s)"
    using slice_angle_mod [of ?n i] n3 assms(2) by simp_all
  have "front_dot ?vs (cone_fan_tri 0 ?n i)
        = - (radius * radius) * (sin (real (i + 1) * ?s) * cos (real i * ?s)
                                 - cos (real (i + 1) * ?s) * sin (real i * ?s))"
    unfolding cone_fan_tri_def using v0 vi vj ang
    by (simp add: cone_rim_vertex_def mk_vertex_def Let_def algebra_simps)
  also have "\<dots> = - (radius * radius) * sin ?s" by (simp only: slice_sin_diff)
  also have "\<dots> < 0"
  proof -
    have "0 < radius * radius" using assms(1) by (simp add: zero_less_mult_iff, linarith)
    then have "0 < radius * radius * sin ?s" using slice_step_sin_pos [OF n3] by (rule mult_pos_pos)
    then show ?thesis by simp
  qed
  finally show ?thesis .
qed

theorem LoadConeMesh_base_faces_inward_witness:
  "(1::real) \<noteq> 0 \<and> 0 < nat (clamp_min 3 3)
   \<and> front_dot (mb_verts (LoadConeMesh_data 1 1 3)) (cone_fan_tri 0 (nat (clamp_min 3 3)) 0) < 0"
proof -
  have h1: "(1::real) \<noteq> 0" by simp
  have h2: "0 < nat (clamp_min 3 3)" by (simp add: clamp_min_def)
  show ?thesis using h1 h2 LoadConeMesh_base_faces_inward [OF h1 h2, of 1] by blast
qed

section \<open>Counts and index bounds\<close>

lemma length_disk_pieces [simp]:
  "length (cyl_cap_tri n c i) = 3" "length (cyl_side_verts r h s k i) = 2"
  "length (cyl_side_tris st i) = 6"
  "length (taper_bottom_tri n c i) = 3" "length (taper_top_tri n c i) = 3"
  "length (taper_side_verts rb rt h s k i) = 2" "length (taper_side_tris n st i) = 6"
  "length (tube_column_verts ro ri h s k i) = 4" "length (tube_wall_tris i) = 12"
  "length (tube_cap_tris i) = 12"
  "length (pcone_sample_verts r h ha s k i) = 2" "length (pcone_slice_tris i) = 6"
  by (simp_all add: cyl_cap_tri_def cyl_side_verts_def cyl_side_tris_def taper_bottom_tri_def
      taper_top_tri_def taper_side_verts_def taper_side_tris_def tube_column_verts_def
      tube_wall_tris_def tube_cap_tris_def pcone_sample_verts_def pcone_slice_tris_def Let_def)

lemma LoadCylinderMesh_lengths [mesh_len]:
  "length (mb_verts (LoadCylinderMesh_data radius height numSlices)) = 4 * nat (clamp_min 3 numSlices) + 6"
  "length (mb_indices (LoadCylinderMesh_data radius height numSlices)) = 12 * nat (clamp_min 3 numSlices)"
  using clamp_min_nonneg [of 3 numSlices]
  by (simp_all add: LoadCylinderMesh_data_def Let_def loop_le_guarded length_concat_map_const nat_add_distrib)

lemma LoadTaperedCylinderMesh_lengths [mesh_len]:
  "length (mb_verts (LoadTaperedCylinderMesh_data rb rt height numSlices)) = 4 * nat (clamp_min 3 numSlices) + 2"
  "length (mb_indices (LoadTaperedCylinderMesh_data rb rt height numSlices)) = 12 * nat (clamp_min 3 numSlices)"
  by (simp_all add: LoadTaperedCylinderMesh_data_def Let_def length_concat_map_const)

lemma LoadTubeMesh_lengths [mesh_len]:
  "length (mb_verts (LoadTubeMesh_data ro ri height numSlices)) = 4 * nat (clamp_min 3 numSlices) + 4"
  "length (mb_indices (LoadTubeMesh_data ro ri height numSlices)) = 24 * nat (clamp_min 3 numSlices)"
  using clamp_min_nonneg [of 3 numSlices]
  by (simp_all add: LoadTubeMesh_data_def Let_def length_concat_map_const nat_add_distrib)

lemma DrawPartialConeMesh_lengths [mesh_len]:
  "length (mb_verts (DrawPartialConeMesh_data radius height numSlices arc)) = 2 * nat (clamp_min 3 numSlices) + 2"
  "length (mb_indices (DrawPartialConeMesh_data radius height numSlices arc)) = 6 * nat (clamp_min 3 numSlices)"
  using clamp_min_nonneg [of 3 numSlices]
  by (simp_all add: DrawPartialConeMesh_data_def Let_def length_concat_map_const nat_add_distrib)

text \<open>Bounds of one fan or wall piece, for any start index the code computed.\<close>

lemma fan_pieces_below:
  assumes "i < n" and "c + n < M"
  shows "indices_below M (cyl_cap_tri n c i)"
    and "indices_below M (taper_bottom_tri n c i)"
    and "indices_below M (taper_top_tri n c i)"
proof -
  have m: "Suc i mod n < n" using assms(1) by simp
  show "indices_below M (cyl_cap_tri n c i)"
    and "indices_below M (taper_bottom_tri n c i)"
    and "indices_below M (taper_top_tri n c i)"
    using assms by (simp_all add: cyl_cap_tri_def taper_bottom_tri_def taper_top_tri_def)
                   (use m in linarith)+
qed

lemma wall_pieces_below:
  assumes "i < n"
  shows "st + 2 * n + 1 < M \<Longrightarrow> indices_below M (cyl_side_tris st i)"
    and "st + 2 * n \<le> M \<Longrightarrow> indices_below M (taper_side_tris n st i)"
proof -
  have m: "2 * (Suc i mod n) + 1 < 2 * n" using assms(1) mod_less_divisor [of n "Suc i"] by linarith
  show "st + 2 * n + 1 < M \<Longrightarrow> indices_below M (cyl_side_tris st i)"
    using assms by (simp add: cyl_side_tris_def)
  show "st + 2 * n \<le> M \<Longrightarrow> indices_below M (taper_side_tris n st i)"
    using assms by (simp add: taper_side_tris_def Let_def) (use m in linarith)
qed

lemma LoadCylinderMesh_wf_lemma: "mesh_wf (LoadCylinderMesh_data radius height numSlices)"
proof -
  let ?n = "nat (clamp_min 3 numSlices)"
  have "indices_below (4 * ?n + 6) (mb_indices (LoadCylinderMesh_data radius height numSlices))"
    using clamp_min_nonneg [of 3 numSlices]
    by (auto simp: LoadCylinderMesh_data_def Let_def loop_le_guarded indices_below_concat_map
                   nat_add_distrib loop_lt_def intro!: fan_pieces_below wall_pieces_below)
  then show ?thesis by (simp add: mesh_wf_def LoadCylinderMesh_lengths)
qed

lemma LoadTaperedCylinderMesh_wf_lemma: "mesh_wf (LoadTaperedCylinderMesh_data rb rt height numSlices)"
proof -
  let ?n = "nat (clamp_min 3 numSlices)"
  have "indices_below (4 * ?n + 2) (mb_indices (LoadTaperedCylinderMesh_data rb rt height numSlices))"
    by (auto simp: LoadTaperedCylinderMesh_data_def Let_def indices_below_concat_map loop_lt_def
             intro!: fan_pieces_below wall_pieces_below)
  then show ?thesis by (simp add: mesh_wf_def LoadTaperedCylinderMesh_lengths)
qed

lemma LoadTubeMesh_wf_lemma: "mesh_wf (LoadTubeMesh_data ro ri height numSlices)"
proof -
  let ?n = "nat (clamp_min 3 numSlices)"
  have w: "indices_below (4 * ?n + 4) (tube_wall_tris i)" if "i < ?n" for i
    using that by (simp add: tube_wall_tris_def Let_def)
  have c: "indices_below (4 * ?n + 4) (tube_cap_tris i)" if "i < ?n" for i
    using that by (simp add: tube_cap_tris_def Let_def)
  have "indices_below (4 * ?n + 4) (mb_indices (LoadTubeMesh_data ro ri height numSlices))"
    using w c by (simp add: LoadTubeMesh_data_def Let_def indices_below_concat_map loop_lt_def)
  then show ?thesis by (simp add: mesh_wf_def LoadTubeMesh_lengths)
qed

lemma DrawPartialConeMesh_wf_lemma: "mesh_wf (DrawPartialConeMesh_data radius height numSlices arc)"
proof -
  let ?n = "nat (clamp_min 3 numSlices)"
  have t: "indices_below (2 * ?n + 2) (pcone_slice_tris i)" if "i < ?n" for i
    using that by (simp add: pcone_slice_tris_def Let_def)
  have "indices_below (2 * ?n + 2) (mb_indices (DrawPartialConeMesh_data radius height numSlices arc))"
    using t by (simp add: DrawPartialConeMesh_data_def Let_def indices_below_concat_map loop_lt_def)
  then show ?thesis by (simp add: mesh_wf_def DrawPartialConeMesh_lengths)
qed

section \<open>Orientation of the walls and caps\<close>

lemma LoadTaperedCylinderMesh_side_nth:
  assumes "i < nat (clamp_min 3 numSlices)" and that: "j < 2"
  shows "mb_verts (LoadTaperedCylinderMesh_data rb rt height numSlices) ! (2 * nat (clamp_min 3 numSlices) + 2 + 2 * i + j)
         = taper_side_verts rb rt height (2 * pi / real_of_int (clamp_min 3 numSlices)) (clamp_min 3 numSlices) i ! j"
proof -
  let ?n = "nat (clamp_min 3 numSlices)"
  let ?f = "taper_side_verts rb rt height (2 * pi / real_of_int (clamp_min 3 numSlices)) (clamp_min 3 numSlices)"
  have "concat (map ?f [0..<?n]) ! (2 * i + j) = ?f ([0..<?n] ! i) ! j"
    by (rule nth_concat_map_const) (use assms in simp_all)
  then show ?thesis using assms
    by (simp add: LoadTaperedCylinderMesh_data_def Let_def nth_append loop_lt_def algebra_simps)
qed


lemma taper_wall_dot:
  assumes "height \<noteq> 0"
  shows "dot (cross (vsub (rb * cb, 0, rb * sb) (rb * ca, 0, rb * sa))
                    (vsub (rt * ca, height, rt * sa) (rb * ca, 0, rb * sa)))
             (ca, (rb - rt) / height, sa)
         = - rb * (sb * ca - cb * sa) * (height + (rb - rt) * (rb - rt) / height)"
  using assms by (simp add: field_simps)

text \<open>The first triangle of side quad \<open>i\<close> against the stored wall normal, for the slice
  angle of \<open>n \<ge> 3\<close> slices: negative for a positive height and bottom radius.\<close>

lemma taper_wall_front_neg:
  fixes n :: nat
  assumes "0 < height" "0 < rb" "3 \<le> n"
  shows "dot (cross (vsub (rb * cos (real (i + 1) * (2 * pi / real n)), 0, rb * sin (real (i + 1) * (2 * pi / real n)))
                          (rb * cos (real i * (2 * pi / real n)), 0, rb * sin (real i * (2 * pi / real n))))
                    (vsub (rt * cos (real i * (2 * pi / real n)), height, rt * sin (real i * (2 * pi / real n)))
                          (rb * cos (real i * (2 * pi / real n)), 0, rb * sin (real i * (2 * pi / real n)))))
             (normalize (cos (real i * (2 * pi / real n)), (rb - rt) / height, sin (real i * (2 * pi / real n)))) < 0"
proof -
  let ?s = "2 * pi / real n"
  let ?a = "real i * ?s" and ?b = "real (i + 1) * ?s"
  let ?N = "(cos ?a, (rb - rt) / height, sin ?a)"
  have nz: "?N \<noteq> (0, 0, 0)" using cos_sin_not_both_zero [of ?a] by auto
  have "0 < sin ?s" using assms(3) by (rule slice_step_sin_pos)
  then have S: "0 < sin ?b * cos ?a - cos ?b * sin ?a" using slice_sin_diff [of i ?s] by simp
  have "0 < height + (rb - rt) * (rb - rt) / height" using assms(1)
    by (simp add: add_pos_nonneg)
  then have "0 < rb * (sin ?b * cos ?a - cos ?b * sin ?a) * (height + (rb - rt) * (rb - rt) / height)"
    using assms(2) S by simp
  then have "dot (cross (vsub (rb * cos ?b, 0, rb * sin ?b) (rb * cos ?a, 0, rb * sin ?a))
                   (vsub (rt * cos ?a, height, rt * sin ?a) (rb * cos ?a, 0, rb * sin ?a))) ?N < 0"
    using taper_wall_dot [of height rb "cos ?b" "sin ?b" "cos ?a" "sin ?a" rt] assms(1) by simp
  then show ?thesis using dot_normalize_sign(2) [OF nz] by simp
qed

text \<open>C31. The side walls of \<open>LoadTaperedCylinderMesh\<close> are wound clockwise as seen from
  outside: for a positive height and bottom radius, the first triangle \<open>(B, Bn, T)\<close> of
  every side quad has its front face pointing into the solid, against the outward
  slope-tilted normal stored at \<open>B\<close>. The comment at the quad says
  "CCW as seen from outside".\<close>

theorem LoadTaperedCylinderMesh_sides_face_inward:
  assumes "0 < height" and "0 < rb" and "i < nat (clamp_min 3 numSlices)"
  shows "front_dot (mb_verts (LoadTaperedCylinderMesh_data rb rt height numSlices))
           (take 3 (taper_side_tris (nat (clamp_min 3 numSlices)) (2 * nat (clamp_min 3 numSlices) + 2) i)) < 0"
proof -
  let ?n = "nat (clamp_min 3 numSlices)"
  let ?s = "2 * pi / real ?n"
  let ?vs = "mb_verts (LoadTaperedCylinderMesh_data rb rt height numSlices)"
  let ?k = "(i + 1) mod ?n"
  let ?a = "real i * ?s" and ?b = "real (i + 1) * ?s"
  have n3: "3 \<le> ?n" using clamp_min_ge [of 3 numSlices] by linarith
  have sN: "2 * pi / real_of_int (clamp_min 3 numSlices) = ?s"
    using clamp_min_nonneg [of 3 numSlices] by simp
  have N: "real_of_int (clamp_min 3 numSlices) = real ?n"
    using clamp_min_nonneg [of 3 numSlices] by simp
  have j: "?k < ?n" using n3 by simp
  have vB: "?vs ! (2 * ?n + 2 + 2 * i + 0) = taper_side_verts rb rt height ?s (clamp_min 3 numSlices) i ! 0"
    using LoadTaperedCylinderMesh_side_nth [OF assms(3), of 0] unfolding sN by simp
  have vT: "?vs ! (2 * ?n + 2 + 2 * i + 1) = taper_side_verts rb rt height ?s (clamp_min 3 numSlices) i ! 1"
    using LoadTaperedCylinderMesh_side_nth [OF assms(3), of 1] unfolding sN by simp
  have vBn: "?vs ! (2 * ?n + 2 + 2 * ?k + 0) = taper_side_verts rb rt height ?s (clamp_min 3 numSlices) ?k ! 0"
    using LoadTaperedCylinderMesh_side_nth [OF j, of 0] unfolding sN by simp
  have ang: "cos (real ?k * ?s) = cos ?b" "sin (real ?k * ?s) = sin ?b"
    using slice_angle_mod [of ?n i] n3 assms(3) by simp_all
  have "front_dot ?vs (take 3 (taper_side_tris ?n (2 * ?n + 2) i))
        = dot (cross (vsub (rb * cos ?b, 0, rb * sin ?b) (rb * cos ?a, 0, rb * sin ?a))
                     (vsub (rt * cos ?a, height, rt * sin ?a) (rb * cos ?a, 0, rb * sin ?a)))
              (normalize (cos ?a, (rb - rt) / height, sin ?a))"
    using vB vT vBn ang
    by (simp add: taper_side_tris_def taper_side_verts_def mk_vertex_def Let_def algebra_simps)
  also have "\<dots> < 0" using assms(1,2) n3 by (rule taper_wall_front_neg)
  finally show ?thesis .
qed

theorem LoadTaperedCylinderMesh_sides_face_inward_witness:
  "(0::real) < 1 \<and> (0::real) < 1 \<and> 0 < nat (clamp_min 3 3)
   \<and> front_dot (mb_verts (LoadTaperedCylinderMesh_data 1 (1 / 2) 1 3))
        (take 3 (taper_side_tris (nat (clamp_min 3 3)) (2 * nat (clamp_min 3 3) + 2) 0)) < 0"
proof -
  have h1: "(0::real) < 1" by simp
  have h3: "0 < nat (clamp_min 3 3)" by (simp add: clamp_min_def)
  show ?thesis
    using h1 h3 LoadTaperedCylinderMesh_sides_face_inward [OF h1 h1 h3, of "1 / 2"] by blast
qed

lemma LoadCylinderMesh_cap_nth:
  assumes "j \<le> nat (clamp_min 3 numSlices)"
  shows "mb_verts (LoadCylinderMesh_data radius height numSlices) ! 0 = mk_vertex (0, 0, 0) (0, -1, 0) (0.5, 0.5)"
    and "mb_verts (LoadCylinderMesh_data radius height numSlices) ! (j + 1)
           = cyl_cap_vertex radius 0 (2 * pi / real_of_int (clamp_min 3 numSlices)) (0, -1, 0) j"
    and "mb_verts (LoadCylinderMesh_data radius height numSlices) ! (nat (clamp_min 3 numSlices) + 2)
           = mk_vertex (0, height, 0) (0, 1, 0) (0.5, 0.5)"
    and "mb_verts (LoadCylinderMesh_data radius height numSlices) ! (nat (clamp_min 3 numSlices) + 2 + j + 1)
           = cyl_cap_vertex radius height (2 * pi / real_of_int (clamp_min 3 numSlices)) (0, 1, 0) j"
  using assms clamp_min_nonneg [of 3 numSlices]
  by (simp_all add: LoadCylinderMesh_data_def Let_def nth_append loop_le_def nat_add_distrib)

text \<open>Orientation of a fan triangle \<open>(center, rim i, rim k)\<close> of a cap at height \<open>y\<close>.\<close>

lemma cap_fan_front_dot:
  assumes "vs ! c = mk_vertex (0, y, 0) N t"
    and "vs ! p = cyl_cap_vertex R y s N' i" and "vs ! q = cyl_cap_vertex R y s N'' k"
  shows "front_dot vs [c, p, q]
         = R * R * (sin (real i * s) * cos (real k * s) - cos (real i * s) * sin (real k * s))
           * fst (snd N)"
  using assms by (cases N) (simp add: cyl_cap_vertex_def mk_vertex_def Let_def algebra_simps)

text \<open>C32. Both caps of \<open>LoadCylinderMesh\<close> use the same index order
  \<open>(center, i + 1, (i + 1) % n + 1)\<close>: for a non-zero radius the bottom-cap triangles face
  down, along their stored normal \<open>(0, -1, 0)\<close>, but the top-cap triangles face down as
  well, against their stored normal \<open>(0, 1, 0)\<close>. The spec's fan pattern flips the
  winding between an up-facing and a down-facing cap.\<close>

theorem LoadCylinderMesh_caps_same_winding:
  assumes "radius \<noteq> 0" and "i < nat (clamp_min 3 numSlices)"
  shows "0 < front_dot (mb_verts (LoadCylinderMesh_data radius height numSlices))
                       (cyl_cap_tri (nat (clamp_min 3 numSlices)) 0 i)
         \<and> front_dot (mb_verts (LoadCylinderMesh_data radius height numSlices))
                      (cyl_cap_tri (nat (clamp_min 3 numSlices)) (nat (clamp_min 3 numSlices) + 2) i) < 0"
proof -
  let ?n = "nat (clamp_min 3 numSlices)"
  let ?s = "2 * pi / real ?n"
  let ?vs = "mb_verts (LoadCylinderMesh_data radius height numSlices)"
  let ?k = "(i + 1) mod ?n"
  have n3: "3 \<le> ?n" using clamp_min_ge [of 3 numSlices] by linarith
  have sN: "2 * pi / real_of_int (clamp_min 3 numSlices) = ?s"
    using clamp_min_nonneg [of 3 numSlices] by simp
  have i: "i \<le> ?n" and k: "?k \<le> ?n" using assms(2) n3 by simp_all
  have ang: "cos (real ?k * ?s) = cos (real (i + 1) * ?s)" "sin (real ?k * ?s) = sin (real (i + 1) * ?s)"
    using slice_angle_mod [of ?n i] n3 assms(2) by simp_all
  have "sin (real i * ?s) * cos (real ?k * ?s) - cos (real i * ?s) * sin (real ?k * ?s)
        = - (sin (real (i + 1) * ?s) * cos (real i * ?s) - cos (real (i + 1) * ?s) * sin (real i * ?s))"
    unfolding ang by (simp add: algebra_simps)
  then have S: "sin (real i * ?s) * cos (real ?k * ?s) - cos (real i * ?s) * sin (real ?k * ?s) = - sin ?s"
    by (simp only: slice_sin_diff)
  have rr: "0 < radius * radius" using assms(1) by (simp add: zero_less_mult_iff, linarith)
  have pos: "0 < sin ?s" using n3 by (rule slice_step_sin_pos)
  have c0: "?vs ! 0 = mk_vertex (0, 0, 0) (0, -1, 0) (0.5, 0.5)"
    using LoadCylinderMesh_cap_nth(1) [OF i] .
  have bi: "?vs ! (i + 1) = cyl_cap_vertex radius 0 ?s (0, -1, 0) i"
    using LoadCylinderMesh_cap_nth(2) [OF i] unfolding sN .
  have bk: "?vs ! (?k + 1) = cyl_cap_vertex radius 0 ?s (0, -1, 0) ?k"
    using LoadCylinderMesh_cap_nth(2) [OF k] unfolding sN .
  have c1: "?vs ! (?n + 2) = mk_vertex (0, height, 0) (0, 1, 0) (0.5, 0.5)"
    using LoadCylinderMesh_cap_nth(3) [OF i] .
  have ti: "?vs ! (?n + 2 + i + 1) = cyl_cap_vertex radius height ?s (0, 1, 0) i"
    using LoadCylinderMesh_cap_nth(4) [OF i] unfolding sN .
  have tk: "?vs ! (?n + 2 + ?k + 1) = cyl_cap_vertex radius height ?s (0, 1, 0) ?k"
    using LoadCylinderMesh_cap_nth(4) [OF k] unfolding sN .
  have b: "front_dot ?vs (cyl_cap_tri ?n 0 i) = radius * radius * (- sin ?s) * (-1)"
    using cap_fan_front_dot [OF c0 bi bk] unfolding cyl_cap_tri_def S by simp
  have t: "front_dot ?vs (cyl_cap_tri ?n (?n + 2) i) = radius * radius * (- sin ?s) * 1"
    using cap_fan_front_dot [OF c1 ti tk] unfolding cyl_cap_tri_def S by simp
  show ?thesis using b t rr pos by (simp add: mult_pos_pos)
qed

theorem LoadCylinderMesh_caps_same_winding_witness:
  "(1::real) \<noteq> 0 \<and> 0 < nat (clamp_min 3 3)
   \<and> 0 < front_dot (mb_verts (LoadCylinderMesh_data 1 1 3)) (cyl_cap_tri (nat (clamp_min 3 3)) 0 0)
   \<and> front_dot (mb_verts (LoadCylinderMesh_data 1 1 3))
        (cyl_cap_tri (nat (clamp_min 3 3)) (nat (clamp_min 3 3) + 2) 0) < 0"
proof -
  have h1: "(1::real) \<noteq> 0" by simp
  have h2: "0 < nat (clamp_min 3 3)" by (simp add: clamp_min_def)
  show ?thesis using h1 h2 LoadCylinderMesh_caps_same_winding [OF h1 h2, of 1] by blast
qed

text \<open>C40. \<open>LoadTubeMesh\<close> gives every vertex a vertical cap normal: \<open>(0, -1, 0)\<close> on the
  bottom rings and \<open>(0, 1, 0)\<close> on the top rings, outer and inner alike. The walls are
  drawn with these vertices, so no wall vertex carries a radial normal, and the inner
  ring has no inverted normals, although the spec describes an inner ring "with
  inverted-facing normals".\<close>

theorem LoadTubeMesh_normals_vertical:
  "list_all (\<lambda>v. normal v = (0, -1, 0) \<or> normal v = (0, 1, 0))
            (mb_verts (LoadTubeMesh_data outerRadius innerRadius height numSlices))"
  by (simp add: LoadTubeMesh_data_def Let_def tube_column_verts_def mk_vertex_def list_all_iff)

text \<open>\<open>DrawPartialConeMesh\<close> leaves its two boundary edges unconnected: no triangle
  touches both a vertex of the first angular sample (indices 0, 1) and a vertex of the
  last sample (indices \<open>2 n\<close>, \<open>2 n + 1\<close>), so the arc stays open.\<close>

lemma triangles_pcone_slice_tris [simp]:
  "triangles (pcone_slice_tris i) = [(2 * i, 2 * i + 3, 2 * i + 1), (2 * i, 2 * i + 2, 2 * i + 3)]"
  by (simp add: pcone_slice_tris_def Let_def)

theorem DrawPartialConeMesh_open:
  "\<forall>(a, b, c) \<in> set (triangles (mb_indices (DrawPartialConeMesh_data radius height numSlices arcDegrees))).
     \<not> ({a, b, c} \<inter> {0, 1} \<noteq> {}
        \<and> {a, b, c} \<inter> {2 * nat (clamp_min 3 numSlices), 2 * nat (clamp_min 3 numSlices) + 1} \<noteq> {})"
proof -
  let ?n = "nat (clamp_min 3 numSlices)"
  have n3: "3 \<le> ?n" using clamp_min_ge [of 3 numSlices] by linarith
  have "triangles (mb_indices (DrawPartialConeMesh_data radius height numSlices arcDegrees))
        = concat (map (\<lambda>i. triangles (pcone_slice_tris i)) [0..<?n])"
    by (simp add: DrawPartialConeMesh_data_def Let_def loop_lt_def triangles_concat_map)
  then show ?thesis using n3 by auto
qed

theorem DrawPartialConeMesh_open_witness:
  "(0, 3, 1) \<in> set (triangles (mb_indices (DrawPartialConeMesh_data 1 1 3 90)))
   \<and> \<not> ({0::nat, 3, 1} \<inter> {0, 1} \<noteq> {} \<and> {0, 3, 1} \<inter> {2 * nat (clamp_min 3 3), 2 * nat (clamp_min 3 3) + 1} \<noteq> ({} :: nat set))"
proof -
  have t: "triangles (mb_indices (DrawPartialConeMesh_data 1 1 3 90))
            = concat (map (\<lambda>i. triangles (pcone_slice_tris i)) [0..<3])"
    unfolding DrawPartialConeMesh_data_def Let_def mesh_buffer.simps loop_lt_def
    by (simp add: clamp_min_def triangles_concat_map)
  have "(0, 3, 1) \<in> set (triangles (pcone_slice_tris 0))" by simp
  moreover have "(0::nat) \<in> set [0..<3]" by simp
  ultimately have m: "(0, 3, 1) \<in> set (triangles (mb_indices (DrawPartialConeMesh_data 1 1 3 90)))"
    unfolding t by (auto simp del: triangles_pcone_slice_tris)
  have "case (0, 3, 1) of (a, b, c) \<Rightarrow>
          \<not> ({a, b, c} \<inter> {0, 1} \<noteq> {}
             \<and> {a, b, c} \<inter> {2 * nat (clamp_min 3 3), 2 * nat (clamp_min 3 3) + 1} \<noteq> ({} :: nat set))"
    by (rule bspec [OF DrawPartialConeMesh_open [of 1 1 3 90] m])
  then have "\<not> ({0::nat, 3, 1} \<inter> {0, 1} \<noteq> {}
             \<and> {0, 3, 1} \<inter> {2 * nat (clamp_min 3 3), 2 * nat (clamp_min 3 3) + 1} \<noteq> ({} :: nat set))"
    by (simp only: prod.case not_False_eq_True)
  with m show ?thesis by (rule conjI)
qed

section \<open>Well-formedness of all disk solids\<close>

text \<open>C1. Every index emitted by \<open>LoadConeMesh\<close>, \<open>LoadCylinderMesh\<close>,
  \<open>LoadTaperedCylinderMesh\<close>, \<open>LoadTubeMesh\<close> and \<open>DrawPartialConeMesh\<close> names one of
  the vertices the same call emits, and each index list is a whole number of
  triangles, for all parameter values (the slice count clamped to at least 3).\<close>

theorem disk_solids_wf:
  "mesh_wf (LoadConeMesh_data radius height numSlices)
   \<and> mesh_wf (LoadCylinderMesh_data radius height numSlices)
   \<and> mesh_wf (LoadTaperedCylinderMesh_data bottomRadius topRadius height numSlices)
   \<and> mesh_wf (LoadTubeMesh_data outerRadius innerRadius height numSlices)
   \<and> mesh_wf (DrawPartialConeMesh_data radius height numSlices arcDegrees)"
  by (simp add: LoadConeMesh_wf_lemma LoadCylinderMesh_wf_lemma LoadTaperedCylinderMesh_wf_lemma
                LoadTubeMesh_wf_lemma DrawPartialConeMesh_wf_lemma)

end
