(* ===== verification/Grid_Surfaces.thy ===== *)
theory Grid_Surfaces
  imports Topology
begin

text \<open>
  The latitude/longitude and swept-ring generators of \<open>ShapeMeshes.cpp\<close> that emit a
  \<open>(rows + 1) \<times> (cols + 1)\<close> vertex grid: \<open>LoadSphereMesh\<close>, \<open>LoadHemisphereMesh\<close>,
  \<open>LoadTorusMesh\<close> and \<open>LoadSpringMesh\<close>, and the non-indexed \<open>LoadExtraTorusMesh1\<close> /
  \<open>LoadExtraTorusMesh2\<close>. The two nested vertex loops become a \<open>concat\<close> of rows, each row
  one \<open>map\<close> of the vertex body over the inner counter; the index loops are the
  \<open>sphere_indices\<close> and \<open>grid_indices\<close> patterns of \<open>Topology\<close>.
\<close>

section \<open>LoadSphereMesh\<close>

text \<open>Vertex \<open>(lat, lon)\<close> of the sphere (lines 680--710). The segment counts are not
  clamped; a zero count divides by zero in C++ (NaN), where HOL's \<open>x / 0 = 0\<close>.\<close>

definition sphere_vertex :: "real \<Rightarrow> int \<Rightarrow> int \<Rightarrow> nat \<Rightarrow> nat \<Rightarrow> vertex" where
  "sphere_vertex radius latitudeSegments longitudeSegments lat lon =
     (let theta = real lat * pi / real_of_int latitudeSegments;
          sinTheta = sin theta; cosTheta = cos theta;
          phi = real lon * 2 * pi / real_of_int longitudeSegments;
          sinPhi = sin phi; cosPhi = cos phi;
          x = radius * sinTheta * cosPhi; y = radius * cosTheta; z = radius * sinTheta * sinPhi;
          nx = sinTheta * cosPhi; ny = cosTheta; nz = sinTheta * sinPhi;
          u = 1 - real lon / real_of_int longitudeSegments;
          v = 1 - real lat / real_of_int latitudeSegments
      in mk_vertex (x, y, z) (nx, ny, nz) (u, v))"

text \<open>The host buffer of \<open>LoadSphereMesh(latitudeSegments, longitudeSegments, radius)\<close>
  (lines 672--733): rows \<open>lat = 0 .. latitudeSegments\<close> of \<open>longitudeSegments + 1\<close>
  vertices, and the cells of lines 714--727.\<close>

definition LoadSphereMesh_data :: "int \<Rightarrow> int \<Rightarrow> real \<Rightarrow> mesh_buffer" where
  "LoadSphereMesh_data latitudeSegments longitudeSegments radius =
     \<lparr>mb_verts = concat (map (\<lambda>lat. map (sphere_vertex radius latitudeSegments longitudeSegments lat)
                                        (loop_le longitudeSegments))
                             (loop_le latitudeSegments)),
      mb_indices = sphere_indices (nat latitudeSegments) (nat longitudeSegments)\<rparr>"

section \<open>LoadHemisphereMesh\<close>

text \<open>Vertex \<open>(lat, lon)\<close> of the hemisphere (lines 746--775): the polar angle is divided
  by the full \<open>latitudeSegments\<close>, the \<open>v\<close> coordinate by \<open>hemiLatSegments\<close>.\<close>

definition hemisphere_vertex :: "real \<Rightarrow> int \<Rightarrow> int \<Rightarrow> int \<Rightarrow> nat \<Rightarrow> nat \<Rightarrow> vertex" where
  "hemisphere_vertex radius latitudeSegments hemiLatSegments longitudeSegments lat lon =
     (let theta = real lat * pi / real_of_int latitudeSegments;
          sinTheta = sin theta; cosTheta = cos theta;
          phi = real lon * 2 * pi / real_of_int longitudeSegments;
          sinPhi = sin phi; cosPhi = cos phi;
          x = radius * sinTheta * cosPhi; y = radius * cosTheta; z = radius * sinTheta * sinPhi;
          nx = sinTheta * cosPhi; ny = cosTheta; nz = sinTheta * sinPhi;
          u = 1 - real lon / real_of_int longitudeSegments;
          v = 1 - real lat / real_of_int hemiLatSegments
      in mk_vertex (x, y, z) (nx, ny, nz) (u, v))"

definition LoadHemisphereMesh_data :: "int \<Rightarrow> int \<Rightarrow> real \<Rightarrow> mesh_buffer" where
  "LoadHemisphereMesh_data latitudeSegments longitudeSegments radius =
     (let hemiLatSegments = cdiv latitudeSegments 2
      in \<lparr>mb_verts = concat (map (\<lambda>lat. map (hemisphere_vertex radius latitudeSegments hemiLatSegments
                                                                 longitudeSegments lat)
                                           (loop_le longitudeSegments))
                                (loop_le hemiLatSegments)),
          mb_indices = sphere_indices (nat hemiLatSegments) (nat longitudeSegments)\<rparr>)"

section \<open>LoadTorusMesh\<close>

text \<open>Vertex \<open>(i, j)\<close> of the torus (lines 961--994); the normal is the normalized
  offset from the tube centre \<open>center\<close> on the main circle.\<close>

definition torus_vertex ::
  "real \<Rightarrow> real \<Rightarrow> real \<Rightarrow> real \<Rightarrow> int \<Rightarrow> int \<Rightarrow> nat \<Rightarrow> nat \<Rightarrow> vertex" where
  "torus_vertex mainRadius tubeRadius mainSegmentStep tubeSegmentStep mainSegments tubeSegments i j =
     (let mainAngle = real i * mainSegmentStep; cosMain = cos mainAngle; sinMain = sin mainAngle;
          tubeAngle = real j * tubeSegmentStep; cosTube = cos tubeAngle; sinTube = sin tubeAngle;
          x = (mainRadius + tubeRadius * cosTube) * cosMain;
          y = (mainRadius + tubeRadius * cosTube) * sinMain;
          z = tubeRadius * sinTube;
          center = (mainRadius * cosMain, mainRadius * sinMain, 0);
          vtx = (x, y, z);
          normal = normalize (vsub vtx center);
          u = real i / real_of_int mainSegments; v = real j / real_of_int tubeSegments
      in mk_vertex vtx normal (u, v))"

text \<open>\<open>LoadTorusMesh(mainRadius, tubeRadius, mainSegments, tubeSegments)\<close>
  (lines 947--1021), with the clamps \<open>std::max(3, .)\<close> and \<open>std::max(0.01f, tubeRadius)\<close>.\<close>

definition LoadTorusMesh_data :: "real \<Rightarrow> real \<Rightarrow> int \<Rightarrow> int \<Rightarrow> mesh_buffer" where
  "LoadTorusMesh_data mainRadius tubeRadius0 mainSegments0 tubeSegments0 =
     (let mainSegments = max 3 mainSegments0; tubeSegments = max 3 tubeSegments0;
          tubeRadius = max 0.01 tubeRadius0;
          mainSegmentStep = 2 * pi / real_of_int mainSegments;
          tubeSegmentStep = 2 * pi / real_of_int tubeSegments
      in \<lparr>mb_verts = concat (map (\<lambda>i. map (torus_vertex mainRadius tubeRadius mainSegmentStep tubeSegmentStep
                                                          mainSegments tubeSegments i)
                                         (loop_le tubeSegments))
                                (loop_le mainSegments)),
          mb_indices = grid_indices (nat mainSegments) (nat tubeSegments)\<rparr>)"

section \<open>LoadSpringMesh\<close>

text \<open>Vertex \<open>(i, j)\<close> of the helical spring (lines 1441--1477): the helix centre, its
  tangent \<open>(-R sin a, R cos a, heightStep)\<close>, a horizontal normal perpendicular to it,
  the binormal \<open>tangent \<times> normal\<close>, and the tube circle in that frame.\<close>

definition spring_vertex ::
  "real \<Rightarrow> real \<Rightarrow> real \<Rightarrow> real \<Rightarrow> int \<Rightarrow> int \<Rightarrow> nat \<Rightarrow> nat \<Rightarrow> vertex" where
  "spring_vertex mainRadius tubeRadius mainAngleStep heightStep mainSegments tubeSegments i j =
     (let mainAngle = real i * mainAngleStep;
          centerX = mainRadius * cos mainAngle; centerY = mainRadius * sin mainAngle;
          centerZ = real i * heightStep;
          tangent = normalize (- mainRadius * sin mainAngle, mainRadius * cos mainAngle, heightStep);
          normal = normalize (- fst (snd tangent), fst tangent, 0);
          binormal = cross tangent normal;
          tubeAngle = real j * 2 * pi / real_of_int tubeSegments;
          tx = tubeRadius * cos tubeAngle; ty = tubeRadius * sin tubeAngle;
          point = vadd (vadd (centerX, centerY, centerZ) (vscale tx normal)) (vscale ty binormal);
          normalVector = normalize (vadd (vscale tx normal) (vscale ty binormal));
          u = real i / real_of_int (mainSegments * tubeSegments);
          v = real j / real_of_int tubeSegments
      in mk_vertex point normalVector (u, v))"

text \<open>\<open>LoadSpringMesh(mainRadius, tubeRadius, mainSegments, tubeSegments, springLength)\<close>
  (lines 1425--1506): \<open>mainSegments * tubeSegments + 1\<close> rings, the grid of
  lines 1481--1498.\<close>

definition LoadSpringMesh_data :: "real \<Rightarrow> real \<Rightarrow> int \<Rightarrow> int \<Rightarrow> real \<Rightarrow> mesh_buffer" where
  "LoadSpringMesh_data mainRadius tubeRadius mainSegments0 tubeSegments0 springLength =
     (let mainSegments = max 1 mainSegments0; tubeSegments = max 8 tubeSegments0;
          mainAngleStep = 2 * pi / real_of_int tubeSegments;
          heightStep = springLength / real_of_int (mainSegments * tubeSegments)
      in \<lparr>mb_verts = concat (map (\<lambda>i. map (spring_vertex mainRadius tubeRadius mainAngleStep heightStep
                                                           mainSegments tubeSegments i)
                                         (loop_le tubeSegments))
                                (loop_le (mainSegments * tubeSegments))),
          mb_indices = grid_indices (nat (mainSegments * tubeSegments)) (nat tubeSegments)\<rparr>)"

section \<open>LoadExtraTorusMesh1 and LoadExtraTorusMesh2\<close>

text \<open>The ring points \<open>segments_list[i][j]\<close> of the fixed 30 \<open>\<times>\<close> 30 torus of main radius 1
  (lines 1036--1089). The code accumulates the angles (\<open>angle += step\<close>); in exact
  arithmetic the angle after \<open>i\<close> steps is \<open>i * step\<close>. A \<open>thickness\<close> above 1 falls
  back to the tube radius 0.1.\<close>

definition extra_torus_point :: "real \<Rightarrow> real \<Rightarrow> real \<Rightarrow> real \<Rightarrow> nat \<Rightarrow> nat \<Rightarrow> vec3" where
  "extra_torus_point mainRadius tubeRadius mainStep tubeStep i j =
     (let sinMainSegment = sin (real i * mainStep); cosMainSegment = cos (real i * mainStep);
          sinTubeSegment = sin (real j * tubeStep); cosTubeSegment = cos (real j * tubeStep)
      in ((mainRadius + tubeRadius * cosTubeSegment) * cosMainSegment,
          (mainRadius + tubeRadius * cosTubeSegment) * sinMainSegment,
          tubeRadius * sinTubeSegment))"

definition extra_torus_segments :: "real \<Rightarrow> vec3 list list" where
  "extra_torus_segments thickness =
     (let mainSegments = 30; tubeSegments = 30; mainRadius = 1;
          tubeRadius = (if thickness \<le> 1 then thickness else 0.1);
          mainSegmentAngleStep = radians (360 / real mainSegments);
          tubeSegmentAngleStep = radians (360 / real tubeSegments)
      in map (\<lambda>i. map (extra_torus_point mainRadius tubeRadius mainSegmentAngleStep tubeSegmentAngleStep i)
                     [0..<tubeSegments])
             [0..<mainSegments])"

text \<open>The seven (position, texture coordinate) pairs one cell \<open>(i, j)\<close> pushes
  (lines 1101--1171): an interior cell, the last cell, a cell of the last main segment,
  and a cell of the last tube segment; \<open>u = i / 30\<close> and \<open>v = j / 30\<close> are the
  accumulated texture steps.\<close>

definition extra_torus_cell ::
  "vec3 list list \<Rightarrow> nat \<Rightarrow> nat \<Rightarrow> real \<Rightarrow> real \<Rightarrow> nat \<Rightarrow> nat \<Rightarrow> (vec3 \<times> vec2) list" where
  "extra_torus_cell S mainSegments tubeSegments horizontalStep verticalStep i j =
     (let u = real i * horizontalStep; v = real j * verticalStep
      in if i + 1 < mainSegments \<and> j + 1 < tubeSegments then
           [(S ! i ! j, (u, v)), (S ! i ! (j + 1), (u, v + verticalStep)),
            (S ! (i + 1) ! (j + 1), (u + horizontalStep, v + verticalStep)),
            (S ! i ! j, (u, v)), (S ! (i + 1) ! j, (u + horizontalStep, v)),
            (S ! (i + 1) ! (j + 1), (u + horizontalStep, v - verticalStep)),
            (S ! i ! j, (u, v))]
         else if i + 1 = mainSegments \<and> j + 1 = tubeSegments then
           [(S ! i ! j, (u, v)), (S ! i ! 0, (u, 0)), (S ! 0 ! 0, (0, 0)),
            (S ! i ! j, (u, v)), (S ! 0 ! j, (0, v)), (S ! 0 ! 0, (0, 0)),
            (S ! i ! j, (u, v))]
         else if i + 1 = mainSegments then
           [(S ! i ! j, (u, v)), (S ! i ! (j + 1), (u, v + verticalStep)),
            (S ! 0 ! (j + 1), (0, v + verticalStep)),
            (S ! i ! j, (u, v)), (S ! 0 ! j, (0, v)), (S ! 0 ! (j + 1), (0, v + verticalStep)),
            (S ! i ! j, (u, v))]
         else if j + 1 = tubeSegments then
           [(S ! i ! j, (u, v)), (S ! i ! 0, (u, 0)), (S ! (i + 1) ! 0, (u + horizontalStep, 0)),
            (S ! i ! j, (u, v)), (S ! (i + 1) ! j, (u + horizontalStep, v)),
            (S ! (i + 1) ! 0, (u + horizontalStep, 0)),
            (S ! i ! j, (u, v))]
         else [])"

text \<open>The combine loop of \<open>LoadExtraTorusMesh1\<close> (lines 1181--1196): each position of
  \<open>vertex_list\<close> with its normalized self as normal and the texture coordinate of the
  same index.\<close>

definition extra_torus_combine :: "(vec3 \<times> vec2) list \<Rightarrow> vertex list" where
  "extra_torus_combine cells = map (\<lambda>(p, t). mk_vertex p (normalize p) t) cells"

text \<open>\<open>LoadExtraTorusMesh1(thickness)\<close> (lines 1034--1215): the non-indexed vertex list
  uploaded for \<open>glDrawArrays(GL_TRIANGLES, 0, nVertices)\<close>, each normal the normalized
  position (line 1185), and no indices (\<open>nIndices = 0\<close>).\<close>

definition LoadExtraTorusMesh1_data :: "real \<Rightarrow> mesh_buffer" where
  "LoadExtraTorusMesh1_data thickness =
     (let mainSegments = 30; tubeSegments = 30;
          segments_list = extra_torus_segments thickness;
          horizontalStep = 1 / real mainSegments; verticalStep = 1 / real tubeSegments;
          cells = concat (map (\<lambda>i. concat (map (extra_torus_cell segments_list mainSegments tubeSegments
                                                                   horizontalStep verticalStep i)
                                              [0..<tubeSegments]))
                              [0..<mainSegments])
      in \<lparr>mb_verts = extra_torus_combine cells, mb_indices = []\<rparr>)"

text \<open>\<open>LoadExtraTorusMesh2\<close> (lines 1228--1409) is line for line the body of
  \<open>LoadExtraTorusMesh1\<close>, writing \<open>m_ExtraTorusMesh2\<close>.\<close>

definition LoadExtraTorusMesh2_data :: "real \<Rightarrow> mesh_buffer" where
  "LoadExtraTorusMesh2_data thickness = LoadExtraTorusMesh1_data thickness"

section \<open>Shared lemmas of the grid surfaces\<close>

lemma sphere_tri_dot:
  "dot (cross (vsub (r * sin t1 * cos p0, r * cos t1, r * sin t1 * sin p0)
                    (r * sin t0 * cos p0, r * cos t0, r * sin t0 * sin p0))
              (vsub (r * sin t0 * cos p1, r * cos t0, r * sin t0 * sin p1)
                    (r * sin t0 * cos p0, r * cos t0, r * sin t0 * sin p0)))
       (sin t0 * cos p0, cos t0, sin t0 * sin p0)
   = - (r * r) * sin t0 * sin (t1 - t0) * sin (p1 - p0)"
  by (simp add: sin_diff algebra_simps)

lemma vlength_spherical: "vlength (sin t * cos p, cos t, sin t * sin p) = 1"
proof -
  have "dot (sin t * cos p, cos t, sin t * sin p) (sin t * cos p, cos t, sin t * sin p)
        = (sin t)\<^sup>2 * ((sin p)\<^sup>2 + (cos p)\<^sup>2) + (cos t)\<^sup>2"
    unfolding dot.simps power2_eq_square by algebra
  also have "\<dots> = 1" by simp
  finally show ?thesis by (simp add: vlength_def)
qed

lemma length_LoadSphereMesh_verts:
  "length (mb_verts (LoadSphereMesh_data la lo r)) = nat (la + 1) * nat (lo + 1)"
  by (simp add: LoadSphereMesh_data_def length_concat_map_const loop_le_def)

lemma sphere_indices_empty: "lats = 0 \<or> lons = 0 \<Longrightarrow> sphere_indices lats lons = []"
  by (auto simp: sphere_indices_def)

lemma LoadSphereMesh_indices: "mb_indices (LoadSphereMesh_data la lo r) = sphere_indices (nat la) (nat lo)"
  by (simp add: LoadSphereMesh_data_def)

lemma LoadSphereMesh_wf: "mesh_wf (LoadSphereMesh_data la lo r)"
proof (cases "0 \<le> la \<and> 0 \<le> lo")
  case True
  then have "nat (la + 1) * nat (lo + 1) = (nat la + 1) * (nat lo + 1)" by (simp add: nat_add_distrib)
  then show ?thesis using sphere_indices_below [of "nat la" "nat lo"]
    by (simp add: mesh_wf_def length_LoadSphereMesh_verts length_sphere_indices LoadSphereMesh_indices)
next
  case False
  then have "sphere_indices (nat la) (nat lo) = []" by (intro sphere_indices_empty) auto
  then show ?thesis by (simp add: mesh_wf_def LoadSphereMesh_indices)
qed

lemma LoadSphereMesh_vert_nth:
  assumes "0 \<le> lo" "0 \<le> la" "lat \<le> nat la" "lon \<le> nat lo"
  shows "mb_verts (LoadSphereMesh_data la lo r) ! ((nat lo + 1) * lat + lon) = sphere_vertex r la lo lat lon"
proof -
  have l: "length (map (sphere_vertex r la lo x) (loop_le lo)) = nat lo + 1" for x
    using assms(1) by (simp add: loop_le_def nat_add_distrib)
  have "concat (map (\<lambda>lat. map (sphere_vertex r la lo lat) (loop_le lo)) (loop_le la)) ! ((nat lo + 1) * lat + lon)
        = map (sphere_vertex r la lo (loop_le la ! lat)) (loop_le lo) ! lon"
    by (rule nth_concat_map_const [OF l]) (use assms in \<open>auto simp: loop_le_def nat_add_distrib\<close>)
  then show ?thesis using assms by (simp add: LoadSphereMesh_data_def loop_le_def nth_append)
qed

lemma sphere_vertex_eq:
  "sphere_vertex r la lo lat lon =
     (let t = real lat * pi / real_of_int la; p = real lon * 2 * pi / real_of_int lo
      in mk_vertex (r * sin t * cos p, r * cos t, r * sin t * sin p) (sin t * cos p, cos t, sin t * sin p)
                   (1 - real lon / real_of_int lo, 1 - real lat / real_of_int la))"
  by (simp add: sphere_vertex_def Let_def)

lemma cdiv_pos: "0 < a \<Longrightarrow> 0 < b \<Longrightarrow> cdiv a b = a div b"
  by (simp add: cdiv_def)

lemma grid_buffer_wf:
  "mesh_wf \<lparr>mb_verts = concat (map (\<lambda>a. map (f a) (loop_le cols)) (loop_le rows)),
            mb_indices = sphere_indices (nat rows) (nat cols)\<rparr>"
  "mesh_wf \<lparr>mb_verts = concat (map (\<lambda>a. map (f a) (loop_le cols)) (loop_le rows)),
            mb_indices = grid_indices (nat rows) (nat cols)\<rparr>"
proof -
  have len: "length (concat (map (\<lambda>a. map (f a) (loop_le cols)) (loop_le rows))) = nat (rows + 1) * nat (cols + 1)"
    by (simp add: length_concat_map_const loop_le_def)
  have "mesh_wf \<lparr>mb_verts = concat (map (\<lambda>a. map (f a) (loop_le cols)) (loop_le rows)),
            mb_indices = sphere_indices (nat rows) (nat cols)\<rparr>
        \<and> mesh_wf \<lparr>mb_verts = concat (map (\<lambda>a. map (f a) (loop_le cols)) (loop_le rows)),
            mb_indices = grid_indices (nat rows) (nat cols)\<rparr>"
  proof (cases "0 \<le> rows \<and> 0 \<le> cols")
    case True
    then have "nat (rows + 1) * nat (cols + 1) = (nat rows + 1) * (nat cols + 1)" by (simp add: nat_add_distrib)
    then show ?thesis using sphere_indices_below [of "nat rows" "nat cols"] grid_indices_below [of "nat rows" "nat cols"]
      by (simp add: mesh_wf_def len length_sphere_indices length_grid_indices)
  next
    case False
    then have "nat rows = 0 \<or> nat cols = 0" by auto
    then show ?thesis by (auto simp: mesh_wf_def sphere_indices_def grid_indices_def)
  qed
  then show "mesh_wf \<lparr>mb_verts = concat (map (\<lambda>a. map (f a) (loop_le cols)) (loop_le rows)),
            mb_indices = sphere_indices (nat rows) (nat cols)\<rparr>"
    and "mesh_wf \<lparr>mb_verts = concat (map (\<lambda>a. map (f a) (loop_le cols)) (loop_le rows)),
            mb_indices = grid_indices (nat rows) (nat cols)\<rparr>" by simp_all
qed

lemma torus_offset_nonzero:
  assumes "r \<noteq> 0"
  shows "vsub ((R + r * cos t) * cos m, (R + r * cos t) * sin m, r * sin t) (R * cos m, R * sin m, 0) \<noteq> (0, 0, 0)"
proof
  assume "vsub ((R + r * cos t) * cos m, (R + r * cos t) * sin m, r * sin t) (R * cos m, R * sin m, 0) = (0, 0, 0)"
  then have "r * cos t * cos m = 0" "r * cos t * sin m = 0" "r * sin t = 0" by (simp_all add: algebra_simps)
  then have "sin t = 0" "cos t * cos m = 0" "cos t * sin m = 0" using assms by simp_all
  moreover have "cos t \<noteq> 0" using cos_sin_not_both_zero [of t] \<open>sin t = 0\<close> by auto
  ultimately have "cos m = 0 \<and> sin m = 0" by simp
  then show False using cos_sin_not_both_zero [of m] by simp
qed

lemma length_extra_torus_cell:
  "i < M \<Longrightarrow> j < T \<Longrightarrow> length (extra_torus_cell S M T h v i j) = 7"
  by (simp add: extra_torus_cell_def Let_def)

lemma length_extra_torus_row:
  "x < 30 \<Longrightarrow> length (concat (map (extra_torus_cell S 30 30 h v x) [0..<30])) = 210"
proof -
  assume x: "x < 30"
  have "length (concat (map (extra_torus_cell S 30 30 h v x) [0..<30])) = 7 * length [0..<30::nat]"
    by (rule length_concat_map_const) (use x in \<open>simp add: length_extra_torus_cell\<close>)
  then show ?thesis by simp
qed

lemma extra_torus_vert_nth:
  assumes "i < 30" "j < 30" "k < 7"
  shows "mb_verts (LoadExtraTorusMesh1_data thickness) ! (210 * i + (7 * j + k))
         = (\<lambda>(p, t). mk_vertex p (normalize p) t)
             (extra_torus_cell (extra_torus_segments thickness) 30 30 (1 / 30) (1 / 30) i j ! k)"
proof -
  let ?c = "extra_torus_cell (extra_torus_segments thickness) 30 30 (1 / 30) (1 / 30)"
  have inner: "concat (map (?c i) [0..<30]) ! (7 * j + k) = ?c i j ! k"
    using nth_concat_map_set [of "[0..<30]" "?c i" 7 j k] assms length_extra_torus_cell [of i 30 _ 30]
    by simp
  have len: "length (concat (map (?c x) [0..<30])) = 210" if "x \<in> set [0..<30]" for x
    using that by (simp add: length_extra_torus_row)
  have outer: "concat (map (\<lambda>i. concat (map (?c i) [0..<30])) [0..<30]) ! (210 * i + (7 * j + k))
               = concat (map (?c i) [0..<30]) ! (7 * j + k)"
    using nth_concat_map_set [of "[0..<30]" "\<lambda>i. concat (map (?c i) [0..<30])" 210 i "7 * j + k"] len assms
    by simp
  have lt: "210 * i + (7 * j + k) < length (concat (map (\<lambda>i. concat (map (?c i) [0..<30])) [0..<30]))"
    using assms by (subst length_concat_map_const [OF len]) simp_all
  show ?thesis using outer inner lt
    by (simp add: LoadExtraTorusMesh1_data_def extra_torus_combine_def Let_def)
qed

lemma extra_torus_segments_nth:
  "i < 30 \<Longrightarrow> j < 30 \<Longrightarrow> extra_torus_segments thickness ! i ! j
     = extra_torus_point 1 (if thickness \<le> 1 then thickness else 0.1) (radians 12) (radians 12) i j"
  by (simp add: extra_torus_segments_def Let_def)

lemma length_LoadExtraTorusMesh1:
  "length (mb_verts (LoadExtraTorusMesh1_data thickness)) = 6300"
proof -
  have "length (concat (map (extra_torus_cell (extra_torus_segments thickness) 30 30 (1 / 30) (1 / 30) x) [0..<30])) = 210"
    if "x \<in> set [0..<30]" for x
    using that by (simp add: length_extra_torus_row)
  then have "length (concat (map (\<lambda>i. concat (map (extra_torus_cell (extra_torus_segments thickness) 30 30
                 (1 / 30) (1 / 30) i) [0..<30])) [0..<30])) = 6300"
    by (subst length_concat_map_const) simp_all
  then show ?thesis by (simp add: LoadExtraTorusMesh1_data_def extra_torus_combine_def Let_def)
qed

lemma grid_meshes_wf:
  "mesh_wf (LoadHemisphereMesh_data latitudeSegments longitudeSegments radius)"
  "mesh_wf (LoadTorusMesh_data mainRadius tubeRadius mainSegments tubeSegments)"
  "mesh_wf (LoadSpringMesh_data mainRadius tubeRadius mainSegments tubeSegments springLength)"
  unfolding LoadHemisphereMesh_data_def LoadTorusMesh_data_def LoadSpringMesh_data_def Let_def
  by (simp_all add: grid_buffer_wf)

section \<open>Properties of the grid surfaces\<close>

text \<open>C10. Every index emitted by \<open>LoadSphereMesh\<close>, \<open>LoadHemisphereMesh\<close>, \<open>LoadTorusMesh\<close> and \<open>LoadSpringMesh\<close> names one of the vertices of the same call, and each index list is a whole number of triangles, for all parameter values: negative or zero segment counts give empty loops, not out-of-range indices.\<close>

theorem grid_surfaces_wf:
  "mesh_wf (LoadSphereMesh_data latitudeSegments longitudeSegments radius)
   \<and> mesh_wf (LoadHemisphereMesh_data latitudeSegments longitudeSegments radius)
   \<and> mesh_wf (LoadTorusMesh_data mainRadius tubeRadius mainSegments tubeSegments)
   \<and> mesh_wf (LoadSpringMesh_data mainRadius tubeRadius mainSegments tubeSegments springLength)"
  by (simp add: LoadSphereMesh_wf grid_meshes_wf)

text \<open>C15. Wrap seam duplication (spec section 8): for a sphere with \<open>longitudeSegments = L > 0\<close>, the vertices at \<open>lon = 0\<close> and \<open>lon = L\<close> of every latitude row share their position, and their texture coordinate \<open>u\<close> differs by exactly 1.\<close>

theorem LoadSphereMesh_seam:
  assumes "0 < longitudeSegments" "0 \<le> latitudeSegments" "lat \<le> nat latitudeSegments"
  shows "position (mb_verts (LoadSphereMesh_data latitudeSegments longitudeSegments radius) ! ((nat longitudeSegments + 1) * lat))
         = position (mb_verts (LoadSphereMesh_data latitudeSegments longitudeSegments radius) ! ((nat longitudeSegments + 1) * lat + nat longitudeSegments))
       \<and> fst (texCoord (mb_verts (LoadSphereMesh_data latitudeSegments longitudeSegments radius) ! ((nat longitudeSegments + 1) * lat)))
         = fst (texCoord (mb_verts (LoadSphereMesh_data latitudeSegments longitudeSegments radius) ! ((nat longitudeSegments + 1) * lat + nat longitudeSegments))) + 1"
proof -
  let ?vs = "mb_verts (LoadSphereMesh_data latitudeSegments longitudeSegments radius)"
  let ?k = "nat longitudeSegments"
  have lo: "0 \<le> longitudeSegments" using assms(1) by simp
  have a: "?vs ! ((?k + 1) * lat) = sphere_vertex radius latitudeSegments longitudeSegments lat 0"
    using LoadSphereMesh_vert_nth [OF lo assms(2,3), of 0 radius] by simp
  have b: "?vs ! ((?k + 1) * lat + ?k) = sphere_vertex radius latitudeSegments longitudeSegments lat ?k"
    using LoadSphereMesh_vert_nth [OF lo assms(2,3), of ?k radius] by simp
  have turn: "real ?k * 2 * pi / real_of_int longitudeSegments = 2 * pi"
    using assms(1) by simp
  have u: "real ?k / real_of_int longitudeSegments = 1" using assms(1) by simp
  show ?thesis unfolding a b sphere_vertex_eq Let_def turn u by (simp add: mk_vertex_def)
qed

theorem LoadSphereMesh_seam_witness:
  "0 < (3::int) \<and> 0 \<le> (2::int) \<and> (1::nat) \<le> nat 2
   \<and> position (mb_verts (LoadSphereMesh_data 2 3 1) ! ((nat 3 + 1) * 1))
       = position (mb_verts (LoadSphereMesh_data 2 3 1) ! ((nat 3 + 1) * 1 + nat 3))
   \<and> fst (texCoord (mb_verts (LoadSphereMesh_data 2 3 1) ! ((nat 3 + 1) * 1)))
       = fst (texCoord (mb_verts (LoadSphereMesh_data 2 3 1) ! ((nat 3 + 1) * 1 + nat 3))) + 1"
proof -
  have h1: "0 < (3::int)" and h2: "0 \<le> (2::int)" and h3: "(1::nat) \<le> nat 2" by simp_all
  show ?thesis using h1 h2 h3 LoadSphereMesh_seam [OF h1 h2 h3, of 1] by blast
qed

text \<open>C20. Every normal \<open>LoadSphereMesh\<close> stores, \<open>(sin theta cos phi, cos theta, sin theta sin phi)\<close>, has unit length when neither segment count is 0. A zero count divides by zero in \<open>theta = lat * Pi / latitudeSegments\<close> (line 681) or \<open>phi = lon * 2 * Pi / longitudeSegments\<close> (line 686), which gives NaN normals in C++ (and 0 in the real-number model), so those counts are excluded; negative counts give no vertices at all.\<close>

theorem LoadSphereMesh_unit_normals:
  assumes "latitudeSegments \<noteq> 0" and "longitudeSegments \<noteq> 0"
  shows "unit_normals (mb_verts (LoadSphereMesh_data latitudeSegments longitudeSegments radius))"
  by (simp add: LoadSphereMesh_data_def unit_normals_concat_map unit_normals_map sphere_vertex_eq
                Let_def mk_vertex_def vlength_spherical)

theorem LoadSphereMesh_unit_normals_witness:
  "(2::int) \<noteq> 0 \<and> (3::int) \<noteq> 0 \<and> unit_normals (mb_verts (LoadSphereMesh_data 2 3 1))"
  using LoadSphereMesh_unit_normals [of 2 3 1] by simp

text \<open>The sign of the first triangle of a non-polar sphere cell against its normal.\<close>

lemma sphere_cell_dot_neg:
  assumes "2 \<le> latitudeSegments" and "3 \<le> longitudeSegments" and "0 < lat"
    and "lat < nat latitudeSegments" and "radius \<noteq> 0"
  shows "- (radius * radius) * sin (real lat * pi / real_of_int latitudeSegments)
           * sin (real (lat + 1) * pi / real_of_int latitudeSegments - real lat * pi / real_of_int latitudeSegments)
           * sin (real (lon + 1) * 2 * pi / real_of_int longitudeSegments - real lon * 2 * pi / real_of_int longitudeSegments)
         < 0"
proof -
  have d1: "real (lat + 1) * pi / real_of_int latitudeSegments - real lat * pi / real_of_int latitudeSegments
             = pi / real_of_int latitudeSegments"
    using assms(1) by (simp add: field_simps)
  have d2: "real (lon + 1) * 2 * pi / real_of_int longitudeSegments - real lon * 2 * pi / real_of_int longitudeSegments
             = 2 * pi / real (nat longitudeSegments)"
    using assms(2) by (simp add: field_simps)
  have L: "2 \<le> real_of_int latitudeSegments" using assms(1) by simp
  have s1: "0 < sin (real lat * pi / real_of_int latitudeSegments)"
  proof (rule sin_gt_zero)
    show "0 < real lat * pi / real_of_int latitudeSegments" using assms(3) L by simp
    have "real lat < real_of_int latitudeSegments" using assms(4) by linarith
    then show "real lat * pi / real_of_int latitudeSegments < pi" using L by (simp add: field_simps)
  qed
  have s2: "0 < sin (pi / real_of_int latitudeSegments)"
    by (rule sin_gt_zero) (use L in \<open>simp_all add: field_simps\<close>)
  have s3: "0 < sin (2 * pi / real (nat longitudeSegments))" by (rule slice_step_sin_pos) (use assms(2) in linarith)
  have "0 < radius * radius" using assms(5) by (simp add: zero_less_mult_iff, linarith)
  then have "0 < radius * radius * sin (real lat * pi / real_of_int latitudeSegments) * sin (pi / real_of_int latitudeSegments) * sin (2 * pi / real (nat longitudeSegments))"
    using s1 s2 s3 by simp
  then show ?thesis unfolding d1 d2 by simp
qed

text \<open>C33. The sphere is wound clockwise as seen from outside: for \<open>latitudeSegments \<ge> 2\<close>, \<open>longitudeSegments \<ge> 3\<close> and a non-zero radius, the first triangle \<open>(first, second, first + 1)\<close> of every cell off the poles has its front face pointing into the sphere, against the outward normal stored at \<open>first\<close>; the side walls of \<open>LoadCylinderMesh\<close>, by contrast, face outward.\<close>

theorem LoadSphereMesh_faces_inward:
  assumes "2 \<le> latitudeSegments" and "3 \<le> longitudeSegments" and "0 < lat"
    and "lat < nat latitudeSegments" and "lon < nat longitudeSegments" and "radius \<noteq> 0"
  shows "front_dot (mb_verts (LoadSphereMesh_data latitudeSegments longitudeSegments radius))
                   (take 3 (sphere_cell (nat longitudeSegments) lat lon)) < 0"
proof -
  let ?vs = "mb_verts (LoadSphereMesh_data latitudeSegments longitudeSegments radius)"
  let ?k = "nat longitudeSegments"
  let ?t = "\<lambda>l. real l * pi / real_of_int latitudeSegments"
  let ?p = "\<lambda>l. real l * 2 * pi / real_of_int longitudeSegments"
  have lo: "0 \<le> longitudeSegments" and la: "0 \<le> latitudeSegments" using assms(1,2) by simp_all
  have v: "?vs ! ((?k + 1) * a + b) = sphere_vertex radius latitudeSegments longitudeSegments a b"
    if "a \<le> nat latitudeSegments" "b \<le> ?k" for a b
    using LoadSphereMesh_vert_nth [OF lo la that] .
  have t: "take 3 (sphere_cell ?k lat lon)
           = [(?k + 1) * lat + lon, (?k + 1) * (lat + 1) + lon, (?k + 1) * lat + (lon + 1)]"
    by (simp add: sphere_cell_def Let_def algebra_simps)
  have va: "?vs ! ((?k + 1) * lat + lon) = sphere_vertex radius latitudeSegments longitudeSegments lat lon"
    by (rule v) (use assms(4,5) in simp_all)
  have vb: "?vs ! ((?k + 1) * (lat + 1) + lon) = sphere_vertex radius latitudeSegments longitudeSegments (lat + 1) lon"
    by (rule v) (use assms(4,5) in simp_all)
  have vc: "?vs ! ((?k + 1) * lat + (lon + 1)) = sphere_vertex radius latitudeSegments longitudeSegments lat (lon + 1)"
    by (rule v) (use assms(4,5) in simp_all)
  have "front_dot ?vs (take 3 (sphere_cell ?k lat lon))
        = dot (cross (vsub (radius * sin (?t (lat + 1)) * cos (?p lon), radius * cos (?t (lat + 1)), radius * sin (?t (lat + 1)) * sin (?p lon))
                           (radius * sin (?t lat) * cos (?p lon), radius * cos (?t lat), radius * sin (?t lat) * sin (?p lon)))
                     (vsub (radius * sin (?t lat) * cos (?p (lon + 1)), radius * cos (?t lat), radius * sin (?t lat) * sin (?p (lon + 1)))
                           (radius * sin (?t lat) * cos (?p lon), radius * cos (?t lat), radius * sin (?t lat) * sin (?p lon))))
              (sin (?t lat) * cos (?p lon), cos (?t lat), sin (?t lat) * sin (?p lon))"
    unfolding t front_dot.simps va vb vc sphere_vertex_eq Let_def mk_vertex_def vertex.simps ..
  also have "\<dots> = - (radius * radius) * sin (?t lat) * sin (?t (lat + 1) - ?t lat) * sin (?p (lon + 1) - ?p lon)"
    by (rule sphere_tri_dot)
  also have "\<dots> < 0" using sphere_cell_dot_neg [OF assms(1-4,6)] by simp
  finally show ?thesis .
qed

theorem LoadSphereMesh_faces_inward_witness:
  "2 \<le> (2::int) \<and> 3 \<le> (3::int) \<and> 0 < (1::nat) \<and> 1 < nat 2 \<and> 0 < nat 3 \<and> (1::real) \<noteq> 0
   \<and> front_dot (mb_verts (LoadSphereMesh_data 2 3 1)) (take 3 (sphere_cell (nat 3) 1 0)) < 0"
proof -
  have h1: "2 \<le> (2::int)" and h2: "3 \<le> (3::int)" and h3: "0 < (1::nat)" and h4: "1 < nat 2"
    and h5: "0 < nat 3" and h6: "(1::real) \<noteq> 0" by simp_all
  show ?thesis using h1 h2 h3 h4 h5 h6 LoadSphereMesh_faces_inward [OF h1 h2 h3 h4 h5 h6] by blast
qed

text \<open>\<open>LoadSphereMesh\<close> does not clamp its segment counts: one latitude and one longitude segment give 4 vertices and 6 indices, where a count clamped to 3 would give the 16 vertices of the \<open>(3, 3)\<close> sphere. The spec says counts below 3 are clamped.\<close>

theorem LoadSphereMesh_not_clamped:
  "length (mb_verts (LoadSphereMesh_data 1 1 radius)) = 4
   \<and> length (mb_indices (LoadSphereMesh_data 1 1 radius)) = 6
   \<and> length (mb_verts (LoadSphereMesh_data 3 3 radius)) = 16"
  by (simp add: length_LoadSphereMesh_verts LoadSphereMesh_indices length_sphere_indices)
text \<open>C35. For an odd \<open>latitudeSegments\<close>, \<open>LoadHemisphereMesh\<close> stops short of the equator: \<open>hemiLatSegments = latitudeSegments / 2\<close> truncates, the last ring lies at the polar angle \<open>(L - 1) pi / (2 L)\<close>, and every vertex of a hemisphere of positive radius lies strictly above the plane \<open>y = 0\<close>.\<close>

theorem LoadHemisphereMesh_odd_rim_above_equator:
  assumes "0 < latitudeSegments" and "odd latitudeSegments" and "0 < radius"
  shows "list_all (\<lambda>v. 0 < fst (snd (position v)))
                  (mb_verts (LoadHemisphereMesh_data latitudeSegments longitudeSegments radius))"
proof -
  let ?h = "cdiv latitudeSegments 2"
  have h: "?h = latitudeSegments div 2" using assms(1) by (simp add: cdiv_pos)
  have y: "0 < fst (snd (position (hemisphere_vertex radius latitudeSegments ?h longitudeSegments lat lon)))"
    if "lat < nat (?h + 1)" for lat lon
  proof -
    have "2 * int lat < latitudeSegments" using that h assms(2) by (auto elim!: oddE)
    then have "real lat * pi / real_of_int latitudeSegments < pi / 2"
      using assms(1) by (simp add: field_simps)
    moreover have "0 \<le> real lat * pi / real_of_int latitudeSegments" using assms(1) by simp
    then have "- (pi / 2) < real lat * pi / real_of_int latitudeSegments" using pi_gt_zero by linarith
    ultimately have "0 < cos (real lat * pi / real_of_int latitudeSegments)" by (intro cos_gt_zero_pi)
    then show ?thesis using assms(3) by (simp add: hemisphere_vertex_def Let_def mk_vertex_def)
  qed
  show ?thesis using y by (simp add: LoadHemisphereMesh_data_def Let_def list_all_iff loop_le_def)
qed

theorem LoadHemisphereMesh_odd_rim_above_equator_witness:
  "0 < (3::int) \<and> odd (3::int) \<and> (0::real) < 1
   \<and> list_all (\<lambda>v. 0 < fst (snd (position v))) (mb_verts (LoadHemisphereMesh_data 3 4 1))"
proof -
  have h1: "0 < (3::int)" and h2: "odd (3::int)" and h3: "(0::real) < 1" by simp_all
  show ?thesis using h1 h2 h3 LoadHemisphereMesh_odd_rim_above_equator [OF h1 h2 h3, of 4] by blast
qed

text \<open>Every normal \<open>LoadTorusMesh\<close> stores has unit length, for all parameters: the clamp \<open>tubeRadius \<ge> 0.01\<close> keeps the offset from the tube centre non-zero.\<close>

theorem LoadTorusMesh_unit_normals:
  "unit_normals (mb_verts (LoadTorusMesh_data mainRadius tubeRadius mainSegments tubeSegments))"
proof -
  have r: "max 0.01 tubeRadius \<noteq> (0::real)" by (simp add: max_def)
  have "vlength (normal (torus_vertex mainRadius (max 0.01 tubeRadius) a b c d i j)) = 1" for a b c d i j
    using vlength_normalize [OF torus_offset_nonzero [OF r]]
    by (simp add: torus_vertex_def Let_def mk_vertex_def)
  then show ?thesis
    by (simp add: LoadTorusMesh_data_def Let_def unit_normals_concat_map unit_normals_map)
qed

text \<open>C36. \<open>LoadExtraTorusMesh1\<close> pushes 7 vertices per cell (two triangles and a repeated first corner) into a list drawn with \<open>glDrawArrays(GL_TRIANGLES)\<close>: 6300 vertices for the 30 \<open>\<times>\<close> 30 cells. The first two triangles are the cell's quad, but the third joins the repeated corner of cell \<open>(0, 0)\<close> to the first two vertices of cell \<open>(0, 1)\<close>, three points of the same tube ring: the grouping drifts by one vertex per cell.\<close>

theorem LoadExtraTorusMesh1_misaligned:
  "length (mb_verts (LoadExtraTorusMesh1_data thickness)) = 6300
   \<and> triangles (map position (mb_verts (LoadExtraTorusMesh1_data thickness))) ! 0
       = (extra_torus_segments thickness ! 0 ! 0, extra_torus_segments thickness ! 0 ! 1,
          extra_torus_segments thickness ! 1 ! 1)
   \<and> triangles (map position (mb_verts (LoadExtraTorusMesh1_data thickness))) ! 1
       = (extra_torus_segments thickness ! 0 ! 0, extra_torus_segments thickness ! 1 ! 0,
          extra_torus_segments thickness ! 1 ! 1)
   \<and> triangles (map position (mb_verts (LoadExtraTorusMesh1_data thickness))) ! 2
       = (extra_torus_segments thickness ! 0 ! 0, extra_torus_segments thickness ! 0 ! 1,
          extra_torus_segments thickness ! 0 ! 2)"
proof -
  let ?vs = "mb_verts (LoadExtraTorusMesh1_data thickness)"
  let ?S = "extra_torus_segments thickness"
  have len: "length ?vs = 6300" by (rule length_LoadExtraTorusMesh1)
  have c00: "position (?vs ! k) = fst (extra_torus_cell ?S 30 30 (1 / 30) (1 / 30) 0 0 ! k)" if "k < 7" for k
    using extra_torus_vert_nth [of 0 0 k thickness] that by (simp add: case_prod_beta mk_vertex_def)
  have c01: "position (?vs ! (7 + k)) = fst (extra_torus_cell ?S 30 30 (1 / 30) (1 / 30) 0 1 ! k)" if "k < 7" for k
    using extra_torus_vert_nth [of 0 1 k thickness] that by (simp add: case_prod_beta mk_vertex_def)
  have t0: "triangles (map position ?vs) ! 0 = (position (?vs ! 0), position (?vs ! 1), position (?vs ! 2))"
    using nth_triangles [of 0 "map position ?vs"] len by (simp add: numeral_2_eq_2)
  have t1: "triangles (map position ?vs) ! 1 = (position (?vs ! 3), position (?vs ! 4), position (?vs ! 5))"
    using nth_triangles [of 1 "map position ?vs"] len by simp
  have t2: "triangles (map position ?vs) ! 2 = (position (?vs ! 6), position (?vs ! 7), position (?vs ! 8))"
    using nth_triangles [of 2 "map position ?vs"] len by simp
  have p: "position (?vs ! 0) = ?S ! 0 ! 0" "position (?vs ! 1) = ?S ! 0 ! 1"
          "position (?vs ! 2) = ?S ! 1 ! 1" "position (?vs ! 3) = ?S ! 0 ! 0"
          "position (?vs ! 4) = ?S ! 1 ! 0" "position (?vs ! 5) = ?S ! 1 ! 1"
          "position (?vs ! 6) = ?S ! 0 ! 0"
    using c00 [of 0] c00 [of 1] c00 [of 2] c00 [of 3] c00 [of 4] c00 [of 5] c00 [of 6]
    by (simp_all add: extra_torus_cell_def Let_def)
  have q: "position (?vs ! 7) = ?S ! 0 ! 1" "position (?vs ! 8) = ?S ! 0 ! 2"
    using c01 [of 0] c01 [of 1] by (simp_all add: extra_torus_cell_def Let_def numeral_2_eq_2)
  show ?thesis unfolding t0 t1 t2 p q using len by simp
qed

text \<open>\<open>LoadExtraTorusMesh1\<close> stores as normal the normalized position, the direction from the torus centre, not from the tube centre: for a thickness in \<open>(0, 1)\<close>, the vertex at the inner equator of ring 0 lies at \<open>(1 - thickness, 0, 0)\<close>, inside the main circle of radius 1, yet its normal is \<open>(1, 0, 0)\<close>, pointing into the tube instead of out of it.\<close>

theorem LoadExtraTorusMesh1_inner_normal:
  assumes "0 < thickness" and "thickness < 1"
  shows "position (mb_verts (LoadExtraTorusMesh1_data thickness) ! 105) = (1 - thickness, 0, 0)
         \<and> normal (mb_verts (LoadExtraTorusMesh1_data thickness) ! 105) = (1, 0, 0)"
proof -
  let ?vs = "mb_verts (LoadExtraTorusMesh1_data thickness)"
  have v: "?vs ! 105 = (\<lambda>(p, t). mk_vertex p (normalize p) t)
                         (extra_torus_cell (extra_torus_segments thickness) 30 30 (1 / 30) (1 / 30) 0 15 ! 0)"
    using extra_torus_vert_nth [of 0 15 0 thickness] by simp
  have a: "15 * radians 12 = pi" by (simp add: radians_def)
  have P: "extra_torus_segments thickness ! 0 ! 15 = (1 - thickness, 0, 0)"
    using assms extra_torus_segments_nth [of 0 15 thickness]
    by (simp add: extra_torus_point_def Let_def a)
  have N: "normalize (1 - thickness, 0, 0) = (1, 0, 0)"
  proof -
    have "vlength (1 - thickness, 0, 0) = 1 - thickness"
      using assms(2) by (simp add: vlength_def power2_eq_square [symmetric])
    then show ?thesis using assms(2) by (simp add: normalize_def)
  qed
  show ?thesis using v P N by (simp add: extra_torus_cell_def Let_def mk_vertex_def)
qed
theorem LoadExtraTorusMesh1_inner_normal_witness:
  "0 < (1 / 2 :: real) \<and> (1 / 2 :: real) < 1
   \<and> position (mb_verts (LoadExtraTorusMesh1_data (1 / 2)) ! 105) = (1 - 1 / 2, 0, 0)
   \<and> normal (mb_verts (LoadExtraTorusMesh1_data (1 / 2)) ! 105) = (1, 0, 0)"
proof -
  have h1: "0 < (1 / 2 :: real)" and h2: "(1 / 2 :: real) < 1" by simp_all
  show ?thesis using h1 h2 LoadExtraTorusMesh1_inner_normal [OF h1 h2] by blast
qed

text \<open>Within one interior cell of \<open>LoadExtraTorusMesh1\<close> the corner \<open>S[i+1][j+1]\<close> is pushed twice with different texture coordinates: \<open>(u + h, v + s)\<close> as the third vertex and \<open>(u + h, v - s)\<close> as the sixth, so the second triangle of each quad samples the texture across a band of width \<open>2 s\<close>.\<close>

theorem LoadExtraTorusMesh1_texture_flip:
  "position (mb_verts (LoadExtraTorusMesh1_data thickness) ! 2)
     = position (mb_verts (LoadExtraTorusMesh1_data thickness) ! 5)
   \<and> texCoord (mb_verts (LoadExtraTorusMesh1_data thickness) ! 2) = (1 / 30, 1 / 30)
   \<and> texCoord (mb_verts (LoadExtraTorusMesh1_data thickness) ! 5) = (1 / 30, - (1 / 30))"
proof -
  let ?c = "extra_torus_cell (extra_torus_segments thickness) 30 30 (1 / 30) (1 / 30) 0 0"
  have a: "mb_verts (LoadExtraTorusMesh1_data thickness) ! 2 = (\<lambda>(p, t). mk_vertex p (normalize p) t) (?c ! 2)"
    using extra_torus_vert_nth [of 0 0 2 thickness] by (simp add: numeral_2_eq_2)
  have b: "mb_verts (LoadExtraTorusMesh1_data thickness) ! 5 = (\<lambda>(p, t). mk_vertex p (normalize p) t) (?c ! 5)"
    using extra_torus_vert_nth [of 0 0 5 thickness] by simp
  show ?thesis unfolding a b by (simp add: extra_torus_cell_def Let_def mk_vertex_def)
qed

end
