(* ===== verification/Fixed_Shapes.thy ===== *)
theory Fixed_Shapes
  imports Topology
begin

text \<open>
  The fixed-topology generators of \<open>ShapeMeshes.cpp\<close>, whose vertex tables are written
  out in the code: \<open>LoadBoxMesh\<close>, \<open>LoadPlaneMesh\<close>, \<open>LoadPrismMesh\<close>,
  \<open>LoadPyramid3Mesh\<close>, \<open>LoadPyramid4Mesh\<close> and \<open>LoadFinMesh\<close>, with the face selection of
  \<open>DrawBoxMeshSide\<close>. Each table is transcribed vertex by vertex (position, normal,
  texture coordinate) in the order of the code; a \<open>float\<close> literal is the real it
  denotes.
\<close>

section \<open>LoadBoxMesh\<close>

text \<open>The 24 vertices (four per face, faces in the order Back, Bottom, Left, Right, Top,
  Front) and 36 indices of \<open>LoadBoxMesh\<close> (lines 113--171).\<close>

definition LoadBoxMesh_data :: mesh_buffer where
  "LoadBoxMesh_data =
     \<lparr>mb_verts =
       [mk_vertex (0.5, 0.5, -0.5) (0, 0, -1) (0, 1),
        mk_vertex (0.5, -0.5, -0.5) (0, 0, -1) (0, 0),
        mk_vertex (-0.5, -0.5, -0.5) (0, 0, -1) (1, 0),
        mk_vertex (-0.5, 0.5, -0.5) (0, 0, -1) (1, 1),
        mk_vertex (-0.5, -0.5, 0.5) (0, -1, 0) (0, 1),
        mk_vertex (-0.5, -0.5, -0.5) (0, -1, 0) (0, 0),
        mk_vertex (0.5, -0.5, -0.5) (0, -1, 0) (1, 0),
        mk_vertex (0.5, -0.5, 0.5) (0, -1, 0) (1, 1),
        mk_vertex (-0.5, 0.5, -0.5) (-1, 0, 0) (0, 1),
        mk_vertex (-0.5, -0.5, -0.5) (-1, 0, 0) (0, 0),
        mk_vertex (-0.5, -0.5, 0.5) (-1, 0, 0) (1, 0),
        mk_vertex (-0.5, 0.5, 0.5) (-1, 0, 0) (1, 1),
        mk_vertex (0.5, 0.5, 0.5) (1, 0, 0) (0, 1),
        mk_vertex (0.5, -0.5, 0.5) (1, 0, 0) (0, 0),
        mk_vertex (0.5, -0.5, -0.5) (1, 0, 0) (1, 0),
        mk_vertex (0.5, 0.5, -0.5) (1, 0, 0) (1, 1),
        mk_vertex (-0.5, 0.5, -0.5) (0, 1, 0) (0, 1),
        mk_vertex (-0.5, 0.5, 0.5) (0, 1, 0) (0, 0),
        mk_vertex (0.5, 0.5, 0.5) (0, 1, 0) (1, 0),
        mk_vertex (0.5, 0.5, -0.5) (0, 1, 0) (1, 1),
        mk_vertex (-0.5, 0.5, 0.5) (0, 0, 1) (0, 1),
        mk_vertex (-0.5, -0.5, 0.5) (0, 0, 1) (0, 0),
        mk_vertex (0.5, -0.5, 0.5) (0, 0, 1) (1, 0),
        mk_vertex (0.5, 0.5, 0.5) (0, 0, 1) (1, 1)],
      mb_indices =
       [0, 1, 2, 2, 3, 0,
        4, 5, 6, 6, 7, 4,
        8, 9, 10, 10, 11, 8,
        12, 13, 14, 14, 15, 12,
        16, 17, 18, 18, 19, 16,
        20, 21, 22, 22, 23, 20]\<rparr>"

text \<open>\<open>enum class BoxSide { back, bottom, left, right, top, front }\<close> (ShapeMeshes.h,
  lines 95--102) and the index offset \<open>DrawBoxMeshSide\<close> chooses for each side
  (lines 1659--1670), in indices (the code passes \<open>offset * sizeof(GLuint)\<close> bytes).\<close>

datatype BoxSide = "back" | bottom | left | right | top | front

definition indicesPerFace :: nat where
  "indicesPerFace = 6"

fun box_side_offset :: "BoxSide \<Rightarrow> nat" where
  "box_side_offset front = 0 * indicesPerFace"
| "box_side_offset back = 1 * indicesPerFace"
| "box_side_offset left = 2 * indicesPerFace"
| "box_side_offset right = 3 * indicesPerFace"
| "box_side_offset top = 4 * indicesPerFace"
| "box_side_offset bottom = 5 * indicesPerFace"

text \<open>The outward axis each enumerator names, as the face comments of \<open>LoadBoxMesh\<close>
  label the normals (Back \<open>-z\<close>, Bottom \<open>-y\<close>, Left \<open>-x\<close>, Right \<open>+x\<close>, Top \<open>+y\<close>,
  Front \<open>+z\<close>).\<close>

fun box_side_normal :: "BoxSide \<Rightarrow> vec3" where
  "box_side_normal back = (0, 0, -1)"
| "box_side_normal bottom = (0, -1, 0)"
| "box_side_normal left = (-1, 0, 0)"
| "box_side_normal right = (1, 0, 0)"
| "box_side_normal top = (0, 1, 0)"
| "box_side_normal front = (0, 0, 1)"

section \<open>LoadPlaneMesh\<close>

text \<open>\<open>LoadPlaneMesh(width, height)\<close> (lines 366--392): a quad in the \<open>xz\<close> plane with
  normal \<open>+y\<close>, indices \<open>0, 1, 2, 0, 2, 3\<close>.\<close>

definition LoadPlaneMesh_data :: "real \<Rightarrow> real \<Rightarrow> mesh_buffer" where
  "LoadPlaneMesh_data width height =
     (let halfWidth = width / 2; halfHeight = height / 2
      in \<lparr>mb_verts =
           [mk_vertex (- halfWidth, 0, halfHeight) (0, 1, 0) (0, 0),
            mk_vertex (halfWidth, 0, halfHeight) (0, 1, 0) (1, 0),
            mk_vertex (halfWidth, 0, - halfHeight) (0, 1, 0) (1, 1),
            mk_vertex (- halfWidth, 0, - halfHeight) (0, 1, 0) (0, 1)],
          mb_indices = [0, 1, 2, 0, 2, 3]\<rparr>)"

section \<open>LoadPrismMesh\<close>

text \<open>The 32 vertices of \<open>LoadPrismMesh\<close> (lines 413--459): back face (8), bottom face (4),
  left slanted face (8), right slanted face (8), top face (4); and its index array
  \<open>{0, 1, 2}\<close> (lines 461--464).\<close>

definition LoadPrismMesh_data :: mesh_buffer where
  "LoadPrismMesh_data =
     (let nl = (0.894427180, 0, -0.447213590); nr = (-0.894427180, 0, -0.447213590)
      in \<lparr>mb_verts =
           [mk_vertex (0.5, 0.5, -0.5) (0, 0, -1) (0, 1),
            mk_vertex (0.5, -0.5, -0.5) (0, 0, -1) (0, 0),
            mk_vertex (-0.5, -0.5, -0.5) (0, 0, -1) (1, 0),
            mk_vertex (0.5, 0.5, -0.5) (0, 0, -1) (0, 1),
            mk_vertex (0.5, 0.5, -0.5) (0, 0, -1) (0, 1),
            mk_vertex (-0.5, 0.5, -0.5) (0, 0, -1) (1, 1),
            mk_vertex (-0.5, -0.5, -0.5) (0, 0, -1) (1, 0),
            mk_vertex (0.5, 0.5, -0.5) (0, 0, -1) (0, 1),
            mk_vertex (0.5, -0.5, -0.5) (0, -1, 0) (0, 0),
            mk_vertex (-0.5, -0.5, -0.5) (0, -1, 0) (1, 0),
            mk_vertex (0, -0.5, 0.5) (0, -1, 0) (0.5, 1),
            mk_vertex (-0.5, -0.5, -0.5) (0, -1, 0) (0, 0),
            mk_vertex (-0.5, -0.5, -0.5) nl (0, 0),
            mk_vertex (-0.5, 0.5, -0.5) nl (0, 1),
            mk_vertex (0, 0.5, 0.5) nl (1, 1),
            mk_vertex (-0.5, -0.5, -0.5) nl (0, 0),
            mk_vertex (-0.5, -0.5, -0.5) nl (0, 0),
            mk_vertex (0, -0.5, 0.5) nl (1, 0),
            mk_vertex (0, 0.5, 0.5) nl (1, 1),
            mk_vertex (-0.5, -0.5, -0.5) nl (0, 0),
            mk_vertex (0, 0.5, 0.5) nr (0, 1),
            mk_vertex (0.5, 0.5, -0.5) nr (1, 1),
            mk_vertex (0.5, -0.5, -0.5) nr (1, 0),
            mk_vertex (0, 0.5, 0.5) nr (0, 1),
            mk_vertex (0, 0.5, 0.5) nr (0, 1),
            mk_vertex (0, -0.5, 0.5) nr (0, 0),
            mk_vertex (0.5, -0.5, -0.5) nr (1, 0),
            mk_vertex (0, 0.5, 0.5) nr (0, 1),
            mk_vertex (0.5, 0.5, -0.5) (0, 1, 0) (0, 0),
            mk_vertex (0, 0.5, 0.5) (0, 1, 0) (0.5, 1),
            mk_vertex (-0.5, 0.5, -0.5) (0, 1, 0) (1, 0),
            mk_vertex (0.5, 0.5, -0.5) (0, 1, 0) (0, 0)],
          mb_indices = [0, 1, 2]\<rparr>)"

section \<open>LoadPyramid3Mesh\<close>

text \<open>The \<open>calculateNormal\<close> lambda of \<open>LoadPyramid3Mesh\<close> (lines 501--507): the cross
  product of two edge vectors divided by its length.\<close>

definition pyr3_calculateNormal :: "real \<Rightarrow> real \<Rightarrow> real \<Rightarrow> real \<Rightarrow> real \<Rightarrow> real \<Rightarrow> vec3" where
  "pyr3_calculateNormal x1 y1 z1 x2 y2 z2 =
     (let nx = y1 * z2 - z1 * y2; ny = z1 * x2 - x1 * z2; nz = x1 * y2 - y1 * x2;
          len = sqrt (nx * nx + ny * ny + nz * nz)
      in (nx / len, ny / len, nz / len))"

text \<open>\<open>struct Face { top; bottom1; bottom2; normal; }\<close> (lines 510--515) and the three
  side faces with their hand-written edge vectors (lines 517--526).\<close>

record pyramid3_face =
  face_top :: vec3
  face_bottom1 :: vec3
  face_bottom2 :: vec3
  face_normal :: vec3

definition pyramid3_faces :: "pyramid3_face list" where
  "pyramid3_faces =
     (let halfBase = 0.5; height = 0.5
      in [\<lparr>face_top = (0, height, 0), face_bottom1 = (- halfBase, - height, halfBase),
           face_bottom2 = (0, - height, - halfBase),
           face_normal = pyr3_calculateNormal (- halfBase) (- height - height) (halfBase - 0)
                                              0 (- height - height) (- halfBase - halfBase)\<rparr>,
          \<lparr>face_top = (0, height, 0), face_bottom1 = (0, - height, - halfBase),
           face_bottom2 = (halfBase, - height, halfBase),
           face_normal = pyr3_calculateNormal 0 (- height - height) (- halfBase - 0)
                                              halfBase (- height - height) (halfBase - - halfBase)\<rparr>,
          \<lparr>face_top = (0, height, 0), face_bottom1 = (halfBase, - height, halfBase),
           face_bottom2 = (- halfBase, - height, halfBase),
           face_normal = pyr3_calculateNormal halfBase (- height - height) (halfBase - 0)
                                              (- halfBase) (- height - height) (halfBase - halfBase)\<rparr>])"

text \<open>The three vertices the loop of lines 528--547 pushes for one face.\<close>

definition pyramid3_face_verts :: "pyramid3_face \<Rightarrow> vertex list" where
  "pyramid3_face_verts face =
     [mk_vertex (face_top face) (face_normal face) (0.5, 1),
      mk_vertex (face_bottom1 face) (face_normal face) (0, 0),
      mk_vertex (face_bottom2 face) (face_normal face) (1, 0)]"

definition LoadPyramid3Mesh_data :: mesh_buffer where
  "LoadPyramid3Mesh_data =
     (let halfBase = 0.5; height = 0.5
      in \<lparr>mb_verts = concat (map pyramid3_face_verts pyramid3_faces)
                     @ [mk_vertex (- halfBase, - height, halfBase) (0, -1, 0) (0, 1),
                        mk_vertex (halfBase, - height, halfBase) (0, -1, 0) (1, 1),
                        mk_vertex (0, - height, - halfBase) (0, -1, 0) (0.5, 0)],
          mb_indices = []\<rparr>)"

section \<open>LoadPyramid4Mesh\<close>

text \<open>\<open>struct Face { top; bottomLeft; bottomRight; }\<close> of \<open>LoadPyramid4Mesh\<close>
  (lines 616--620) and the three vertices pushed per face with the normal
  \<open>normalize(cross(bottomRight - bottomLeft, top - bottomLeft))\<close> (lines 629--640).\<close>

record pyramid4_face =
  p4_top :: vec3
  p4_bottomLeft :: vec3
  p4_bottomRight :: vec3

definition pyramid4_face_verts :: "pyramid4_face \<Rightarrow> vertex list" where
  "pyramid4_face_verts face =
     (let u = vsub (p4_bottomRight face) (p4_bottomLeft face);
          v = vsub (p4_top face) (p4_bottomLeft face);
          normal = normalize (cross u v)
      in [mk_vertex (p4_top face) normal (0.5, 1),
          mk_vertex (p4_bottomLeft face) normal (0, 0),
          mk_vertex (p4_bottomRight face) normal (1, 0)])"

text \<open>\<open>LoadPyramid4Mesh(baseSize, height)\<close> (lines 579--650): two base triangles with
  normal \<open>-y\<close>, then the Left, Back, Right and Front faces; no indices.\<close>

definition LoadPyramid4Mesh_data :: "real \<Rightarrow> real \<Rightarrow> mesh_buffer" where
  "LoadPyramid4Mesh_data baseSize height =
     (let halfBase = baseSize / 2;
          bottomNormal = (0, -1, 0);
          bottom = [mk_vertex (- halfBase, - halfBase, halfBase) bottomNormal (0, 1),
                    mk_vertex (- halfBase, - halfBase, - halfBase) bottomNormal (0, 0),
                    mk_vertex (halfBase, - halfBase, - halfBase) bottomNormal (1, 0),
                    mk_vertex (- halfBase, - halfBase, halfBase) bottomNormal (0, 1),
                    mk_vertex (halfBase, - halfBase, - halfBase) bottomNormal (1, 0),
                    mk_vertex (halfBase, - halfBase, halfBase) bottomNormal (1, 1)];
          faces = [\<lparr>p4_top = (0, height / 2, 0), p4_bottomLeft = (- halfBase, - halfBase, - halfBase),
                    p4_bottomRight = (- halfBase, - halfBase, halfBase)\<rparr>,
                   \<lparr>p4_top = (0, height / 2, 0), p4_bottomLeft = (halfBase, - halfBase, - halfBase),
                    p4_bottomRight = (- halfBase, - halfBase, - halfBase)\<rparr>,
                   \<lparr>p4_top = (0, height / 2, 0), p4_bottomLeft = (halfBase, - halfBase, halfBase),
                    p4_bottomRight = (halfBase, - halfBase, - halfBase)\<rparr>,
                   \<lparr>p4_top = (0, height / 2, 0), p4_bottomLeft = (- halfBase, - halfBase, halfBase),
                    p4_bottomRight = (halfBase, - halfBase, halfBase)\<rparr>]
      in \<lparr>mb_verts = bottom @ concat (map pyramid4_face_verts faces), mb_indices = []\<rparr>)"

section \<open>LoadFinMesh\<close>

text \<open>\<open>LoadFinMesh(baseLength, topLength, height, thickness)\<close> (lines 2059--2137): a
  right-angled trapezoid extruded along \<open>z\<close>, four vertices per face with the face's
  axis normal, and the index list of lines 2124--2137.\<close>

definition LoadFinMesh_data :: "real \<Rightarrow> real \<Rightarrow> real \<Rightarrow> real \<Rightarrow> mesh_buffer" where
  "LoadFinMesh_data baseLength topLength height thickness =
     (let halfThickness = thickness / 2;
          v0 = (0, 0, - halfThickness); v1 = (baseLength, 0, - halfThickness);
          v2 = (0, height, - halfThickness); v3 = (topLength, height, - halfThickness);
          v4 = (0, 0, halfThickness); v5 = (baseLength, 0, halfThickness);
          v6 = (0, height, halfThickness); v7 = (topLength, height, halfThickness)
      in \<lparr>mb_verts =
           [mk_vertex v0 (0, 0, -1) (0, 0), mk_vertex v1 (0, 0, -1) (1, 0),
            mk_vertex v2 (0, 0, -1) (0, 1), mk_vertex v3 (0, 0, -1) (1, 1),
            mk_vertex v4 (0, 0, 1) (0, 0), mk_vertex v5 (0, 0, 1) (1, 0),
            mk_vertex v6 (0, 0, 1) (0, 1), mk_vertex v7 (0, 0, 1) (1, 1),
            mk_vertex v2 (0, 1, 0) (0, 0), mk_vertex v3 (0, 1, 0) (0, 0),
            mk_vertex v6 (0, 1, 0) (0, 0), mk_vertex v7 (0, 1, 0) (0, 0),
            mk_vertex v0 (0, -1, 0) (0, 0), mk_vertex v1 (0, -1, 0) (0, 0),
            mk_vertex v4 (0, -1, 0) (0, 0), mk_vertex v5 (0, -1, 0) (0, 0),
            mk_vertex v0 (-1, 0, 0) (0, 0), mk_vertex v2 (-1, 0, 0) (0, 0),
            mk_vertex v4 (-1, 0, 0) (0, 0), mk_vertex v6 (-1, 0, 0) (0, 0),
            mk_vertex v1 (1, 0, 0) (0, 0), mk_vertex v3 (1, 0, 0) (0, 0),
            mk_vertex v5 (1, 0, 0) (0, 0), mk_vertex v7 (1, 0, 0) (0, 0)],
          mb_indices =
           [0, 1, 2, 1, 3, 2,
            4, 6, 5, 5, 6, 7,
            8, 9, 10, 9, 11, 10,
            12, 14, 13, 14, 15, 13,
            16, 18, 17, 17, 18, 19,
            20, 21, 22, 21, 23, 22]\<rparr>)"

section \<open>Lemmas\<close>

lemma pyr3_calculateNormal_eq:
  "pyr3_calculateNormal x1 y1 z1 x2 y2 z2 = normalize (cross (x1, y1, z1) (x2, y2, z2))"
  by (simp add: pyr3_calculateNormal_def normalize_def vlength_def Let_def divide_inverse mult.commute)

lemma length_LoadPyramid4Mesh: "length (mb_verts (LoadPyramid4Mesh_data baseSize height)) = 18"
  by (simp add: LoadPyramid4Mesh_data_def Let_def pyramid4_face_verts_def)

text \<open>Every fixed shape's indices name its own vertices; the box and the fin have the 36
  indices their sub-range draws read.\<close>

lemma fixed_shapes_wf:
  "mesh_wf LoadBoxMesh_data" "mesh_wf (LoadPlaneMesh_data width height)" "mesh_wf LoadPrismMesh_data"
  "mesh_wf LoadPyramid3Mesh_data" "mesh_wf (LoadPyramid4Mesh_data baseSize height)"
  by (simp_all add: mesh_wf_def indices_below_def LoadBoxMesh_data_def LoadPlaneMesh_data_def
                    LoadPrismMesh_data_def LoadPyramid3Mesh_data_def LoadPyramid4Mesh_data_def Let_def)

lemma length_LoadBoxMesh_indices: "length (mb_indices LoadBoxMesh_data) = 36"
  by (simp add: LoadBoxMesh_data_def)

lemma LoadFinMesh_data_wf:
  "indices_below (length (mb_verts (LoadFinMesh_data baseLength topLength height thickness)))
                 (mb_indices (LoadFinMesh_data baseLength topLength height thickness))
   \<and> length (mb_indices (LoadFinMesh_data baseLength topLength height thickness)) = 36"
  by (simp add: LoadFinMesh_data_def Let_def indices_below_def)

section \<open>Properties of the fixed shapes\<close>

text \<open>C11. The box has the 24 vertices and 36 indices the spec requires, every index names one of its vertices, and every stored normal has unit length.\<close>

theorem LoadBoxMesh_counts:
  "length (mb_verts LoadBoxMesh_data) = 24 \<and> length (mb_indices LoadBoxMesh_data) = 36
   \<and> mesh_wf LoadBoxMesh_data \<and> unit_normals (mb_verts LoadBoxMesh_data)"
  by (simp add: LoadBoxMesh_data_def mesh_wf_def indices_below_def unit_normals_def mk_vertex_def)

text \<open>C29. Every one of the 12 box triangles is wound counter-clockwise as seen from outside: its front face points along the normal stored at its first vertex.\<close>

theorem LoadBoxMesh_faces_outward:
  "list_all (\<lambda>(a, b, c). 0 < front_dot (mb_verts LoadBoxMesh_data) [a, b, c])
            (triangles (mb_indices LoadBoxMesh_data))"
  by (simp add: LoadBoxMesh_data_def mk_vertex_def)

text \<open>C22. \<open>DrawBoxMeshSide\<close> draws the named face only for \<open>left\<close>, \<open>right\<close> and \<open>top\<close>: its offsets assume the face order Front, Back, Left, Right, Top, Bottom, but \<open>LoadBoxMesh\<close> emits Back, Bottom, Left, Right, Top, Front, so \<open>front\<close> draws the back face, \<open>back\<close> the bottom face and \<open>bottom\<close> the front face.\<close>

theorem DrawBoxMeshSide_face:
  "normal (mb_verts LoadBoxMesh_data ! (mb_indices LoadBoxMesh_data ! box_side_offset s)) = box_side_normal s
   \<longleftrightarrow> s \<in> {left, right, top}"
  by (cases s) (simp_all add: LoadBoxMesh_data_def mk_vertex_def indicesPerFace_def)

text \<open>C37. The three side faces of \<open>LoadPyramid3Mesh\<close> store normals that point into the pyramid: for each of their nine vertices the normal has a negative component along the direction from the centroid \<open>(0, -1/4, 1/8)\<close> of the four corners to the vertex, while the base normal \<open>-y\<close> points out. The edge vectors passed to \<open>calculateNormal\<close> are typed by hand and do not all match the face corners.\<close>

theorem LoadPyramid3Mesh_normals_inward:
  "list_all (\<lambda>v. dot (normal v) (vsub (position v) (0, -1/4, 1/8)) < 0) (take 9 (mb_verts LoadPyramid3Mesh_data))
   \<and> list_all (\<lambda>v. 0 < dot (normal v) (vsub (position v) (0, -1/4, 1/8))) (drop 9 (mb_verts LoadPyramid3Mesh_data))"
proof -
  have n: "dot (normalize (a, b, c)) p < 0 \<longleftrightarrow> dot p (a, b, c) < 0" if "(a, b, c) \<noteq> (0, 0, 0)" for a b c p
    using dot_normalize_sign(2) [OF that, of p] by (simp add: dot_commute)
  show ?thesis
    by (simp add: LoadPyramid3Mesh_data_def pyramid3_faces_def pyramid3_face_verts_def pyr3_calculateNormal_eq
                  Let_def mk_vertex_def n)
qed

text \<open>\<open>DrawPyramid4Mesh\<close> draws the 18 vertices of \<open>LoadPyramid4Mesh\<close>, laid out as six separate triangles (the comment of \<open>LoadPyramid4Mesh\<close> names \<open>GL_TRIANGLES\<close>), as \<open>GL_TRIANGLE_STRIP\<close> (line 1981): 16 triangles instead of 6, among them \<open>(8, 9, 10)\<close>, which joins the front-left base corner, the apex and the back-right base corner, a triangle through the inside of the pyramid.\<close>

theorem DrawPyramid4Mesh_strip:
  "length (draw_arrays GL_TRIANGLES 0 (length (mb_verts (LoadPyramid4Mesh_data baseSize height)))) = 6
   \<and> length (draw_arrays GL_TRIANGLE_STRIP 0 (length (mb_verts (LoadPyramid4Mesh_data baseSize height)))) = 16
   \<and> draw_arrays GL_TRIANGLE_STRIP 0 (length (mb_verts (LoadPyramid4Mesh_data baseSize height))) ! 8 = (8, 9, 10)
   \<and> position (mb_verts (LoadPyramid4Mesh_data baseSize height) ! 8) = (- (baseSize / 2), - (baseSize / 2), baseSize / 2)
   \<and> position (mb_verts (LoadPyramid4Mesh_data baseSize height) ! 9) = (0, height / 2, 0)
   \<and> position (mb_verts (LoadPyramid4Mesh_data baseSize height) ! 10) = (baseSize / 2, - (baseSize / 2), - (baseSize / 2))"
  by (simp add: length_LoadPyramid4Mesh draw_arrays_def strip_triangles_def upt_rec numeral_eq_Suc)
     (simp add: LoadPyramid4Mesh_data_def Let_def pyramid4_face_verts_def mk_vertex_def)

text \<open>C38. For positive dimensions the first triangles of the front, back, top and bottom faces of \<open>LoadFinMesh\<close> are wound against the normals their vertices store (their front faces point into the fin); only the left and right faces agree with their normals.\<close>

theorem LoadFinMesh_winding:
  assumes "0 < baseLength" and "0 < topLength" and "0 < height" and "0 < thickness"
  shows "front_dot (mb_verts (LoadFinMesh_data baseLength topLength height thickness)) [0, 1, 2] < 0
    \<and> front_dot (mb_verts (LoadFinMesh_data baseLength topLength height thickness)) [4, 6, 5] < 0
    \<and> front_dot (mb_verts (LoadFinMesh_data baseLength topLength height thickness)) [8, 9, 10] < 0
    \<and> front_dot (mb_verts (LoadFinMesh_data baseLength topLength height thickness)) [12, 14, 13] < 0
    \<and> 0 < front_dot (mb_verts (LoadFinMesh_data baseLength topLength height thickness)) [16, 18, 17]
    \<and> 0 < front_dot (mb_verts (LoadFinMesh_data baseLength topLength height thickness)) [20, 21, 22]"
  using assms by (simp add: LoadFinMesh_data_def Let_def mk_vertex_def)

theorem LoadFinMesh_winding_witness:
  "(0::real) < 1 \<and> (0::real) < 1 / 2 \<and> (0::real) < 1 \<and> (0::real) < 1
   \<and> front_dot (mb_verts (LoadFinMesh_data 1 (1 / 2) 1 1)) [0, 1, 2] < 0
   \<and> front_dot (mb_verts (LoadFinMesh_data 1 (1 / 2) 1 1)) [4, 6, 5] < 0
   \<and> front_dot (mb_verts (LoadFinMesh_data 1 (1 / 2) 1 1)) [8, 9, 10] < 0
   \<and> front_dot (mb_verts (LoadFinMesh_data 1 (1 / 2) 1 1)) [12, 14, 13] < 0
   \<and> 0 < front_dot (mb_verts (LoadFinMesh_data 1 (1 / 2) 1 1)) [16, 18, 17]
   \<and> 0 < front_dot (mb_verts (LoadFinMesh_data 1 (1 / 2) 1 1)) [20, 21, 22]"
proof -
  have h1: "(0::real) < 1" and h2: "(0::real) < 1 / 2" by simp_all
  show ?thesis using h1 h2 LoadFinMesh_winding [OF h1 h2 h1 h1] by blast
qed

text \<open>The normals \<open>LoadPrismMesh\<close> stores on its two slanted faces point into the prism: each of the 16 slanted-face vertices has a normal with a negative component along the direction from the base centroid \<open>(0, 0, -1/6)\<close>, while the back, bottom and top faces point out.\<close>

theorem LoadPrismMesh_slanted_normals_inward:
  "list_all (\<lambda>v. dot (normal v) (vsub (position v) (0, 0, -1/6)) < 0) (take 16 (drop 12 (mb_verts LoadPrismMesh_data)))
   \<and> list_all (\<lambda>v. 0 < dot (normal v) (vsub (position v) (0, 0, -1/6)))
              (take 12 (mb_verts LoadPrismMesh_data) @ drop 28 (mb_verts LoadPrismMesh_data))"
  by (simp add: LoadPrismMesh_data_def Let_def mk_vertex_def)

end
