(* ===== verification/Custom_Surfaces.thy ===== *)
theory Custom_Surfaces
  imports Topology
begin

text \<open>
  The host buffers of the custom surfaces of \<open>ShapeMeshes.cpp\<close>: the curved cone
  (\<open>LoadCurvedConeMesh\<close>, lines 2666--2754), the tapered torus
  (\<open>DrawTaperedTorusMesh\<close>, lines 2820--2910), the sine-deformed cone
  (\<open>DrawSineConeMesh\<close>, lines 3234--3363) and the superellipsoid
  (\<open>DrawSuperellipsoidMesh\<close>, lines 3479--3652). All four emit a rectangular grid of
  vertices row by row and the index cells of \<open>grid_indices\<close>. The literals
  \<open>3.14159265f\<close> and \<open>3.14159265359f\<close> of the code round to the same \<open>float\<close> as the
  file's constant \<open>Pi\<close>; all three are \<open>pi\<close> here. The GL upload and draw of these shapes
  belong to the registry.
\<close>

section \<open>LoadCurvedConeMesh\<close>

text \<open>Vertex \<open>(step, slice)\<close> of the curved cone (lines 2688--2732): the centre on a circular
  arc of radius \<open>bendRadius\<close>, the in-plane direction perpendicular to the arc's tangent,
  a circle of radius \<open>radius * (1 - t)\<close> in that frame, and the normal
  \<open>normalize(offset)\<close>.\<close>

definition curved_cone_vertex ::
  "real \<Rightarrow> real \<Rightarrow> real \<Rightarrow> real \<Rightarrow> int \<Rightarrow> int \<Rightarrow> nat \<Rightarrow> nat \<Rightarrow> vertex" where
  "curved_cone_vertex radius bendRadius bendAngle angleStep numSlices curveSteps step slice =
     (let t = real step / real_of_int curveSteps; arcTheta = t * bendAngle;
          centerX = bendRadius * sin arcTheta; centerY = bendRadius * (1 - cos arcTheta); centerZ = 0;
          tangent = (cos arcTheta, sin arcTheta, 0::real);
          normalDir = normalize (- fst (snd tangent), fst tangent, 0);
          coneRadius = radius * (1 - t);
          angle = real slice * angleStep;
          localX = coneRadius * cos angle; localZ = coneRadius * sin angle;
          offset = vadd (vscale localX normalDir) (0, 0, localZ);
          position = vadd (centerX, centerY, centerZ) offset;
          normal = normalize offset;
          u = real slice / real_of_int numSlices; v = t
      in mk_vertex position normal (u, v))"

text \<open>\<open>LoadCurvedConeMesh(numSlices, curveSteps, radius, height, bendRadius)\<close>, with the clamps
  \<open>numSlices \<ge> 3\<close> and \<open>curveSteps \<ge> 1\<close> (lines 2669--2670).\<close>

definition LoadCurvedConeMesh_data :: "int \<Rightarrow> int \<Rightarrow> real \<Rightarrow> real \<Rightarrow> real \<Rightarrow> mesh_buffer" where
  "LoadCurvedConeMesh_data numSlices0 curveSteps0 radius height bendRadius =
     (let numSlices = clamp_min 3 numSlices0; curveSteps = clamp_min 1 curveSteps0;
          angleStep = 2 * pi / real_of_int numSlices;
          bendAngle = height / bendRadius
      in \<lparr>mb_verts = concat (map (\<lambda>step. map (curved_cone_vertex radius bendRadius bendAngle angleStep
                                                                numSlices curveSteps step)
                                            (loop_le numSlices))
                                (loop_le curveSteps)),
          mb_indices = grid_indices (nat curveSteps) (nat numSlices)\<rparr>)"

section \<open>DrawTaperedTorusMesh\<close>

text \<open>\<open>glm::mix(x, y, a) = x * (1 - a) + y * a\<close>.\<close>

definition glm_mix :: "real \<Rightarrow> real \<Rightarrow> real \<Rightarrow> real" where
  "glm_mix x y a = x * (1 - a) + y * a"

text \<open>Vertex \<open>(i, j)\<close> of the tapered torus (lines 2837--2869).\<close>

definition tapered_torus_vertex ::
  "real \<Rightarrow> real \<Rightarrow> real \<Rightarrow> real \<Rightarrow> real \<Rightarrow> int \<Rightarrow> int \<Rightarrow> nat \<Rightarrow> nat \<Rightarrow> vertex" where
  "tapered_torus_vertex mainRadius tubeRadiusStart tubeRadiusEnd mainStep tubeStep mainSegments tubeSegments i j =
     (let theta = real i * mainStep; sweepT = real i / real_of_int mainSegments;
          tubeRadius = glm_mix tubeRadiusStart tubeRadiusEnd sweepT;
          center = (mainRadius * cos theta, mainRadius * sin theta, 0);
          phi = real j * tubeStep;
          normal = (cos phi * cos theta, cos phi * sin theta, sin phi);
          position = vadd center (vscale tubeRadius normal);
          normalized = normalize normal;
          u = real j / real_of_int tubeSegments; v = sweepT
      in mk_vertex position normalized (u, v))"

text \<open>The host buffer built by \<open>DrawTaperedTorusMesh\<close> on every call (lines 2828--2889).
  The code clamps none of its parameters.\<close>

definition DrawTaperedTorusMesh_data :: "real \<Rightarrow> real \<Rightarrow> real \<Rightarrow> int \<Rightarrow> int \<Rightarrow> real \<Rightarrow> mesh_buffer" where
  "DrawTaperedTorusMesh_data mainRadius tubeRadiusStart tubeRadiusEnd mainSegments tubeSegments sweepAngleRadians =
     (let mainStep = sweepAngleRadians / real_of_int mainSegments;
          tubeStep = 2 * pi / real_of_int tubeSegments
      in \<lparr>mb_verts = concat (map (\<lambda>i. map (tapered_torus_vertex mainRadius tubeRadiusStart tubeRadiusEnd
                                                   mainStep tubeStep mainSegments tubeSegments i)
                                         (loop_le tubeSegments))
                                (loop_le mainSegments)),
          mb_indices = grid_indices (nat mainSegments) (nat tubeSegments)\<rparr>)"

section \<open>DrawSineConeMesh\<close>

text \<open>Position \<open>(i, j)\<close> of the sine-deformed cone (lines 3259--3289): \<open>X\<close> is the height axis,
  the radius tapers as \<open>(1 - t)^0.65\<close>, and the \<open>Y\<close> offset is flattened and shifted by
  the sine term.\<close>

definition sine_cone_position ::
  "real \<Rightarrow> real \<Rightarrow> real \<Rightarrow> real \<Rightarrow> real \<Rightarrow> real \<Rightarrow> real \<Rightarrow> int \<Rightarrow> nat \<Rightarrow> nat \<Rightarrow> vec3" where
  "sine_cone_position baseRadius heightStep flattenFactor sineAmplitude sineFrequency sinePhase radialStep
                      heightSegments i j =
     (let h = real i * heightStep; t = real i / real_of_int heightSegments;
          taper = (1 - t) powr 0.65; radius = baseRadius * taper;
          sineOffset = sineAmplitude * sin (sineFrequency * t * 2 * pi + sinePhase);
          theta = real j * radialStep; y = cos theta; z = sin theta;
          radial = normalize (0, y, z);
          offset = vscale radius radial;
          oy = fst (snd offset) * (1 - flattenFactor) + sineOffset
      in (h, oy, snd (snd offset)))"

text \<open>One cell of the normal accumulation (lines 3295--3329): the two face normals of the
  quad, each the unnormalised cross product of two edges, added to the quad's corners
  with the code's weights.\<close>

definition sine_cone_accum :: "vec3 list \<Rightarrow> nat \<Rightarrow> nat \<times> nat \<Rightarrow> vec3 list \<Rightarrow> vec3 list" where
  "sine_cone_accum positions radialSegments cell normals =
     (let (i, j) = cell;
          curr = i * (radialSegments + 1) + j; next = (i + 1) * (radialSegments + 1) + j;
          i0 = curr; i1 = next; i2 = curr + 1; i3 = next + 1;
          p0 = positions ! i0; p1 = positions ! i1; p2 = positions ! i2; p3 = positions ! i3;
          n0 = cross (vsub p1 p0) (vsub p2 p0);
          n1 = cross (vsub p3 p2) (vsub p1 p2);
          area0 = vlength n0; area1 = vlength n1;
          ns0 = normals[i0 := vadd (normals ! i0) (vscale area0 n0)];
          ns1 = ns0[i1 := vadd (ns0 ! i1) (vscale (area0 + area1) (vscale 0.5 (vadd n0 n1)))];
          ns2 = ns1[i2 := vadd (ns1 ! i2) (vscale (area0 + area1) (vscale 0.5 (vadd n0 n1)))]
      in ns2[i3 := vadd (ns2 ! i3) (vscale area1 n1)])"

text \<open>The texture coordinate of flat vertex \<open>k\<close> (lines 3336--3337), recomputed from \<open>k\<close>
  by division and remainder.\<close>

definition sine_cone_uv :: "int \<Rightarrow> int \<Rightarrow> nat \<Rightarrow> vec2" where
  "sine_cone_uv radialSegments heightSegments k =
     (real (k mod (nat radialSegments + 1)) / real_of_int radialSegments,
      real (k div (nat radialSegments + 1)) / real_of_int heightSegments)"

text \<open>The host buffer built by \<open>DrawSineConeMesh\<close> on every call (lines 3245--3346).\<close>

definition DrawSineConeMesh_data ::
  "real \<Rightarrow> real \<Rightarrow> real \<Rightarrow> real \<Rightarrow> real \<Rightarrow> real \<Rightarrow> int \<Rightarrow> int \<Rightarrow> mesh_buffer" where
  "DrawSineConeMesh_data baseRadius height flattenFactor sineAmplitude sineFrequency sinePhase
                         radialSegments heightSegments =
     (let radialStep = 2 * pi / real_of_int radialSegments;
          heightStep = height / real_of_int heightSegments;
          positions = concat (map (\<lambda>i. map (sine_cone_position baseRadius heightStep flattenFactor sineAmplitude
                                                sineFrequency sinePhase radialStep heightSegments i)
                                          (loop_le radialSegments))
                                  (loop_le heightSegments));
          cells = concat (map (\<lambda>i. map (\<lambda>j. (i, j)) (loop_lt radialSegments)) (loop_lt heightSegments));
          normals = fold (sine_cone_accum positions (nat radialSegments)) cells
                         (replicate (length positions) (0, 0, 0))
      in \<lparr>mb_verts = map (\<lambda>k. mk_vertex (positions ! k) (normalize (normals ! k))
                                         (sine_cone_uv radialSegments heightSegments k))
                         [0..<length positions],
          mb_indices = grid_indices (nat heightSegments) (nat radialSegments)\<rparr>)"

section \<open>DrawSuperellipsoidMesh\<close>

text \<open>The clamp of a non-positive scale or exponent to \<open>0.1f\<close> (lines 3494--3500).\<close>

definition clamp_positive :: "real \<Rightarrow> real" where
  "clamp_positive x = (if x \<le> 0 then 0.1 else x)"

text \<open>Vertex \<open>(i, j)\<close> of the superellipsoid (lines 3555--3592), from the precomputed
  \<open>cos\<close> and \<open>sin\<close> of the two angles; \<open>sign(x) * pow(fabs(x), e)\<close> is
  \<open>sgn x * \<bar>x\<bar> powr e\<close>.\<close>

definition superellipsoid_vertex ::
  "real \<Rightarrow> real \<Rightarrow> real \<Rightarrow> real \<Rightarrow> real \<Rightarrow> int \<Rightarrow> int \<Rightarrow> real \<Rightarrow> real \<Rightarrow> real \<Rightarrow> real \<Rightarrow>
   nat \<Rightarrow> nat \<Rightarrow> vertex" where
  "superellipsoid_vertex scaleX scaleY scaleZ verticalExponent horizontalExponent uSegments vSegments
                         cu su cv sv i j =
     (let cu_e = sgn cu * \<bar>cu\<bar> powr verticalExponent;
          su_e = sgn su * \<bar>su\<bar> powr verticalExponent;
          cv_e = sgn cv * \<bar>cv\<bar> powr horizontalExponent;
          sv_e = sgn sv * \<bar>sv\<bar> powr horizontalExponent;
          x = scaleX * cu_e * cv_e; y = scaleY * cu_e * sv_e; z = scaleZ * su_e;
          nx = cu_e * cv_e / scaleX; ny = cu_e * sv_e / scaleY; nz = su_e / scaleZ;
          normal = normalize (nx, ny, nz);
          uCoord = real j / real_of_int vSegments; vCoord = real i / real_of_int uSegments
      in mk_vertex (x, y, z) normal (uCoord, vCoord))"

text \<open>The host buffer built by \<open>DrawSuperellipsoidMesh\<close> on every call (lines 3487--3614):
  the clamps, the four angle tables (\<open>u\<close> from \<open>-pi/2\<close> to \<open>pi/2\<close>, \<open>v\<close> from \<open>-pi\<close> to
  \<open>pi\<close>), the vertex grid and its cells.\<close>

definition DrawSuperellipsoidMesh_data ::
  "real \<Rightarrow> real \<Rightarrow> real \<Rightarrow> real \<Rightarrow> real \<Rightarrow> int \<Rightarrow> int \<Rightarrow> mesh_buffer" where
  "DrawSuperellipsoidMesh_data scaleX0 scaleY0 scaleZ0 verticalExponent0 horizontalExponent0 uSegments0 vSegments0 =
     (let uSegments = clamp_min 3 uSegments0; vSegments = clamp_min 3 vSegments0;
          scaleX = clamp_positive scaleX0; scaleY = clamp_positive scaleY0; scaleZ = clamp_positive scaleZ0;
          verticalExponent = clamp_positive verticalExponent0;
          horizontalExponent = clamp_positive horizontalExponent0;
          angU = (\<lambda>i. - pi * 0.5 + real i / real_of_int uSegments * pi);
          angV = (\<lambda>j. - pi + real j / real_of_int vSegments * (2 * pi));
          cosU = map (\<lambda>i. cos (angU i)) (loop_le uSegments); sinU = map (\<lambda>i. sin (angU i)) (loop_le uSegments);
          cosV = map (\<lambda>j. cos (angV j)) (loop_le vSegments); sinV = map (\<lambda>j. sin (angV j)) (loop_le vSegments)
      in \<lparr>mb_verts = concat (map (\<lambda>i. map (\<lambda>j. superellipsoid_vertex scaleX scaleY scaleZ verticalExponent
                                                   horizontalExponent uSegments vSegments
                                                   (cosU ! i) (sinU ! i) (cosV ! j) (sinV ! j) i j)
                                         (loop_le vSegments))
                                (loop_le uSegments)),
          mb_indices = grid_indices (nat uSegments) (nat vSegments)\<rparr>)"

section \<open>Shared lemmas of the custom surfaces\<close>

lemma length_grid_verts [mesh_len]:
  "length (concat (map (\<lambda>a. map (f a) (loop_le cols)) (loop_le rows))) = nat (rows + 1) * nat (cols + 1)"
  by (simp add: length_concat_map_const)

text \<open>A vertex list of \<open>(rows + 1) * (cols + 1)\<close> entries with the cells of \<open>grid_indices\<close>
  is well formed, for all integer bounds.\<close>

lemma grid_length_wf:
  assumes "length vs = nat (rows + 1) * nat (cols + 1)"
  shows "mesh_wf \<lparr>mb_verts = vs, mb_indices = grid_indices (nat rows) (nat cols)\<rparr>"
proof (cases "0 \<le> rows \<and> 0 \<le> cols")
  case True
  then have "length vs = (nat rows + 1) * (nat cols + 1)" using assms by (simp add: nat_add_distrib)
  then show ?thesis using grid_indices_below [of "nat rows" "nat cols"]
    by (simp add: mesh_wf_def length_grid_indices)
next
  case False
  then have "nat rows = 0 \<or> nat cols = 0" by auto
  then show ?thesis by (auto simp: mesh_wf_def grid_indices_def)
qed

lemma nth_map_loop_le:
  "i \<in> set (loop_le n) \<Longrightarrow> map f (loop_le n) ! i = f i"
  by (simp add: loop_le_def)

lemma vscale_zero [simp]: "vscale 0 v = (0, 0, 0)"
  by (cases v) simp

lemma normalize_zero [simp]: "normalize (0, 0, 0) = (0, 0, 0)"
  by (simp add: normalize_def)

lemma vlength_nonzero: "vlength v = 1 \<Longrightarrow> v \<noteq> (0, 0, 0)"
  by (auto simp: vlength_def)

lemma vlength_torus_dir: "vlength (cos p * cos t, cos p * sin t, sin p) = 1"
proof -
  have "dot (cos p * cos t, cos p * sin t, sin p) (cos p * cos t, cos p * sin t, sin p)
        = (cos p)\<^sup>2 * ((sin t)\<^sup>2 + (cos t)\<^sup>2) + (sin p)\<^sup>2"
    unfolding dot.simps power2_eq_square by algebra
  also have "\<dots> = 1" by simp
  finally show ?thesis by (simp add: vlength_def)
qed

lemma length_sine_cone_accum [simp]: "length (sine_cone_accum ps r c ns) = length ns"
  by (cases c) (simp add: sine_cone_accum_def Let_def)

lemma length_fold_sine_cone_accum [simp]: "length (fold (sine_cone_accum ps r) cs ns) = length ns"
  by (induction cs arbitrary: ns) simp_all

lemma length_DrawSineConeMesh_verts:
  "length (mb_verts (DrawSineConeMesh_data b h f a q p R H)) = nat (H + 1) * nat (R + 1)"
  by (simp add: DrawSineConeMesh_data_def Let_def length_grid_verts)

lemma DrawSineConeMesh_indices:
  "mb_indices (DrawSineConeMesh_data b h f a q p R H) = grid_indices (nat H) (nat R)"
  by (simp add: DrawSineConeMesh_data_def Let_def)

lemma clamp_positive_pos: "0 < clamp_positive x"
  by (simp add: clamp_positive_def)

text \<open>\<open>sign(x) * pow(fabs(x), e)\<close> vanishes only at zero.\<close>

lemma signed_powr_zero_iff: "sgn x * \<bar>x\<bar> powr e = 0 \<longleftrightarrow> x = (0::real)"
  by (simp add: sgn_0_0)

lemma superellipsoid_normal_unit:
  assumes "0 < sX" "0 < sY" "0 < sZ" "cu \<noteq> 0 \<or> su \<noteq> 0" "cv \<noteq> 0 \<or> sv \<noteq> 0"
  shows "vlength (normal (superellipsoid_vertex sX sY sZ ve he us vs cu su cv sv i j)) = 1"
proof -
  let ?cu = "sgn cu * \<bar>cu\<bar> powr ve" and ?su = "sgn su * \<bar>su\<bar> powr ve"
  let ?cv = "sgn cv * \<bar>cv\<bar> powr he" and ?sv = "sgn sv * \<bar>sv\<bar> powr he"
  have "(?cu * ?cv / sX, ?cu * ?sv / sY, ?su / sZ) \<noteq> (0, 0, 0)"
    using assms by (auto simp: sgn_0_0 simp del: sgn_mult)
  then show ?thesis by (simp add: superellipsoid_vertex_def Let_def mk_vertex_def vlength_normalize)
qed

lemma in_set_concat_mapI: "x \<in> set xs \<Longrightarrow> y \<in> set (f x) \<Longrightarrow> y \<in> set (concat (map f xs))"
  by auto

text \<open>The last ring of the curved cone (\<open>step = curveSteps\<close>, so \<open>t = 1\<close>) has radius zero.\<close>

lemma curved_cone_tip_normal:
  assumes "1 \<le> C"
  shows "normal (curved_cone_vertex r bR bA aS S C (nat C) j) = (0, 0, 0)"
proof -
  have t: "real (nat C) / real_of_int C = 1" using assms by simp
  show ?thesis
    unfolding curved_cone_vertex_def Let_def mk_vertex_def vertex.simps t
    by simp
qed

lemma DrawSineConeMesh_texCoord:
  "k < length (mb_verts (DrawSineConeMesh_data b h f a q p R H)) \<Longrightarrow>
   texCoord (mb_verts (DrawSineConeMesh_data b h f a q p R H) ! k) = sine_cone_uv R H k"
  by (simp add: DrawSineConeMesh_data_def Let_def mk_vertex_def)

lemma grid_flat_index_bound:
  assumes "i \<le> rows" "j \<le> (cols::nat)"
  shows "i * (cols + 1) + j < (rows + 1) * (cols + 1)"
proof -
  have "i * (cols + 1) + j < (i + 1) * (cols + 1)" using assms(2) by (simp add: add_mult_distrib)
  also have "\<dots> \<le> (rows + 1) * (cols + 1)" using assms(1) by (intro mult_le_mono1) simp
  finally show ?thesis .
qed

lemma grid_flat_index_mod_div:
  assumes "j < (n::nat)"
  shows "(i * n + j) mod n = j" "(i * n + j) div n = i"
  using assms by simp_all

lemma DrawSineConeMesh_wf: "mesh_wf (DrawSineConeMesh_data b h f a q p R H)"
  using grid_length_wf [OF length_DrawSineConeMesh_verts]
  by (simp add: mesh_wf_def DrawSineConeMesh_indices)

lemma custom_meshes_wf:
  "mesh_wf (LoadCurvedConeMesh_data n c r h bR)"
  "mesh_wf (DrawTaperedTorusMesh_data mR r0 r1 m t s)"
  "mesh_wf (DrawSuperellipsoidMesh_data sX sY sZ ve he u v)"
  by (simp_all add: LoadCurvedConeMesh_data_def DrawTaperedTorusMesh_data_def DrawSuperellipsoidMesh_data_def
                    Let_def grid_length_wf length_grid_verts)

section \<open>Properties of the custom surfaces\<close>

text \<open>C17. Every index of the four custom surfaces names a vertex of the same buffer and
  the index lists are whole triangles, for all parameters, the unclamped tapered torus and
  sine cone included.\<close>

theorem custom_surfaces_wf:
  "mesh_wf (LoadCurvedConeMesh_data n c r h bR)
   \<and> mesh_wf (DrawTaperedTorusMesh_data mR r0 r1 m t s)
   \<and> mesh_wf (DrawSineConeMesh_data b ht f a q p R H)
   \<and> mesh_wf (DrawSuperellipsoidMesh_data sX sY sZ ve he u v)"
  by (simp add: custom_meshes_wf DrawSineConeMesh_wf)

text \<open>Every normal of the tapered torus has length 1: the analytic direction
  \<open>(cos phi cos theta, cos phi sin theta, sin phi)\<close> is already a unit vector.\<close>

theorem DrawTaperedTorusMesh_unit_normals:
  "unit_normals (mb_verts (DrawTaperedTorusMesh_data mR r0 r1 m t s))"
proof -
  have "vlength (normal (tapered_torus_vertex mR r0 r1 ms ts m t i j)) = 1" for ms ts i j
    using vlength_normalize [OF vlength_nonzero [OF vlength_torus_dir]]
    by (simp add: tapered_torus_vertex_def Let_def mk_vertex_def)
  then show ?thesis
    by (simp add: DrawTaperedTorusMesh_data_def Let_def unit_normals_concat_map unit_normals_map)
qed

text \<open>C21. Every normal of the superellipsoid has length 1, for all parameters: the clamped
  scales are positive and the exponentiated direction never vanishes.\<close>

theorem DrawSuperellipsoidMesh_unit_normals:
  "unit_normals (mb_verts (DrawSuperellipsoidMesh_data sX sY sZ ve he u v))"
proof -
  have norm: "vlength (normal (superellipsoid_vertex (clamp_positive sX) (clamp_positive sY) (clamp_positive sZ)
                                  ve' he' us vs cu su cv sv i j)) = 1"
    if "cu \<noteq> 0 \<or> su \<noteq> 0" "cv \<noteq> 0 \<or> sv \<noteq> 0" for ve' he' us vs cu su cv sv i j
    using that by (intro superellipsoid_normal_unit clamp_positive_pos)
  show ?thesis
    by (simp add: DrawSuperellipsoidMesh_data_def Let_def unit_normals_concat_map unit_normals_map)
       (intro allI impI norm; simp; metis cos_sin_not_both_zero)
qed

text \<open>C18. The last ring of the curved cone has radius \<open>radius * (1 - 1) = 0\<close>, so its
  offsets are the zero vector and \<open>glm::normalize(offset)\<close> divides by zero (a NaN normal
  in the float code, the zero vector here): for every parameter the buffer holds a
  vertex without a unit normal, against the unit-normal rule of the spec.\<close>

theorem LoadCurvedConeMesh_tip_normal:
  "(0, 0, 0) \<in> normal ` set (mb_verts (LoadCurvedConeMesh_data n c r h bR))"
proof -
  define S where "S = clamp_min 3 n"
  define C where "C = clamp_min 1 c"
  have C: "1 \<le> C" by (simp add: C_def)
  have S: "0 \<le> S" by (simp add: S_def clamp_min_nonneg)
  let ?f = "curved_cone_vertex r bR (h / bR) (2 * pi / real_of_int S) S C"
  have eq: "mb_verts (LoadCurvedConeMesh_data n c r h bR)
            = concat (map (\<lambda>step. map (?f step) (loop_le S)) (loop_le C))"
    by (simp only: LoadCurvedConeMesh_data_def Let_def S_def C_def mesh_buffer.simps)
  have m1: "nat C \<in> set (loop_le C)" using C by simp
  have m2: "0 \<in> set (loop_le S)" using S by simp
  have mem: "?f (nat C) 0 \<in> set (mb_verts (LoadCurvedConeMesh_data n c r h bR))"
    unfolding eq by (rule in_set_concat_mapI [OF m1]) (rule imageI [OF m2, THEN set_map [THEN equalityD2, THEN subsetD]])
  show ?thesis by (rule image_eqI [where f = normal, OF curved_cone_tip_normal [OF C, symmetric] mem])
qed

text \<open>C34. \<open>DrawTaperedTorusMesh\<close> clamps none of its segment counts (spec section 4.1 asks
  for a clamp to at least 3): with \<open>mainSegments \<le> 0\<close> or \<open>tubeSegments \<le> 0\<close> the index
  list is empty and the call draws nothing, silently.\<close>

theorem DrawTaperedTorusMesh_empty:
  "mb_indices (DrawTaperedTorusMesh_data mR r0 r1 m t s) = [] \<longleftrightarrow> m \<le> 0 \<or> t \<le> 0"
proof -
  have "grid_indices (nat m) (nat t) = [] \<longleftrightarrow> 6 * nat m * nat t = 0"
    by (metis length_0_conv length_grid_indices)
  then show ?thesis by (simp add: DrawTaperedTorusMesh_data_def Let_def)
qed

text \<open>\<open>DrawSuperellipsoidMesh\<close> clamps both segment counts to at least 3: the buffer
  always holds \<open>(max 3 uSegments + 1) * (max 3 vSegments + 1)\<close> vertices and six indices per
  grid cell, the counts it stores in \<open>nVertices\<close> and \<open>nIndices\<close>.\<close>

lemma DrawSuperellipsoidMesh_counts:
  "length (mb_verts (DrawSuperellipsoidMesh_data sX sY sZ ve he u v)) = (nat (max 3 u) + 1) * (nat (max 3 v) + 1)
   \<and> length (mb_indices (DrawSuperellipsoidMesh_data sX sY sZ ve he u v)) = 6 * nat (max 3 u) * nat (max 3 v)"
proof -
  have c: "clamp_min 3 x = max 3 x" for x by (simp add: clamp_min_def max_def)
  show ?thesis
    by (simp add: DrawSuperellipsoidMesh_data_def Let_def length_grid_verts length_grid_indices c nat_add_distrib)
qed

text \<open>C39. \<open>DrawSineConeMesh\<close> recomputes each texture coordinate from the flat vertex number
  \<open>k\<close> as \<open>(k % (radialSegments + 1), k / (radialSegments + 1))\<close>; this agrees with the
  nested loops: vertex \<open>j\<close> of ring \<open>i\<close> gets \<open>(j / radialSegments, i / heightSegments)\<close>.\<close>

theorem DrawSineConeMesh_uv:
  assumes "0 \<le> R" "0 \<le> H" "i \<le> nat H" "j \<le> nat R"
  shows "texCoord (mb_verts (DrawSineConeMesh_data b h f a q p R H) ! (i * (nat R + 1) + j))
         = (real j / real_of_int R, real i / real_of_int H)"
proof -
  have "i * (nat R + 1) + j < (nat H + 1) * (nat R + 1)" using assms(3,4) by (rule grid_flat_index_bound)
  then have "i * (nat R + 1) + j < length (mb_verts (DrawSineConeMesh_data b h f a q p R H))"
    using assms(1,2) by (simp add: length_DrawSineConeMesh_verts nat_add_distrib)
  then have "texCoord (mb_verts (DrawSineConeMesh_data b h f a q p R H) ! (i * (nat R + 1) + j))
             = sine_cone_uv R H (i * (nat R + 1) + j)"
    by (rule DrawSineConeMesh_texCoord)
  moreover have "j < nat R + 1" using assms(4) by simp
  ultimately show ?thesis by (simp only: sine_cone_uv_def grid_flat_index_mod_div)
qed

theorem DrawSineConeMesh_uv_witness:
  "texCoord (mb_verts (DrawSineConeMesh_data 1 2 0 0 0 0 4 2) ! 6) = (1 / 4, 1 / 2)"
  using DrawSineConeMesh_uv [where R = 4 and H = 2 and i = 1 and j = 1 and b = 1 and h = 2
                                 and f = 0 and a = 0 and q = 0 and p = 0]
  by simp

end
