(* ===== verification/Spiral.thy ===== *)
theory Spiral
  imports Custom_Surfaces
begin

text \<open>
  The host buffer of \<open>DrawSpiralMesh\<close> (\<open>ShapeMeshes.cpp\<close>, lines 2956--3165): an expanding
  planar spiral centreline starting half a turn in, tangents by finite differences, a
  frame propagated from ring to ring by \<open>glm::rotate\<close>, a tube of rings around it, and a
  hemispherical cap of 8 rings stitched to the first ring. The code reads \<open>centers[1]\<close>
  and \<open>centers[0]\<close> without checking the ring count and converts \<open>startAngle / spiralStep\<close>
  to \<open>int\<close> without a range check; both undefined behaviours are the values of
  \<open>spiral_error\<close>, and \<open>DrawSpiralMesh_data\<close> returns \<open>spiral_error + mesh_buffer\<close>.
\<close>

section \<open>glm helpers\<close>

text \<open>\<open>glm::clamp(x, lo, hi) = min(max(x, lo), hi)\<close>.\<close>

definition glm_clamp :: "real \<Rightarrow> real \<Rightarrow> real \<Rightarrow> real" where
  "glm_clamp x lo hi = min (max x lo) hi"

text \<open>\<open>glm::mat3(glm::rotate(glm::mat4(1.0f), angle, v)) * p\<close>: glm normalizes the axis and
  builds the three columns of the rotation; the product sums the columns weighted by the
  coordinates of \<open>p\<close>.\<close>

definition glm_rotate_apply :: "real \<Rightarrow> vec3 \<Rightarrow> vec3 \<Rightarrow> vec3" where
  "glm_rotate_apply angle v p =
     (let c = cos angle; s = sin angle; (a0, a1, a2) = normalize v;
          t0 = (1 - c) * a0; t1 = (1 - c) * a1; t2 = (1 - c) * a2;
          col0 = (c + t0 * a0, t0 * a1 + s * a2, t0 * a2 - s * a1);
          col1 = (t1 * a0 - s * a2, c + t1 * a1, t1 * a2 + s * a0);
          col2 = (t2 * a0 + s * a1, t2 * a1 - s * a0, c + t2 * a2);
          (x, y, z) = p
      in vadd (vadd (vscale x col0) (vscale y col1)) (vscale z col2))"

text \<open>\<open>static_cast<int>(x)\<close> of a finite float: truncation toward zero, undefined (\<open>None\<close>)
  when the truncated value is not an \<open>int\<close>.\<close>

definition static_cast_int :: "real \<Rightarrow> int option" where
  "static_cast_int x =
     (if - (2 ^ 31) - 1 < x \<and> x < 2 ^ 31 then Some (if 0 \<le> x then \<lfloor>x\<rfloor> else \<lceil>x\<rceil>) else None)"

section \<open>Centreline, tangents and frames\<close>

datatype spiral_error = CastOverflow | CenterOutOfRange

text \<open>\<open>int startSegment = static_cast<int>(startAngle / spiralStep)\<close> (line 2976): a zero
  step makes the quotient infinite, also undefined.\<close>

definition spiral_start_segment :: "real \<Rightarrow> real \<Rightarrow> int option" where
  "spiral_start_segment startAngle spiralStep =
     (if spiralStep = 0 then None else static_cast_int (startAngle / spiralStep))"

text \<open>The centreline loop (lines 2985--2993): \<open>i\<close> from \<open>startSegment\<close> to
  \<open>spiralSegments\<close>, leaving at the first \<open>theta > totalAngle\<close>.\<close>

definition spiral_centers :: "real \<Rightarrow> real \<Rightarrow> real \<Rightarrow> int \<Rightarrow> int \<Rightarrow> vec3 list" where
  "spiral_centers loopSpacing spiralStep totalAngle startSegment spiralSegments =
     map (\<lambda>i. let theta = real_of_int i * spiralStep; radius = loopSpacing * theta / (2 * pi)
              in (radius * cos theta, radius * sin theta, 0))
         (takeWhile (\<lambda>i. \<not> totalAngle < real_of_int i * spiralStep) [startSegment..spiralSegments])"

text \<open>The tangent loop (lines 2998--3010): one-sided differences at the two ends, central
  differences inside.\<close>

definition spiral_tangents :: "vec3 list \<Rightarrow> vec3 list" where
  "spiral_tangents centers =
     (let ringCount = length centers
      in map (\<lambda>i. if i = 0 then normalize (vsub (centers ! 1) (centers ! 0))
                  else if i = ringCount - 1 then normalize (vsub (centers ! (ringCount - 1)) (centers ! (ringCount - 2)))
                  else normalize (vsub (centers ! (i + 1)) (centers ! (i - 1))))
             [0..<ringCount])"

text \<open>The frame of rings \<open>1, 2, ...\<close> (lines 3029--3038): the previous normal rotated by the
  angle between consecutive tangents about their normalized cross product.\<close>

fun spiral_frames_from :: "vec3 \<Rightarrow> vec3 \<Rightarrow> vec3 list \<Rightarrow> (vec3 \<times> vec3) list" where
  "spiral_frames_from prevT prevNormal [] = []"
| "spiral_frames_from prevT prevNormal (t # ts) =
     (let axis = normalize (cross prevT t);
          angle = arccos (glm_clamp (dot prevT t) (-1) 1);
          normal = normalize (glm_rotate_apply angle axis prevNormal);
          binormal = normalize (cross t normal)
      in (normal, binormal) # spiral_frames_from t normal ts)"

text \<open>The frame of ring 0 from \<open>worldUp\<close> (lines 3024--3027), then the propagated ones.\<close>

definition spiral_frames :: "vec3 \<Rightarrow> vec3 list \<Rightarrow> (vec3 \<times> vec3) list" where
  "spiral_frames worldUp tangents =
     (case tangents of
        [] \<Rightarrow> []
      | t0 # ts \<Rightarrow> (let binormal = normalize (cross t0 worldUp); normal = normalize (cross binormal t0)
                    in (normal, binormal) # spiral_frames_from t0 normal ts))"

section \<open>Rings, cap and indices\<close>

text \<open>Vertex \<open>j\<close> of a tube ring (lines 3044--3066).\<close>

definition spiral_ring_vertex ::
  "real \<Rightarrow> real \<Rightarrow> real \<Rightarrow> int \<Rightarrow> real \<Rightarrow> vec3 \<Rightarrow> vec3 \<times> vec3 \<Rightarrow> nat \<Rightarrow> vertex" where
  "spiral_ring_vertex tubeRadius flattenFactor tubeStep tubeSegments sweepT center frame j =
     (let (normal, binormal) = frame;
          phi = real j * tubeStep; x = cos phi; y = sin phi;
          offset = vadd (vscale (x * (1 - flattenFactor)) normal) (vscale y binormal);
          position = vadd center (vscale tubeRadius offset);
          normalVec = normalize offset;
          u = real j / real_of_int tubeSegments; v = sweepT
      in mk_vertex position normalVec (u, v))"

text \<open>Vertex \<open>j\<close> of cap ring \<open>i\<close> (lines 3104--3131).\<close>

definition spiral_cap_vertex ::
  "real \<Rightarrow> real \<Rightarrow> real \<Rightarrow> int \<Rightarrow> nat \<Rightarrow> vec3 \<Rightarrow> vec3 \<Rightarrow> vec3 \<Rightarrow> vec3 \<Rightarrow> nat \<Rightarrow> nat \<Rightarrow> vertex" where
  "spiral_cap_vertex tubeRadius flattenFactor tubeStep capSegments capRings capCenter capTangent capNormal capBinormal
                     i j =
     (let theta = real i * pi * 0.5 / real capRings; r = sin theta; z = cos theta;
          phi = real j * tubeStep; x = cos phi; y = sin phi;
          radial = vadd (vscale (x * (1 - flattenFactor)) capNormal) (vscale y capBinormal);
          offset = vadd (vscale (r * tubeRadius) radial) (vscale (z * tubeRadius) capTangent);
          position = vsub capCenter offset;
          normalVec = normalize (vscale (- 1) offset);
          u = real j / real_of_int capSegments; v = - z
      in mk_vertex position normalVec (u, v))"

text \<open>The quad between ring \<open>i\<close> and ring \<open>i + 1\<close> of a band of rings of \<open>stride\<close> vertices
  starting at \<open>base\<close>, the last column wrapping to the first (lines 3077--3092 for the tube
  with \<open>base = 0\<close>, lines 3134--3149 for the cap).\<close>

definition spiral_cell :: "nat \<Rightarrow> nat \<Rightarrow> nat \<Rightarrow> nat \<Rightarrow> nat list" where
  "spiral_cell stride base i j =
     (let curr = base + i * stride + j; next = base + (i + 1) * stride + j;
          currNext = base + i * stride + (j + 1) mod stride;
          nextNext = base + (i + 1) * stride + (j + 1) mod stride
      in [curr, next, currNext, currNext, next, nextNext])"

text \<open>The quad joining the last cap ring to the first tube ring (lines 3152--3165).\<close>

definition spiral_join :: "nat \<Rightarrow> nat \<Rightarrow> nat \<Rightarrow> nat list \<Rightarrow> nat \<Rightarrow> nat list" where
  "spiral_join capSegments baseIndex capRings ringStartIndices j =
     (let capRing = baseIndex + (capRings - 1) * capSegments + j;
          tubeRing = ringStartIndices ! j;
          capNext = baseIndex + (capRings - 1) * capSegments + (j + 1) mod capSegments;
          tubeNext = ringStartIndices ! ((j + 1) mod capSegments)
      in [capRing, tubeRing, capNext, capNext, tubeRing, tubeNext])"

text \<open>The tube rings (lines 2995--3074): the tangents, the frames and \<open>tubeSegments\<close>
  vertices per ring.\<close>

definition spiral_tube_verts :: "real \<Rightarrow> real \<Rightarrow> int \<Rightarrow> vec3 list \<Rightarrow> vertex list" where
  "spiral_tube_verts tubeRadius flattenFactor tubeSegments centers =
     (let tubeStep = 2 * pi / real_of_int tubeSegments; worldUp = (1, 0, 0);
          ringCount = length centers; tangents = spiral_tangents centers;
          frames = spiral_frames worldUp tangents
      in concat (map (\<lambda>i. map (spiral_ring_vertex tubeRadius flattenFactor tubeStep tubeSegments
                                  (real i / real (ringCount - 1)) (centers ! i) (frames ! i))
                             (loop_lt tubeSegments))
                     [0..<ringCount]))"

text \<open>The cap rings \<open>1 .. 8\<close> (lines 3094--3131), in the frame of ring 0 rebuilt from
  \<open>tangents[0]\<close> and \<open>worldUp\<close>. The tangents are a function of the centreline, so
  recomputing them here gives the vectors the code reuses.\<close>

definition spiral_cap_verts :: "real \<Rightarrow> real \<Rightarrow> int \<Rightarrow> vec3 list \<Rightarrow> vertex list" where
  "spiral_cap_verts tubeRadius flattenFactor tubeSegments centers =
     (let tubeStep = 2 * pi / real_of_int tubeSegments; worldUp = (1, 0, 0);
          capCenter = centers ! 0; capTangent = spiral_tangents centers ! 0;
          capBinormal = normalize (cross capTangent worldUp);
          capNormal = normalize (cross capBinormal capTangent);
          capRings = 8
      in concat (map (\<lambda>i. map (spiral_cap_vertex tubeRadius flattenFactor tubeStep tubeSegments capRings
                                 capCenter capTangent capNormal capBinormal i)
                            (loop_lt tubeSegments))
                     [1..<capRings + 1]))"

text \<open>The index bands: tube quads (lines 3077--3092), cap quads (lines 3134--3149) and the
  join (lines 3152--3165). \<open>ringStartIndices\<close> holds the first ring's vertex numbers
  \<open>0 .. tubeSegments - 1\<close>, and the cap starts at \<open>baseIndex = verts.size() / 8\<close>.\<close>

definition spiral_buffer :: "real \<Rightarrow> real \<Rightarrow> int \<Rightarrow> vec3 list \<Rightarrow> mesh_buffer" where
  "spiral_buffer tubeRadius flattenFactor tubeSegments centers =
     (let ringCount = length centers; ringStride = nat tubeSegments;
          tube = spiral_tube_verts tubeRadius flattenFactor tubeSegments centers;
          ringStartIndices = loop_lt tubeSegments;
          tubeIdx = concat (map (\<lambda>i. concat (map (spiral_cell ringStride 0 i) (loop_lt tubeSegments)))
                                [0..<ringCount - 1]);
          capRings = 8; capSegments = nat tubeSegments; baseIndex = length tube;
          capIdx = concat (map (\<lambda>i. concat (map (spiral_cell capSegments baseIndex i) (loop_lt tubeSegments)))
                               [0..<capRings - 1]);
          joinIdx = concat (map (spiral_join capSegments baseIndex capRings ringStartIndices) (loop_lt tubeSegments))
      in \<lparr>mb_verts = tube @ spiral_cap_verts tubeRadius flattenFactor tubeSegments centers,
          mb_indices = tubeIdx @ capIdx @ joinIdx\<rparr>)"

text \<open>\<open>DrawSpiralMesh(tubeRadius, flattenFactor, loopSpacing, numLoops, tubeSegments,
  spiralSegments)\<close> up to the upload (lines 2956--3165). A zero \<open>spiralSegments\<close> makes
  \<open>spiralStep\<close> infinite or NaN in the float code, which ends in the same unchecked read
  of \<open>centers[1]\<close>; over the reals the quotient is 0 and the model reports the cast.\<close>

definition DrawSpiralMesh_data :: "real \<Rightarrow> real \<Rightarrow> real \<Rightarrow> real \<Rightarrow> int \<Rightarrow> int \<Rightarrow> spiral_error + mesh_buffer" where
  "DrawSpiralMesh_data tubeRadius flattenFactor loopSpacing numLoops tubeSegments spiralSegments =
     (let totalAngle = numLoops * 2 * pi;
          spiralStep = totalAngle / real_of_int spiralSegments;
          startAngle = pi
      in case spiral_start_segment startAngle spiralStep of
           None \<Rightarrow> Inl CastOverflow
         | Some startSegment \<Rightarrow>
             (let centers = spiral_centers loopSpacing spiralStep totalAngle startSegment spiralSegments
              in if length centers < 2 then Inl CenterOutOfRange
                 else Inr (spiral_buffer tubeRadius flattenFactor tubeSegments centers)))"


section \<open>Lemmas\<close>

lemma length_spiral_tangents [simp]: "length (spiral_tangents cs) = length cs"
  by (simp add: spiral_tangents_def Let_def)


lemma length_spiral_frames_from [simp]: "length (spiral_frames_from t n ts) = length ts"
  by (induction ts arbitrary: t n) (simp_all add: Let_def)


lemma length_spiral_frames [simp]: "length (spiral_frames up ts) = length ts"
  by (cases ts) (simp_all add: spiral_frames_def Let_def)


lemma spiral_frames_nth0:
  "ts \<noteq> [] \<Longrightarrow> spiral_frames up ts ! 0
     = (normalize (cross (normalize (cross (ts ! 0) up)) (ts ! 0)), normalize (cross (ts ! 0) up))"
  by (cases ts) (simp_all add: spiral_frames_def Let_def)


lemma length_spiral_tube_verts [simp]: "length (spiral_tube_verts R f T cs) = length cs * nat T"
  by (simp add: spiral_tube_verts_def Let_def length_concat_map_const)


lemma length_spiral_cap_verts [simp]: "length (spiral_cap_verts R f T cs) = 8 * nat T"
  by (simp add: spiral_cap_verts_def Let_def length_concat_map_const)


lemma spiral_cell_below:
  assumes "i + 1 < rows" "j < stride"
  shows "indices_below (base + rows * stride) (spiral_cell stride base i j)"
proof -
  have m: "Suc j mod stride < stride" using assms(2) by simp
  have "(i + 2) * stride \<le> rows * stride" using assms(1) by (intro mult_le_mono1) simp
  then show ?thesis using assms m by (simp add: spiral_cell_def Let_def algebra_simps) (insert m, intro conjI; linarith)
qed


lemma spiral_join_below:
  assumes "j < T" "0 < rc"
  shows "indices_below (rc * T + 8 * T) (spiral_join T (rc * T) 8 [0..<T] j)"
proof -
  have m: "Suc j mod T < T" using assms(1) by simp
  have "T \<le> rc * T" using assms(2) by simp
  then show ?thesis using assms m by (simp add: spiral_join_def Let_def) (insert m, linarith)
qed


lemma spiral_buffer_wf_aux:
  assumes "0 < length cs"
  shows "mesh_wf (spiral_buffer R f T cs)"
proof -
  let ?rc = "length cs" and ?T = "nat T"
  have j: "j < ?T" if "j \<in> set (loop_lt T)" for j using that by auto
  have tube: "indices_below (?rc * ?T + 8 * ?T) (spiral_cell ?T 0 i j)"
    if "i < ?rc - 1" "j \<in> set (loop_lt T)" for i j
  proof -
    have "indices_below (0 + ?rc * ?T) (spiral_cell ?T 0 i j)"
      using that j by (intro spiral_cell_below) auto
    then show ?thesis by (rule indices_below_mono) simp
  qed
  have cap: "indices_below (?rc * ?T + 8 * ?T) (spiral_cell ?T (?rc * ?T) i j)"
    if "i < 8 - 1" "j \<in> set (loop_lt T)" for i j
    using that j by (intro spiral_cell_below) auto
  have join: "indices_below (?rc * ?T + 8 * ?T) (spiral_join ?T (?rc * ?T) 8 (loop_lt T) j)"
    if "j \<in> set (loop_lt T)" for j
    using spiral_join_below [OF j [OF that] assms] by (simp add: loop_lt_def)
  have "length (concat (map (\<lambda>i. concat (map (spiral_cell ?T b i) (loop_lt T))) xs)) = 6 * ?T * length xs" for b xs
    by (simp add: length_concat_map_const spiral_cell_def Let_def)
  moreover have "length (concat (map (spiral_join ?T b 8 (loop_lt T)) (loop_lt T))) = 6 * ?T" for b
    by (simp add: length_concat_map_const spiral_join_def Let_def)
  ultimately show ?thesis using tube cap join
    by (simp add: mesh_wf_def spiral_buffer_def Let_def indices_below_concat_map)
qed


lemma spiral_buffer_tube_nth:
  assumes "0 < length cs" "j < nat T"
  shows "mb_verts (spiral_buffer R f T cs) ! j
         = spiral_ring_vertex R f (2 * pi / real_of_int T) T 0 (cs ! 0)
             (spiral_frames (1, 0, 0) (spiral_tangents cs) ! 0) j"
proof -
  have "nat T \<le> length cs * nat T" using assms(1) by (cases cs) auto
  then have l: "j < length (spiral_tube_verts R f T cs)" using assms(2) unfolding length_spiral_tube_verts by linarith
  have "[0..<length cs] = 0 # [1..<length cs]" using assms(1) by (simp add: upt_conv_Cons)
  then have "spiral_tube_verts R f T cs ! j = spiral_ring_vertex R f (2 * pi / real_of_int T) T 0 (cs ! 0)
             (spiral_frames (1, 0, 0) (spiral_tangents cs) ! 0) j"
    using assms(2) by (simp add: spiral_tube_verts_def Let_def nth_append loop_lt_def)
  then show ?thesis using l by (simp add: spiral_buffer_def Let_def nth_append)
qed


lemma spiral_buffer_cap_nth:
  assumes "j < nat T"
  shows "mb_verts (spiral_buffer R f T cs) ! (length cs * nat T + 7 * nat T + j)
         = spiral_cap_vertex R f (2 * pi / real_of_int T) T 8 (cs ! 0) (spiral_tangents cs ! 0)
             (normalize (cross (normalize (cross (spiral_tangents cs ! 0) (1, 0, 0))) (spiral_tangents cs ! 0)))
             (normalize (cross (spiral_tangents cs ! 0) (1, 0, 0))) 8 j"
proof -
  let ?cv = "spiral_cap_vertex R f (2 * pi / real_of_int T) T 8 (cs ! 0) (spiral_tangents cs ! 0)
             (normalize (cross (normalize (cross (spiral_tangents cs ! 0) (1, 0, 0))) (spiral_tangents cs ! 0)))
             (normalize (cross (spiral_tangents cs ! 0) (1, 0, 0)))"
  have "concat (map (\<lambda>i. map (?cv i) (loop_lt T)) [1..<8 + 1]) ! (nat T * 7 + j)
        = map (?cv ([1..<8 + 1] ! 7)) (loop_lt T) ! j"
    by (rule nth_concat_map_const) (simp_all add: assms)
  moreover have "spiral_cap_verts R f T cs = concat (map (\<lambda>i. map (?cv i) (loop_lt T)) [1..<8 + 1])"
    by (simp only: spiral_cap_verts_def Let_def)
  moreover have "map (?cv ([1..<8 + 1] ! 7)) (loop_lt T) ! j = ?cv 8 j"
    using assms by (simp add: loop_lt_def)
  ultimately have "spiral_cap_verts R f T cs ! (7 * nat T + j) = ?cv 8 j"
    by (simp only: mult.commute [of 7])
  then show ?thesis by (simp add: spiral_buffer_def Let_def nth_append)
qed


lemma spiral_buffer_join_nth:
  assumes "j < nat T"
  shows "mb_indices (spiral_buffer R f T cs) ! (6 * nat T * (length cs - 1) + 6 * nat T * 7 + 6 * j)
           = length cs * nat T + 7 * nat T + j
         \<and> mb_indices (spiral_buffer R f T cs) ! (6 * nat T * (length cs - 1) + 6 * nat T * 7 + 6 * j + 1) = j"
proof -
  let ?J = "spiral_join (nat T) (length cs * nat T) 8 (loop_lt T)"
  have l6: "length (?J x) = 6" for x by (simp add: spiral_join_def Let_def)
  have lc: "length (concat (map (\<lambda>i. concat (map (spiral_cell (nat T) b i) (loop_lt T))) xs)) = 6 * nat T * length xs"
    for b xs by (simp add: length_concat_map_const spiral_cell_def Let_def)
  have "concat (map ?J (loop_lt T)) ! (6 * j + k) = ?J (loop_lt T ! j) ! k" if "k < 6" for k
    by (rule nth_concat_map_const [OF l6]) (simp_all add: assms that)
  from this [of 0] this [of 1] have "concat (map ?J (loop_lt T)) ! (6 * j) = length cs * nat T + 7 * nat T + j"
      "concat (map ?J (loop_lt T)) ! (6 * j + 1) = j"
    using assms by (simp_all add: spiral_join_def Let_def loop_lt_def)
  then show ?thesis
    by (simp add: spiral_buffer_def Let_def nth_append lc algebra_simps)
qed


text \<open>The last cap ring (\<open>theta = pi / 2\<close>: \<open>r = 1\<close>, \<open>z = 0\<close>) is the first tube ring reflected
  through the centre, vertex by vertex.\<close>

lemma spiral_cap_last_ring_antipodal:
  "vadd (position (spiral_cap_vertex R f st T 8 c t n b 8 j)) (position (spiral_ring_vertex R f st T sw c (n, b) j))
   = vscale 2 c"
proof -
  have th: "real (8::nat) * pi * 0.5 / real (8::nat) = pi / 2" by simp
  obtain cx cy cz where c: "c = (cx, cy, cz)" by (cases c)
  obtain nx ny nz where n: "n = (nx, ny, nz)" by (cases n)
  obtain b1 b2 b3 where b: "b = (b1, b2, b3)" by (cases b)
  obtain tx ty tz where t: "t = (tx, ty, tz)" by (cases t)
  show ?thesis
    unfolding spiral_cap_vertex_def spiral_ring_vertex_def Let_def th
    by (simp add: mk_vertex_def c n b t algebra_simps)
qed


lemma length_spiral_centers:
  assumes "0 < step" "tA = real_of_int S * step"
  shows "length (spiral_centers L step tA st S) = nat (S - st + 1)"
proof -
  have "\<forall>i \<in> set [st..S]. \<not> tA < real_of_int i * step"
    using assms by (simp add: mult_right_mono)
  then have tw: "takeWhile (\<lambda>i. \<not> tA < real_of_int i * step) [st..S] = [st..S]"
    by (simp only: takeWhile_eq_all_conv)
  show ?thesis unfolding spiral_centers_def by (simp only: length_map tw length_upto)
qed


lemma spiral_start_segment_pos:
  assumes "0 < step" "pi / step < 2 ^ 31"
  shows "spiral_start_segment pi step = Some \<lfloor>pi / step\<rfloor>"
proof -
  have "0 \<le> pi / step" using assms(1) by simp
  moreover have "- (2 ^ 31) - 1 < (0::real)" by simp
  then have "- (2 ^ 31) - 1 < pi / step" using \<open>0 \<le> pi / step\<close> by linarith
  ultimately show ?thesis using assms by (simp add: spiral_start_segment_def static_cast_int_def)
qed


text \<open>For a positive number of loops and of segments whose start segment is an \<open>int\<close>, the
  centreline has \<open>spiralSegments - startSegment + 1\<close> points, \<open>startSegment =
  \<lfloor>spiralSegments / (2 * numLoops)\<rfloor>\<close>, and the call has a result exactly when that is at
  least two.\<close>

lemma DrawSpiralMesh_data_cases:
  assumes "0 < nL" "0 < S" "real_of_int S / (2 * nL) < 2 ^ 31"
  shows "DrawSpiralMesh_data R f L nL T S =
           (if \<lfloor>real_of_int S / (2 * nL)\<rfloor> < S
            then Inr (spiral_buffer R f T (spiral_centers L (nL * 2 * pi / real_of_int S) (nL * 2 * pi)
                                            \<lfloor>real_of_int S / (2 * nL)\<rfloor> S))
            else Inl CenterOutOfRange)"
proof -
  define step where "step = nL * 2 * pi / real_of_int S"
  have step: "0 < step" using assms(1,2) by (simp add: step_def)
  have q: "pi / step = real_of_int S / (2 * nL)" using assms(1,2) by (simp add: step_def field_simps)
  have tot: "nL * 2 * pi = real_of_int S * step" using assms(2) by (simp add: step_def)
  have st: "spiral_start_segment pi step = Some \<lfloor>real_of_int S / (2 * nL)\<rfloor>"
    using spiral_start_segment_pos [OF step] assms(3) by (simp add: q)
  have len: "length (spiral_centers L step (nL * 2 * pi) \<lfloor>real_of_int S / (2 * nL)\<rfloor> S)
             = nat (S - \<lfloor>real_of_int S / (2 * nL)\<rfloor> + 1)"
    by (rule length_spiral_centers [OF step tot])
  have c: "nat (S - \<lfloor>real_of_int S / (2 * nL)\<rfloor> + 1) < 2 \<longleftrightarrow> \<not> \<lfloor>real_of_int S / (2 * nL)\<rfloor> < S"
    by arith
  show ?thesis
    unfolding DrawSpiralMesh_data_def Let_def step_def [symmetric]
    by (simp add: st len c step_def [symmetric])
qed


section \<open>Properties of DrawSpiralMesh\<close>

text \<open>C19. Whenever \<open>DrawSpiralMesh\<close> has a defined result, every index names a vertex of
  the buffer it uploads (tube rings, cap rings and the join) and the list is whole
  triangles.\<close>

theorem DrawSpiralMesh_wf:
  assumes "DrawSpiralMesh_data tubeRadius flattenFactor loopSpacing numLoops tubeSegments spiralSegments = Inr m"
  shows "mesh_wf m"
  using assms
  by (auto simp: DrawSpiralMesh_data_def Let_def split: option.splits if_splits intro!: spiral_buffer_wf_aux)


theorem DrawSpiralMesh_wf_witness:
  "\<exists>m. DrawSpiralMesh_data 1 0 1 1 3 4 = Inr m \<and> mesh_wf m"
proof -
  have ok: "DrawSpiralMesh_data 1 0 1 1 3 4 = Inr (spiral_buffer 1 0 3 (spiral_centers 1 (1 * 2 * pi / 4) (1 * 2 * pi) 2 4))"
    using DrawSpiralMesh_data_cases [where nL = 1 and S = 4 and R = 1 and f = 0 and L = 1 and T = 3] by simp
  then show ?thesis using DrawSpiralMesh_wf [OF ok] by blast
qed

text \<open>C27. For \<open>0 < numLoops \<le> 1/2\<close> and a positive \<open>spiralSegments\<close>, the fixed start angle
  \<open>pi\<close> leaves at most one centreline point, and the tangent loop reads \<open>centers[1]\<close> out
  of range (or the start segment overflows \<open>int\<close>): the call has undefined behaviour,
  where a spiral of half a turn is expected.\<close>

theorem DrawSpiralMesh_half_loop_undefined:
  assumes "0 < numLoops" "numLoops \<le> 1 / 2" "0 < spiralSegments"
  shows "\<exists>e. DrawSpiralMesh_data tubeRadius flattenFactor loopSpacing numLoops tubeSegments spiralSegments = Inl e"
proof (cases "real_of_int spiralSegments / (2 * numLoops) < 2 ^ 31")
  case True
  have "real_of_int spiralSegments * (2 * numLoops) \<le> real_of_int spiralSegments * 1"
    using assms by (intro mult_left_mono) simp_all
  then have "real_of_int spiralSegments \<le> real_of_int spiralSegments / (2 * numLoops)"
    using assms(1) by (simp add: le_divide_eq)
  then have "spiralSegments \<le> \<lfloor>real_of_int spiralSegments / (2 * numLoops)\<rfloor>"
    by (simp add: le_floor_iff)
  then show ?thesis using DrawSpiralMesh_data_cases [OF assms(1,3) True] by simp
next
  case False
  have q: "pi / (numLoops * 2 * pi / real_of_int spiralSegments) = real_of_int spiralSegments / (2 * numLoops)"
    using assms(1,3) by (simp add: field_simps)
  have "numLoops * 2 * pi / real_of_int spiralSegments \<noteq> 0" using assms(1,3) by simp
  then have "spiral_start_segment pi (numLoops * 2 * pi / real_of_int spiralSegments) = None"
    using False by (simp add: spiral_start_segment_def static_cast_int_def q)
  then show ?thesis by (simp add: DrawSpiralMesh_data_def Let_def)
qed


theorem DrawSpiralMesh_half_loop_undefined_witness:
  "\<exists>e. DrawSpiralMesh_data 1 0 1 (1 / 2) 8 4 = Inl e"
  using DrawSpiralMesh_half_loop_undefined [where numLoops = "1 / 2" and spiralSegments = 4 and tubeRadius = 1
                                             and flattenFactor = 0 and loopSpacing = 1 and tubeSegments = 8]
  by simp


text \<open>C26. The join quads stitch vertex \<open>j\<close> of the last cap ring to vertex \<open>j\<close> of the first
  tube ring, but the two are reflections of each other through the first centre
  (\<open>capCenter - radial * r\<close> against \<open>center + radial * r\<close>): for every centreline the
  join band is twisted by half a turn and cuts through the tube's axis.\<close>

theorem spiral_cap_join_twisted:
  assumes "0 < length cs" "j < nat T"
  shows "mb_indices (spiral_buffer R f T cs) ! (6 * nat T * (length cs - 1) + 6 * nat T * 7 + 6 * j)
           = length cs * nat T + 7 * nat T + j
         \<and> mb_indices (spiral_buffer R f T cs) ! (6 * nat T * (length cs - 1) + 6 * nat T * 7 + 6 * j + 1) = j
         \<and> vadd (position (mb_verts (spiral_buffer R f T cs) ! (length cs * nat T + 7 * nat T + j)))
                (position (mb_verts (spiral_buffer R f T cs) ! j))
           = vscale 2 (cs ! 0)"
proof -
  have "spiral_tangents cs \<noteq> []" using assms(1) by (metis length_spiral_tangents less_irrefl list.size(3))
  then have fr: "spiral_frames (1, 0, 0) (spiral_tangents cs) ! 0
      = (normalize (cross (normalize (cross (spiral_tangents cs ! 0) (1, 0, 0))) (spiral_tangents cs ! 0)),
         normalize (cross (spiral_tangents cs ! 0) (1, 0, 0)))"
    by (rule spiral_frames_nth0)
  show ?thesis
    using spiral_buffer_join_nth [OF assms(2)] spiral_buffer_tube_nth [OF assms] spiral_buffer_cap_nth [OF assms(2)]
    by (simp only: fr spiral_cap_last_ring_antipodal simp_thms)
qed


theorem spiral_cap_join_twisted_witness:
  "mb_indices (spiral_buffer 1 0 4 [(0, 0, 0), (1, 0, 0)]) ! 198 = 37
   \<and> mb_indices (spiral_buffer 1 0 4 [(0, 0, 0), (1, 0, 0)]) ! 199 = 1
   \<and> vadd (position (mb_verts (spiral_buffer 1 0 4 [(0, 0, 0), (1, 0, 0)]) ! 37))
          (position (mb_verts (spiral_buffer 1 0 4 [(0, 0, 0), (1, 0, 0)]) ! 1))
     = vscale 2 (0, 0, 0)"
  using spiral_cap_join_twisted [where cs = "[(0, 0, 0), (1, 0, 0)]" and j = 1 and T = 4 and R = 1 and f = 0]
  by simp


end
