(* ===== verification/GL_Context.thy ===== *)
theory GL_Context
  imports Topology
begin

text \<open>
  The render backend the registry calls: the part of the OpenGL state that
  \<open>ShapeMeshes.cpp\<close> creates and reads, modelled from the OpenGL 4.6 core specification
  (it is a library the sources only call). Object names come from a counter
  (\<open>glGen*\<close> returns unused names, never 0); a buffer holds the floats or the unsigned
  indices last uploaded to it; a vertex array object (VAO) holds its element-buffer
  binding and its attribute pointers (component count, stride and offset in floats, and
  the array buffer bound when the pointer was set). Each draw call is recorded
  together with the verdict, taken at the moment of the call, whether every index and
  every attribute it reads lies inside the buffers it reads from.
\<close>

section \<open>State\<close>

datatype buffer_data = NoData | Floats "real list" | Uints "nat list"

record attrib_ptr =
  ap_size :: nat
  ap_stride :: nat
  ap_offset :: nat
  ap_buffer :: nat

record vao_state =
  vao_ebo :: nat
  vao_attribs :: "nat \<Rightarrow> attrib_ptr option"
  vao_enabled :: "nat list"

datatype draw_call =
    DrawArraysCall prim_mode nat nat
  | DrawElementsCall prim_mode nat nat

record draw_event =
  ev_vao :: nat
  ev_call :: draw_call
  ev_line_mode :: bool
  ev_ok :: bool

record gl_ctx =
  gl_next :: nat
  gl_vao :: nat
  gl_array_buffer :: nat
  gl_buffers :: "nat \<Rightarrow> buffer_data option"
  gl_vaos :: "nat \<Rightarrow> vao_state option"
  gl_line_mode :: bool
  gl_events :: "draw_event list"

definition gl_init :: gl_ctx where
  "gl_init = \<lparr>gl_next = 1, gl_vao = 0, gl_array_buffer = 0, gl_buffers = (\<lambda>_. None),
              gl_vaos = (\<lambda>_. None), gl_line_mode = False, gl_events = []\<rparr>"

text \<open>The state of a freshly generated VAO: no element buffer, no attribute pointers.\<close>

definition empty_vao :: vao_state where
  "empty_vao = \<lparr>vao_ebo = 0, vao_attribs = (\<lambda>_. None), vao_enabled = []\<rparr>"

section \<open>Commands\<close>

text \<open>\<open>glGenVertexArrays(1, &name)\<close> and \<open>glGenBuffers(1, &name)\<close>: the new name and the
  context in which it names an empty object.\<close>

definition glGenVertexArray :: "gl_ctx \<Rightarrow> nat \<times> gl_ctx" where
  "glGenVertexArray ctx =
     (gl_next ctx,
      ctx\<lparr>gl_next := gl_next ctx + 1,
          gl_vaos := (gl_vaos ctx)(gl_next ctx \<mapsto>
                        \<lparr>vao_ebo = 0, vao_attribs = (\<lambda>_. None), vao_enabled = []\<rparr>)\<rparr>)"

definition glGenBuffer :: "gl_ctx \<Rightarrow> nat \<times> gl_ctx" where
  "glGenBuffer ctx =
     (gl_next ctx, ctx\<lparr>gl_next := gl_next ctx + 1, gl_buffers := (gl_buffers ctx)(gl_next ctx \<mapsto> NoData)\<rparr>)"

text \<open>Binding a name that is not a VAO is an error (\<open>GL_INVALID_OPERATION\<close>) and changes
  nothing.\<close>

definition glBindVertexArray :: "nat \<Rightarrow> gl_ctx \<Rightarrow> gl_ctx" where
  "glBindVertexArray v ctx = (if v = 0 \<or> gl_vaos ctx v \<noteq> None then ctx\<lparr>gl_vao := v\<rparr> else ctx)"

definition glBindArrayBuffer :: "nat \<Rightarrow> gl_ctx \<Rightarrow> gl_ctx" where
  "glBindArrayBuffer b ctx = ctx\<lparr>gl_array_buffer := b\<rparr>"

text \<open>The element-array binding is state of the bound VAO; without a bound VAO it is an
  error.\<close>

definition update_bound_vao :: "(vao_state \<Rightarrow> vao_state) \<Rightarrow> gl_ctx \<Rightarrow> gl_ctx" where
  "update_bound_vao f ctx =
     (case gl_vaos ctx (gl_vao ctx) of
        Some st \<Rightarrow> if gl_vao ctx = 0 then ctx else ctx\<lparr>gl_vaos := (gl_vaos ctx)(gl_vao ctx \<mapsto> f st)\<rparr>
      | None \<Rightarrow> ctx)"

definition glBindElementBuffer :: "nat \<Rightarrow> gl_ctx \<Rightarrow> gl_ctx" where
  "glBindElementBuffer b ctx = update_bound_vao (\<lambda>st. st\<lparr>vao_ebo := b\<rparr>) ctx"

definition glBufferDataArray :: "real list \<Rightarrow> gl_ctx \<Rightarrow> gl_ctx" where
  "glBufferDataArray d ctx =
     (if gl_array_buffer ctx \<noteq> 0 \<and> gl_buffers ctx (gl_array_buffer ctx) \<noteq> None
      then ctx\<lparr>gl_buffers := (gl_buffers ctx)(gl_array_buffer ctx \<mapsto> Floats d)\<rparr> else ctx)"

definition glBufferDataElement :: "nat list \<Rightarrow> gl_ctx \<Rightarrow> gl_ctx" where
  "glBufferDataElement d ctx =
     (case gl_vaos ctx (gl_vao ctx) of
        Some st \<Rightarrow> if gl_vao ctx \<noteq> 0 \<and> vao_ebo st \<noteq> 0 \<and> gl_buffers ctx (vao_ebo st) \<noteq> None
                  then ctx\<lparr>gl_buffers := (gl_buffers ctx)(vao_ebo st \<mapsto> Uints d)\<rparr> else ctx
      | None \<Rightarrow> ctx)"

text \<open>\<open>glVertexAttribPointer(loc, size, GL_FLOAT, GL_FALSE, stride, offset)\<close> with stride and
  offset given in floats, and \<open>glEnableVertexAttribArray(loc)\<close>.\<close>

definition glVertexAttribPointer :: "nat \<Rightarrow> nat \<Rightarrow> nat \<Rightarrow> nat \<Rightarrow> gl_ctx \<Rightarrow> gl_ctx" where
  "glVertexAttribPointer loc sz stride offset ctx =
     update_bound_vao (\<lambda>st. st\<lparr>vao_attribs := (vao_attribs st)(loc \<mapsto>
        \<lparr>ap_size = sz, ap_stride = stride, ap_offset = offset, ap_buffer = gl_array_buffer ctx\<rparr>)\<rparr>) ctx"

definition glEnableVertexAttribArray :: "nat \<Rightarrow> gl_ctx \<Rightarrow> gl_ctx" where
  "glEnableVertexAttribArray loc ctx =
     update_bound_vao (\<lambda>st. st\<lparr>vao_enabled := (if loc \<in> set (vao_enabled st) then vao_enabled st
                                                 else vao_enabled st @ [loc])\<rparr>) ctx"

definition glPolygonModeLine :: "bool \<Rightarrow> gl_ctx \<Rightarrow> gl_ctx" where
  "glPolygonModeLine line ctx = ctx\<lparr>gl_line_mode := line\<rparr>"

definition glDeleteBuffer :: "nat \<Rightarrow> gl_ctx \<Rightarrow> gl_ctx" where
  "glDeleteBuffer b ctx = ctx\<lparr>gl_buffers := (gl_buffers ctx)(b := None)\<rparr>"

definition glDeleteVertexArray :: "nat \<Rightarrow> gl_ctx \<Rightarrow> gl_ctx" where
  "glDeleteVertexArray v ctx =
     ctx\<lparr>gl_vaos := (gl_vaos ctx)(v := None), gl_vao := (if gl_vao ctx = v then 0 else gl_vao ctx)\<rparr>"

section \<open>Draw calls and their reads\<close>

text \<open>Vertex \<open>i\<close> is readable through an enabled attribute when the attribute's buffer holds
  floats up to \<open>i * stride + offset + size\<close>.\<close>

definition attrib_reads_ok :: "gl_ctx \<Rightarrow> vao_state \<Rightarrow> nat list \<Rightarrow> nat \<Rightarrow> bool" where
  "attrib_reads_ok ctx st is loc =
     (case vao_attribs st loc of
        None \<Rightarrow> is = []
      | Some ap \<Rightarrow> (case gl_buffers ctx (ap_buffer ap) of
                     Some (Floats d) \<Rightarrow> list_all (\<lambda>i. i * ap_stride ap + ap_offset ap + ap_size ap \<le> length d) is
                   | _ \<Rightarrow> is = []))"

definition vertex_reads_ok :: "gl_ctx \<Rightarrow> vao_state \<Rightarrow> nat list \<Rightarrow> bool" where
  "vertex_reads_ok ctx st is = list_all (attrib_reads_ok ctx st is) (vao_enabled st)"

text \<open>A draw that reads nothing (\<open>count = 0\<close>) is harmless; otherwise a VAO must be bound,
  the index range must lie in its element buffer, and every vertex read must be in
  range.\<close>

fun draw_ok :: "gl_ctx \<Rightarrow> draw_call \<Rightarrow> bool" where
  "draw_ok ctx (DrawArraysCall mode first count) =
     (count = 0 \<or> (case gl_vaos ctx (gl_vao ctx) of
                     Some st \<Rightarrow> gl_vao ctx \<noteq> 0 \<and> vertex_reads_ok ctx st [first..<first + count]
                   | None \<Rightarrow> False))"
| "draw_ok ctx (DrawElementsCall mode count first) =
     (count = 0 \<or> (case gl_vaos ctx (gl_vao ctx) of
                     Some st \<Rightarrow> gl_vao ctx \<noteq> 0 \<and>
                       (case gl_buffers ctx (vao_ebo st) of
                          Some (Uints idx) \<Rightarrow> vao_ebo st \<noteq> 0 \<and> first + count \<le> length idx
                                              \<and> vertex_reads_ok ctx st (take count (drop first idx))
                        | _ \<Rightarrow> False)
                   | None \<Rightarrow> False))"

definition gl_draw :: "draw_call \<Rightarrow> gl_ctx \<Rightarrow> gl_ctx" where
  "gl_draw call ctx =
     ctx\<lparr>gl_events := gl_events ctx @ [\<lparr>ev_vao = gl_vao ctx, ev_call = call,
                                         ev_line_mode = gl_line_mode ctx, ev_ok = draw_ok ctx call\<rparr>]\<rparr>"

text \<open>\<open>glDrawArrays(mode, first, count)\<close> and
  \<open>glDrawElements(mode, count, GL_UNSIGNED_INT, (void*)(first * sizeof(GLuint)))\<close>.\<close>

definition glDrawArrays :: "prim_mode \<Rightarrow> nat \<Rightarrow> nat \<Rightarrow> gl_ctx \<Rightarrow> gl_ctx" where
  "glDrawArrays mode first count = gl_draw (DrawArraysCall mode first count)"

definition glDrawElements :: "prim_mode \<Rightarrow> nat \<Rightarrow> nat \<Rightarrow> gl_ctx \<Rightarrow> gl_ctx" where
  "glDrawElements mode count first = gl_draw (DrawElementsCall mode count first)"

definition events_ok :: "gl_ctx \<Rightarrow> bool" where
  "events_ok ctx = list_all ev_ok (gl_events ctx)"

section \<open>Lemmas\<close>

text \<open>Commands on the bound VAO, and the fields each command leaves alone.\<close>

lemma update_bound_vao_Some:
  "gl_vao c \<noteq> 0 \<Longrightarrow> gl_vaos c (gl_vao c) = Some st \<Longrightarrow>
   update_bound_vao f c = c\<lparr>gl_vaos := (gl_vaos c)(gl_vao c \<mapsto> f st)\<rparr>"
  by (simp add: update_bound_vao_def)

lemma glBindVertexArray_0: "glBindVertexArray 0 c = c\<lparr>gl_vao := 0\<rparr>"
  by (simp add: glBindVertexArray_def)

lemma gl_bind_fields [simp]:
  "gl_next (glBindVertexArray v c) = gl_next c" "gl_vaos (glBindVertexArray v c) = gl_vaos c"
  "gl_buffers (glBindVertexArray v c) = gl_buffers c" "gl_events (glBindVertexArray v c) = gl_events c"
  "gl_vao (glBindVertexArray v c) = (if v = 0 \<or> gl_vaos c v \<noteq> None then v else gl_vao c)"
  by (simp_all add: glBindVertexArray_def)

lemma gl_polygon_fields [simp]:
  "gl_next (glPolygonModeLine w c) = gl_next c" "gl_vaos (glPolygonModeLine w c) = gl_vaos c"
  "gl_buffers (glPolygonModeLine w c) = gl_buffers c" "gl_events (glPolygonModeLine w c) = gl_events c"
  "gl_vao (glPolygonModeLine w c) = gl_vao c"
  by (simp_all add: glPolygonModeLine_def)

lemma gl_draw_fields [simp]:
  "gl_next (gl_draw call c) = gl_next c" "gl_vaos (gl_draw call c) = gl_vaos c"
  "gl_buffers (gl_draw call c) = gl_buffers c" "gl_vao (gl_draw call c) = gl_vao c"
  "gl_line_mode (gl_draw call c) = gl_line_mode c"
  "gl_events (gl_draw call c) = gl_events c @ [\<lparr>ev_vao = gl_vao c, ev_call = call,
                                  ev_line_mode = gl_line_mode c, ev_ok = draw_ok c call\<rparr>]"
  by (simp_all add: gl_draw_def)

lemma gl_line_mode_steps [simp]:
  "gl_line_mode (glBindVertexArray v c) = gl_line_mode c"
  "gl_line_mode (glPolygonModeLine w c) = w"
  by (simp_all add: glBindVertexArray_def glPolygonModeLine_def)

text \<open>What a draw reads depends on the bound VAO, the VAO table and the buffers only.\<close>

lemma vertex_reads_ok_buffers:
  assumes "gl_buffers c' = gl_buffers c"
  shows "vertex_reads_ok c' = vertex_reads_ok c"
proof -
  have "attrib_reads_ok c' = attrib_reads_ok c"
    using assms by (intro ext) (simp add: attrib_reads_ok_def cong: option.case_cong)
  then show ?thesis by (intro ext) (simp add: vertex_reads_ok_def)
qed

lemma vertex_reads_ok_steps [simp]:
  "vertex_reads_ok (glBindVertexArray v c) = vertex_reads_ok c"
  "vertex_reads_ok (glPolygonModeLine w c) = vertex_reads_ok c"
  "vertex_reads_ok (gl_draw call c) = vertex_reads_ok c"
  by (rule vertex_reads_ok_buffers, simp)+

lemma vertex_reads_ok_Nil [simp]: "vertex_reads_ok c st []"
  by (simp add: vertex_reads_ok_def attrib_reads_ok_def list_all_iff split: option.splits buffer_data.splits)

lemma vertex_reads_ok_subset:
  assumes "vertex_reads_ok c st is" "set is' \<subseteq> set is"
  shows "vertex_reads_ok c st is'"
proof (cases "is = []")
  case True then show ?thesis using assms(2) by simp
next
  case False then show ?thesis
    using assms unfolding vertex_reads_ok_def attrib_reads_ok_def list_all_iff
    by (fastforce split: option.splits buffer_data.splits)
qed

lemma draw_ok_cong:
  assumes "gl_vao c' = gl_vao c" "gl_vaos c' = gl_vaos c" "gl_buffers c' = gl_buffers c"
  shows "draw_ok c' call = draw_ok c call"
proof -
  have "vertex_reads_ok c' = vertex_reads_ok c" using assms(3) by (rule vertex_reads_ok_buffers)
  then show ?thesis using assms by (cases call) (simp_all cong: option.case_cong buffer_data.case_cong)
qed

lemma draw_ok_after [simp]:
  "draw_ok (gl_draw call' c) call = draw_ok c call"
  "draw_ok (glPolygonModeLine w c) call = draw_ok c call"
  "draw_ok (glBindVertexArray v (glPolygonModeLine w c)) call = draw_ok (glBindVertexArray v c) call"
  by (rule draw_ok_cong; simp)+

lemma events_ok_steps [simp]:
  "events_ok (glBindVertexArray v c) = events_ok c"
  "events_ok (glPolygonModeLine w c) = events_ok c"
  "events_ok (gl_draw call c) = (events_ok c \<and> draw_ok c call)"
  by (simp_all add: events_ok_def gl_draw_def)

end
