(* ===== verification/Registry.thy ===== *)
theory Registry
  imports Disk_Solids Grid_Surfaces Fixed_Shapes Spiral GL_Context
begin

text \<open>
  The mesh resource registry: the \<open>ShapeMeshes\<close> object of \<open>ShapeMeshes.h\<close> with one
  \<open>GLMesh\<close> per shape, the deprecation-warning flags and the layout flag, threaded
  through the OpenGL context of \<open>GL_Context\<close>. Every \<open>Load*\<close> function uploads the host
  buffer of its generator through \<open>InitializeMesh\<close> (or its own copy of it); every
  \<open>Draw*\<close> function binds the shape's VAO and issues one or more draw calls on ranges
  computed from the stored counts. The operations form a datatype with one step
  function, and the reachable states an inductive predicate.
\<close>

section \<open>State\<close>

text \<open>\<open>struct GLMesh\<close> (ShapeMeshes.h, lines 53--66); \<open>vbos[0]\<close> is the one element of
  \<open>vbos\<close> the code uses. \<open>curveSteps\<close> (written by \<open>LoadCurvedConeMesh\<close>, never read) has
  no initializer in the header and is 0 here; \<open>ibo\<close> is never used.\<close>

record GLMesh =
  vao :: nat
  vbo :: nat
  vbos0 :: nat
  ebo :: nat
  nVertices :: nat
  nIndices :: nat
  numSlices :: int
  curveSteps :: int

definition GLMesh_init :: GLMesh where
  "GLMesh_init = \<lparr>vao = 0, vbo = 0, vbos0 = 0, ebo = 0, nVertices = 0, nIndices = 0, numSlices = 0, curveSteps = 0\<rparr>"

text \<open>The \<open>GLMesh\<close> members \<open>m_BoxMesh\<close> ... \<open>m_SuperellipsoidMesh\<close> (lines 254--277),
  indexed by shape, and the twelve deprecation flags (lines 238--249).\<close>

datatype shape = Box | Cone | Cylinder | Plane | Prism | Pyramid3 | Pyramid4 | Sphere | Hemisphere
  | TaperedCylinder | Torus | ExtraTorus1 | ExtraTorus2 | Spring | Tube | Fin
  | CurvedCone | TaperedTorus | Spiral | SineCone | Superellipsoid

datatype warn_flag = boxWarned | coneWarned | cylinderWarned | planeWarned | prismWarned
  | pyramid3Warned | pyramid4Warned | sphereWarned | halfSphereWarned | taperedCylinderWarned
  | torusWarned | halfTorusWarned

record ShapeMeshes =
  meshes :: "shape \<Rightarrow> GLMesh"
  warned :: "warn_flag \<Rightarrow> bool"
  m_bMemoryLayoutDone :: bool
  m_IsMemoryLayoutSet :: bool
  gl :: gl_ctx

text \<open>The constructor (lines 46--49) with the member initializers of the header.\<close>

definition ShapeMeshes_init :: ShapeMeshes where
  "ShapeMeshes_init = \<lparr>meshes = (\<lambda>_. GLMesh_init), warned = (\<lambda>_. False),
                       m_bMemoryLayoutDone = False, m_IsMemoryLayoutSet = False, gl = gl_init\<rparr>"

section \<open>Shared GL sequences\<close>

text \<open>\<open>SetWireframeMode\<close> (lines 61--63) and \<open>SetShaderMemoryLayout\<close> (lines 2562--2574):
  stride \<open>sizeof(Vertex)\<close> = 8 floats, offsets 0, 3 and 6.\<close>

definition SetWireframeMode :: "bool \<Rightarrow> gl_ctx \<Rightarrow> gl_ctx" where
  "SetWireframeMode wireframe = glPolygonModeLine wireframe"

definition SetShaderMemoryLayout :: "gl_ctx \<Rightarrow> gl_ctx" where
  "SetShaderMemoryLayout ctx =
     (let stride = 8;
          c1 = glVertexAttribPointer 0 3 stride 0 ctx; c2 = glEnableVertexAttribArray 0 c1;
          c3 = glVertexAttribPointer 1 3 stride 3 c2; c4 = glEnableVertexAttribArray 1 c3;
          c5 = glVertexAttribPointer 2 2 stride 6 c4; c6 = glEnableVertexAttribArray 2 c5
      in c6)"

text \<open>\<open>InitializeMesh(mesh, verts, indices)\<close> (lines 76--98).\<close>

definition InitializeMesh :: "shape \<Rightarrow> real list \<Rightarrow> nat list \<Rightarrow> ShapeMeshes \<Rightarrow> ShapeMeshes" where
  "InitializeMesh sh verts indices s =
     (let m = (meshes s sh)\<lparr>nVertices := length verts div floats_per_record, nIndices := length indices\<rparr>;
          (va, c1) = glGenVertexArray (gl s);
          c2 = glBindVertexArray va c1;
          (vb, c3) = glGenBuffer c2;
          c4 = glBindArrayBuffer vb c3;
          c5 = glBufferDataArray verts c4;
          (eb, c6) = (if indices \<noteq> [] then glGenBuffer c5 else (ebo m, c5));
          c7 = (if indices \<noteq> [] then glBufferDataElement indices (glBindElementBuffer eb c6) else c6);
          c8 = (if \<not> m_bMemoryLayoutDone s then SetShaderMemoryLayout c7 else c7);
          c9 = glBindVertexArray 0 c8
      in s\<lparr>meshes := (meshes s)(sh := m\<lparr>vao := va, vbo := vb, ebo := eb\<rparr>), gl := c9\<rparr>)"

text \<open>Upload of a generator's host buffer: the 8-float interleaving of its vertices and
  its indices. (Several \<open>Load*\<close> functions assign \<open>nVertices\<close> and \<open>nIndices\<close> before the
  call; \<open>InitializeMesh\<close> assigns the same values again.)\<close>

definition upload :: "shape \<Rightarrow> mesh_buffer \<Rightarrow> ShapeMeshes \<Rightarrow> ShapeMeshes" where
  "upload sh d s = InitializeMesh sh (interleave (mb_verts d)) (mb_indices d) s"

definition set_numSlices :: "shape \<Rightarrow> int \<Rightarrow> ShapeMeshes \<Rightarrow> ShapeMeshes" where
  "set_numSlices sh n s = s\<lparr>meshes := (meshes s)(sh := (meshes s sh)\<lparr>numSlices := n\<rparr>)\<rparr>"

section \<open>Load operations\<close>

definition LoadBoxMesh :: "ShapeMeshes \<Rightarrow> ShapeMeshes" where
  "LoadBoxMesh s = upload Box LoadBoxMesh_data s"

definition LoadConeMesh :: "real \<Rightarrow> real \<Rightarrow> int \<Rightarrow> ShapeMeshes \<Rightarrow> ShapeMeshes" where
  "LoadConeMesh radius height numSlices0 s =
     upload Cone (LoadConeMesh_data radius height numSlices0) (set_numSlices Cone (clamp_min 3 numSlices0) s)"

definition LoadCylinderMesh :: "real \<Rightarrow> real \<Rightarrow> int \<Rightarrow> ShapeMeshes \<Rightarrow> ShapeMeshes" where
  "LoadCylinderMesh radius height numSlices0 s =
     upload Cylinder (LoadCylinderMesh_data radius height numSlices0)
            (set_numSlices Cylinder (clamp_min 3 numSlices0) s)"

definition LoadPlaneMesh :: "real \<Rightarrow> real \<Rightarrow> ShapeMeshes \<Rightarrow> ShapeMeshes" where
  "LoadPlaneMesh width height s = upload Plane (LoadPlaneMesh_data width height) s"

definition LoadPrismMesh :: "ShapeMeshes \<Rightarrow> ShapeMeshes" where
  "LoadPrismMesh s = upload Prism LoadPrismMesh_data s"

definition LoadPyramid3Mesh :: "ShapeMeshes \<Rightarrow> ShapeMeshes" where
  "LoadPyramid3Mesh s = upload Pyramid3 LoadPyramid3Mesh_data s"

definition LoadPyramid4Mesh :: "real \<Rightarrow> real \<Rightarrow> ShapeMeshes \<Rightarrow> ShapeMeshes" where
  "LoadPyramid4Mesh baseSize height s = upload Pyramid4 (LoadPyramid4Mesh_data baseSize height) s"

definition LoadSphereMesh :: "int \<Rightarrow> int \<Rightarrow> real \<Rightarrow> ShapeMeshes \<Rightarrow> ShapeMeshes" where
  "LoadSphereMesh latitudeSegments longitudeSegments radius s =
     upload Sphere (LoadSphereMesh_data latitudeSegments longitudeSegments radius) s"

definition LoadHemisphereMesh :: "int \<Rightarrow> int \<Rightarrow> real \<Rightarrow> ShapeMeshes \<Rightarrow> ShapeMeshes" where
  "LoadHemisphereMesh latitudeSegments longitudeSegments radius s =
     upload Hemisphere (LoadHemisphereMesh_data latitudeSegments longitudeSegments radius) s"

definition LoadTaperedCylinderMesh :: "real \<Rightarrow> real \<Rightarrow> real \<Rightarrow> int \<Rightarrow> ShapeMeshes \<Rightarrow> ShapeMeshes" where
  "LoadTaperedCylinderMesh bottomRadius topRadius height numSlices0 s =
     upload TaperedCylinder (LoadTaperedCylinderMesh_data bottomRadius topRadius height numSlices0)
            (set_numSlices TaperedCylinder (clamp_min 3 numSlices0) s)"

definition LoadTorusMesh :: "real \<Rightarrow> real \<Rightarrow> int \<Rightarrow> int \<Rightarrow> ShapeMeshes \<Rightarrow> ShapeMeshes" where
  "LoadTorusMesh mainRadius tubeRadius mainSegments tubeSegments s =
     upload Torus (LoadTorusMesh_data mainRadius tubeRadius mainSegments tubeSegments) s"

definition LoadSpringMesh :: "real \<Rightarrow> real \<Rightarrow> int \<Rightarrow> int \<Rightarrow> real \<Rightarrow> ShapeMeshes \<Rightarrow> ShapeMeshes" where
  "LoadSpringMesh mainRadius tubeRadius mainSegments tubeSegments springLength s =
     upload Spring (LoadSpringMesh_data mainRadius tubeRadius mainSegments tubeSegments springLength) s"

definition LoadTubeMesh :: "real \<Rightarrow> real \<Rightarrow> real \<Rightarrow> int \<Rightarrow> ShapeMeshes \<Rightarrow> ShapeMeshes" where
  "LoadTubeMesh outerRadius innerRadius height numSlices0 s =
     upload Tube (LoadTubeMesh_data outerRadius innerRadius height numSlices0)
            (set_numSlices Tube (clamp_min 3 numSlices0) s)"

text \<open>\<open>LoadExtraTorusMesh1/2\<close> upload without \<open>InitializeMesh\<close> (lines 1199--1214): one
  VAO and \<open>vbos[0]\<close>, no element buffer, and the VAO is left bound.\<close>

definition LoadExtraTorusMesh :: "shape \<Rightarrow> mesh_buffer \<Rightarrow> ShapeMeshes \<Rightarrow> ShapeMeshes" where
  "LoadExtraTorusMesh sh d s =
     (let m = (meshes s sh)\<lparr>nVertices := length (mb_verts d), nIndices := 0\<rparr>;
          (va, c1) = glGenVertexArray (gl s);
          c2 = glBindVertexArray va c1;
          (vb, c3) = glGenBuffer c2;
          c4 = glBindArrayBuffer vb c3;
          c5 = glBufferDataArray (interleave (mb_verts d)) c4;
          c6 = (if \<not> m_bMemoryLayoutDone s then SetShaderMemoryLayout c5 else c5)
      in s\<lparr>meshes := (meshes s)(sh := m\<lparr>vao := va, vbos0 := vb\<rparr>), gl := c6\<rparr>)"

definition LoadExtraTorusMesh1 :: "real \<Rightarrow> ShapeMeshes \<Rightarrow> ShapeMeshes" where
  "LoadExtraTorusMesh1 thickness s = LoadExtraTorusMesh ExtraTorus1 (LoadExtraTorusMesh1_data thickness) s"

definition LoadExtraTorusMesh2 :: "real \<Rightarrow> ShapeMeshes \<Rightarrow> ShapeMeshes" where
  "LoadExtraTorusMesh2 thickness s = LoadExtraTorusMesh ExtraTorus2 (LoadExtraTorusMesh2_data thickness) s"

text \<open>\<open>LoadFinMesh\<close> sets up its VAO itself (lines 2140--2165) and never assigns
  \<open>nVertices\<close>.\<close>

definition LoadFinMesh :: "real \<Rightarrow> real \<Rightarrow> real \<Rightarrow> real \<Rightarrow> ShapeMeshes \<Rightarrow> ShapeMeshes" where
  "LoadFinMesh baseLength topLength height thickness s =
     (let d = LoadFinMesh_data baseLength topLength height thickness;
          (va, c1) = glGenVertexArray (gl s);
          (vb, c2) = glGenBuffer c1;
          (eb, c3) = glGenBuffer c2;
          c4 = glBindVertexArray va c3;
          c5 = glBufferDataArray (interleave (mb_verts d)) (glBindArrayBuffer vb c4);
          c6 = glBufferDataElement (mb_indices d) (glBindElementBuffer eb c5);
          c7 = glEnableVertexAttribArray 0 (glVertexAttribPointer 0 3 8 0 c6);
          c8 = glEnableVertexAttribArray 1 (glVertexAttribPointer 1 3 8 3 c7);
          c9 = glEnableVertexAttribArray 2 (glVertexAttribPointer 2 2 8 6 c8);
          c10 = glBindVertexArray 0 c9;
          m = (meshes s Fin)\<lparr>vao := va, vbo := vb, ebo := eb, nIndices := length (mb_indices d)\<rparr>
      in s\<lparr>meshes := (meshes s)(Fin := m), gl := c10\<rparr>)"

text \<open>\<open>LoadCurvedConeMesh\<close> stores the clamped counts and uploads through
  \<open>InitializeMesh\<close> (lines 2666--2754).\<close>

definition LoadCurvedConeMesh :: "int \<Rightarrow> int \<Rightarrow> real \<Rightarrow> real \<Rightarrow> real \<Rightarrow> ShapeMeshes \<Rightarrow> ShapeMeshes" where
  "LoadCurvedConeMesh numSlices0 curveSteps0 radius height bendRadius s =
     (let m = (meshes s CurvedCone)\<lparr>numSlices := clamp_min 3 numSlices0, curveSteps := clamp_min 1 curveSteps0\<rparr>
      in upload CurvedCone (LoadCurvedConeMesh_data numSlices0 curveSteps0 radius height bendRadius)
                (s\<lparr>meshes := (meshes s)(CurvedCone := m)\<rparr>))"

text \<open>\<open>LoadTaperedTorusMesh\<close>, \<open>LoadSpiralMesh\<close>, \<open>LoadSineConeMesh\<close> and
  \<open>LoadSuperellipsoidMesh\<close> (lines 2811--2818, 2949--2954, 3227--3232, 3471--3477) only
  generate the three names; the geometry is uploaded by the matching \<open>Draw\<close> function.\<close>

definition load_names :: "shape \<Rightarrow> ShapeMeshes \<Rightarrow> ShapeMeshes" where
  "load_names sh s =
     (let (va, c1) = glGenVertexArray (gl s);
          (vb, c2) = glGenBuffer c1;
          (eb, c3) = glGenBuffer c2
      in s\<lparr>meshes := (meshes s)(sh := (meshes s sh)\<lparr>vao := va, vbo := vb, ebo := eb\<rparr>), gl := c3\<rparr>)"

definition LoadTaperedTorusMesh :: "ShapeMeshes \<Rightarrow> ShapeMeshes" where
  "LoadTaperedTorusMesh = load_names TaperedTorus"

definition LoadSpiralMesh :: "ShapeMeshes \<Rightarrow> ShapeMeshes" where
  "LoadSpiralMesh = load_names Spiral"

definition LoadSineConeMesh :: "ShapeMeshes \<Rightarrow> ShapeMeshes" where
  "LoadSineConeMesh = load_names SineCone"

definition LoadSuperellipsoidMesh :: "ShapeMeshes \<Rightarrow> ShapeMeshes" where
  "LoadSuperellipsoidMesh = load_names Superellipsoid"

section \<open>Draw operations\<close>

text \<open>The draw functions that bind a shape's VAO, issue one draw call over the whole
  index list (or vertex list) and unbind, with the guard the code has: none
  (\<open>DrawSphereMesh\<close>, \<open>DrawHemisphereMesh\<close>, \<open>DrawPlaneMesh\<close>, \<open>DrawPrismMesh\<close>),
  \<open>vao == 0 || nIndices == 0\<close> (box, torus, tube), \<open>vao == 0 || nVertices == 0\<close>
  (spring) or \<open>nVertices == 0\<close> (pyramids).\<close>

definition draw_whole :: "shape \<Rightarrow> prim_mode \<Rightarrow> bool \<Rightarrow> bool \<Rightarrow> ShapeMeshes \<Rightarrow> ShapeMeshes" where
  "draw_whole sh mode elements wireframe s =
     (let m = meshes s sh;
          c1 = SetWireframeMode wireframe (gl s);
          c2 = glBindVertexArray (vao m) c1;
          c3 = (if elements then glDrawElements mode (nIndices m) 0 c2 else glDrawArrays mode 0 (nVertices m) c2);
          c4 = glBindVertexArray 0 c3
      in s\<lparr>gl := c4\<rparr>)"

definition DrawBoxMesh :: "bool \<Rightarrow> ShapeMeshes \<Rightarrow> ShapeMeshes" where
  "DrawBoxMesh wireframe s =
     (if vao (meshes s Box) = 0 \<or> nIndices (meshes s Box) = 0 then s
      else draw_whole Box GL_TRIANGLES True wireframe s)"

text \<open>\<open>DrawBoxMeshSide(side, wireframe)\<close> (lines 1644--1676).\<close>

definition DrawBoxMeshSide :: "BoxSide \<Rightarrow> bool \<Rightarrow> ShapeMeshes \<Rightarrow> ShapeMeshes" where
  "DrawBoxMeshSide side wireframe s =
     (let m = meshes s Box
      in if vao m = 0 \<or> nIndices m = 0 then s
         else (let c1 = SetWireframeMode wireframe (gl s);
                   c2 = glBindVertexArray (vao m) c1;
                   c3 = glDrawElements GL_TRIANGLES indicesPerFace (box_side_offset side) c2;
                   c4 = glBindVertexArray 0 c3
               in s\<lparr>gl := c4\<rparr>))"

text \<open>\<open>DrawConeMesh(bDrawBottom, wireframe)\<close> (lines 1690--1717): the bottom fan is the
  first \<open>3 n\<close> indices, the sides the next \<open>3 n\<close>.\<close>

definition DrawConeMesh :: "bool \<Rightarrow> bool \<Rightarrow> ShapeMeshes \<Rightarrow> ShapeMeshes" where
  "DrawConeMesh bDrawBottom wireframe s =
     (let m = meshes s Cone
      in if vao m = 0 then s
         else (let c1 = SetWireframeMode wireframe (gl s);
                   c2 = glBindVertexArray (vao m) c1;
                   bottomCount = nat (numSlices m) * 3; sideCount = nat (numSlices m) * 3;
                   c3 = (if bDrawBottom then glDrawElements GL_TRIANGLES bottomCount 0 c2 else c2);
                   c4 = glDrawElements GL_TRIANGLES sideCount bottomCount c3;
                   c5 = glBindVertexArray 0 c4
               in s\<lparr>gl := c5\<rparr>))"

text \<open>\<open>DrawCylinderMesh(bDrawTop, bDrawBottom, bDrawSides, wireframe)\<close> (lines 1854--1878),
  without a guard.\<close>

definition DrawCylinderMesh :: "bool \<Rightarrow> bool \<Rightarrow> bool \<Rightarrow> bool \<Rightarrow> ShapeMeshes \<Rightarrow> ShapeMeshes" where
  "DrawCylinderMesh bDrawTop bDrawBottom bDrawSides wireframe s =
     (let m = meshes s Cylinder; n = nat (numSlices m);
          c1 = SetWireframeMode wireframe (gl s);
          c2 = glBindVertexArray (vao m) c1;
          c3 = (if bDrawBottom then glDrawElements GL_TRIANGLES (n * 3) 0 c2 else c2);
          c4 = (if bDrawTop then glDrawElements GL_TRIANGLES (n * 3) (n * 3) c3 else c3);
          c5 = (if bDrawSides then glDrawElements GL_TRIANGLES (n * 6) (n * 6) c4 else c4);
          c6 = glBindVertexArray 0 c5
      in s\<lparr>gl := c6\<rparr>)"

text \<open>\<open>DrawTaperedCylinderMesh\<close> (lines 2248--2273).\<close>

definition DrawTaperedCylinderMesh :: "bool \<Rightarrow> bool \<Rightarrow> bool \<Rightarrow> bool \<Rightarrow> ShapeMeshes \<Rightarrow> ShapeMeshes" where
  "DrawTaperedCylinderMesh bDrawTop bDrawBottom bDrawSides wireframe s =
     (let m = meshes s TaperedCylinder; n = nat (numSlices m);
          c1 = SetWireframeMode wireframe (gl s);
          c2 = glBindVertexArray (vao m) c1;
          bottomCount = n * 3; topCount = n * 3; sideCount = n * 6;
          bottomOff = 0; topOff = bottomCount; sideOff = bottomCount + topCount;
          c3 = (if bDrawBottom then glDrawElements GL_TRIANGLES bottomCount bottomOff c2 else c2);
          c4 = (if bDrawTop then glDrawElements GL_TRIANGLES topCount topOff c3 else c3);
          c5 = (if bDrawSides then glDrawElements GL_TRIANGLES sideCount sideOff c4 else c4);
          c6 = glBindVertexArray 0 c5
      in s\<lparr>gl := c6\<rparr>)"

definition DrawPlaneMesh :: "bool \<Rightarrow> ShapeMeshes \<Rightarrow> ShapeMeshes" where
  "DrawPlaneMesh wireframe s = draw_whole Plane GL_TRIANGLE_STRIP True wireframe s"

definition DrawPrismMesh :: "bool \<Rightarrow> ShapeMeshes \<Rightarrow> ShapeMeshes" where
  "DrawPrismMesh wireframe s = draw_whole Prism GL_TRIANGLE_STRIP False wireframe s"

definition DrawPyramid3Mesh :: "bool \<Rightarrow> ShapeMeshes \<Rightarrow> ShapeMeshes" where
  "DrawPyramid3Mesh wireframe s =
     (if nVertices (meshes s Pyramid3) = 0 then s else draw_whole Pyramid3 GL_TRIANGLE_STRIP False wireframe s)"

definition DrawPyramid4Mesh :: "bool \<Rightarrow> ShapeMeshes \<Rightarrow> ShapeMeshes" where
  "DrawPyramid4Mesh wireframe s =
     (if nVertices (meshes s Pyramid4) = 0 then s else draw_whole Pyramid4 GL_TRIANGLE_STRIP False wireframe s)"

definition DrawSphereMesh :: "bool \<Rightarrow> ShapeMeshes \<Rightarrow> ShapeMeshes" where
  "DrawSphereMesh wireframe s = draw_whole Sphere GL_TRIANGLES True wireframe s"

definition DrawHemisphereMesh :: "bool \<Rightarrow> ShapeMeshes \<Rightarrow> ShapeMeshes" where
  "DrawHemisphereMesh wireframe s = draw_whole Hemisphere GL_TRIANGLES True wireframe s"

text \<open>\<open>DrawHalfSphereMesh\<close> and \<open>DrawHalfTorusMesh\<close> draw the first half of the index list
  (lines 2025--2039 and 2344--2358).\<close>

definition draw_half :: "shape \<Rightarrow> bool \<Rightarrow> ShapeMeshes \<Rightarrow> ShapeMeshes" where
  "draw_half sh wireframe s =
     (let m = meshes s sh
      in if vao m = 0 \<or> nIndices m = 0 then s
         else (let c1 = SetWireframeMode wireframe (gl s);
                   c2 = glBindVertexArray (vao m) c1;
                   c3 = glDrawElements GL_TRIANGLES (nIndices m div 2) 0 c2;
                   c4 = glBindVertexArray 0 c3
               in s\<lparr>gl := c4\<rparr>))"

definition DrawHalfSphereMesh :: "bool \<Rightarrow> ShapeMeshes \<Rightarrow> ShapeMeshes" where
  "DrawHalfSphereMesh wireframe s = draw_half Sphere wireframe s"

definition DrawHalfTorusMesh :: "bool \<Rightarrow> ShapeMeshes \<Rightarrow> ShapeMeshes" where
  "DrawHalfTorusMesh wireframe s = draw_half Torus wireframe s"

definition DrawTorusMesh :: "bool \<Rightarrow> ShapeMeshes \<Rightarrow> ShapeMeshes" where
  "DrawTorusMesh wireframe s =
     (if vao (meshes s Torus) = 0 \<or> nIndices (meshes s Torus) = 0 then s
      else draw_whole Torus GL_TRIANGLES True wireframe s)"

definition DrawSpringMesh :: "bool \<Rightarrow> ShapeMeshes \<Rightarrow> ShapeMeshes" where
  "DrawSpringMesh wireframe s =
     (if vao (meshes s Spring) = 0 \<or> nVertices (meshes s Spring) = 0 then s
      else draw_whole Spring GL_TRIANGLES True wireframe s)"

definition DrawTubeMesh :: "bool \<Rightarrow> ShapeMeshes \<Rightarrow> ShapeMeshes" where
  "DrawTubeMesh wireframe s =
     (if vao (meshes s Tube) = 0 \<or> nIndices (meshes s Tube) = 0 then s
      else draw_whole Tube GL_TRIANGLES True wireframe s)"

text \<open>\<open>DrawExtraTorusMesh1/2\<close> (lines 2309--2331) leave the polygon mode alone.\<close>

definition DrawExtraTorusMesh :: "shape \<Rightarrow> ShapeMeshes \<Rightarrow> ShapeMeshes" where
  "DrawExtraTorusMesh sh s =
     (let m = meshes s sh;
          c1 = glBindVertexArray (vao m) (gl s);
          c2 = glDrawArrays GL_TRIANGLES 0 (nVertices m) c1;
          c3 = glBindVertexArray 0 c2
      in s\<lparr>gl := c3\<rparr>)"

text \<open>The fin draws (lines 2179--2232): \<open>DrawFinMesh\<close> sets and resets the polygon mode
  itself; the four sub-range draws have no guard and fixed counts.\<close>

definition DrawFinMesh :: "bool \<Rightarrow> ShapeMeshes \<Rightarrow> ShapeMeshes" where
  "DrawFinMesh wireframe s =
     (let m = meshes s Fin;
          c1 = glPolygonModeLine wireframe (gl s);
          c2 = glBindVertexArray (vao m) c1;
          c3 = glDrawElements GL_TRIANGLES (nIndices m) 0 c2;
          c4 = glBindVertexArray 0 c3;
          c5 = glPolygonModeLine False c4
      in s\<lparr>gl := c5\<rparr>)"

definition draw_fin_ranges :: "(nat \<times> nat) list \<Rightarrow> ShapeMeshes \<Rightarrow> ShapeMeshes" where
  "draw_fin_ranges rs s =
     (let c1 = glBindVertexArray (vao (meshes s Fin)) (gl s);
          c2 = fold (\<lambda>(count, first). glDrawElements GL_TRIANGLES count first) rs c1;
          c3 = glBindVertexArray 0 c2
      in s\<lparr>gl := c3\<rparr>)"

definition DrawFinSides :: "ShapeMeshes \<Rightarrow> ShapeMeshes" where
  "DrawFinSides s = draw_fin_ranges [(6, 0), (6, 6)] s"

definition DrawFinFrontOnly :: "ShapeMeshes \<Rightarrow> ShapeMeshes" where
  "DrawFinFrontOnly s = draw_fin_ranges [(6, 0)] s"

definition DrawFinBackOnly :: "ShapeMeshes \<Rightarrow> ShapeMeshes" where
  "DrawFinBackOnly s = draw_fin_ranges [(6, 6)] s"

definition DrawFinUntexturedSides :: "ShapeMeshes \<Rightarrow> ShapeMeshes" where
  "DrawFinUntexturedSides s = draw_fin_ranges [(24, 12)] s"

text \<open>\<open>DrawPartialConeMesh\<close> uploads its host buffer to fresh objects on every call,
  draws it and deletes the objects again (lines 1793--1835).\<close>

definition DrawPartialConeMesh :: "real \<Rightarrow> real \<Rightarrow> int \<Rightarrow> real \<Rightarrow> bool \<Rightarrow> ShapeMeshes \<Rightarrow> ShapeMeshes" where
  "DrawPartialConeMesh radius height numSlices0 arcDegrees wireframe s =
     (let d = DrawPartialConeMesh_data radius height numSlices0 arcDegrees;
          (va, c1) = glGenVertexArray (gl s);
          (vb, c2) = glGenBuffer c1;
          (eb, c3) = glGenBuffer c2;
          c4 = glBindVertexArray va c3;
          c5 = glBufferDataArray (interleave (mb_verts d)) (glBindArrayBuffer vb c4);
          c6 = glBufferDataElement (mb_indices d) (glBindElementBuffer eb c5);
          STRIDE = 8;
          c7 = glVertexAttribPointer 0 3 STRIDE 0 (glEnableVertexAttribArray 0 c6);
          c8 = glVertexAttribPointer 1 3 STRIDE 3 (glEnableVertexAttribArray 1 c7);
          c9 = glVertexAttribPointer 2 2 STRIDE 6 (glEnableVertexAttribArray 2 c8);
          c10 = SetWireframeMode wireframe c9;
          c11 = glBindVertexArray va c10;
          c12 = glDrawElements GL_TRIANGLES (length (mb_indices d)) 0 c11;
          c13 = glBindVertexArray 0 c12;
          c14 = glDeleteVertexArray va (glDeleteBuffer vb (glDeleteBuffer eb c13))
      in s\<lparr>gl := c14\<rparr>)"

text \<open>\<open>DrawCurvedConeMesh\<close> (lines 2763--2768): no guard and no polygon mode.\<close>

definition DrawCurvedConeMesh :: "ShapeMeshes \<Rightarrow> ShapeMeshes" where
  "DrawCurvedConeMesh s =
     (let m = meshes s CurvedCone;
          c1 = glBindVertexArray (vao m) (gl s);
          c2 = glDrawElements GL_TRIANGLES (nIndices m) 0 c1;
          c3 = glBindVertexArray 0 c2
      in s\<lparr>gl := c3\<rparr>)"

text \<open>The upload-and-draw tail shared by the four per-draw shapes (lines 2890--2909,
  3167--3185, 3344--3362, 3623--3651): bind the shape's VAO and VBO, upload the vertices,
  set the three attribute pointers (the six calls of \<open>SetShaderMemoryLayout\<close>, in its
  order), bind the EBO (\<open>DrawSpiralMesh\<close> binds it twice, which binds the same buffer),
  upload the indices, draw all of them and unbind.\<close>

definition dynamic_upload_draw :: "shape \<Rightarrow> mesh_buffer \<Rightarrow> ShapeMeshes \<Rightarrow> ShapeMeshes" where
  "dynamic_upload_draw sh d s =
     (let m = meshes s sh;
          c1 = glBindVertexArray (vao m) (gl s);
          c2 = glBindArrayBuffer (vbo m) c1;
          c3 = glBufferDataArray (interleave (mb_verts d)) c2;
          c4 = SetShaderMemoryLayout c3;
          c5 = glBindElementBuffer (ebo m) c4;
          c6 = glBufferDataElement (mb_indices d) c5;
          c7 = glDrawElements GL_TRIANGLES (length (mb_indices d)) 0 c6;
          c8 = glBindVertexArray 0 c7
      in s\<lparr>gl := c8\<rparr>)"

definition DrawTaperedTorusMesh ::
  "real \<Rightarrow> real \<Rightarrow> real \<Rightarrow> int \<Rightarrow> int \<Rightarrow> real \<Rightarrow> ShapeMeshes \<Rightarrow> ShapeMeshes" where
  "DrawTaperedTorusMesh mainRadius tubeRadiusStart tubeRadiusEnd mainSegments tubeSegments sweepAngleRadians =
     dynamic_upload_draw TaperedTorus
       (DrawTaperedTorusMesh_data mainRadius tubeRadiusStart tubeRadiusEnd mainSegments tubeSegments sweepAngleRadians)"

definition DrawSineConeMesh ::
  "real \<Rightarrow> real \<Rightarrow> real \<Rightarrow> real \<Rightarrow> real \<Rightarrow> real \<Rightarrow> int \<Rightarrow> int \<Rightarrow> ShapeMeshes \<Rightarrow> ShapeMeshes" where
  "DrawSineConeMesh baseRadius height flattenFactor sineAmplitude sineFrequency sinePhase radialSegments
                    heightSegments =
     dynamic_upload_draw SineCone
       (DrawSineConeMesh_data baseRadius height flattenFactor sineAmplitude sineFrequency sinePhase radialSegments
                              heightSegments)"

text \<open>\<open>DrawSuperellipsoidMesh\<close> also stores \<open>numSlices = vSegments\<close> (after the clamp) and the
  two counts (lines 3503, 3619--3620) before the upload.\<close>

definition DrawSuperellipsoidMesh ::
  "real \<Rightarrow> real \<Rightarrow> real \<Rightarrow> real \<Rightarrow> real \<Rightarrow> int \<Rightarrow> int \<Rightarrow> ShapeMeshes \<Rightarrow> ShapeMeshes" where
  "DrawSuperellipsoidMesh scaleX scaleY scaleZ verticalExponent horizontalExponent uSegments vSegments s =
     (let d = DrawSuperellipsoidMesh_data scaleX scaleY scaleZ verticalExponent horizontalExponent uSegments vSegments;
          m = (meshes s Superellipsoid)\<lparr>numSlices := clamp_min 3 vSegments, nVertices := length (mb_verts d),
                                        nIndices := length (mb_indices d)\<rparr>
      in dynamic_upload_draw Superellipsoid d (s\<lparr>meshes := (meshes s)(Superellipsoid := m)\<rparr>))"

text \<open>\<open>DrawSpiralMesh\<close>: where the generation has undefined behaviour (an \<open>Inl\<close> value of
  \<open>DrawSpiralMesh_data\<close>) no state of the program is defined; the model leaves the
  registry unchanged there, and \<open>op_pre\<close> below excludes those calls.\<close>

definition DrawSpiralMesh :: "real \<Rightarrow> real \<Rightarrow> real \<Rightarrow> real \<Rightarrow> int \<Rightarrow> int \<Rightarrow> ShapeMeshes \<Rightarrow> ShapeMeshes" where
  "DrawSpiralMesh tubeRadius flattenFactor loopSpacing numLoops tubeSegments spiralSegments s =
     (case DrawSpiralMesh_data tubeRadius flattenFactor loopSpacing numLoops tubeSegments spiralSegments of
        Inl e \<Rightarrow> s
      | Inr d \<Rightarrow> dynamic_upload_draw Spiral d s)"

section \<open>Deprecated wrappers\<close>

text \<open>Each \<open>Draw*MeshLines\<close> wrapper (lines 2411--2513) sets its warning flag on the first
  call (the message on \<open>std::cerr\<close> is not modelled) and calls the replacement with the
  single argument \<open>true\<close>, which C++ binds to the first \<open>bool\<close> parameter.\<close>

definition deprecated :: "warn_flag \<Rightarrow> (ShapeMeshes \<Rightarrow> ShapeMeshes) \<Rightarrow> ShapeMeshes \<Rightarrow> ShapeMeshes" where
  "deprecated flag draw s = draw (if \<not> warned s flag then s\<lparr>warned := (warned s)(flag := True)\<rparr> else s)"

definition DrawBoxMeshLines :: "ShapeMeshes \<Rightarrow> ShapeMeshes" where
  "DrawBoxMeshLines = deprecated boxWarned (DrawBoxMesh True)"

definition DrawConeMeshLines :: "ShapeMeshes \<Rightarrow> ShapeMeshes" where
  "DrawConeMeshLines = deprecated coneWarned (DrawConeMesh True False)"

definition DrawCylinderMeshLines :: "ShapeMeshes \<Rightarrow> ShapeMeshes" where
  "DrawCylinderMeshLines = deprecated cylinderWarned (DrawCylinderMesh True True True False)"

definition DrawPlaneMeshLines :: "ShapeMeshes \<Rightarrow> ShapeMeshes" where
  "DrawPlaneMeshLines = deprecated planeWarned (DrawPlaneMesh True)"

definition DrawPrismMeshLines :: "ShapeMeshes \<Rightarrow> ShapeMeshes" where
  "DrawPrismMeshLines = deprecated prismWarned (DrawPrismMesh True)"

definition DrawPyramid3MeshLines :: "ShapeMeshes \<Rightarrow> ShapeMeshes" where
  "DrawPyramid3MeshLines = deprecated pyramid3Warned (DrawPyramid3Mesh True)"

definition DrawPyramid4MeshLines :: "ShapeMeshes \<Rightarrow> ShapeMeshes" where
  "DrawPyramid4MeshLines = deprecated pyramid4Warned (DrawPyramid4Mesh True)"

definition DrawSphereMeshLines :: "ShapeMeshes \<Rightarrow> ShapeMeshes" where
  "DrawSphereMeshLines = deprecated sphereWarned (DrawSphereMesh True)"

definition DrawHalfSphereMeshLines :: "ShapeMeshes \<Rightarrow> ShapeMeshes" where
  "DrawHalfSphereMeshLines = deprecated halfSphereWarned (DrawHemisphereMesh True)"

definition DrawTaperedCylinderMeshLines :: "ShapeMeshes \<Rightarrow> ShapeMeshes" where
  "DrawTaperedCylinderMeshLines = deprecated taperedCylinderWarned (DrawTaperedCylinderMesh True True True False)"

definition DrawTorusMeshLines :: "ShapeMeshes \<Rightarrow> ShapeMeshes" where
  "DrawTorusMeshLines = deprecated torusWarned (DrawTorusMesh True)"

definition DrawHalfTorusMeshLines :: "ShapeMeshes \<Rightarrow> ShapeMeshes" where
  "DrawHalfTorusMeshLines = deprecated halfTorusWarned (DrawHalfTorusMesh True)"

section \<open>Operations and reachable states\<close>

text \<open>The public member functions of \<open>ShapeMeshes\<close> modelled here, with their arguments.\<close>

datatype op =
    OpLoadBox | OpLoadCone real real int | OpLoadCylinder real real int | OpLoadPlane real real
  | OpLoadPrism | OpLoadPyramid3 | OpLoadPyramid4 real real | OpLoadSphere int int real
  | OpLoadHemisphere int int real | OpLoadTaperedCylinder real real real int
  | OpLoadTorus real real int int | OpLoadExtraTorus1 real | OpLoadExtraTorus2 real
  | OpLoadSpring real real int int real | OpLoadTube real real real int | OpLoadFin real real real real
  | OpDrawBox bool | OpDrawBoxSide BoxSide bool | OpDrawCone bool bool
  | OpDrawPartialCone real real int real bool | OpDrawCylinder bool bool bool bool
  | OpDrawPlane bool | OpDrawPrism bool | OpDrawPyramid3 bool | OpDrawPyramid4 bool
  | OpDrawSphere bool | OpDrawHemisphere bool | OpDrawHalfSphere bool | OpDrawFin bool
  | OpDrawFinSides | OpDrawFinFrontOnly | OpDrawFinBackOnly | OpDrawFinUntexturedSides
  | OpDrawTaperedCylinder bool bool bool bool | OpDrawTorus bool | OpDrawExtraTorus1
  | OpDrawExtraTorus2 | OpDrawHalfTorus bool | OpDrawSpring bool | OpDrawTube bool
  | OpDrawBoxLines | OpDrawConeLines | OpDrawCylinderLines | OpDrawPlaneLines | OpDrawPrismLines
  | OpDrawPyramid3Lines | OpDrawPyramid4Lines | OpDrawSphereLines | OpDrawHalfSphereLines
  | OpDrawTaperedCylinderLines | OpDrawTorusLines | OpDrawHalfTorusLines
  | OpLoadCurvedCone int int real real real | OpDrawCurvedCone
  | OpLoadTaperedTorus | OpDrawTaperedTorus real real real int int real
  | OpLoadSpiral | OpDrawSpiral real real real real int int
  | OpLoadSineCone | OpDrawSineCone real real real real real real int int
  | OpLoadSuperellipsoid | OpDrawSuperellipsoid real real real real real int int

fun exec :: "op \<Rightarrow> ShapeMeshes \<Rightarrow> ShapeMeshes" where
  "exec OpLoadBox = LoadBoxMesh"
| "exec (OpLoadCone r h n) = LoadConeMesh r h n"
| "exec (OpLoadCylinder r h n) = LoadCylinderMesh r h n"
| "exec (OpLoadPlane w h) = LoadPlaneMesh w h"
| "exec OpLoadPrism = LoadPrismMesh"
| "exec OpLoadPyramid3 = LoadPyramid3Mesh"
| "exec (OpLoadPyramid4 b h) = LoadPyramid4Mesh b h"
| "exec (OpLoadSphere la lo r) = LoadSphereMesh la lo r"
| "exec (OpLoadHemisphere la lo r) = LoadHemisphereMesh la lo r"
| "exec (OpLoadTaperedCylinder rb rt h n) = LoadTaperedCylinderMesh rb rt h n"
| "exec (OpLoadTorus mr tr ms ts) = LoadTorusMesh mr tr ms ts"
| "exec (OpLoadExtraTorus1 t) = LoadExtraTorusMesh1 t"
| "exec (OpLoadExtraTorus2 t) = LoadExtraTorusMesh2 t"
| "exec (OpLoadSpring mr tr ms ts l) = LoadSpringMesh mr tr ms ts l"
| "exec (OpLoadTube ro ri h n) = LoadTubeMesh ro ri h n"
| "exec (OpLoadFin b t h th) = LoadFinMesh b t h th"
| "exec (OpDrawBox w) = DrawBoxMesh w"
| "exec (OpDrawBoxSide side w) = DrawBoxMeshSide side w"
| "exec (OpDrawCone b w) = DrawConeMesh b w"
| "exec (OpDrawPartialCone r h n a w) = DrawPartialConeMesh r h n a w"
| "exec (OpDrawCylinder t b sd w) = DrawCylinderMesh t b sd w"
| "exec (OpDrawPlane w) = DrawPlaneMesh w"
| "exec (OpDrawPrism w) = DrawPrismMesh w"
| "exec (OpDrawPyramid3 w) = DrawPyramid3Mesh w"
| "exec (OpDrawPyramid4 w) = DrawPyramid4Mesh w"
| "exec (OpDrawSphere w) = DrawSphereMesh w"
| "exec (OpDrawHemisphere w) = DrawHemisphereMesh w"
| "exec (OpDrawHalfSphere w) = DrawHalfSphereMesh w"
| "exec (OpDrawFin w) = DrawFinMesh w"
| "exec OpDrawFinSides = DrawFinSides"
| "exec OpDrawFinFrontOnly = DrawFinFrontOnly"
| "exec OpDrawFinBackOnly = DrawFinBackOnly"
| "exec OpDrawFinUntexturedSides = DrawFinUntexturedSides"
| "exec (OpDrawTaperedCylinder t b sd w) = DrawTaperedCylinderMesh t b sd w"
| "exec (OpDrawTorus w) = DrawTorusMesh w"
| "exec OpDrawExtraTorus1 = DrawExtraTorusMesh ExtraTorus1"
| "exec OpDrawExtraTorus2 = DrawExtraTorusMesh ExtraTorus2"
| "exec (OpDrawHalfTorus w) = DrawHalfTorusMesh w"
| "exec (OpDrawSpring w) = DrawSpringMesh w"
| "exec (OpDrawTube w) = DrawTubeMesh w"
| "exec OpDrawBoxLines = DrawBoxMeshLines"
| "exec OpDrawConeLines = DrawConeMeshLines"
| "exec OpDrawCylinderLines = DrawCylinderMeshLines"
| "exec OpDrawPlaneLines = DrawPlaneMeshLines"
| "exec OpDrawPrismLines = DrawPrismMeshLines"
| "exec OpDrawPyramid3Lines = DrawPyramid3MeshLines"
| "exec OpDrawPyramid4Lines = DrawPyramid4MeshLines"
| "exec OpDrawSphereLines = DrawSphereMeshLines"
| "exec OpDrawHalfSphereLines = DrawHalfSphereMeshLines"
| "exec OpDrawTaperedCylinderLines = DrawTaperedCylinderMeshLines"
| "exec OpDrawTorusLines = DrawTorusMeshLines"
| "exec OpDrawHalfTorusLines = DrawHalfTorusMeshLines"
| "exec (OpLoadCurvedCone n c r h b) = LoadCurvedConeMesh n c r h b"
| "exec OpDrawCurvedCone = DrawCurvedConeMesh"
| "exec OpLoadTaperedTorus = LoadTaperedTorusMesh"
| "exec (OpDrawTaperedTorus mr r0 r1 ms ts a) = DrawTaperedTorusMesh mr r0 r1 ms ts a"
| "exec OpLoadSpiral = LoadSpiralMesh"
| "exec (OpDrawSpiral tr f l n ts ss) = DrawSpiralMesh tr f l n ts ss"
| "exec OpLoadSineCone = LoadSineConeMesh"
| "exec (OpDrawSineCone b h f a q p rs hs) = DrawSineConeMesh b h f a q p rs hs"
| "exec OpLoadSuperellipsoid = LoadSuperellipsoidMesh"
| "exec (OpDrawSuperellipsoid x y z ve he u v) = DrawSuperellipsoidMesh x y z ve he u v"

text \<open>The caller's precondition of spec section 7 (a Draw follows the Load of its
  shape), imposed only where a draw before the load reads outside every buffer: the four
  fin sub-range draws, which draw a fixed number of indices, and the four per-draw shapes,
  which upload into the objects their \<open>Load\<close> creates. \<open>DrawSpiralMesh\<close> is also
  restricted to the parameters for which its generation is defined.\<close>

fun op_pre :: "ShapeMeshes \<Rightarrow> op \<Rightarrow> bool" where
  "op_pre s OpDrawFinSides = (vao (meshes s Fin) \<noteq> 0)"
| "op_pre s OpDrawFinFrontOnly = (vao (meshes s Fin) \<noteq> 0)"
| "op_pre s OpDrawFinBackOnly = (vao (meshes s Fin) \<noteq> 0)"
| "op_pre s OpDrawFinUntexturedSides = (vao (meshes s Fin) \<noteq> 0)"
| "op_pre s (OpDrawTaperedTorus mr r0 r1 ms ts a) = (vao (meshes s TaperedTorus) \<noteq> 0)"
| "op_pre s (OpDrawSineCone b h f a q p rs hs) = (vao (meshes s SineCone) \<noteq> 0)"
| "op_pre s (OpDrawSuperellipsoid x y z ve he u v) = (vao (meshes s Superellipsoid) \<noteq> 0)"
| "op_pre s (OpDrawSpiral tr f l n ts ss) =
     (vao (meshes s Spiral) \<noteq> 0 \<and> (case DrawSpiralMesh_data tr f l n ts ss of Inl e \<Rightarrow> False | Inr d \<Rightarrow> True))"
| "op_pre s _ = True"

inductive reachable :: "ShapeMeshes \<Rightarrow> bool" where
  init: "reachable ShapeMeshes_init"
| step: "reachable s \<Longrightarrow> op_pre s op \<Longrightarrow> reachable (exec op s)"

end
