(* ===== verification/Registry_Effects.thy ===== *)
theory Registry_Effects
  imports Registry
begin

text \<open>
  What the registry's command sequences do to the GL context. \<open>InitializeMesh\<close>,
  \<open>LoadExtraTorusMesh1/2\<close>, \<open>LoadFinMesh\<close> and \<open>DrawPartialConeMesh\<close> are each shown equal
  to a single update of the registry: fresh names \<open>N\<close>, \<open>N + 1\<close>, \<open>N + 2\<close> taken from
  \<open>gl_next\<close>, the uploaded data in the new buffers, and the new VAO in the layout
  \<open>layout_vao\<close> that \<open>SetShaderMemoryLayout\<close> (or the code's own copy of it) sets up. The
  proofs go one GL command at a time, each intermediate context named, so that no step
  unfolds the whole let-chain. The section on single operations states what the code
  does where the spec says otherwise: the layout flag is never set, the fin sub-range
  draws read past their buffers before the fin is loaded, the \<open>Lines\<close> wrappers of the
  cone, cylinder and tapered cylinder draw filled, and a second load leaks the first
  load's objects.
\<close>

section \<open>The standard vertex layout\<close>

text \<open>The VAO state after \<open>SetShaderMemoryLayout\<close> on a fresh VAO with element buffer \<open>e\<close>
  and array buffer \<open>b\<close>: position, normal and texture coordinate at float offsets 0, 3
  and 6 of an 8-float record.\<close>

definition layout_vao :: "nat \<Rightarrow> nat \<Rightarrow> vao_state" where
  "layout_vao e b =
     \<lparr>vao_ebo = e,
      vao_attribs = [0 \<mapsto> \<lparr>ap_size = 3, ap_stride = 8, ap_offset = 0, ap_buffer = b\<rparr>,
                     1 \<mapsto> \<lparr>ap_size = 3, ap_stride = 8, ap_offset = 3, ap_buffer = b\<rparr>,
                     2 \<mapsto> \<lparr>ap_size = 2, ap_stride = 8, ap_offset = 6, ap_buffer = b\<rparr>],
      vao_enabled = [0, 1, 2]\<rparr>"

section \<open>Effects of the command sequences\<close>

lemma vao_ebo_layout [simp]: "vao_ebo (layout_vao e b) = e"
  by (simp add: layout_vao_def)

lemma SetShaderMemoryLayout_fresh:
  assumes "gl_vao c \<noteq> 0" "gl_vaos c (gl_vao c) = Some (empty_vao\<lparr>vao_ebo := e\<rparr>)"
  shows "SetShaderMemoryLayout c = c\<lparr>gl_vaos := (gl_vaos c)(gl_vao c \<mapsto> layout_vao e (gl_array_buffer c))\<rparr>"
  using assms
  by (simp add: SetShaderMemoryLayout_def glVertexAttribPointer_def glEnableVertexAttribArray_def
                update_bound_vao_Some layout_vao_def empty_vao_def fun_upd_twist)

lemma attrib_setup_layout:
  "glEnableVertexAttribArray 2 (glVertexAttribPointer 2 2 8 6 (glEnableVertexAttribArray 1
     (glVertexAttribPointer 1 3 8 3 (glEnableVertexAttribArray 0 (glVertexAttribPointer 0 3 8 0 c)))))
   = SetShaderMemoryLayout c"
  by (simp add: SetShaderMemoryLayout_def)

lemma attrib_setup_enable_first:
  assumes "gl_vao c \<noteq> 0" "gl_vaos c (gl_vao c) = Some (empty_vao\<lparr>vao_ebo := e\<rparr>)"
  shows "glVertexAttribPointer 2 2 8 6 (glEnableVertexAttribArray 2 (glVertexAttribPointer 1 3 8 3
           (glEnableVertexAttribArray 1 (glVertexAttribPointer 0 3 8 0 (glEnableVertexAttribArray 0 c)))))
         = c\<lparr>gl_vaos := (gl_vaos c)(gl_vao c \<mapsto> layout_vao e (gl_array_buffer c))\<rparr>"
  using assms
  by (simp add: glVertexAttribPointer_def glEnableVertexAttribArray_def
                update_bound_vao_Some layout_vao_def empty_vao_def fun_upd_twist)

lemma layout_reads_ok:
  assumes "gl_buffers c b = Some (Floats (interleave vs))"
  shows "vertex_reads_ok c (layout_vao e b) is = list_all (\<lambda>i. i < length vs) is"
  using assms by (auto simp: vertex_reads_ok_def attrib_reads_ok_def layout_vao_def length_interleave
                             list_all_iff)

lemma layout_draw_ok:
  assumes "gl_vao c = v" "v \<noteq> 0" "gl_vaos c v = Some (layout_vao e b)" "e \<noteq> 0"
    "gl_buffers c b = Some (Floats (interleave vs))" "gl_buffers c e = Some (Uints idx)"
    "indices_below (length vs) idx" "first + count \<le> length idx"
  shows "draw_ok c (DrawElementsCall mode count first)"
proof -
  have "list_all (\<lambda>i. i < length vs) (take count (drop first idx))"
    using assms(7) by (auto simp: indices_below_def list_all_iff dest: in_set_takeD in_set_dropD)
  then show ?thesis using assms by (simp add: layout_reads_ok)
qed

lemma InitializeMesh_indexed:
  assumes "\<not> m_bMemoryLayoutDone s" "0 < gl_next (gl s)" "idx \<noteq> []"
  defines "N \<equiv> gl_next (gl s)"
  shows "InitializeMesh sh vs idx s =
    s\<lparr>meshes := (meshes s)(sh := (meshes s sh)\<lparr>nVertices := length vs div floats_per_record,
                                    nIndices := length idx, vao := N, vbo := N + 1, ebo := N + 2\<rparr>),
      gl := (gl s)\<lparr>gl_next := N + 3, gl_vao := 0, gl_array_buffer := N + 1,
                   gl_buffers := (gl_buffers (gl s))(N + 1 \<mapsto> Floats vs, N + 2 \<mapsto> Uints idx),
                   gl_vaos := (gl_vaos (gl s))(N \<mapsto> layout_vao (N + 2) (N + 1))\<rparr>\<rparr>"
proof -
  define b where "b = N + 1"
  define e where "e = N + 2"
  define c1 where "c1 = (gl s)\<lparr>gl_next := N + 1, gl_vaos := (gl_vaos (gl s))(N \<mapsto> empty_vao)\<rparr>"
  have 1: "glGenVertexArray (gl s) = (N, c1)" by (simp add: glGenVertexArray_def c1_def N_def empty_vao_def)
  define c2 where "c2 = c1\<lparr>gl_vao := N\<rparr>"
  have 2: "glBindVertexArray N c1 = c2" by (simp add: glBindVertexArray_def c1_def c2_def)
  define c3 where "c3 = c2\<lparr>gl_next := N + 2, gl_buffers := (gl_buffers (gl s))(b \<mapsto> NoData)\<rparr>"
  have 3: "glGenBuffer c2 = (b, c3)" by (simp add: glGenBuffer_def c1_def c2_def c3_def b_def)
  define c4 where "c4 = c3\<lparr>gl_array_buffer := b, gl_buffers := (gl_buffers (gl s))(b \<mapsto> Floats vs)\<rparr>"
  have 4: "glBufferDataArray vs (glBindArrayBuffer b c3) = c4"
    by (simp add: glBufferDataArray_def glBindArrayBuffer_def c3_def c4_def b_def)
  define c5 where "c5 = c4\<lparr>gl_next := N + 3, gl_buffers := (gl_buffers (gl s))(b \<mapsto> Floats vs, e \<mapsto> NoData)\<rparr>"
  have 5: "glGenBuffer c4 = (e, c5)" by (simp add: glGenBuffer_def c1_def c2_def c3_def c4_def c5_def e_def)
  define c6 where "c6 = c5\<lparr>gl_buffers := (gl_buffers (gl s))(b \<mapsto> Floats vs, e \<mapsto> Uints idx),
                             gl_vaos := (gl_vaos (gl s))(N \<mapsto> empty_vao\<lparr>vao_ebo := e\<rparr>)\<rparr>"
  have 6: "glBufferDataElement idx (glBindElementBuffer e c5) = c6"
    using assms(2) by (simp add: glBufferDataElement_def glBindElementBuffer_def update_bound_vao_def
                                 N_def c1_def c2_def c3_def c4_def c5_def c6_def e_def b_def)
  have 7: "SetShaderMemoryLayout c6 = c6\<lparr>gl_vaos := (gl_vaos (gl s))(N \<mapsto> layout_vao e b)\<rparr>"
    using assms(2) by (simp add: SetShaderMemoryLayout_fresh N_def c1_def c2_def c3_def c4_def c5_def c6_def)
  have "InitializeMesh sh vs idx s =
    s\<lparr>meshes := (meshes s)(sh := (meshes s sh)\<lparr>nVertices := length vs div floats_per_record,
                                    nIndices := length idx, vao := N, vbo := b, ebo := e\<rparr>),
      gl := (c6\<lparr>gl_vaos := (gl_vaos (gl s))(N \<mapsto> layout_vao e b)\<rparr>)\<lparr>gl_vao := 0\<rparr>\<rparr>"
    using assms(1,3) by (simp only: InitializeMesh_def Let_def 1 2 3 4 5 6 7 glBindVertexArray_0 if_True if_False
                                    not_False_eq_True prod.case)
  then show ?thesis by (simp add: c1_def c2_def c3_def c4_def c5_def c6_def b_def e_def)
qed

lemma InitializeMesh_plain:
  assumes "\<not> m_bMemoryLayoutDone s" "0 < gl_next (gl s)"
  defines "N \<equiv> gl_next (gl s)"
  shows "InitializeMesh sh vs [] s =
    s\<lparr>meshes := (meshes s)(sh := (meshes s sh)\<lparr>nVertices := length vs div floats_per_record,
                                    nIndices := 0, vao := N, vbo := N + 1\<rparr>),
      gl := (gl s)\<lparr>gl_next := N + 2, gl_vao := 0, gl_array_buffer := N + 1,
                   gl_buffers := (gl_buffers (gl s))(N + 1 \<mapsto> Floats vs),
                   gl_vaos := (gl_vaos (gl s))(N \<mapsto> layout_vao 0 (N + 1))\<rparr>\<rparr>"
proof -
  define b where "b = N + 1"
  define c1 where "c1 = (gl s)\<lparr>gl_next := N + 1, gl_vaos := (gl_vaos (gl s))(N \<mapsto> empty_vao)\<rparr>"
  have 1: "glGenVertexArray (gl s) = (N, c1)" by (simp add: glGenVertexArray_def c1_def N_def empty_vao_def)
  define c2 where "c2 = c1\<lparr>gl_vao := N\<rparr>"
  have 2: "glBindVertexArray N c1 = c2" by (simp add: glBindVertexArray_def c1_def c2_def)
  define c3 where "c3 = c2\<lparr>gl_next := N + 2, gl_buffers := (gl_buffers (gl s))(b \<mapsto> NoData)\<rparr>"
  have 3: "glGenBuffer c2 = (b, c3)" by (simp add: glGenBuffer_def c1_def c2_def c3_def b_def)
  define c4 where "c4 = c3\<lparr>gl_array_buffer := b, gl_buffers := (gl_buffers (gl s))(b \<mapsto> Floats vs)\<rparr>"
  have 4: "glBufferDataArray vs (glBindArrayBuffer b c3) = c4"
    by (simp add: glBufferDataArray_def glBindArrayBuffer_def c3_def c4_def b_def)
  have 5: "SetShaderMemoryLayout c4 = c4\<lparr>gl_vaos := (gl_vaos (gl s))(N \<mapsto> layout_vao 0 b)\<rparr>"
    using assms(2) by (simp add: SetShaderMemoryLayout_fresh N_def c1_def c2_def c3_def c4_def empty_vao_def)
  have "InitializeMesh sh vs [] s =
    s\<lparr>meshes := (meshes s)(sh := (meshes s sh)\<lparr>nVertices := length vs div floats_per_record,
                                    nIndices := 0, vao := N, vbo := b, ebo := ebo (meshes s sh)\<rparr>),
      gl := (c4\<lparr>gl_vaos := (gl_vaos (gl s))(N \<mapsto> layout_vao 0 b)\<rparr>)\<lparr>gl_vao := 0\<rparr>\<rparr>"
    using assms(1) by (simp only: InitializeMesh_def Let_def 1 2 3 4 5 glBindVertexArray_0 if_True if_False
                                  not_True_eq_False not_False_eq_True prod.case list.size simp_thms) simp
  then show ?thesis by (simp add: c1_def c2_def c3_def c4_def b_def)
qed

lemma LoadExtraTorusMesh_eq:
  assumes "\<not> m_bMemoryLayoutDone s" "0 < gl_next (gl s)"
  defines "N \<equiv> gl_next (gl s)"
  shows "LoadExtraTorusMesh sh d s =
    s\<lparr>meshes := (meshes s)(sh := (meshes s sh)\<lparr>nVertices := length (mb_verts d), nIndices := 0,
                                    vao := N, vbos0 := N + 1\<rparr>),
      gl := (gl s)\<lparr>gl_next := N + 2, gl_vao := N, gl_array_buffer := N + 1,
                   gl_buffers := (gl_buffers (gl s))(N + 1 \<mapsto> Floats (interleave (mb_verts d))),
                   gl_vaos := (gl_vaos (gl s))(N \<mapsto> layout_vao 0 (N + 1))\<rparr>\<rparr>"
proof -
  define b where "b = N + 1"
  define c1 where "c1 = (gl s)\<lparr>gl_next := N + 1, gl_vaos := (gl_vaos (gl s))(N \<mapsto> empty_vao)\<rparr>"
  have 1: "glGenVertexArray (gl s) = (N, c1)" by (simp add: glGenVertexArray_def c1_def N_def empty_vao_def)
  define c2 where "c2 = c1\<lparr>gl_vao := N\<rparr>"
  have 2: "glBindVertexArray N c1 = c2" by (simp add: glBindVertexArray_def c1_def c2_def)
  define c3 where "c3 = c2\<lparr>gl_next := N + 2, gl_buffers := (gl_buffers (gl s))(b \<mapsto> NoData)\<rparr>"
  have 3: "glGenBuffer c2 = (b, c3)" by (simp add: glGenBuffer_def c1_def c2_def c3_def b_def)
  define c4 where "c4 = c3\<lparr>gl_array_buffer := b, gl_buffers := (gl_buffers (gl s))(b \<mapsto> Floats (interleave (mb_verts d)))\<rparr>"
  have 4: "glBufferDataArray (interleave (mb_verts d)) (glBindArrayBuffer b c3) = c4"
    by (simp add: glBufferDataArray_def glBindArrayBuffer_def c3_def c4_def b_def)
  have 5: "SetShaderMemoryLayout c4 = c4\<lparr>gl_vaos := (gl_vaos (gl s))(N \<mapsto> layout_vao 0 b)\<rparr>"
    using assms(2) by (simp add: SetShaderMemoryLayout_fresh N_def c1_def c2_def c3_def c4_def empty_vao_def)
  have "LoadExtraTorusMesh sh d s =
    s\<lparr>meshes := (meshes s)(sh := (meshes s sh)\<lparr>nVertices := length (mb_verts d), nIndices := 0,
                                    vao := N, vbos0 := b\<rparr>),
      gl := c4\<lparr>gl_vaos := (gl_vaos (gl s))(N \<mapsto> layout_vao 0 b)\<rparr>\<rparr>"
    using assms(1) by (simp only: LoadExtraTorusMesh_def Let_def 1 2 3 4 5 if_True not_False_eq_True prod.case)
  then show ?thesis by (simp add: c1_def c2_def c3_def c4_def b_def)
qed

lemma LoadFinMesh_eq:
  fixes baseLength topLength height thickness :: real
  assumes "0 < gl_next (gl s)"
  defines "N \<equiv> gl_next (gl s)" and "d \<equiv> LoadFinMesh_data baseLength topLength height thickness"
  shows "LoadFinMesh baseLength topLength height thickness s =
    s\<lparr>meshes := (meshes s)(Fin := (meshes s Fin)\<lparr>vao := N, vbo := N + 1, ebo := N + 2,
                                     nIndices := length (mb_indices d)\<rparr>),
      gl := (gl s)\<lparr>gl_next := N + 3, gl_vao := 0, gl_array_buffer := N + 1,
                   gl_buffers := (gl_buffers (gl s))(N + 1 \<mapsto> Floats (interleave (mb_verts d)),
                                                    N + 2 \<mapsto> Uints (mb_indices d)),
                   gl_vaos := (gl_vaos (gl s))(N \<mapsto> layout_vao (N + 2) (N + 1))\<rparr>\<rparr>"
proof -
  define b where "b = N + 1"
  define e where "e = N + 2"
  define c1 where "c1 = (gl s)\<lparr>gl_next := N + 1, gl_vaos := (gl_vaos (gl s))(N \<mapsto> empty_vao)\<rparr>"
  have 1: "glGenVertexArray (gl s) = (N, c1)" by (simp add: glGenVertexArray_def c1_def N_def empty_vao_def)
  define c2 where "c2 = c1\<lparr>gl_next := N + 2, gl_buffers := (gl_buffers (gl s))(b \<mapsto> NoData)\<rparr>"
  have 2: "glGenBuffer c1 = (b, c2)" by (simp add: glGenBuffer_def c1_def c2_def b_def)
  define c3 where "c3 = c2\<lparr>gl_next := N + 3, gl_buffers := (gl_buffers (gl s))(b \<mapsto> NoData, e \<mapsto> NoData)\<rparr>"
  have 3: "glGenBuffer c2 = (e, c3)" by (simp add: glGenBuffer_def c1_def c2_def c3_def e_def)
  define c4 where "c4 = c3\<lparr>gl_vao := N\<rparr>"
  have 4: "glBindVertexArray N c3 = c4" by (simp add: glBindVertexArray_def c1_def c2_def c3_def c4_def)
  define c5 where "c5 = c4\<lparr>gl_array_buffer := b,
                             gl_buffers := (gl_buffers (gl s))(b \<mapsto> Floats (interleave (mb_verts d)), e \<mapsto> NoData)\<rparr>"
  have 5: "glBufferDataArray (interleave (mb_verts d)) (glBindArrayBuffer b c4) = c5"
    by (simp add: glBufferDataArray_def glBindArrayBuffer_def c1_def c2_def c3_def c4_def c5_def b_def e_def
                  fun_upd_twist)
  define c6 where "c6 = c5\<lparr>gl_buffers := (gl_buffers (gl s))(b \<mapsto> Floats (interleave (mb_verts d)),
                                                          e \<mapsto> Uints (mb_indices d)),
                             gl_vaos := (gl_vaos (gl s))(N \<mapsto> empty_vao\<lparr>vao_ebo := e\<rparr>)\<rparr>"
  have 6: "glBufferDataElement (mb_indices d) (glBindElementBuffer e c5) = c6"
    using assms(1) by (simp add: glBufferDataElement_def glBindElementBuffer_def update_bound_vao_def
                                 N_def c1_def c2_def c3_def c4_def c5_def c6_def e_def b_def)
  have 7: "SetShaderMemoryLayout c6 = c6\<lparr>gl_vaos := (gl_vaos (gl s))(N \<mapsto> layout_vao e b)\<rparr>"
    using assms(1) by (simp add: SetShaderMemoryLayout_fresh N_def c1_def c2_def c3_def c4_def c5_def c6_def)
  have "LoadFinMesh baseLength topLength height thickness s =
    s\<lparr>meshes := (meshes s)(Fin := (meshes s Fin)\<lparr>vao := N, vbo := b, ebo := e,
                                     nIndices := length (mb_indices d)\<rparr>),
      gl := (c6\<lparr>gl_vaos := (gl_vaos (gl s))(N \<mapsto> layout_vao e b)\<rparr>)\<lparr>gl_vao := 0\<rparr>\<rparr>"
    by (simp only: LoadFinMesh_def Let_def d_def[symmetric] 1 2 3 4 5 6 attrib_setup_layout 7
                   glBindVertexArray_0 prod.case)
  then show ?thesis by (simp add: c1_def c2_def c3_def c4_def c5_def c6_def b_def e_def)
qed

lemma DrawPartialConeMesh_eq:
  fixes radius height arcDegrees :: real and numSlices0 :: int
  assumes "0 < gl_next (gl s)"
  defines "N \<equiv> gl_next (gl s)" and "d \<equiv> DrawPartialConeMesh_data radius height numSlices0 arcDegrees"
  assumes "indices_below (length (mb_verts d)) (mb_indices d)"
  shows "DrawPartialConeMesh radius height numSlices0 arcDegrees wireframe s =
    s\<lparr>gl := (gl s)\<lparr>gl_next := N + 3, gl_vao := 0, gl_array_buffer := N + 1, gl_line_mode := wireframe,
                   gl_buffers := (gl_buffers (gl s))(N + 1 := None, N + 2 := None),
                   gl_vaos := (gl_vaos (gl s))(N := None),
                   gl_events := gl_events (gl s) @ [\<lparr>ev_vao = N,
                       ev_call = DrawElementsCall GL_TRIANGLES (length (mb_indices d)) 0,
                       ev_line_mode = wireframe, ev_ok = True\<rparr>]\<rparr>\<rparr>"
proof -
  define b where "b = N + 1"
  define e where "e = N + 2"
  define c1 where "c1 = (gl s)\<lparr>gl_next := N + 1, gl_vaos := (gl_vaos (gl s))(N \<mapsto> empty_vao)\<rparr>"
  have 1: "glGenVertexArray (gl s) = (N, c1)" by (simp add: glGenVertexArray_def c1_def N_def empty_vao_def)
  define c2 where "c2 = c1\<lparr>gl_next := N + 2, gl_buffers := (gl_buffers (gl s))(b \<mapsto> NoData)\<rparr>"
  have 2: "glGenBuffer c1 = (b, c2)" by (simp add: glGenBuffer_def c1_def c2_def b_def)
  define c3 where "c3 = c2\<lparr>gl_next := N + 3, gl_buffers := (gl_buffers (gl s))(b \<mapsto> NoData, e \<mapsto> NoData)\<rparr>"
  have 3: "glGenBuffer c2 = (e, c3)" by (simp add: glGenBuffer_def c1_def c2_def c3_def e_def)
  define c4 where "c4 = c3\<lparr>gl_vao := N\<rparr>"
  have 4: "glBindVertexArray N c3 = c4" by (simp add: glBindVertexArray_def c1_def c2_def c3_def c4_def)
  define c5 where "c5 = c4\<lparr>gl_array_buffer := b,
                             gl_buffers := (gl_buffers (gl s))(b \<mapsto> Floats (interleave (mb_verts d)), e \<mapsto> NoData)\<rparr>"
  have 5: "glBufferDataArray (interleave (mb_verts d)) (glBindArrayBuffer b c4) = c5"
    by (simp add: glBufferDataArray_def glBindArrayBuffer_def c1_def c2_def c3_def c4_def c5_def b_def e_def
                  fun_upd_twist)
  define c6 where "c6 = c5\<lparr>gl_buffers := (gl_buffers (gl s))(b \<mapsto> Floats (interleave (mb_verts d)),
                                                          e \<mapsto> Uints (mb_indices d)),
                             gl_vaos := (gl_vaos (gl s))(N \<mapsto> empty_vao\<lparr>vao_ebo := e\<rparr>)\<rparr>"
  have 6: "glBufferDataElement (mb_indices d) (glBindElementBuffer e c5) = c6"
    using assms(1) by (simp add: glBufferDataElement_def glBindElementBuffer_def update_bound_vao_def
                                 N_def c1_def c2_def c3_def c4_def c5_def c6_def e_def b_def)
  define c7 where "c7 = c6\<lparr>gl_vaos := (gl_vaos (gl s))(N \<mapsto> layout_vao e b)\<rparr>"
  have 7: "glVertexAttribPointer 2 2 8 6 (glEnableVertexAttribArray 2 (glVertexAttribPointer 1 3 8 3
             (glEnableVertexAttribArray 1 (glVertexAttribPointer 0 3 8 0 (glEnableVertexAttribArray 0 c6)))))
           = c6\<lparr>gl_vaos := (gl_vaos c6)(gl_vao c6 \<mapsto> layout_vao e (gl_array_buffer c6))\<rparr>"
    using assms(1) by (intro attrib_setup_enable_first)
                      (simp_all add: N_def c1_def c2_def c3_def c4_def c5_def c6_def)
  also have "\<dots> = c7" by (simp add: c1_def c2_def c3_def c4_def c5_def c6_def c7_def)
  finally have 7: "glVertexAttribPointer 2 2 8 6 (glEnableVertexAttribArray 2 (glVertexAttribPointer 1 3 8 3
             (glEnableVertexAttribArray 1 (glVertexAttribPointer 0 3 8 0 (glEnableVertexAttribArray 0 c6)))))
           = c7" .
  define c8 where "c8 = c7\<lparr>gl_line_mode := wireframe\<rparr>"
  have 8: "glBindVertexArray N (SetWireframeMode wireframe c7) = c8"
    by (simp add: glBindVertexArray_def SetWireframeMode_def glPolygonModeLine_def c1_def c2_def c3_def
                  c4_def c5_def c6_def c7_def c8_def)
  have ok: "draw_ok c8 (DrawElementsCall GL_TRIANGLES (length (mb_indices d)) 0)"
    by (rule layout_draw_ok [where v = N and e = e and b = b and vs = "mb_verts d" and idx = "mb_indices d"])
       (use assms(1,4) in \<open>simp_all add: N_def c1_def c2_def c3_def c4_def c5_def c6_def c7_def c8_def
                                        b_def e_def\<close>)
  have "DrawPartialConeMesh radius height numSlices0 arcDegrees wireframe s =
    s\<lparr>gl := glDeleteVertexArray N (glDeleteBuffer b (glDeleteBuffer e
              (glBindVertexArray 0 (glDrawElements GL_TRIANGLES (length (mb_indices d)) 0 c8))))\<rparr>"
    by (simp only: DrawPartialConeMesh_def Let_def d_def[symmetric] 1 2 3 4 5 6 7 8 prod.case)
  moreover have "0 < N" using assms(1) by (simp add: N_def)
  ultimately show ?thesis
    using ok by (simp add: glDeleteVertexArray_def glDeleteBuffer_def glBindVertexArray_0 glDrawElements_def
                           gl_draw_def c1_def c2_def c3_def c4_def c5_def c6_def c7_def c8_def b_def e_def
                           fun_upd_twist)
qed

text \<open>\<open>load_names\<close> takes three fresh names: an empty VAO and two buffers without data.\<close>

lemma load_names_eq:
  fixes s :: ShapeMeshes
  defines "N \<equiv> gl_next (gl s)"
  shows "load_names sh s =
    s\<lparr>meshes := (meshes s)(sh := (meshes s sh)\<lparr>vao := N, vbo := N + 1, ebo := N + 2\<rparr>),
      gl := (gl s)\<lparr>gl_next := N + 3, gl_vaos := (gl_vaos (gl s))(N \<mapsto> empty_vao),
                   gl_buffers := (gl_buffers (gl s))(N + 1 \<mapsto> NoData, N + 2 \<mapsto> NoData)\<rparr>\<rparr>"
  by (simp add: load_names_def glGenVertexArray_def glGenBuffer_def empty_vao_def N_def)

text \<open>\<open>SetShaderMemoryLayout\<close> on a VAO that is empty or already holds the layout over
  some buffer sets the layout over the bound array buffer.\<close>

lemma SetShaderMemoryLayout_relayout:
  assumes "gl_vao c \<noteq> 0" "gl_vaos c (gl_vao c) = Some st"
    "st = empty_vao\<lparr>vao_ebo := e\<rparr> \<or> st = layout_vao e b'"
  shows "SetShaderMemoryLayout c = c\<lparr>gl_vaos := (gl_vaos c)(gl_vao c \<mapsto> layout_vao e (gl_array_buffer c))\<rparr>"
  using assms(3)
proof
  assume "st = empty_vao\<lparr>vao_ebo := e\<rparr>"
  then show ?thesis using assms(1,2) by (simp add: SetShaderMemoryLayout_fresh)
next
  assume "st = layout_vao e b'"
  then show ?thesis using assms(1,2)
    by (simp add: SetShaderMemoryLayout_def glVertexAttribPointer_def glEnableVertexAttribArray_def
                  update_bound_vao_Some layout_vao_def fun_upd_twist)
qed

text \<open>The upload-and-draw tail of the per-draw shapes on a loaded mesh: it fills the
  mesh's two buffers, leaves its VAO in the layout over them and records one draw of
  all indices, which reads in range when the indices name uploaded vertices.\<close>

lemma dynamic_upload_draw_eq:
  assumes "m = meshes s sh" "vao m \<noteq> 0" "vbo m \<noteq> 0" "ebo m \<noteq> 0" "vbo m \<noteq> ebo m"
    "gl_buffers (gl s) (vbo m) \<noteq> None" "gl_buffers (gl s) (ebo m) \<noteq> None"
    "gl_vaos (gl s) (vao m) = Some empty_vao \<or> gl_vaos (gl s) (vao m) = Some (layout_vao (ebo m) (vbo m))"
    "indices_below (length (mb_verts d)) (mb_indices d)"
  shows "dynamic_upload_draw sh d s =
    s\<lparr>gl := (gl s)\<lparr>gl_vao := 0, gl_array_buffer := vbo m,
        gl_buffers := (gl_buffers (gl s))(vbo m \<mapsto> Floats (interleave (mb_verts d)), ebo m \<mapsto> Uints (mb_indices d)),
        gl_vaos := (gl_vaos (gl s))(vao m \<mapsto> layout_vao (ebo m) (vbo m)),
        gl_events := gl_events (gl s) @ [\<lparr>ev_vao = vao m,
            ev_call = DrawElementsCall GL_TRIANGLES (length (mb_indices d)) 0,
            ev_line_mode = gl_line_mode (gl s), ev_ok = True\<rparr>]\<rparr>\<rparr>"
proof -
  obtain st where st: "gl_vaos (gl s) (vao m) = Some st"
    "st = empty_vao\<lparr>vao_ebo := 0\<rparr> \<or> st = layout_vao (ebo m) (vbo m)"
    using assms(8) by (auto simp: empty_vao_def)
  define c1 where "c1 = (gl s)\<lparr>gl_vao := vao m\<rparr>"
  have 1: "glBindVertexArray (vao m) (gl s) = c1" using st(1) by (simp add: glBindVertexArray_def c1_def)
  define c3 where "c3 = c1\<lparr>gl_array_buffer := vbo m,
                           gl_buffers := (gl_buffers (gl s))(vbo m \<mapsto> Floats (interleave (mb_verts d)))\<rparr>"
  have 3: "glBufferDataArray (interleave (mb_verts d)) (glBindArrayBuffer (vbo m) c1) = c3"
    using assms(3,6) by (simp add: glBufferDataArray_def glBindArrayBuffer_def c1_def c3_def)
  have e: "vao_ebo st \<in> {0, ebo m}" using st(2) by (auto simp: empty_vao_def)
  define c4 where "c4 = c3\<lparr>gl_vaos := (gl_vaos (gl s))(vao m \<mapsto> layout_vao (vao_ebo st) (vbo m))\<rparr>"
  have 4: "SetShaderMemoryLayout c3 = c4"
    using SetShaderMemoryLayout_relayout [of c3 st "vao_ebo st" "vbo m"] assms(2) st
    by (auto simp: c1_def c3_def c4_def empty_vao_def)
  define c6 where "c6 = c4\<lparr>gl_vaos := (gl_vaos (gl s))(vao m \<mapsto> layout_vao (ebo m) (vbo m)),
      gl_buffers := (gl_buffers (gl s))(vbo m \<mapsto> Floats (interleave (mb_verts d)), ebo m \<mapsto> Uints (mb_indices d))\<rparr>"
  have 6: "glBufferDataElement (mb_indices d) (glBindElementBuffer (ebo m) c4) = c6"
    using assms(2,4,5,7)
    by (simp add: glBufferDataElement_def glBindElementBuffer_def update_bound_vao_Some c1_def c3_def c4_def c6_def
                  layout_vao_def)
  have ok: "draw_ok c6 (DrawElementsCall GL_TRIANGLES (length (mb_indices d)) 0)"
    by (rule layout_draw_ok [where vs = "mb_verts d" and idx = "mb_indices d" and v = "vao m" and e = "ebo m" and b = "vbo m"])
       (use assms(2,4,5,9) in \<open>simp_all add: c1_def c3_def c4_def c6_def\<close>)
  show ?thesis
    unfolding dynamic_upload_draw_def Let_def assms(1) [symmetric] 1 3 4 6
    using ok by (simp add: glDrawElements_def gl_draw_def glBindVertexArray_0 c1_def c3_def c4_def c6_def)
qed


section \<open>Single operations\<close>

lemmas gl_cmd_defs = glGenVertexArray_def glGenBuffer_def glBindVertexArray_def glBindArrayBuffer_def
  glBindElementBuffer_def glBufferDataArray_def glBufferDataElement_def glVertexAttribPointer_def
  glEnableVertexAttribArray_def glPolygonModeLine_def glDeleteBuffer_def glDeleteVertexArray_def
  glDrawArrays_def glDrawElements_def gl_draw_def update_bound_vao_def SetWireframeMode_def
  SetShaderMemoryLayout_def

lemmas op_defs = LoadBoxMesh_def LoadConeMesh_def LoadCylinderMesh_def LoadPlaneMesh_def
  LoadPrismMesh_def LoadPyramid3Mesh_def LoadPyramid4Mesh_def LoadSphereMesh_def
  LoadHemisphereMesh_def LoadTaperedCylinderMesh_def LoadTorusMesh_def LoadSpringMesh_def
  LoadTubeMesh_def LoadExtraTorusMesh1_def LoadExtraTorusMesh2_def
  DrawBoxMesh_def DrawPlaneMesh_def DrawPrismMesh_def DrawPyramid3Mesh_def DrawPyramid4Mesh_def
  DrawSphereMesh_def DrawHemisphereMesh_def DrawHalfSphereMesh_def DrawHalfTorusMesh_def
  DrawFinSides_def DrawFinFrontOnly_def DrawFinBackOnly_def DrawFinUntexturedSides_def
  DrawTorusMesh_def DrawSpringMesh_def DrawTubeMesh_def deprecated_def
  DrawBoxMeshLines_def DrawConeMeshLines_def DrawCylinderMeshLines_def DrawPlaneMeshLines_def
  DrawPrismMeshLines_def DrawPyramid3MeshLines_def DrawPyramid4MeshLines_def DrawSphereMeshLines_def
  DrawHalfSphereMeshLines_def DrawTaperedCylinderMeshLines_def DrawTorusMeshLines_def
  DrawHalfTorusMeshLines_def LoadCurvedConeMesh_def DrawCurvedConeMesh_def LoadTaperedTorusMesh_def
  LoadSpiralMesh_def LoadSineConeMesh_def LoadSuperellipsoidMesh_def DrawTaperedTorusMesh_def
  DrawSineConeMesh_def DrawSuperellipsoidMesh_def DrawSpiralMesh_def

text \<open>No operation assigns \<open>m_bMemoryLayoutDone\<close>.\<close>

lemma exec_layout_flag: "m_bMemoryLayoutDone (exec op s) = m_bMemoryLayoutDone s"
  by (cases op)
     (simp_all add: op_defs LoadExtraTorusMesh_def LoadFinMesh_def upload_def InitializeMesh_def
        set_numSlices_def DrawBoxMeshSide_def DrawConeMesh_def DrawPartialConeMesh_def DrawCylinderMesh_def
        draw_half_def DrawFinMesh_def draw_fin_ranges_def DrawTaperedCylinderMesh_def
        DrawExtraTorusMesh_def draw_whole_def load_names_def dynamic_upload_draw_def Let_def
        split: prod.splits sum.splits)

text \<open>C14. The layout flag is never set (spec section 6 says the shader memory layout is
  configured once): in every reachable state \<open>m_bMemoryLayoutDone\<close> is still false, so
  every \<open>InitializeMesh\<close> and every extra-torus load sets the attribute layout again.\<close>

theorem layout_flag_never_set: "reachable s \<Longrightarrow> \<not> m_bMemoryLayoutDone s"
  by (induction rule: reachable.induct) (simp_all add: ShapeMeshes_init_def exec_layout_flag)

theorem layout_flag_never_set_witness:
  "reachable (exec OpLoadBox ShapeMeshes_init) \<and> \<not> m_bMemoryLayoutDone (exec OpLoadBox ShapeMeshes_init)"
proof -
  have r: "reachable (exec OpLoadBox ShapeMeshes_init)"
    using reachable.step [OF reachable.init, of OpLoadBox] by simp
  show ?thesis using r layout_flag_never_set [OF r] by simp
qed

text \<open>A per-draw shape drawn while its VAO is 0: the uploads find no bound buffer and
  change nothing, and the draw call reads through no VAO.\<close>

lemma dynamic_upload_draw_unbound:
  assumes "vao (meshes s sh) = 0" "gl_vaos (gl s) 0 = None" "mb_indices d \<noteq> []" "vbo (meshes s sh) = 0"
  shows "\<not> events_ok (gl (dynamic_upload_draw sh d s))"
proof -
  define c where "c = (gl s)\<lparr>gl_vao := 0, gl_array_buffer := 0\<rparr>"
  have n: "gl_vaos c (gl_vao c) = None" using assms(2) by (simp add: c_def)
  have u: "update_bound_vao f c = c" for f using n by (simp add: update_bound_vao_def)
  have "SetShaderMemoryLayout c = c"
    by (simp add: SetShaderMemoryLayout_def glVertexAttribPointer_def glEnableVertexAttribArray_def u)
  moreover have "glBufferDataArray vs c = c" for vs by (simp add: glBufferDataArray_def c_def)
  moreover have "glBufferDataElement is (glBindElementBuffer e c) = c" for "is" e
    using n by (simp add: glBindElementBuffer_def u glBufferDataElement_def)
  moreover have "glBindArrayBuffer (vbo (meshes s sh)) (glBindVertexArray (vao (meshes s sh)) (gl s)) = c"
    using assms(1,4) by (simp add: glBindVertexArray_0 glBindArrayBuffer_def c_def)
  ultimately have "gl (dynamic_upload_draw sh d s)
      = glBindVertexArray 0 (glDrawElements GL_TRIANGLES (length (mb_indices d)) 0 c)"
    by (simp add: dynamic_upload_draw_def Let_def)
  moreover have "\<not> draw_ok c (DrawElementsCall GL_TRIANGLES (length (mb_indices d)) 0)"
    using n assms(3) by simp
  ultimately show ?thesis by (simp add: glBindVertexArray_0 glDrawElements_def gl_draw_def events_ok_def)
qed

text \<open>C23. Draws before the matching load are not guarded (spec section 7 asks that a
  draw before its load fail loudly): \<open>DrawFinSides\<close> on a registry where nothing is
  loaded issues draws of 6 indices with no VAO bound, and \<open>DrawSuperellipsoidMesh\<close>
  before \<open>LoadSuperellipsoidMesh\<close>, for every parameter, uploads into no buffer and
  draws its (at least 54) indices with no VAO bound: both read outside every buffer.\<close>

theorem draws_before_load_unguarded:
  "\<not> events_ok (gl (DrawFinSides ShapeMeshes_init))
   \<and> \<not> events_ok (gl (DrawSuperellipsoidMesh scaleX scaleY scaleZ ve he uSegments vSegments ShapeMeshes_init))"
proof
  show "\<not> events_ok (gl (DrawFinSides ShapeMeshes_init))"
    by (simp add: DrawFinSides_def draw_fin_ranges_def ShapeMeshes_init_def GLMesh_init_def gl_init_def
                  gl_cmd_defs events_ok_def)
  have "mb_indices (DrawSuperellipsoidMesh_data scaleX scaleY scaleZ ve he uSegments vSegments) \<noteq> []"
    using DrawSuperellipsoidMesh_counts [of scaleX scaleY scaleZ ve he uSegments vSegments]
    by (auto simp: max_def split: if_splits)
  then show "\<not> events_ok (gl (DrawSuperellipsoidMesh scaleX scaleY scaleZ ve he uSegments vSegments ShapeMeshes_init))"
    unfolding DrawSuperellipsoidMesh_def Let_def
    by (intro dynamic_upload_draw_unbound) (simp_all add: ShapeMeshes_init_def GLMesh_init_def gl_init_def)
qed

text \<open>\<open>DrawSphereMesh\<close> has no guard either: called before \<open>LoadSphereMesh\<close> it binds
  VAO 0 and issues a draw of 0 indices; nothing is drawn and nothing is reported.\<close>

theorem DrawSphereMesh_before_load:
  "gl_events (gl (DrawSphereMesh False ShapeMeshes_init))
     = [\<lparr>ev_vao = 0, ev_call = DrawElementsCall GL_TRIANGLES 0 0, ev_line_mode = False, ev_ok = True\<rparr>]"
  by (simp add: DrawSphereMesh_def draw_whole_def ShapeMeshes_init_def GLMesh_init_def gl_init_def gl_cmd_defs)

text \<open>C24. The deprecated wrappers \<open>DrawConeMeshLines\<close>, \<open>DrawCylinderMeshLines\<close> and
  \<open>DrawTaperedCylinderMeshLines\<close> pass \<open>true\<close> to the first \<open>bool\<close> parameter, which is
  not \<open>wireframe\<close>: every draw they issue is recorded in fill mode, while
  \<open>DrawBoxMeshLines\<close> draws in line mode as the name promises.\<close>

theorem Lines_wrappers_draw_filled:
  "list_all (\<lambda>e. \<not> ev_line_mode e) (drop (length (gl_events (gl s))) (gl_events (gl (DrawConeMeshLines s))))
   \<and> list_all (\<lambda>e. \<not> ev_line_mode e)
       (drop (length (gl_events (gl s))) (gl_events (gl (DrawCylinderMeshLines s))))
   \<and> list_all (\<lambda>e. \<not> ev_line_mode e)
       (drop (length (gl_events (gl s))) (gl_events (gl (DrawTaperedCylinderMeshLines s))))
   \<and> list_all ev_line_mode (drop (length (gl_events (gl s))) (gl_events (gl (DrawBoxMeshLines s))))"
  by (simp add: DrawConeMeshLines_def DrawCylinderMeshLines_def DrawTaperedCylinderMeshLines_def
                DrawBoxMeshLines_def deprecated_def DrawConeMesh_def DrawCylinderMesh_def
                DrawTaperedCylinderMesh_def DrawBoxMesh_def draw_whole_def Let_def SetWireframeMode_def
                glDrawElements_def del: draw_ok.simps)

end
