(* ===== verification/Registry_Safety.thy ===== *)
theory Registry_Safety
  imports Registry_Effects
begin

text \<open>
  The registry's safety invariant: in every reachable state every draw call recorded
  so far read only indices and vertex attributes inside the buffers it read from. The
  invariant \<open>registry_inv\<close> has two parts. For the shapes drawn from their stored counts
  (all but the four per-draw shapes of \<open>dyn_shape\<close>), \<open>mesh_ok\<close> says that the shape's
  \<open>GLMesh\<close> is either unloaded (VAO 0, all counts 0) or names a live VAO whose attributes
  cover \<open>nVertices\<close> vertices, whose element buffer covers every index range a \<open>Draw*\<close>
  function of that shape reads (\<open>elem_bound\<close>) and whose indices name those vertices.
  The ownership part \<open>owners_ok\<close> says that the non-zero names of the meshes lie below
  \<open>gl_next\<close> and are pairwise disjoint, that each loaded VAO reads only its own mesh's
  buffers, and that a loaded per-draw shape holds two live buffers and a VAO that is
  empty or in the standard layout over them. The typing part \<open>typed_ok\<close> says that a
  loaded VAO's element buffer holds indices and its attributes read float buffers. Loads
  create objects only at fresh names
  (\<open>registry_inv_load\<close>); the draws of the per-draw shapes rewrite only their own names,
  which no other mesh reads (\<open>mesh_ok_frame_owned\<close>, \<open>registry_inv_owned_update\<close>). The fin
  sub-range draws and the per-draw shapes' draws keep the invariant only when the
  shape is loaded, the precondition \<open>op_pre\<close> of the reachability relation.
\<close>

section \<open>The invariant\<close>

definition refs_below :: "nat \<Rightarrow> vao_state \<Rightarrow> bool" where
  "refs_below n st =
     (vao_ebo st < n \<and> list_all (\<lambda>l. case vao_attribs st l of Some ap \<Rightarrow> ap_buffer ap < n | None \<Rightarrow> True)
                                (vao_enabled st))"

definition elem_extra :: "shape \<Rightarrow> int \<Rightarrow> nat" where
  "elem_extra sh k = (case sh of Box \<Rightarrow> 36 | Fin \<Rightarrow> 36 | Cone \<Rightarrow> 6 * nat k
                      | Cylinder \<Rightarrow> 12 * nat k | TaperedCylinder \<Rightarrow> 12 * nat k | _ \<Rightarrow> 0)"

definition elem_bound :: "shape \<Rightarrow> GLMesh \<Rightarrow> nat" where
  "elem_bound sh m = max (nIndices m) (elem_extra sh (numSlices m))"

definition ebo_ok :: "gl_ctx \<Rightarrow> shape \<Rightarrow> GLMesh \<Rightarrow> vao_state \<Rightarrow> bool" where
  "ebo_ok c sh m st =
     (if vao_ebo st = 0 then elem_bound sh m = 0
      else (case gl_buffers c (vao_ebo st) of
              Some (Uints idx) \<Rightarrow> elem_bound sh m \<le> length idx \<and> vertex_reads_ok c st idx
            | _ \<Rightarrow> False))"

definition vao_ok :: "gl_ctx \<Rightarrow> shape \<Rightarrow> GLMesh \<Rightarrow> vao_state \<Rightarrow> bool" where
  "vao_ok c sh m st =
     (refs_below (gl_next c) st \<and> vertex_reads_ok c st [0..<nVertices m] \<and> ebo_ok c sh m st)"

definition mesh_ok :: "gl_ctx \<Rightarrow> shape \<Rightarrow> GLMesh \<Rightarrow> bool" where
  "mesh_ok c sh m =
     (if vao m = 0 then nVertices m = 0 \<and> nIndices m = 0 \<and> numSlices m \<le> 0
      else vao m < gl_next c \<and> (case gl_vaos c (vao m) of None \<Rightarrow> False | Some st \<Rightarrow> vao_ok c sh m st))"

text \<open>The shapes whose \<open>Draw\<close> function uploads its own geometry into the objects the
  \<open>Load\<close> function created; no draw reads their stored counts.\<close>

fun dyn_shape :: "shape \<Rightarrow> bool" where
  "dyn_shape TaperedTorus = True"
| "dyn_shape Spiral = True"
| "dyn_shape SineCone = True"
| "dyn_shape Superellipsoid = True"
| "dyn_shape _ = False"

text \<open>Ownership: the non-zero names a \<open>GLMesh\<close> holds, and a VAO that reads only the
  buffers of its own mesh.\<close>

definition mesh_names :: "GLMesh \<Rightarrow> nat set" where
  "mesh_names m = {vao m, vbo m, vbos0 m, ebo m} - {0}"

definition owns_refs :: "GLMesh \<Rightarrow> vao_state \<Rightarrow> bool" where
  "owns_refs m st =
     (vao_ebo st \<in> {0, ebo m}
      \<and> list_all (\<lambda>l. case vao_attribs st l of Some ap \<Rightarrow> ap_buffer ap \<in> {vbo m, vbos0 m} | None \<Rightarrow> True)
                 (vao_enabled st))"

text \<open>A loaded per-draw shape: two distinct live buffers, and a VAO that is still empty
  or holds the layout of its last draw.\<close>

definition dyn_ok :: "gl_ctx \<Rightarrow> GLMesh \<Rightarrow> bool" where
  "dyn_ok c m =
     (vbo m \<noteq> 0 \<and> ebo m \<noteq> 0 \<and> vbo m \<noteq> ebo m \<and> gl_buffers c (vbo m) \<noteq> None \<and> gl_buffers c (ebo m) \<noteq> None
      \<and> (gl_vaos c (vao m) = Some empty_vao \<or> gl_vaos c (vao m) = Some (layout_vao (ebo m) (vbo m))))"

definition owners_ok :: "ShapeMeshes \<Rightarrow> bool" where
  "owners_ok s =
     ((\<forall>sh. mesh_names (meshes s sh) \<subseteq> {..<gl_next (gl s)})
      \<and> (\<forall>sh sh'. sh \<noteq> sh' \<longrightarrow> mesh_names (meshes s sh) \<inter> mesh_names (meshes s sh') = {})
      \<and> (\<forall>sh. vao (meshes s sh) \<noteq> 0 \<longrightarrow>
              (case gl_vaos (gl s) (vao (meshes s sh)) of Some st \<Rightarrow> owns_refs (meshes s sh) st | None \<Rightarrow> True))
      \<and> (\<forall>sh. dyn_shape sh \<longrightarrow> vao (meshes s sh) \<noteq> 0 \<longrightarrow> dyn_ok (gl s) (meshes s sh)))"

text \<open>Typing of the GL object store: a loaded VAO's element buffer holds indices and every
  enabled attribute reads a buffer holding floats.\<close>

fun index_data :: "buffer_data option \<Rightarrow> bool" where
  "index_data (Some (Uints idx)) = True"
| "index_data _ = False"

fun float_data :: "buffer_data option \<Rightarrow> bool" where
  "float_data (Some (Floats d)) = True"
| "float_data _ = False"

definition refs_typed :: "gl_ctx \<Rightarrow> vao_state \<Rightarrow> bool" where
  "refs_typed c st =
     ((vao_ebo st \<noteq> 0 \<longrightarrow> index_data (gl_buffers c (vao_ebo st)))
      \<and> list_all (\<lambda>l. case vao_attribs st l of Some ap \<Rightarrow> float_data (gl_buffers c (ap_buffer ap)) | None \<Rightarrow> True)
                 (vao_enabled st))"

definition typed_ok :: "ShapeMeshes \<Rightarrow> bool" where
  "typed_ok s =
     (\<forall>sh. vao (meshes s sh) \<noteq> 0 \<longrightarrow>
            (case gl_vaos (gl s) (vao (meshes s sh)) of Some st \<Rightarrow> refs_typed (gl s) st | None \<Rightarrow> True))"

definition registry_inv_except :: "shape \<Rightarrow> ShapeMeshes \<Rightarrow> bool" where
  "registry_inv_except sh s =
     (\<not> m_bMemoryLayoutDone s \<and> 0 < gl_next (gl s)
      \<and> (\<forall>sh'. sh' \<noteq> sh \<longrightarrow> \<not> dyn_shape sh' \<longrightarrow> mesh_ok (gl s) sh' (meshes s sh'))
      \<and> nVertices (meshes s Fin) = 0 \<and> events_ok (gl s) \<and> owners_ok s \<and> typed_ok s)"

definition registry_inv :: "ShapeMeshes \<Rightarrow> bool" where
  "registry_inv s =
     (\<not> m_bMemoryLayoutDone s \<and> 0 < gl_next (gl s)
      \<and> (\<forall>sh. \<not> dyn_shape sh \<longrightarrow> mesh_ok (gl s) sh (meshes s sh))
      \<and> nVertices (meshes s Fin) = 0 \<and> events_ok (gl s) \<and> owners_ok s \<and> typed_ok s)"

text \<open>What a load of shape \<open>sh\<close> must establish for the ownership part: its names are
  its old ones or fresh, its VAO reads its own buffers, and a per-draw shape is ready
  for its draw.\<close>

definition load_owned :: "shape \<Rightarrow> ShapeMeshes \<Rightarrow> ShapeMeshes \<Rightarrow> bool" where
  "load_owned sh s s' =
     (mesh_names (meshes s' sh) \<subseteq> mesh_names (meshes s sh) \<union> {gl_next (gl s)..<gl_next (gl s')}
      \<and> (vao (meshes s' sh) \<noteq> 0 \<longrightarrow>
           (case gl_vaos (gl s') (vao (meshes s' sh)) of Some st \<Rightarrow> owns_refs (meshes s' sh) st | None \<Rightarrow> True))
      \<and> (dyn_shape sh \<longrightarrow> vao (meshes s' sh) \<noteq> 0 \<longrightarrow> dyn_ok (gl s') (meshes s' sh)))"

section \<open>Frame and load lemmas\<close>

lemma vertex_reads_ok_frame:
  assumes "refs_below n st" "\<forall>k<n. gl_buffers c' k = gl_buffers c k"
  shows "vertex_reads_ok c' st is = vertex_reads_ok c st is"
  using assms unfolding vertex_reads_ok_def refs_below_def list_all_iff
  by (intro ball_cong refl) (auto simp: attrib_reads_ok_def split: option.splits)

lemma vao_ok_frame:
  assumes "vao_ok c sh m st" "gl_next c \<le> gl_next c'" "\<forall>k<gl_next c. gl_buffers c' k = gl_buffers c k"
  shows "vao_ok c' sh m st"
proof -
  have rb: "refs_below (gl_next c) st" and e: "vao_ebo st < gl_next c"
    using assms(1) by (simp_all add: vao_ok_def refs_below_def)
  have r: "vertex_reads_ok c' st is = vertex_reads_ok c st is" for "is"
    using rb assms(3) by (rule vertex_reads_ok_frame)
  have "refs_below (gl_next c') st"
    using rb assms(2) by (auto simp: refs_below_def list_all_iff split: option.splits)
  moreover have "ebo_ok c' sh m st = ebo_ok c sh m st"
    using assms(3) e r by (simp add: ebo_ok_def cong: option.case_cong buffer_data.case_cong)
  ultimately show ?thesis using assms(1) r by (simp add: vao_ok_def)
qed

lemma mesh_ok_frame:
  assumes "mesh_ok c sh m" "gl_next c \<le> gl_next c'"
    "\<forall>k<gl_next c. gl_vaos c' k = gl_vaos c k \<and> gl_buffers c' k = gl_buffers c k"
  shows "mesh_ok c' sh m"
proof (cases "vao m = 0")
  case True then show ?thesis using assms(1) by (simp add: mesh_ok_def)
next
  case False
  then obtain st where st: "vao m < gl_next c" "gl_vaos c (vao m) = Some st" "vao_ok c sh m st"
    using assms(1) by (auto simp: mesh_ok_def split: option.splits)
  then have "vao_ok c' sh m st" using assms(2,3) by (blast intro: vao_ok_frame)
  then show ?thesis using st assms(2,3) False by (simp add: mesh_ok_def)
qed

lemma mesh_ok_cong:
  "gl_next c' = gl_next c \<Longrightarrow> gl_vaos c' = gl_vaos c \<Longrightarrow> gl_buffers c' = gl_buffers c \<Longrightarrow>
   mesh_ok c' sh m = mesh_ok c sh m"
  by (rule iffI; erule mesh_ok_frame; simp)

lemma refs_below_layout: "refs_below n (layout_vao e b) = (e < n \<and> b < n)"
  by (simp add: refs_below_def layout_vao_def)

lemma mesh_ok_new:
  assumes "vao m = v" "0 < v" "v < gl_next c" "b < gl_next c" "e < gl_next c"
    "gl_vaos c v = Some (layout_vao e b)" "gl_buffers c b = Some (Floats (interleave vs))"
    "nVertices m \<le> length vs"
    "if e = 0 then elem_bound sh m = 0
     else gl_buffers c e = Some (Uints idx) \<and> indices_below (length vs) idx \<and> elem_bound sh m \<le> length idx"
  shows "mesh_ok c sh m"
  using assms by (auto simp: mesh_ok_def vao_ok_def ebo_ok_def refs_below_layout layout_reads_ok
                             indices_below_def list_all_iff split: if_splits)

lemma registry_inv_except_iff:
  "registry_inv s = (registry_inv_except sh s \<and> (\<not> dyn_shape sh \<longrightarrow> mesh_ok (gl s) sh (meshes s sh)))"
  unfolding registry_inv_def registry_inv_except_def by auto

lemma registry_inv_except_static:
  "\<not> dyn_shape sh \<Longrightarrow> registry_inv s = (registry_inv_except sh s \<and> mesh_ok (gl s) sh (meshes s sh))"
  using registry_inv_except_iff [of s sh] by simp

lemma registry_inv_except_dyn: "registry_inv s \<Longrightarrow> registry_inv_except sh s"
  by (simp add: registry_inv_except_iff [of s sh])

section \<open>Ownership lemmas\<close>

lemma mesh_names_iff:
  "x \<in> mesh_names m \<longleftrightarrow> x \<noteq> 0 \<and> (x = vao m \<or> x = vbo m \<or> x = vbos0 m \<or> x = ebo m)"
  by (auto simp: mesh_names_def)

lemma owners_names_below:
  "owners_ok s \<Longrightarrow> x \<in> mesh_names (meshes s sh) \<Longrightarrow> x < gl_next (gl s)"
  by (auto simp: owners_ok_def)

lemma owners_disjoint:
  "owners_ok s \<Longrightarrow> sh \<noteq> sh' \<Longrightarrow> x \<in> mesh_names (meshes s sh) \<Longrightarrow> x \<notin> mesh_names (meshes s sh')"
  unfolding owners_ok_def by blast

text \<open>Changes only at names from \<open>gl_next\<close> upwards, with every mesh keeping its names,
  keep the ownership invariant.\<close>

lemma owners_ok_frame:
  assumes "owners_ok s"
    "\<forall>sh. vao (meshes s' sh) = vao (meshes s sh) \<and> vbo (meshes s' sh) = vbo (meshes s sh)
          \<and> vbos0 (meshes s' sh) = vbos0 (meshes s sh) \<and> ebo (meshes s' sh) = ebo (meshes s sh)"
    "gl_next (gl s) \<le> gl_next (gl s')"
    "\<forall>k<gl_next (gl s). gl_vaos (gl s') k = gl_vaos (gl s) k \<and> gl_buffers (gl s') k = gl_buffers (gl s) k"
  shows "owners_ok s'"
proof -
  have e: "vao (meshes s' sh) = vao (meshes s sh)" "vbo (meshes s' sh) = vbo (meshes s sh)"
    "vbos0 (meshes s' sh) = vbos0 (meshes s sh)" "ebo (meshes s' sh) = ebo (meshes s sh)" for sh
    using assms(2) by simp_all
  have nm: "mesh_names (meshes s' sh) = mesh_names (meshes s sh)" for sh
    by (simp add: mesh_names_def e)
  have orf: "owns_refs (meshes s' sh) st = owns_refs (meshes s sh) st" for sh st
    by (simp add: owns_refs_def e cong: option.case_cong)
  have lt: "x \<noteq> 0 \<Longrightarrow> x = vao (meshes s sh) \<or> x = vbo (meshes s sh) \<or> x = ebo (meshes s sh) \<Longrightarrow>
            x < gl_next (gl s)" for x sh
    using owners_names_below [OF assms(1)] by (auto simp: mesh_names_iff)
  have v: "vao (meshes s sh) \<noteq> 0 \<Longrightarrow> gl_vaos (gl s') (vao (meshes s sh)) = gl_vaos (gl s) (vao (meshes s sh))" for sh
    using lt assms(4) by blast
  have d: "dyn_ok (gl s') (meshes s' sh) = dyn_ok (gl s) (meshes s sh)" if "vao (meshes s sh) \<noteq> 0" for sh
  proof (cases "vbo (meshes s sh) \<noteq> 0 \<and> ebo (meshes s sh) \<noteq> 0")
    case True
    then have "gl_buffers (gl s') (vbo (meshes s sh)) = gl_buffers (gl s) (vbo (meshes s sh))"
      "gl_buffers (gl s') (ebo (meshes s sh)) = gl_buffers (gl s) (ebo (meshes s sh))"
      using lt assms(4) by blast+
    then show ?thesis using v [OF that] by (simp add: dyn_ok_def e)
  next
    case False then show ?thesis by (auto simp: dyn_ok_def e)
  qed
  have p1: "\<forall>sh. mesh_names (meshes s' sh) \<subseteq> {..<gl_next (gl s')}"
    using owners_names_below [OF assms(1)] assms(3) by (fastforce simp: nm)
  have p2: "\<forall>sh sh'. sh \<noteq> sh' \<longrightarrow> mesh_names (meshes s' sh) \<inter> mesh_names (meshes s' sh') = {}"
    using assms(1) by (simp add: owners_ok_def nm)
  have p3: "\<forall>sh. vao (meshes s' sh) \<noteq> 0 \<longrightarrow>
      (case gl_vaos (gl s') (vao (meshes s' sh)) of Some st \<Rightarrow> owns_refs (meshes s' sh) st | None \<Rightarrow> True)"
    using assms(1) by (simp add: owners_ok_def e v orf cong: option.case_cong)
  have p4: "\<forall>sh. dyn_shape sh \<longrightarrow> vao (meshes s' sh) \<noteq> 0 \<longrightarrow> dyn_ok (gl s') (meshes s' sh)"
    using assms(1) by (simp add: owners_ok_def e d)
  show ?thesis unfolding owners_ok_def using p1 p2 p3 p4 by blast
qed

text \<open>A load of shape \<open>sh\<close> that establishes \<open>load_owned\<close> and creates objects only from
  \<open>gl_next\<close> upwards keeps the ownership invariant.\<close>

lemma owners_ok_load:
  assumes "owners_ok s" "gl_next (gl s) \<le> gl_next (gl s')"
    "\<forall>k<gl_next (gl s). gl_vaos (gl s') k = gl_vaos (gl s) k \<and> gl_buffers (gl s') k = gl_buffers (gl s) k"
    "\<forall>sh'. sh' \<noteq> sh \<longrightarrow> meshes s' sh' = meshes s sh'" "load_owned sh s s'"
  shows "owners_ok s'"
proof -
  have lt: "x \<in> mesh_names (meshes s sh') \<Longrightarrow> x < gl_next (gl s)" for x sh'
    by (rule owners_names_below [OF assms(1)])
  have other: "meshes s' sh' = meshes s sh'" if "sh' \<noteq> sh" for sh' using assms(4) that by blast
  have newb: "x \<in> mesh_names (meshes s' sh) \<Longrightarrow> x \<in> mesh_names (meshes s sh) \<or> gl_next (gl s) \<le> x \<and> x < gl_next (gl s')" for x
    using assms(5) unfolding load_owned_def by auto
  have own: "vao (meshes s' sh) \<noteq> 0 \<Longrightarrow>
      (case gl_vaos (gl s') (vao (meshes s' sh)) of Some st \<Rightarrow> owns_refs (meshes s' sh) st | None \<Rightarrow> True)"
    and dy: "dyn_shape sh \<Longrightarrow> vao (meshes s' sh) \<noteq> 0 \<Longrightarrow> dyn_ok (gl s') (meshes s' sh)"
    using assms(5) unfolding load_owned_def by simp_all
  have below: "x < gl_next (gl s')" if "x \<in> mesh_names (meshes s' sh')" for x sh'
  proof (cases "sh' = sh")
    case True then show ?thesis using newb [of x] lt [of x sh] assms(2) that by auto
  next
    case False then show ?thesis using other [OF False] lt [of x sh'] assms(2) that by auto
  qed
  have fresh: "x \<notin> mesh_names (meshes s sh')" if "sh' \<noteq> sh" "x \<in> mesh_names (meshes s' sh)" for x sh'
    using newb [OF that(2)] lt [of x sh'] owners_disjoint [OF assms(1), of sh sh' x] that(1) by auto
  have disj: "x \<notin> mesh_names (meshes s' sh1) \<or> x \<notin> mesh_names (meshes s' sh2)" if "sh1 \<noteq> sh2" for x sh1 sh2
  proof (cases "sh1 = sh")
    case True then show ?thesis using fresh [of sh2 x] other [of sh2] that by auto
  next
    case n1: False
    show ?thesis
    proof (cases "sh2 = sh")
      case True then show ?thesis using fresh [of sh1 x] other [OF n1] n1 by auto
    next
      case False then show ?thesis using owners_disjoint [OF assms(1) that, of x] other [OF n1] other [OF False] by simp
    qed
  qed
  have frame: "owners_ok (s'\<lparr>meshes := meshes s\<rparr>)"
    by (rule owners_ok_frame [OF assms(1)]) (use assms(2,3) in simp_all)
  then have f3: "vao (meshes s sh') \<noteq> 0 \<Longrightarrow>
      (case gl_vaos (gl s') (vao (meshes s sh')) of Some st \<Rightarrow> owns_refs (meshes s sh') st | None \<Rightarrow> True)"
    and f4: "dyn_shape sh' \<Longrightarrow> vao (meshes s sh') \<noteq> 0 \<Longrightarrow> dyn_ok (gl s') (meshes s sh')" for sh'
    unfolding owners_ok_def by (simp_all cong: option.case_cong)
  have refs: "vao (meshes s' sh') \<noteq> 0 \<longrightarrow>
      (case gl_vaos (gl s') (vao (meshes s' sh')) of Some st \<Rightarrow> owns_refs (meshes s' sh') st | None \<Rightarrow> True)"
    and dyo: "dyn_shape sh' \<longrightarrow> vao (meshes s' sh') \<noteq> 0 \<longrightarrow> dyn_ok (gl s') (meshes s' sh')" for sh'
  proof -
    show "vao (meshes s' sh') \<noteq> 0 \<longrightarrow>
      (case gl_vaos (gl s') (vao (meshes s' sh')) of Some st \<Rightarrow> owns_refs (meshes s' sh') st | None \<Rightarrow> True)"
    proof (cases "sh' = sh")
      case True then show ?thesis using own by (simp cong: option.case_cong)
    next
      case False then show ?thesis using f3 [of sh'] by (simp only: other [OF False]) blast
    qed
    show "dyn_shape sh' \<longrightarrow> vao (meshes s' sh') \<noteq> 0 \<longrightarrow> dyn_ok (gl s') (meshes s' sh')"
    proof (cases "sh' = sh")
      case True then show ?thesis using dy by simp
    next
      case False then show ?thesis using f4 [of sh'] by (simp only: other [OF False]) blast
    qed
  qed
  have "\<forall>sh1 sh2. sh1 \<noteq> sh2 \<longrightarrow> mesh_names (meshes s' sh1) \<inter> mesh_names (meshes s' sh2) = {}"
    using disj by blast
  moreover have "\<forall>sh'. mesh_names (meshes s' sh') \<subseteq> {..<gl_next (gl s')}"
    using below by blast
  ultimately show ?thesis unfolding owners_ok_def using refs dyo by blast
qed

lemma owners_ok_cong:
  "meshes s' = meshes s \<Longrightarrow> gl_next (gl s') = gl_next (gl s) \<Longrightarrow> gl_vaos (gl s') = gl_vaos (gl s) \<Longrightarrow>
   gl_buffers (gl s') = gl_buffers (gl s) \<Longrightarrow> owners_ok s' = owners_ok s"
  by (simp add: owners_ok_def dyn_ok_def cong: option.case_cong)

lemma owners_ok_fields:
  assumes "owners_ok s" "vao m' = vao (meshes s sh)" "vbo m' = vbo (meshes s sh)"
    "vbos0 m' = vbos0 (meshes s sh)" "ebo m' = ebo (meshes s sh)"
  shows "owners_ok (s\<lparr>meshes := (meshes s)(sh := m')\<rparr>)"
  by (rule owners_ok_frame [OF assms(1)]) (use assms(2-5) in auto)

lemma owns_refs_layout: "owns_refs m (layout_vao e b) = (e \<in> {0, ebo m} \<and> b \<in> {vbo m, vbos0 m})"
  by (simp add: owns_refs_def layout_vao_def)

lemma owners_owns:
  assumes "owners_ok s" "vao (meshes s sh) \<noteq> 0" "gl_vaos (gl s) (vao (meshes s sh)) = Some st"
  shows "owns_refs (meshes s sh) st"
proof -
  have "case gl_vaos (gl s) (vao (meshes s sh)) of Some st \<Rightarrow> owns_refs (meshes s sh) st | None \<Rightarrow> True"
    using assms(1,2) by (simp add: owners_ok_def)
  then show ?thesis using assms(3) by simp
qed

lemma refs_typed_frame:
  assumes "owns_refs m st" "\<forall>k \<in> insert 0 (mesh_names m). gl_buffers c' k = gl_buffers c k"
  shows "refs_typed c' st = refs_typed c st"
proof -
  have k: "gl_buffers c' k = gl_buffers c k" if "k \<in> {0, vbo m, vbos0 m, ebo m}" for k
    using assms(2) that by (auto simp: mesh_names_def)
  have e: "gl_buffers c' (vao_ebo st) = gl_buffers c (vao_ebo st)" using assms(1) k by (auto simp: owns_refs_def)
  have "list_all (\<lambda>l. case vao_attribs st l of Some ap \<Rightarrow> float_data (gl_buffers c' (ap_buffer ap)) | None \<Rightarrow> True)
           (vao_enabled st)
        = list_all (\<lambda>l. case vao_attribs st l of Some ap \<Rightarrow> float_data (gl_buffers c (ap_buffer ap)) | None \<Rightarrow> True)
           (vao_enabled st)"
  proof -
    have a: "gl_buffers c' (ap_buffer ap) = gl_buffers c (ap_buffer ap)"
      if "l \<in> set (vao_enabled st)" "vao_attribs st l = Some ap" for l ap
    proof (rule k)
      have "ap_buffer ap \<in> {vbo m, vbos0 m}"
        using assms(1) that unfolding owns_refs_def list_all_iff by fastforce
      then show "ap_buffer ap \<in> {0, vbo m, vbos0 m, ebo m}" by blast
    qed
    show ?thesis unfolding list_all_iff by (intro ball_cong refl) (auto split: option.split simp: a)
  qed
  then show ?thesis using e by (simp add: refs_typed_def)
qed

text \<open>The typing of a loaded mesh's VAO survives changes at names from \<open>gl_next\<close> upwards.\<close>

lemma typed_at_frame:
  assumes "owners_ok s" "0 < gl_next (gl s)"
    "\<forall>k<gl_next (gl s). gl_vaos c' k = gl_vaos (gl s) k \<and> gl_buffers c' k = gl_buffers (gl s) k"
    "vao (meshes s sh) \<noteq> 0"
    "case gl_vaos (gl s) (vao (meshes s sh)) of Some st \<Rightarrow> refs_typed (gl s) st | None \<Rightarrow> True"
  shows "case gl_vaos c' (vao (meshes s sh)) of Some st \<Rightarrow> refs_typed c' st | None \<Rightarrow> True"
proof -
  have lt: "k < gl_next (gl s)" if "k \<in> insert 0 (mesh_names (meshes s sh))" for k
    using that assms(2) owners_names_below [OF assms(1)] by auto
  have v: "gl_vaos c' (vao (meshes s sh)) = gl_vaos (gl s) (vao (meshes s sh))"
    using assms(3,4) lt [of "vao (meshes s sh)"] by (simp add: mesh_names_iff)
  show ?thesis
  proof (cases "gl_vaos (gl s) (vao (meshes s sh))")
    case None then show ?thesis using v by simp
  next
    case (Some st)
    have "refs_typed c' st = refs_typed (gl s) st"
      using owners_owns [OF assms(1,4) Some] assms(3) lt by (intro refs_typed_frame) auto
    then show ?thesis using v Some assms(5) by simp
  qed
qed

text \<open>A load that creates objects only at names from \<open>gl_next\<close> upwards keeps every other
  mesh valid; its own mesh must be valid (if it is drawn from its stored counts) and
  owned.\<close>

lemma registry_inv_load:
  assumes "registry_inv_except sh s"
    "m_bMemoryLayoutDone s' = m_bMemoryLayoutDone s" "gl_next (gl s) \<le> gl_next (gl s')"
    "\<forall>k<gl_next (gl s). gl_vaos (gl s') k = gl_vaos (gl s) k \<and> gl_buffers (gl s') k = gl_buffers (gl s) k"
    "\<forall>sh'. sh' \<noteq> sh \<longrightarrow> meshes s' sh' = meshes s sh'" "\<not> dyn_shape sh \<longrightarrow> mesh_ok (gl s') sh (meshes s' sh)"
    "nVertices (meshes s' Fin) = nVertices (meshes s Fin)" "gl_events (gl s') = gl_events (gl s)"
    "load_owned sh s s'"
    "vao (meshes s' sh) \<noteq> 0 \<longrightarrow>
       (case gl_vaos (gl s') (vao (meshes s' sh)) of Some st \<Rightarrow> refs_typed (gl s') st | None \<Rightarrow> True)"
  shows "registry_inv s'"
proof -
  have ow0: "owners_ok s" and n: "0 < gl_next (gl s)" and ty0: "typed_ok s"
    using assms(1) by (simp_all add: registry_inv_except_def)
  have ow: "owners_ok s'" by (rule owners_ok_load [OF ow0 assms(3,4,5,9)])
  have ty: "typed_ok s'"
    unfolding typed_ok_def
  proof (intro allI impI)
    fix sh' assume v: "vao (meshes s' sh') \<noteq> 0"
    show "case gl_vaos (gl s') (vao (meshes s' sh')) of Some st \<Rightarrow> refs_typed (gl s') st | None \<Rightarrow> True"
    proof (cases "sh' = sh")
      case True then show ?thesis using assms(10) v by simp
    next
      case False
      then have m: "meshes s' sh' = meshes s sh'" using assms(5) by blast
      have "case gl_vaos (gl s) (vao (meshes s sh')) of Some st \<Rightarrow> refs_typed (gl s) st | None \<Rightarrow> True"
        using ty0 v m by (simp add: typed_ok_def)
      then show ?thesis using typed_at_frame [OF ow0 n assms(4)] v m by simp
    qed
  qed
  show ?thesis
    unfolding registry_inv_def
  proof (intro conjI allI impI)
    fix sh' assume "\<not> dyn_shape sh'"
    then show "mesh_ok (gl s') sh' (meshes s' sh')"
      using assms(1,3,4,5,6) by (cases "sh' = sh") (auto simp: registry_inv_except_def intro: mesh_ok_frame)
  qed (use assms ow ty in \<open>auto simp: events_ok_def registry_inv_except_def\<close>)
qed

lemma registry_inv_load_static:
  assumes "registry_inv_except sh s" "\<not> dyn_shape sh"
    "m_bMemoryLayoutDone s' = m_bMemoryLayoutDone s" "gl_next (gl s) \<le> gl_next (gl s')"
    "\<forall>k<gl_next (gl s). gl_vaos (gl s') k = gl_vaos (gl s) k \<and> gl_buffers (gl s') k = gl_buffers (gl s) k"
    "\<forall>sh'. sh' \<noteq> sh \<longrightarrow> meshes s' sh' = meshes s sh'"
    "nVertices (meshes s' Fin) = nVertices (meshes s Fin)" "gl_events (gl s') = gl_events (gl s)"
    "gl_vaos (gl s') (vao (meshes s' sh)) = Some (layout_vao e b)"
    "e \<in> {0, ebo (meshes s' sh)}" "b \<in> {vbo (meshes s' sh), vbos0 (meshes s' sh)}"
    "\<forall>x \<in> {vao (meshes s' sh), vbo (meshes s' sh), vbos0 (meshes s' sh), ebo (meshes s' sh)}.
       x \<noteq> 0 \<longrightarrow> x \<in> mesh_names (meshes s sh) \<or> gl_next (gl s) \<le> x \<and> x < gl_next (gl s')"
    "float_data (gl_buffers (gl s') b)" "e \<noteq> 0 \<longrightarrow> index_data (gl_buffers (gl s') e)"
    "mesh_ok (gl s') sh (meshes s' sh)"
  shows "registry_inv s'"
proof (rule registry_inv_load [OF assms(1,3-6) _ assms(7,8)])
  show "vao (meshes s' sh) \<noteq> 0 \<longrightarrow>
       (case gl_vaos (gl s') (vao (meshes s' sh)) of Some st \<Rightarrow> refs_typed (gl s') st | None \<Rightarrow> True)"
    using assms(9,13,14) by (simp add: refs_typed_def layout_vao_def)
  have "mesh_names (meshes s' sh) \<subseteq> mesh_names (meshes s sh) \<union> {gl_next (gl s)..<gl_next (gl s')}"
  proof
    fix x assume x: "x \<in> mesh_names (meshes s' sh)"
    then have "x \<noteq> 0" "x \<in> {vao (meshes s' sh), vbo (meshes s' sh), vbos0 (meshes s' sh), ebo (meshes s' sh)}"
      by (simp_all add: mesh_names_def)
    then show "x \<in> mesh_names (meshes s sh) \<union> {gl_next (gl s)..<gl_next (gl s')}"
      using assms(12) by (simp only: atLeastLessThan_iff Un_iff) blast
  qed
  moreover have "owns_refs (meshes s' sh) (layout_vao e b)"
    using assms(10,11) by (simp only: owns_refs_layout)
  ultimately show "load_owned sh s s'"
    using assms(2,9) by (simp add: load_owned_def)
qed (use assms(15) in simp)

lemma InitializeMesh_inv:
  assumes "registry_inv_except sh s" "\<not> dyn_shape sh" "sh \<noteq> Fin"
    "indices_below (length verts) idx" "elem_extra sh (numSlices (meshes s sh)) \<le> length idx"
  shows "registry_inv (InitializeMesh sh (interleave verts) idx s)"
proof -
  have l: "\<not> m_bMemoryLayoutDone s" and n: "0 < gl_next (gl s)"
    using assms(1) by (simp_all add: registry_inv_except_def)
  note fin = assms(3) assms(3) [symmetric]
  show ?thesis
  proof (cases "idx = []")
    case True
    show ?thesis
      unfolding True InitializeMesh_plain [OF l n]
      apply (rule registry_inv_load_static [OF assms(1,2), where e = 0 and b = "gl_next (gl s) + 1"])
      apply (simp_all add: mesh_names_iff fin)
      apply (rule mesh_ok_new [where vs = verts and v = "gl_next (gl s)" and b = "gl_next (gl s) + 1" and e = 0])
      using n assms(5) True by (simp_all add: elem_bound_def length_interleave)
  next
    case False
    show ?thesis
      unfolding InitializeMesh_indexed [OF l n False]
      apply (rule registry_inv_load_static [OF assms(1,2), where e = "gl_next (gl s) + 2" and b = "gl_next (gl s) + 1"])
      apply (simp_all add: mesh_names_iff fin)
      apply (rule mesh_ok_new [where vs = verts and idx = idx and v = "gl_next (gl s)"
                                  and b = "gl_next (gl s) + 1" and e = "gl_next (gl s) + 2"])
      using n assms(4,5) False by (simp_all add: elem_bound_def length_interleave)
  qed
qed

lemma typed_ok_cong:
  "meshes s' = meshes s \<Longrightarrow> gl_vaos (gl s') = gl_vaos (gl s) \<Longrightarrow> gl_buffers (gl s') = gl_buffers (gl s) \<Longrightarrow>
   typed_ok s' = typed_ok s"
  by (simp add: typed_ok_def refs_typed_def cong: option.case_cong)

lemma typed_ok_fields:
  assumes "typed_ok s" "vao m' = vao (meshes s sh)"
  shows "typed_ok (s\<lparr>meshes := (meshes s)(sh := m')\<rparr>)"
  unfolding typed_ok_def
proof (intro allI impI)
  fix sh' assume "vao (meshes (s\<lparr>meshes := (meshes s)(sh := m')\<rparr>) sh') \<noteq> 0"
  then show "case gl_vaos (gl (s\<lparr>meshes := (meshes s)(sh := m')\<rparr>)) (vao (meshes (s\<lparr>meshes := (meshes s)(sh := m')\<rparr>) sh')) of
               Some st \<Rightarrow> refs_typed (gl (s\<lparr>meshes := (meshes s)(sh := m')\<rparr>)) st | None \<Rightarrow> True"
    using assms by (cases "sh' = sh") (simp_all add: typed_ok_def cong: option.case_cong)
qed

lemma typed_ok_frame:
  assumes "owners_ok s" "typed_ok s" "0 < gl_next (gl s)" "meshes s' = meshes s"
    "\<forall>k<gl_next (gl s). gl_vaos (gl s') k = gl_vaos (gl s) k \<and> gl_buffers (gl s') k = gl_buffers (gl s) k"
  shows "typed_ok s'"
  unfolding typed_ok_def
proof (intro allI impI)
  fix sh assume v: "vao (meshes s' sh) \<noteq> 0"
  have "case gl_vaos (gl s) (vao (meshes s sh)) of Some st \<Rightarrow> refs_typed (gl s) st | None \<Rightarrow> True"
    using assms(2,4) v by (simp add: typed_ok_def)
  then show "case gl_vaos (gl s') (vao (meshes s' sh)) of Some st \<Rightarrow> refs_typed (gl s') st | None \<Rightarrow> True"
    using typed_at_frame [OF assms(1,3,5)] v assms(4) by simp
qed

lemma registry_inv_except_fields:
  assumes "registry_inv s" "sh \<noteq> Fin" "vao m' = vao (meshes s sh)" "vbo m' = vbo (meshes s sh)"
    "vbos0 m' = vbos0 (meshes s sh)" "ebo m' = ebo (meshes s sh)"
  shows "registry_inv_except sh (s\<lparr>meshes := (meshes s)(sh := m')\<rparr>)"
  using assms(1,2) owners_ok_fields [OF _ assms(3-6)] typed_ok_fields [OF _ assms(3)]
  by (simp add: registry_inv_def registry_inv_except_def)

lemma registry_inv_dyn_fields:
  assumes "registry_inv s" "dyn_shape sh" "vao m' = vao (meshes s sh)" "vbo m' = vbo (meshes s sh)"
    "vbos0 m' = vbos0 (meshes s sh)" "ebo m' = ebo (meshes s sh)"
  shows "registry_inv (s\<lparr>meshes := (meshes s)(sh := m')\<rparr>)"
proof -
  have "sh \<noteq> Fin" using assms(2) by auto
  then have "registry_inv_except sh (s\<lparr>meshes := (meshes s)(sh := m')\<rparr>)"
    using registry_inv_except_fields [OF assms(1) _ assms(3-6)] by blast
  then show ?thesis using assms(2) by (simp add: registry_inv_except_iff [of _ sh])
qed

lemma set_numSlices_except:
  "registry_inv s \<Longrightarrow> sh \<noteq> Fin \<Longrightarrow> registry_inv_except sh (set_numSlices sh k s)"
  unfolding set_numSlices_def by (rule registry_inv_except_fields) simp_all

lemma upload_inv:
  "registry_inv s \<Longrightarrow> \<not> dyn_shape sh \<Longrightarrow> sh \<noteq> Fin \<Longrightarrow> mesh_wf d \<Longrightarrow>
   elem_extra sh (numSlices (meshes s sh)) \<le> length (mb_indices d) \<Longrightarrow> registry_inv (upload sh d s)"
  unfolding upload_def mesh_wf_def
  by (rule InitializeMesh_inv) (simp_all add: registry_inv_except_dyn)

lemma upload_numSlices_inv:
  "registry_inv s \<Longrightarrow> \<not> dyn_shape sh \<Longrightarrow> sh \<noteq> Fin \<Longrightarrow> mesh_wf d \<Longrightarrow>
   elem_extra sh k \<le> length (mb_indices d) \<Longrightarrow> registry_inv (upload sh d (set_numSlices sh k s))"
  unfolding upload_def mesh_wf_def
  by (rule InitializeMesh_inv) (simp_all add: set_numSlices_except, simp add: set_numSlices_def)

lemma LoadCurvedConeMesh_inv:
  assumes "registry_inv s"
  shows "registry_inv (LoadCurvedConeMesh n c r h b s)"
  unfolding LoadCurvedConeMesh_def Let_def upload_def
  by (rule InitializeMesh_inv, rule registry_inv_except_fields [OF assms])
     (use custom_meshes_wf(1) in \<open>simp_all add: mesh_wf_def elem_extra_def\<close>)

lemma registry_inv_frame:
  assumes "registry_inv s" "meshes s' = meshes s" "m_bMemoryLayoutDone s' = m_bMemoryLayoutDone s"
    "gl_next (gl s) \<le> gl_next (gl s')"
    "\<forall>k<gl_next (gl s). gl_vaos (gl s') k = gl_vaos (gl s) k \<and> gl_buffers (gl s') k = gl_buffers (gl s) k"
    "events_ok (gl s')"
  shows "registry_inv s'"
proof -
  have "owners_ok s'"
    by (rule owners_ok_frame [of s]) (use assms(1,2,4,5) in \<open>simp_all add: registry_inv_def\<close>)
  moreover have "mesh_ok (gl s') sh (meshes s' sh)" if "\<not> dyn_shape sh" for sh
    by (rule mesh_ok_frame [of "gl s"]) (use assms(1,4,5) that in \<open>simp_all add: registry_inv_def assms(2)\<close>)
  moreover have "typed_ok s'"
    by (rule typed_ok_frame [of s]) (use assms(1,2,5) in \<open>simp_all add: registry_inv_def\<close>)
  ultimately show ?thesis using assms(1,2,3,4,6) by (simp add: registry_inv_def)
qed

lemma LoadExtraTorusMesh_inv:
  assumes "registry_inv s" "\<not> dyn_shape sh" "sh \<noteq> Fin" "elem_extra sh (numSlices (meshes s sh)) = 0"
  shows "registry_inv (LoadExtraTorusMesh sh d s)"
proof -
  have l: "\<not> m_bMemoryLayoutDone s" and n: "0 < gl_next (gl s)"
    using assms(1) by (simp_all add: registry_inv_def)
  have exc: "registry_inv_except sh s" using assms(1) by (rule registry_inv_except_dyn)
  note fin = assms(3) assms(3) [symmetric]
  show ?thesis
    unfolding LoadExtraTorusMesh_eq [OF l n]
    apply (rule registry_inv_load_static [OF exc assms(2), where e = 0 and b = "gl_next (gl s) + 1"])
    apply (simp_all add: mesh_names_iff fin)
    apply (rule mesh_ok_new [where vs = "mb_verts d" and v = "gl_next (gl s)" and b = "gl_next (gl s) + 1" and e = 0])
    using n assms(4) by (simp_all add: elem_bound_def)
qed

lemma LoadFinMesh_inv:
  assumes "registry_inv s"
  shows "registry_inv (LoadFinMesh baseLength topLength height thickness s)"
proof -
  have n: "0 < gl_next (gl s)" using assms by (simp add: registry_inv_def)
  have exc: "registry_inv_except Fin s" using assms by (rule registry_inv_except_dyn)
  show ?thesis
    unfolding LoadFinMesh_eq [OF n]
    apply (rule registry_inv_load_static [OF exc, where e = "gl_next (gl s) + 2" and b = "gl_next (gl s) + 1"])
    apply (simp_all add: mesh_names_iff)
    apply (rule mesh_ok_new [where vs = "mb_verts (LoadFinMesh_data baseLength topLength height thickness)"
                         and idx = "mb_indices (LoadFinMesh_data baseLength topLength height thickness)"
                         and v = "gl_next (gl s)" and b = "gl_next (gl s) + 1" and e = "gl_next (gl s) + 2"])
    using n assms by (simp_all add: elem_bound_def elem_extra_def LoadFinMesh_data_wf registry_inv_def)
qed

lemma DrawPartialConeMesh_inv:
  assumes "registry_inv s"
  shows "registry_inv (DrawPartialConeMesh radius height numSlices0 arcDegrees wireframe s)"
proof -
  have n: "0 < gl_next (gl s)" using assms by (simp add: registry_inv_def)
  have wf: "indices_below (length (mb_verts (DrawPartialConeMesh_data radius height numSlices0 arcDegrees)))
                          (mb_indices (DrawPartialConeMesh_data radius height numSlices0 arcDegrees))"
    using DrawPartialConeMesh_wf_lemma by (simp add: mesh_wf_def)
  show ?thesis
    unfolding DrawPartialConeMesh_eq [OF n wf]
    by (rule registry_inv_frame [OF assms]) (use assms in \<open>simp_all add: registry_inv_def events_ok_def\<close>)
qed

lemma load_names_inv:
  assumes "registry_inv s" "dyn_shape sh"
  shows "registry_inv (load_names sh s)"
proof -
  have exc: "registry_inv_except sh s" using assms(1) by (rule registry_inv_except_dyn)
  have o: "owns_refs m empty_vao" for m by (simp add: owns_refs_def empty_vao_def)
  show ?thesis
    unfolding load_names_eq
    by (rule registry_inv_load [OF exc]) (use assms(2) o in \<open>auto simp: load_owned_def mesh_names_def dyn_ok_def refs_typed_def empty_vao_def\<close>)
qed

section \<open>Draw lemmas\<close>

lemma mesh_ok_loaded:
  assumes "mesh_ok c sh m" "vao m \<noteq> 0"
  obtains st where "gl_vaos c (vao m) = Some st" "vao_ok c sh m st"
  using assms unfolding mesh_ok_def by (auto split: option.splits)

lemma draw_elements_mesh:
  assumes "registry_inv s" "f + k \<le> elem_bound sh (meshes s sh)" "vao (meshes s sh) = 0 \<Longrightarrow> k = 0"
    "\<not> dyn_shape sh"
  shows "draw_ok (glBindVertexArray (vao (meshes s sh)) (gl s)) (DrawElementsCall mode k f)"
proof (cases "vao (meshes s sh) = 0")
  case True then show ?thesis using assms(3) by simp
next
  case False
  have "mesh_ok (gl s) sh (meshes s sh)" using assms(1,4) by (simp add: registry_inv_def)
  then obtain st where st: "gl_vaos (gl s) (vao (meshes s sh)) = Some st"
    and ok: "vao_ok (gl s) sh (meshes s sh) st"
    using False by (rule mesh_ok_loaded)
  then have e0: "vao_ebo st = 0 \<Longrightarrow> elem_bound sh (meshes s sh) = 0"
    and e1: "vao_ebo st \<noteq> 0 \<Longrightarrow> \<exists>idx. gl_buffers (gl s) (vao_ebo st) = Some (Uints idx) \<and>
               elem_bound sh (meshes s sh) \<le> length idx \<and> vertex_reads_ok (gl s) st idx"
    by (auto simp: vao_ok_def ebo_ok_def split: option.splits buffer_data.splits)
  show ?thesis
  proof (cases "vao_ebo st = 0")
    case True then show ?thesis using e0 assms(2) by simp
  next
    case ebo: False
    then obtain idx where "gl_buffers (gl s) (vao_ebo st) = Some (Uints idx)"
      "elem_bound sh (meshes s sh) \<le> length idx" "vertex_reads_ok (gl s) st idx" using e1 by blast
    moreover have "set (take k (drop f idx)) \<subseteq> set idx" by (auto dest: in_set_takeD in_set_dropD)
    ultimately show ?thesis
      using False st ebo assms(2) by (auto intro: vertex_reads_ok_subset)
  qed
qed

lemma draw_arrays_mesh:
  assumes "registry_inv s" "\<not> dyn_shape sh"
  shows "draw_ok (glBindVertexArray (vao (meshes s sh)) (gl s)) (DrawArraysCall mode 0 (nVertices (meshes s sh)))"
proof (cases "vao (meshes s sh) = 0")
  case True then show ?thesis using assms by (simp add: registry_inv_def mesh_ok_def)
next
  case False
  have "mesh_ok (gl s) sh (meshes s sh)" using assms by (simp add: registry_inv_def)
  then obtain st where "gl_vaos (gl s) (vao (meshes s sh)) = Some st" "vao_ok (gl s) sh (meshes s sh) st"
    using False by (rule mesh_ok_loaded)
  then show ?thesis using False by (simp add: vao_ok_def)
qed

lemma registry_inv_draw:
  assumes "registry_inv s" "gl_next c = gl_next (gl s)" "gl_vaos c = gl_vaos (gl s)"
    "gl_buffers c = gl_buffers (gl s)" "events_ok c"
  shows "registry_inv (s\<lparr>gl := c\<rparr>)"
proof -
  have "mesh_ok c sh m = mesh_ok (gl s) sh m" for sh m using assms(2-4) by (rule mesh_ok_cong)
  moreover have "owners_ok (s\<lparr>gl := c\<rparr>) = owners_ok s" using assms(2-4) by (intro owners_ok_cong) simp_all
  moreover have "typed_ok (s\<lparr>gl := c\<rparr>) = typed_ok s" using assms(3,4) by (intro typed_ok_cong) simp_all
  ultimately show ?thesis using assms(1,2,5) by (simp add: registry_inv_def)
qed

lemma unloaded_mesh:
  "registry_inv s \<Longrightarrow> \<not> dyn_shape sh \<Longrightarrow> vao (meshes s sh) = 0 \<Longrightarrow>
   nVertices (meshes s sh) = 0 \<and> nIndices (meshes s sh) = 0 \<and> numSlices (meshes s sh) \<le> 0"
  by (simp add: registry_inv_def mesh_ok_def)

lemma registry_inv_warned [simp]: "registry_inv (s\<lparr>warned := f\<rparr>) = registry_inv s"
  by (simp add: registry_inv_def owners_ok_cong [of "s\<lparr>warned := f\<rparr>" s] typed_ok_cong [of "s\<lparr>warned := f\<rparr>" s])

lemma registry_inv_events: "registry_inv s \<Longrightarrow> events_ok (gl s)"
  by (simp add: registry_inv_def)

lemmas draw_unfold = Let_def SetWireframeMode_def glDrawElements_def glDrawArrays_def

lemma draw_whole_inv:
  assumes "registry_inv s" "\<not> dyn_shape sh"
  shows "registry_inv (draw_whole sh mode elements wireframe s)"
proof -
  have "vao (meshes s sh) = 0 \<Longrightarrow> nIndices (meshes s sh) = 0" using unloaded_mesh [OF assms] by blast
  then show ?thesis unfolding draw_whole_def draw_unfold
    using assms by (auto intro!: registry_inv_draw registry_inv_events draw_elements_mesh draw_arrays_mesh simp: elem_bound_def simp del: draw_ok.simps)
qed

lemma draw_half_inv: "registry_inv s \<Longrightarrow> \<not> dyn_shape sh \<Longrightarrow> registry_inv (draw_half sh wireframe s)"
  unfolding draw_half_def draw_unfold
  by (auto intro!: registry_inv_draw registry_inv_events draw_elements_mesh simp: elem_bound_def simp del: draw_ok.simps)

lemma DrawBoxMeshSide_inv: "registry_inv s \<Longrightarrow> registry_inv (DrawBoxMeshSide side wireframe s)"
  unfolding DrawBoxMeshSide_def draw_unfold
  by (cases side) (auto intro!: registry_inv_draw registry_inv_events draw_elements_mesh
                        simp: elem_bound_def elem_extra_def indicesPerFace_def simp del: draw_ok.simps)

lemma DrawConeMesh_inv: "registry_inv s \<Longrightarrow> registry_inv (DrawConeMesh bDrawBottom wireframe s)"
  unfolding DrawConeMesh_def draw_unfold
  by (auto intro!: registry_inv_draw registry_inv_events draw_elements_mesh simp: elem_bound_def elem_extra_def simp del: draw_ok.simps)

lemma DrawCylinderMesh_inv:
  assumes "registry_inv s"
  shows "registry_inv (DrawCylinderMesh bDrawTop bDrawBottom bDrawSides wireframe s)"
proof -
  have "vao (meshes s Cylinder) = 0 \<Longrightarrow> nat (numSlices (meshes s Cylinder)) = 0"
    using unloaded_mesh [OF assms, of Cylinder] by auto
  then show ?thesis unfolding DrawCylinderMesh_def draw_unfold
    using assms by (auto intro!: registry_inv_draw registry_inv_events draw_elements_mesh simp: elem_bound_def elem_extra_def simp del: draw_ok.simps)
qed

lemma DrawTaperedCylinderMesh_inv:
  assumes "registry_inv s"
  shows "registry_inv (DrawTaperedCylinderMesh bDrawTop bDrawBottom bDrawSides wireframe s)"
proof -
  have "vao (meshes s TaperedCylinder) = 0 \<Longrightarrow> nat (numSlices (meshes s TaperedCylinder)) = 0"
    using unloaded_mesh [OF assms, of TaperedCylinder] by auto
  then show ?thesis unfolding DrawTaperedCylinderMesh_def draw_unfold
    using assms by (auto intro!: registry_inv_draw registry_inv_events draw_elements_mesh simp: elem_bound_def elem_extra_def simp del: draw_ok.simps)
qed

lemma DrawExtraTorusMesh_inv:
  "registry_inv s \<Longrightarrow> \<not> dyn_shape sh \<Longrightarrow> registry_inv (DrawExtraTorusMesh sh s)"
  unfolding DrawExtraTorusMesh_def draw_unfold
  by (auto intro!: registry_inv_draw registry_inv_events draw_arrays_mesh simp del: draw_ok.simps)

lemma DrawFinMesh_inv:
  assumes "registry_inv s"
  shows "registry_inv (DrawFinMesh wireframe s)"
proof -
  have "vao (meshes s Fin) = 0 \<Longrightarrow> nIndices (meshes s Fin) = 0" using unloaded_mesh [OF assms, of Fin] by simp
  then show ?thesis unfolding DrawFinMesh_def draw_unfold glPolygonModeLine_def [symmetric]
    using assms by (auto intro!: registry_inv_draw registry_inv_events draw_elements_mesh simp: elem_bound_def simp del: draw_ok.simps)
qed

lemma draw_fin_ranges_inv:
  assumes "registry_inv s" "vao (meshes s Fin) \<noteq> 0" "\<forall>(count, first) \<in> set rs. first + count \<le> 36"
  shows "registry_inv (draw_fin_ranges rs s)"
proof -
  let ?c = "glBindVertexArray (vao (meshes s Fin)) (gl s)"
  have "events_ok (fold (\<lambda>(count, first). glDrawElements GL_TRIANGLES count first) rs c) \<and>
        gl_next (fold (\<lambda>(count, first). glDrawElements GL_TRIANGLES count first) rs c) = gl_next c \<and>
        gl_vaos (fold (\<lambda>(count, first). glDrawElements GL_TRIANGLES count first) rs c) = gl_vaos c \<and>
        gl_buffers (fold (\<lambda>(count, first). glDrawElements GL_TRIANGLES count first) rs c) = gl_buffers c"
    if "events_ok c" "gl_vao c = gl_vao ?c" "gl_vaos c = gl_vaos ?c" "gl_buffers c = gl_buffers ?c"
      "\<forall>(count, first) \<in> set rs. first + count \<le> 36" for c rs
    using that
  proof (induction rs arbitrary: c)
    case Nil then show ?case by simp
  next
    case (Cons r rs)
    obtain count first where r: "r = (count, first)" by fastforce
    have "draw_ok ?c (DrawElementsCall GL_TRIANGLES count first)"
      using Cons.prems(5) r assms(1,2) by (intro draw_elements_mesh) (auto simp: elem_bound_def elem_extra_def simp del: draw_ok.simps)
    moreover have "draw_ok c (DrawElementsCall GL_TRIANGLES count first)
                   = draw_ok ?c (DrawElementsCall GL_TRIANGLES count first)"
      using Cons.prems(2-4) by (rule draw_ok_cong)
    ultimately have "draw_ok c (DrawElementsCall GL_TRIANGLES count first)" by simp
    then show ?case using Cons.IH [of "glDrawElements GL_TRIANGLES count first c"] Cons.prems r
      by (simp add: glDrawElements_def)
  qed
  from this [of "?c" rs] show ?thesis
    using assms unfolding draw_fin_ranges_def Let_def
    by (intro registry_inv_draw) (simp_all add: registry_inv_def)
qed

lemma DrawCurvedConeMesh_inv:
  assumes "registry_inv s"
  shows "registry_inv (DrawCurvedConeMesh s)"
proof -
  have "vao (meshes s CurvedCone) = 0 \<Longrightarrow> nIndices (meshes s CurvedCone) = 0"
    using unloaded_mesh [OF assms, of CurvedCone] by simp
  then show ?thesis unfolding DrawCurvedConeMesh_def draw_unfold
    using assms by (auto intro!: registry_inv_draw registry_inv_events draw_elements_mesh simp: elem_bound_def simp del: draw_ok.simps)
qed

section \<open>The per-draw shapes\<close>

text \<open>The draws of the four per-draw shapes rewrite their own VAO and buffers. Ownership
  confines these writes: no other mesh reads them.\<close>

lemma vertex_reads_ok_owned:
  assumes "\<forall>l \<in> set (vao_enabled st). case vao_attribs st l of
             Some ap \<Rightarrow> gl_buffers c' (ap_buffer ap) = gl_buffers c (ap_buffer ap) | None \<Rightarrow> True"
  shows "vertex_reads_ok c' st is = vertex_reads_ok c st is"
  using assms unfolding vertex_reads_ok_def list_all_iff
  by (intro ball_cong refl) (auto simp: attrib_reads_ok_def split: option.splits)

lemma mesh_ok_frame_owned:
  assumes "mesh_ok c sh m" "gl_next c' = gl_next c"
    "vao m \<noteq> 0 \<Longrightarrow> (case gl_vaos c (vao m) of Some st \<Rightarrow> owns_refs m st | None \<Rightarrow> True)"
    "\<forall>k \<in> insert 0 (mesh_names m). gl_vaos c' k = gl_vaos c k \<and> gl_buffers c' k = gl_buffers c k"
  shows "mesh_ok c' sh m"
proof (cases "vao m = 0")
  case True then show ?thesis using assms(1) by (simp add: mesh_ok_def)
next
  case False
  then obtain st where st: "vao m < gl_next c" "gl_vaos c (vao m) = Some st" "vao_ok c sh m st"
    using assms(1) by (auto simp: mesh_ok_def split: option.splits)
  have own: "owns_refs m st" using assms(3) False st(2) by simp
  have k: "gl_buffers c' k = gl_buffers c k" if "k \<in> {0, vbo m, vbos0 m, ebo m}" for k
    using assms(4) that by (auto simp: mesh_names_def)
  have r: "vertex_reads_ok c' st is = vertex_reads_ok c st is" for "is"
    using own k by (intro vertex_reads_ok_owned) (auto simp: owns_refs_def list_all_iff split: option.splits)
  have eb: "gl_buffers c' (vao_ebo st) = gl_buffers c (vao_ebo st)"
    using own k by (auto simp: owns_refs_def)
  have v: "gl_vaos c' (vao m) = gl_vaos c (vao m)" using assms(4) False by (simp add: mesh_names_def)
  have "vao_ok c' sh m st" using st(3) assms(2) r eb
    by (simp add: vao_ok_def ebo_ok_def cong: option.case_cong buffer_data.case_cong)
  then show ?thesis using st v False assms(2) by (simp add: mesh_ok_def)
qed

text \<open>A state change that writes only the names of a loaded per-draw shape \<open>sh\<close> and leaves
  its VAO in the standard layout over its own buffers keeps the ownership invariant.\<close>

lemma owners_ok_owned_update:
  assumes "owners_ok s" "dyn_shape sh" "vao (meshes s sh) \<noteq> 0" "meshes s' = meshes s"
    "gl_next (gl s') = gl_next (gl s)"
    "\<forall>k. k \<notin> mesh_names (meshes s sh) \<longrightarrow> gl_vaos (gl s') k = gl_vaos (gl s) k \<and> gl_buffers (gl s') k = gl_buffers (gl s) k"
    "gl_vaos (gl s') (vao (meshes s sh)) = Some (layout_vao (ebo (meshes s sh)) (vbo (meshes s sh)))"
    "gl_buffers (gl s') (vbo (meshes s sh)) \<noteq> None" "gl_buffers (gl s') (ebo (meshes s sh)) \<noteq> None"
  shows "owners_ok s'"
proof -
  have dy: "dyn_ok (gl s) (meshes s sh)" using assms(1-3) by (simp add: owners_ok_def)
  have same: "gl_vaos (gl s') x = gl_vaos (gl s) x \<and> gl_buffers (gl s') x = gl_buffers (gl s) x"
    if "sh' \<noteq> sh" "x \<in> mesh_names (meshes s sh')" for sh' x
    using assms(6) owners_disjoint [OF assms(1) that] by blast
  have p3: "vao (meshes s' sh') \<noteq> 0 \<longrightarrow>
      (case gl_vaos (gl s') (vao (meshes s' sh')) of Some st \<Rightarrow> owns_refs (meshes s' sh') st | None \<Rightarrow> True)" for sh'
  proof (cases "sh' = sh")
    case True then show ?thesis using assms(4,7) by (simp add: owns_refs_layout)
  next
    case False
    show ?thesis
    proof
      assume "vao (meshes s' sh') \<noteq> 0"
      then have "gl_vaos (gl s') (vao (meshes s sh')) = gl_vaos (gl s) (vao (meshes s sh'))"
        and "vao (meshes s sh') \<noteq> 0" using same [OF False] assms(4) by (simp_all add: mesh_names_iff)
      then show "case gl_vaos (gl s') (vao (meshes s' sh')) of Some st \<Rightarrow> owns_refs (meshes s' sh') st | None \<Rightarrow> True"
        using assms(1,4) by (simp add: owners_ok_def cong: option.case_cong)
    qed
  qed
  have p4: "dyn_shape sh' \<longrightarrow> vao (meshes s' sh') \<noteq> 0 \<longrightarrow> dyn_ok (gl s') (meshes s' sh')" for sh'
  proof (cases "sh' = sh")
    case True then show ?thesis using assms(4,7-9) dy by (simp add: dyn_ok_def)
  next
    case False
    show ?thesis
    proof (intro impI)
      assume d: "dyn_shape sh'" and v: "vao (meshes s' sh') \<noteq> 0"
      then have o: "dyn_ok (gl s) (meshes s sh')" using assms(1,4) by (simp add: owners_ok_def)
      then have "vbo (meshes s sh') \<in> mesh_names (meshes s sh')" "ebo (meshes s sh') \<in> mesh_names (meshes s sh')"
        "vao (meshes s sh') \<in> mesh_names (meshes s sh')"
        using v assms(4) by (simp_all add: dyn_ok_def mesh_names_iff)
      then show "dyn_ok (gl s') (meshes s' sh')"
        using same [OF False] o assms(4) by (simp add: dyn_ok_def)
    qed
  qed
  show ?thesis
    using assms(1,4,5) p3 p4 unfolding owners_ok_def by simp
qed

lemma typed_data_not_None: "float_data b \<Longrightarrow> b \<noteq> None" "index_data b \<Longrightarrow> b \<noteq> None"
  by (cases b; simp)+

lemma typed_ok_owned_update:
  assumes "owners_ok s" "typed_ok s" "meshes s' = meshes s"
    "\<forall>k. k \<notin> mesh_names (meshes s sh) \<longrightarrow> gl_vaos (gl s') k = gl_vaos (gl s) k \<and> gl_buffers (gl s') k = gl_buffers (gl s) k"
    "gl_vaos (gl s') (vao (meshes s sh)) = Some (layout_vao (ebo (meshes s sh)) (vbo (meshes s sh)))"
    "float_data (gl_buffers (gl s') (vbo (meshes s sh)))" "index_data (gl_buffers (gl s') (ebo (meshes s sh)))"
  shows "typed_ok s'"
  unfolding typed_ok_def
proof (intro allI impI)
  fix sh' assume v: "vao (meshes s' sh') \<noteq> 0"
  show "case gl_vaos (gl s') (vao (meshes s' sh')) of Some st \<Rightarrow> refs_typed (gl s') st | None \<Rightarrow> True"
  proof (cases "sh' = sh")
    case True then show ?thesis using assms(3,5,6,7) by (simp add: refs_typed_def layout_vao_def)
  next
    case False
    have same: "gl_vaos (gl s') x = gl_vaos (gl s) x \<and> gl_buffers (gl s') x = gl_buffers (gl s) x"
      if "x \<in> insert 0 (mesh_names (meshes s sh'))" for x
    proof -
      have "x \<notin> mesh_names (meshes s sh)"
        using that owners_disjoint [OF assms(1) False, of x] by (auto simp: mesh_names_def)
      then show ?thesis using assms(4) by blast
    qed
    have v0: "vao (meshes s sh') \<noteq> 0" using v assms(3) by simp
    have vs: "gl_vaos (gl s') (vao (meshes s sh')) = gl_vaos (gl s) (vao (meshes s sh'))"
      using same v0 by (simp add: mesh_names_iff)
    have t: "case gl_vaos (gl s) (vao (meshes s sh')) of Some st \<Rightarrow> refs_typed (gl s) st | None \<Rightarrow> True"
      using assms(2) v0 by (simp add: typed_ok_def)
    show ?thesis
    proof (cases "gl_vaos (gl s) (vao (meshes s sh'))")
      case None then show ?thesis using vs assms(3) by simp
    next
      case (Some st)
      have "refs_typed (gl s') st = refs_typed (gl s) st"
        using owners_owns [OF assms(1) v0 Some] same by (intro refs_typed_frame) auto
      then show ?thesis using vs Some t assms(3) by simp
    qed
  qed
qed

lemma registry_inv_owned_update:
  assumes "registry_inv s" "dyn_shape sh" "vao (meshes s sh) \<noteq> 0" "meshes s' = meshes s"
    "m_bMemoryLayoutDone s' = m_bMemoryLayoutDone s" "gl_next (gl s') = gl_next (gl s)"
    "\<forall>k. k \<notin> mesh_names (meshes s sh) \<longrightarrow> gl_vaos (gl s') k = gl_vaos (gl s) k \<and> gl_buffers (gl s') k = gl_buffers (gl s) k"
    "gl_vaos (gl s') (vao (meshes s sh)) = Some (layout_vao (ebo (meshes s sh)) (vbo (meshes s sh)))"
    "float_data (gl_buffers (gl s') (vbo (meshes s sh)))" "index_data (gl_buffers (gl s') (ebo (meshes s sh)))"
    "events_ok (gl s')"
  shows "registry_inv s'"
proof -
  have ow: "owners_ok s" and ty: "typed_ok s" using assms(1) by (simp_all add: registry_inv_def)
  have nn: "gl_buffers (gl s') (vbo (meshes s sh)) \<noteq> None" "gl_buffers (gl s') (ebo (meshes s sh)) \<noteq> None"
    using assms(9,10) typed_data_not_None by blast+
  have "owners_ok s'" by (rule owners_ok_owned_update [OF ow assms(2-4,6-8) nn])
  moreover have "typed_ok s'" by (rule typed_ok_owned_update [OF ow ty assms(4,7-10)])
  moreover have "mesh_ok (gl s') sh' (meshes s' sh')" if "\<not> dyn_shape sh'" for sh'
  proof (rule mesh_ok_frame_owned [of "gl s"])
    have ne: "sh' \<noteq> sh" using that assms(2) by auto
    show "mesh_ok (gl s) sh' (meshes s' sh')" using assms(1,4) that by (simp add: registry_inv_def)
    show "vao (meshes s' sh') \<noteq> 0 \<Longrightarrow>
      (case gl_vaos (gl s) (vao (meshes s' sh')) of Some st \<Rightarrow> owns_refs (meshes s' sh') st | None \<Rightarrow> True)"
      using ow assms(4) by (simp add: owners_ok_def cong: option.case_cong)
    have "0 \<notin> mesh_names (meshes s sh)" by (simp add: mesh_names_def)
    then show "\<forall>k \<in> insert 0 (mesh_names (meshes s' sh')). gl_vaos (gl s') k = gl_vaos (gl s) k \<and> gl_buffers (gl s') k = gl_buffers (gl s) k"
      using assms(7) owners_disjoint [OF ow ne] unfolding assms(4) by blast
  qed (use assms(6) in simp)
  ultimately show ?thesis using assms(1,4,5,6,11) by (simp add: registry_inv_def)
qed

lemma registry_dyn_ok:
  "registry_inv s \<Longrightarrow> dyn_shape sh \<Longrightarrow> vao (meshes s sh) \<noteq> 0 \<Longrightarrow> dyn_ok (gl s) (meshes s sh)"
  by (simp add: registry_inv_def owners_ok_def)

lemma dynamic_upload_draw_inv:
  assumes "registry_inv s" "dyn_shape sh" "vao (meshes s sh) \<noteq> 0" "mesh_wf d"
  shows "registry_inv (dynamic_upload_draw sh d s)"
proof -
  have "dyn_ok (gl s) (meshes s sh)" by (rule registry_dyn_ok [OF assms(1-3)])
  then have d: "vbo (meshes s sh) \<noteq> 0" "ebo (meshes s sh) \<noteq> 0" "vbo (meshes s sh) \<noteq> ebo (meshes s sh)"
    "gl_buffers (gl s) (vbo (meshes s sh)) \<noteq> None" "gl_buffers (gl s) (ebo (meshes s sh)) \<noteq> None"
    "gl_vaos (gl s) (vao (meshes s sh)) = Some empty_vao \<or>
     gl_vaos (gl s) (vao (meshes s sh)) = Some (layout_vao (ebo (meshes s sh)) (vbo (meshes s sh)))"
    by (simp_all add: dyn_ok_def)
  have wf: "indices_below (length (mb_verts d)) (mb_indices d)" using assms(4) by (simp add: mesh_wf_def)
  show ?thesis
    unfolding dynamic_upload_draw_eq [OF refl assms(3) d wf]
    by (rule registry_inv_owned_update [OF assms(1-3)])
       (use assms(1,3) d(1,2,3) in \<open>auto simp: mesh_names_def registry_inv_def events_ok_def\<close>)
qed

lemma DrawSpiralMesh_Inr_wf:
  "DrawSpiralMesh_data tubeRadius flattenFactor loopSpacing numLoops tubeSegments spiralSegments = Inr d \<Longrightarrow> mesh_wf d"
  by (auto simp: DrawSpiralMesh_data_def Let_def split: option.splits if_splits intro!: spiral_buffer_wf_aux)

lemma dynamic_draws_inv:
  assumes "registry_inv s"
  shows "vao (meshes s TaperedTorus) \<noteq> 0 \<Longrightarrow> registry_inv (DrawTaperedTorusMesh mr r0 r1 ms ts a s)"
    "vao (meshes s SineCone) \<noteq> 0 \<Longrightarrow> registry_inv (DrawSineConeMesh b h f sa sf sp rs hs s)"
    "vao (meshes s Superellipsoid) \<noteq> 0 \<Longrightarrow> registry_inv (DrawSuperellipsoidMesh x y z ve he u v s)"
    "vao (meshes s Spiral) \<noteq> 0 \<Longrightarrow> registry_inv (DrawSpiralMesh tr ff l nl ts ss s)"
proof -
  show "vao (meshes s TaperedTorus) \<noteq> 0 \<Longrightarrow> registry_inv (DrawTaperedTorusMesh mr r0 r1 ms ts a s)"
    unfolding DrawTaperedTorusMesh_def by (rule dynamic_upload_draw_inv [OF assms]) (simp_all add: custom_meshes_wf)
  show "vao (meshes s SineCone) \<noteq> 0 \<Longrightarrow> registry_inv (DrawSineConeMesh b h f sa sf sp rs hs s)"
    unfolding DrawSineConeMesh_def by (rule dynamic_upload_draw_inv [OF assms]) (simp_all add: DrawSineConeMesh_wf)
  show "vao (meshes s Superellipsoid) \<noteq> 0 \<Longrightarrow> registry_inv (DrawSuperellipsoidMesh x y z ve he u v s)"
    unfolding DrawSuperellipsoidMesh_def Let_def
    by (rule dynamic_upload_draw_inv, rule registry_inv_dyn_fields [OF assms]) (simp_all add: custom_meshes_wf)
  show "vao (meshes s Spiral) \<noteq> 0 \<Longrightarrow> registry_inv (DrawSpiralMesh tr ff l nl ts ss s)"
    unfolding DrawSpiralMesh_def
    by (auto split: sum.split intro!: dynamic_upload_draw_inv [OF assms] dest: DrawSpiralMesh_Inr_wf simp: assms)
qed

section \<open>Every operation keeps the invariant\<close>

lemma registry_inv_init: "registry_inv ShapeMeshes_init"
  by (simp add: registry_inv_def ShapeMeshes_init_def GLMesh_init_def gl_init_def mesh_ok_def events_ok_def
                owners_ok_def mesh_names_def typed_ok_def)

lemma load_inv:
  assumes "registry_inv s"
  shows "registry_inv (LoadBoxMesh s)" "registry_inv (LoadConeMesh r h n s)"
    "registry_inv (LoadCylinderMesh r h n s)" "registry_inv (LoadPlaneMesh w h s)"
    "registry_inv (LoadPrismMesh s)" "registry_inv (LoadPyramid3Mesh s)"
    "registry_inv (LoadPyramid4Mesh b h s)" "registry_inv (LoadSphereMesh la lo r s)"
    "registry_inv (LoadHemisphereMesh la lo r s)" "registry_inv (LoadTaperedCylinderMesh rb rt h n s)"
    "registry_inv (LoadTorusMesh mr tr ms ts s)" "registry_inv (LoadSpringMesh mr tr ms ts l s)"
    "registry_inv (LoadTubeMesh ro ri h n s)"
  using assms
  by (simp_all add: LoadBoxMesh_def LoadConeMesh_def LoadCylinderMesh_def LoadPlaneMesh_def
        LoadPrismMesh_def LoadPyramid3Mesh_def LoadPyramid4Mesh_def LoadSphereMesh_def LoadHemisphereMesh_def
        LoadTaperedCylinderMesh_def LoadTorusMesh_def LoadSpringMesh_def LoadTubeMesh_def
        upload_inv upload_numSlices_inv fixed_shapes_wf grid_meshes_wf LoadSphereMesh_wf
        LoadConeMesh_wf_lemma LoadCylinderMesh_wf_lemma LoadTaperedCylinderMesh_wf_lemma LoadTubeMesh_wf_lemma
        elem_extra_def length_LoadBoxMesh_indices LoadConeMesh_indices_length LoadCylinderMesh_lengths
        LoadTaperedCylinderMesh_lengths)

lemma exec_inv:
  assumes "registry_inv s" "op_pre s op"
  shows "registry_inv (exec op s)"
  using assms
  by (cases op) (simp_all add: load_inv LoadExtraTorusMesh1_def LoadExtraTorusMesh2_def LoadExtraTorusMesh_inv
       elem_extra_def LoadFinMesh_inv DrawPartialConeMesh_inv draw_whole_inv draw_half_inv DrawBoxMeshSide_inv
       DrawConeMesh_inv DrawCylinderMesh_inv DrawTaperedCylinderMesh_inv DrawExtraTorusMesh_inv DrawFinMesh_inv
       draw_fin_ranges_inv DrawFinSides_def DrawFinFrontOnly_def DrawFinBackOnly_def DrawFinUntexturedSides_def
       DrawBoxMesh_def DrawPlaneMesh_def DrawPrismMesh_def DrawPyramid3Mesh_def DrawPyramid4Mesh_def
       DrawSphereMesh_def DrawHemisphereMesh_def DrawHalfSphereMesh_def DrawHalfTorusMesh_def DrawTorusMesh_def
       DrawSpringMesh_def DrawTubeMesh_def deprecated_def DrawBoxMeshLines_def DrawConeMeshLines_def
       DrawCylinderMeshLines_def DrawPlaneMeshLines_def DrawPrismMeshLines_def DrawPyramid3MeshLines_def
       DrawPyramid4MeshLines_def DrawSphereMeshLines_def DrawHalfSphereMeshLines_def
       DrawTaperedCylinderMeshLines_def DrawTorusMeshLines_def DrawHalfTorusMeshLines_def
       LoadCurvedConeMesh_inv DrawCurvedConeMesh_inv LoadTaperedTorusMesh_def LoadSpiralMesh_def
       LoadSineConeMesh_def LoadSuperellipsoidMesh_def load_names_inv dynamic_draws_inv)

lemma reachable_registry_inv: "reachable s \<Longrightarrow> registry_inv s"
  by (induction rule: reachable.induct) (simp_all add: registry_inv_init exec_inv)

lemma upload_indexed_fields:
  assumes "registry_inv_except sh s" "mb_indices d \<noteq> []"
  defines "N \<equiv> gl_next (gl s)"
  shows "vao (meshes (upload sh d s) sh) = N \<and> gl_next (gl (upload sh d s)) = N + 3
         \<and> gl_vaos (gl (upload sh d s)) = (gl_vaos (gl s))(N \<mapsto> layout_vao (N + 2) (N + 1))"
proof -
  have l: "\<not> m_bMemoryLayoutDone s" and n: "0 < gl_next (gl s)"
    using assms(1) by (simp_all add: registry_inv_except_def)
  show ?thesis by (simp add: upload_def InitializeMesh_indexed [OF l n assms(2)] N_def)
qed

lemma LoadConeMesh_indices_nonempty: "mb_indices (LoadConeMesh_data radius height k) \<noteq> []"
proof -
  have "3 \<le> clamp_min 3 k" by (rule clamp_min_ge)
  then have "0 < nat (clamp_min 3 k)" by linarith
  then show ?thesis using LoadConeMesh_indices_length [of radius height k] by auto
qed

lemma dynamic_upload_draw_last_event:
  assumes "registry_inv s" "dyn_shape sh" "vao (meshes s sh) \<noteq> 0" "mesh_wf d"
  shows "last (gl_events (gl (dynamic_upload_draw sh d s)))
           = \<lparr>ev_vao = vao (meshes s sh), ev_call = DrawElementsCall GL_TRIANGLES (length (mb_indices d)) 0,
              ev_line_mode = gl_line_mode (gl s), ev_ok = True\<rparr>
         \<and> meshes (dynamic_upload_draw sh d s) = meshes s"
proof -
  have "dyn_ok (gl s) (meshes s sh)" by (rule registry_dyn_ok [OF assms(1-3)])
  then have d: "vbo (meshes s sh) \<noteq> 0" "ebo (meshes s sh) \<noteq> 0" "vbo (meshes s sh) \<noteq> ebo (meshes s sh)"
    "gl_buffers (gl s) (vbo (meshes s sh)) \<noteq> None" "gl_buffers (gl s) (ebo (meshes s sh)) \<noteq> None"
    "gl_vaos (gl s) (vao (meshes s sh)) = Some empty_vao \<or>
     gl_vaos (gl s) (vao (meshes s sh)) = Some (layout_vao (ebo (meshes s sh)) (vbo (meshes s sh)))"
    by (simp_all add: dyn_ok_def)
  have wf: "indices_below (length (mb_verts d)) (mb_indices d)" using assms(4) by (simp add: mesh_wf_def)
  show ?thesis unfolding dynamic_upload_draw_eq [OF refl assms(3) d wf] by simp
qed

section \<open>Properties of the registry\<close>

text \<open>C2. Safety of the registry (spec sections 5 and 7): in every state reachable from
  the empty registry by the public operations (a fin sub-range draw only after
  \<open>LoadFinMesh\<close>, a draw of a per-draw shape only after its \<open>Load\<close>, a spiral draw only
  where its generation is defined), every draw call issued so far read only index
  ranges inside the bound element buffer and only vertices inside the bound vertex
  buffer, for every parameter value of every load and draw, including slice counts
  below the minimum, zero or negative segment counts and any number of re-uploads
  of the per-draw shapes into the same buffers.\<close>

theorem reachable_events_ok: "reachable s \<Longrightarrow> events_ok (gl s)"
  by (rule registry_inv_events [OF reachable_registry_inv])

theorem reachable_events_ok_witness:
  "reachable (exec (OpDrawCone True False) (exec (OpLoadCone 1 2 1) ShapeMeshes_init))
   \<and> events_ok (gl (exec (OpDrawCone True False) (exec (OpLoadCone 1 2 1) ShapeMeshes_init)))"
proof -
  have r: "reachable (exec (OpDrawCone True False) (exec (OpLoadCone 1 2 1) ShapeMeshes_init))"
    by (intro reachable.step reachable.init) simp_all
  show ?thesis using r reachable_events_ok [OF r] by simp
qed

text \<open>\<open>LoadFinMesh\<close> never assigns \<open>nVertices\<close> (the other loads do, through
  \<open>InitializeMesh\<close>): in every reachable state the fin's vertex count is 0, even after
  the fin is loaded.\<close>

theorem reachable_fin_nVertices: "reachable s \<Longrightarrow> nVertices (meshes s Fin) = 0"
  using reachable_registry_inv by (simp add: registry_inv_def)

theorem reachable_fin_nVertices_witness:
  "reachable (exec (OpLoadFin 2 1 1 (1 / 10)) ShapeMeshes_init)
   \<and> vao (meshes (exec (OpLoadFin 2 1 1 (1 / 10)) ShapeMeshes_init) Fin) \<noteq> 0
   \<and> nVertices (meshes (exec (OpLoadFin 2 1 1 (1 / 10)) ShapeMeshes_init) Fin) = 0"
proof -
  have r: "reachable (exec (OpLoadFin 2 1 1 (1 / 10)) ShapeMeshes_init)"
    by (intro reachable.step reachable.init) simp_all
  have "vao (meshes (exec (OpLoadFin 2 1 1 (1 / 10)) ShapeMeshes_init) Fin) \<noteq> 0"
    by (simp add: LoadFinMesh_eq ShapeMeshes_init_def gl_init_def)
  then show ?thesis using r reachable_fin_nVertices [OF r] by simp
qed

text \<open>C25. A second \<open>LoadConeMesh\<close> leaks the first one's objects: the new mesh gets a
  new VAO and the VAO of the first load stays allocated, referenced by no mesh and
  never deleted.\<close>

theorem LoadConeMesh_reload_leaks:
  assumes "reachable s"
  shows "vao (meshes (LoadConeMesh r h n (LoadConeMesh r h n s)) Cone) \<noteq> vao (meshes (LoadConeMesh r h n s) Cone)
         \<and> gl_vaos (gl (LoadConeMesh r h n (LoadConeMesh r h n s))) (vao (meshes (LoadConeMesh r h n s) Cone))
           \<noteq> None"
proof -
  have i0: "registry_inv s" using assms by (rule reachable_registry_inv)
  have i1: "registry_inv (LoadConeMesh r h n s)" using exec_inv [OF i0, of "OpLoadCone r h n"] by simp
  have f: "vao (meshes (LoadConeMesh r h n t) Cone) = gl_next (gl t)
           \<and> gl_next (gl (LoadConeMesh r h n t)) = gl_next (gl t) + 3
           \<and> gl_vaos (gl (LoadConeMesh r h n t))
               = (gl_vaos (gl t))(gl_next (gl t) \<mapsto> layout_vao (gl_next (gl t) + 2) (gl_next (gl t) + 1))"
    if "registry_inv t" for t
    using upload_indexed_fields [OF set_numSlices_except [OF that, of Cone] LoadConeMesh_indices_nonempty]
    by (simp add: LoadConeMesh_def set_numSlices_def)
  show ?thesis using f [OF i0] f [OF i1] by simp
qed

theorem LoadConeMesh_reload_leaks_witness:
  "reachable ShapeMeshes_init
   \<and> vao (meshes (LoadConeMesh 1 2 8 (LoadConeMesh 1 2 8 ShapeMeshes_init)) Cone)
       \<noteq> vao (meshes (LoadConeMesh 1 2 8 ShapeMeshes_init) Cone)
   \<and> gl_vaos (gl (LoadConeMesh 1 2 8 (LoadConeMesh 1 2 8 ShapeMeshes_init)))
       (vao (meshes (LoadConeMesh 1 2 8 ShapeMeshes_init) Cone)) \<noteq> None"
  using LoadConeMesh_reload_leaks [OF reachable.init, of 1 2 8] reachable.init by simp

text \<open>C6. Progress of the per-draw shapes: from every reachable state, \<open>LoadSuperellipsoidMesh\<close>
  followed by \<open>DrawSuperellipsoidMesh\<close> with any parameters is a legal run (its
  precondition holds after the load), and its last draw is in range and covers the
  whole stored index count, at least 54 indices: the shape can always be rendered,
  whatever was loaded or drawn before.\<close>

theorem superellipsoid_draw_progress:
  assumes "reachable s"
  shows "reachable (exec (OpDrawSuperellipsoid x y z ve he u v) (exec OpLoadSuperellipsoid s))
         \<and> ev_ok (last (gl_events (gl (exec (OpDrawSuperellipsoid x y z ve he u v) (exec OpLoadSuperellipsoid s)))))
         \<and> ev_call (last (gl_events (gl (exec (OpDrawSuperellipsoid x y z ve he u v) (exec OpLoadSuperellipsoid s)))))
             = DrawElementsCall GL_TRIANGLES
                 (nIndices (meshes (exec (OpDrawSuperellipsoid x y z ve he u v) (exec OpLoadSuperellipsoid s)) Superellipsoid)) 0
         \<and> 54 \<le> nIndices (meshes (exec (OpDrawSuperellipsoid x y z ve he u v) (exec OpLoadSuperellipsoid s)) Superellipsoid)"
proof -
  define s1 where "s1 = exec OpLoadSuperellipsoid s"
  define d where "d = DrawSuperellipsoidMesh_data x y z ve he u v"
  define s2 where "s2 = s1\<lparr>meshes := (meshes s1)(Superellipsoid := (meshes s1 Superellipsoid)\<lparr>numSlices := clamp_min 3 v,
                       nVertices := length (mb_verts d), nIndices := length (mb_indices d)\<rparr>)\<rparr>"
  have i0: "registry_inv s" using assms by (rule reachable_registry_inv)
  have i1: "registry_inv s1" by (simp add: s1_def LoadSuperellipsoidMesh_def load_names_inv [OF i0])
  have v1: "vao (meshes s1 Superellipsoid) \<noteq> 0"
    using i0 by (simp add: s1_def LoadSuperellipsoidMesh_def load_names_eq registry_inv_def)
  have r1: "reachable s1" unfolding s1_def using reachable.step [OF assms, of OpLoadSuperellipsoid] by simp
  have r2: "reachable (exec (OpDrawSuperellipsoid x y z ve he u v) s1)"
    using reachable.step [OF r1, of "OpDrawSuperellipsoid x y z ve he u v"] v1 by simp
  have i2: "registry_inv s2" unfolding s2_def by (rule registry_inv_dyn_fields [OF i1]) simp_all
  have e: "exec (OpDrawSuperellipsoid x y z ve he u v) s1 = dynamic_upload_draw Superellipsoid d s2"
    by (simp add: DrawSuperellipsoidMesh_def Let_def d_def s2_def)
  have l: "last (gl_events (gl (dynamic_upload_draw Superellipsoid d s2)))
             = \<lparr>ev_vao = vao (meshes s2 Superellipsoid), ev_call = DrawElementsCall GL_TRIANGLES (length (mb_indices d)) 0,
                ev_line_mode = gl_line_mode (gl s2), ev_ok = True\<rparr>"
    and m: "meshes (dynamic_upload_draw Superellipsoid d s2) = meshes s2"
    using dynamic_upload_draw_last_event [OF i2 _ _ custom_meshes_wf(3)] v1 unfolding d_def
    by (simp_all add: s2_def)
  have "3 \<le> nat (max 3 u)" "3 \<le> nat (max 3 v)" by simp_all
  then have "3 * 3 \<le> nat (max 3 u) * nat (max 3 v)" by (rule mult_le_mono)
  then have "54 \<le> length (mb_indices d)"
    using DrawSuperellipsoidMesh_counts [of x y z ve he u v] unfolding d_def by simp
  then show ?thesis using r2 l m unfolding e s1_def [symmetric] by (simp add: s2_def)
qed


theorem superellipsoid_draw_progress_witness:
  "reachable (exec (OpDrawSuperellipsoid 1 1 1 1 1 8 8) (exec OpLoadSuperellipsoid ShapeMeshes_init))
   \<and> ev_ok (last (gl_events (gl (exec (OpDrawSuperellipsoid 1 1 1 1 1 8 8) (exec OpLoadSuperellipsoid ShapeMeshes_init)))))
   \<and> 54 \<le> nIndices (meshes (exec (OpDrawSuperellipsoid 1 1 1 1 1 8 8) (exec OpLoadSuperellipsoid ShapeMeshes_init))
                       Superellipsoid)"
  using superellipsoid_draw_progress [OF reachable.init, of 1 1 1 1 1 8 8] by simp

text \<open>C7. Typing of the GL object store: in every reachable state, each shape whose
  \<open>GLMesh\<close> holds a VAO name has a live VAO, whose element buffer (if any) holds index
  data and each of whose enabled attributes reads a buffer holding float data. No draw
  can interpret a vertex buffer as indices or an index buffer as vertices.\<close>

theorem reachable_vaos_typed:
  assumes "reachable s" "vao (meshes s sh) \<noteq> 0"
  shows "\<exists>st. gl_vaos (gl s) (vao (meshes s sh)) = Some st \<and> refs_typed (gl s) st"
proof -
  have i: "registry_inv s" by (rule reachable_registry_inv [OF assms(1)])
  have live: "gl_vaos (gl s) (vao (meshes s sh)) \<noteq> None"
  proof (cases "dyn_shape sh")
    case True then show ?thesis using registry_dyn_ok [OF i True assms(2)] by (auto simp: dyn_ok_def)
  next
    case False
    then have "mesh_ok (gl s) sh (meshes s sh)" using i by (simp add: registry_inv_def)
    then show ?thesis using assms(2) by (auto simp: mesh_ok_def split: option.splits)
  qed
  have "case gl_vaos (gl s) (vao (meshes s sh)) of Some st \<Rightarrow> refs_typed (gl s) st | None \<Rightarrow> True"
    using i assms(2) by (simp add: registry_inv_def typed_ok_def)
  then show ?thesis using live by (auto split: option.splits)
qed

theorem reachable_vaos_typed_witness:
  "reachable (exec OpLoadBox ShapeMeshes_init) \<and> vao (meshes (exec OpLoadBox ShapeMeshes_init) Box) \<noteq> 0
   \<and> (\<exists>st. gl_vaos (gl (exec OpLoadBox ShapeMeshes_init)) (vao (meshes (exec OpLoadBox ShapeMeshes_init) Box)) = Some st
          \<and> refs_typed (gl (exec OpLoadBox ShapeMeshes_init)) st)"
proof -
  have r: "reachable (exec OpLoadBox ShapeMeshes_init)" by (intro reachable.step reachable.init) simp_all
  have "mb_indices LoadBoxMesh_data \<noteq> []" using length_LoadBoxMesh_indices by auto
  then have v: "vao (meshes (exec OpLoadBox ShapeMeshes_init) Box) \<noteq> 0"
    by (simp add: LoadBoxMesh_def upload_def InitializeMesh_indexed ShapeMeshes_init_def gl_init_def)
  show ?thesis using r v reachable_vaos_typed [OF r v] by blast
qed

end
