(* ===== verification/Vertex_Fetch.thy ===== *)
theory Vertex_Fetch
  imports Registry_Safety
begin

text \<open>
  What a draw call renders. The vertex fetch of the OpenGL pipeline reads attribute
  location \<open>loc\<close> of vertex \<open>i\<close> from the buffer the VAO's pointer names, at float
  \<open>i * stride + offset\<close>; the shaders of the program read the position at location 0,
  the normal at 1 and the texture coordinate at 2. \<open>drawn_vertices\<close> is the list of
  vertices a draw call hands to the vertex shader, in index order. The refinement
  lemmas show that the draws of the registry render exactly the generator's vertex
  list indexed by its index list: the GL state built by \<open>InitializeMesh\<close> and by the
  per-draw upload implements the host mesh buffer. The primitive assembly of the
  plane's draw call, as the registry issues it, is checked against the triangle-list
  layout of its indices.
\<close>

section \<open>Vertex fetch\<close>

definition gl_fetch :: "gl_ctx \<Rightarrow> vao_state \<Rightarrow> nat \<Rightarrow> nat \<Rightarrow> real list" where
  "gl_fetch ctx st loc i =
     (case vao_attribs st loc of
        Some ap \<Rightarrow> (case gl_buffers ctx (ap_buffer ap) of
                     Some (Floats d) \<Rightarrow> take (ap_size ap) (drop (i * ap_stride ap + ap_offset ap) d)
                   | _ \<Rightarrow> [])
      | None \<Rightarrow> [])"

definition gl_vertex :: "gl_ctx \<Rightarrow> vao_state \<Rightarrow> nat \<Rightarrow> vertex" where
  "gl_vertex ctx st i =
     \<lparr>position = vec3_of (gl_fetch ctx st 0 i), normal = vec3_of (gl_fetch ctx st 1 i),
      texCoord = vec2_of (gl_fetch ctx st 2 i)\<rparr>"

fun drawn_vertices :: "gl_ctx \<Rightarrow> draw_call \<Rightarrow> vertex list" where
  "drawn_vertices ctx (DrawArraysCall mode first count) =
     (case gl_vaos ctx (gl_vao ctx) of
        Some st \<Rightarrow> map (gl_vertex ctx st) [first..<first + count]
      | None \<Rightarrow> [])"
| "drawn_vertices ctx (DrawElementsCall mode count first) =
     (case gl_vaos ctx (gl_vao ctx) of
        Some st \<Rightarrow> (case gl_buffers ctx (vao_ebo st) of
                     Some (Uints idx) \<Rightarrow> map (gl_vertex ctx st) (take count (drop first idx))
                   | _ \<Rightarrow> [])
      | None \<Rightarrow> [])"

section \<open>The standard layout renders the uploaded vertices\<close>

lemma gl_fetch_layout:
  assumes "gl_buffers c b = Some (Floats buf)"
  shows "gl_fetch c (layout_vao e b) 0 i = fetch_attrib buf (shader_layout ! 0) i"
    "gl_fetch c (layout_vao e b) (Suc 0) i = fetch_attrib buf (shader_layout ! 1) i"
    "gl_fetch c (layout_vao e b) 2 i = fetch_attrib buf (shader_layout ! 2) i"
  using assms by (simp_all add: gl_fetch_def layout_vao_def shader_layout_def fetch_attrib_def)

lemma gl_vertex_layout:
  assumes "gl_buffers c b = Some (Floats (interleave vs))" "i < length vs"
  shows "gl_vertex c (layout_vao e b) i = vs ! i"
  using assms(2)
  by (simp add: gl_vertex_def gl_fetch_layout [OF assms(1)] shader_layout_def fetch_interleave vertex_floats_def
           split: prod.splits)

lemma layout_drawn_vertices:
  assumes "gl_vao c = v" "gl_vaos c v = Some (layout_vao e b)"
    "gl_buffers c b = Some (Floats (interleave vs))" "gl_buffers c e = Some (Uints idx)"
    "indices_below (length vs) idx"
  shows "drawn_vertices c (DrawElementsCall mode (length idx) 0) = map (\<lambda>i. vs ! i) idx"
proof -
  have "i \<in> set idx \<Longrightarrow> i < length vs" for i using assms(5) by (simp add: indices_below_iff)
  then show ?thesis using assms(1-4) by (simp add: gl_vertex_layout [OF assms(3)] cong: map_cong)
qed

section \<open>Refinement\<close>

text \<open>C3. Refinement of the indexed loads: after \<open>InitializeMesh\<close> uploads a host mesh
  buffer with a non-empty index list (every \<open>Load\<close> function of the 13 built-in indexed
  shapes and \<open>LoadCurvedConeMesh\<close> goes through it), the whole-mesh draw the shape's
  \<open>Draw\<close> function issues on the bound VAO renders exactly the generator's vertices
  in the order of its indices.\<close>

theorem upload_draw_refines:
  assumes "registry_inv s" "mesh_wf d" "mb_indices d \<noteq> []"
  shows "drawn_vertices (glBindVertexArray (vao (meshes (upload sh d s) sh)) (gl (upload sh d s)))
           (DrawElementsCall mode (nIndices (meshes (upload sh d s) sh)) 0)
         = map (\<lambda>i. mb_verts d ! i) (mb_indices d)"
proof -
  have l: "\<not> m_bMemoryLayoutDone s" and n: "0 < gl_next (gl s)"
    using assms(1) by (simp_all add: registry_inv_def)
  have "i \<in> set (mb_indices d) \<Longrightarrow> i < length (mb_verts d)" for i
    using assms(2) by (simp add: mesh_wf_def indices_below_iff)
  then show ?thesis
    unfolding upload_def InitializeMesh_indexed [OF l n assms(3)]
    by (simp add: glBindVertexArray_def gl_vertex_layout [where vs = "mb_verts d"] cong: map_cong)
qed

theorem upload_draw_refines_witness:
  "drawn_vertices (glBindVertexArray (vao (meshes (upload Box LoadBoxMesh_data ShapeMeshes_init) Box))
                                     (gl (upload Box LoadBoxMesh_data ShapeMeshes_init)))
     (DrawElementsCall GL_TRIANGLES (nIndices (meshes (upload Box LoadBoxMesh_data ShapeMeshes_init) Box)) 0)
   = map (\<lambda>i. mb_verts LoadBoxMesh_data ! i) (mb_indices LoadBoxMesh_data)"
  using upload_draw_refines [OF registry_inv_init fixed_shapes_wf(1), of Box GL_TRIANGLES]
  by (simp add: LoadBoxMesh_data_def)

text \<open>C4. Refinement of the per-draw shapes: on a loaded per-draw shape, in any state of
  the registry (whatever an earlier draw uploaded), the draw of \<open>dynamic_upload_draw\<close>
  renders exactly the new host mesh buffer: its vertices in the order of its indices.
  The comment of \<open>LoadTaperedTorusMesh\<close> promises this: one VAO, VBO and EBO serve any
  number of differently parameterised shapes without reallocation.\<close>

theorem dynamic_draw_refines:
  assumes "registry_inv s" "dyn_shape sh" "vao (meshes s sh) \<noteq> 0" "mesh_wf d"
  shows "drawn_vertices (glBindVertexArray (vao (meshes s sh)) (gl (dynamic_upload_draw sh d s)))
           (DrawElementsCall mode (length (mb_indices d)) 0)
         = map (\<lambda>i. mb_verts d ! i) (mb_indices d)"
proof -
  have "dyn_ok (gl s) (meshes s sh)" by (rule registry_dyn_ok [OF assms(1-3)])
  then have d: "vbo (meshes s sh) \<noteq> 0" "ebo (meshes s sh) \<noteq> 0" "vbo (meshes s sh) \<noteq> ebo (meshes s sh)"
    "gl_buffers (gl s) (vbo (meshes s sh)) \<noteq> None" "gl_buffers (gl s) (ebo (meshes s sh)) \<noteq> None"
    "gl_vaos (gl s) (vao (meshes s sh)) = Some empty_vao \<or>
     gl_vaos (gl s) (vao (meshes s sh)) = Some (layout_vao (ebo (meshes s sh)) (vbo (meshes s sh)))"
    by (simp_all add: dyn_ok_def)
  have wf: "indices_below (length (mb_verts d)) (mb_indices d)" using assms(4) by (simp add: mesh_wf_def)
  show ?thesis
    unfolding dynamic_upload_draw_eq [OF refl assms(3) d wf]
    by (rule layout_drawn_vertices [where v = "vao (meshes s sh)" and e = "ebo (meshes s sh)" and b = "vbo (meshes s sh)"])
       (use wf d(3) in \<open>simp_all add: glBindVertexArray_def\<close>)
qed

theorem dynamic_draw_refines_witness:
  "drawn_vertices (glBindVertexArray (vao (meshes (load_names TaperedTorus ShapeMeshes_init) TaperedTorus))
       (gl (dynamic_upload_draw TaperedTorus (DrawTaperedTorusMesh_data 2 (1 / 2) (1 / 4) 8 6 pi)
              (load_names TaperedTorus ShapeMeshes_init))))
     (DrawElementsCall GL_TRIANGLES (length (mb_indices (DrawTaperedTorusMesh_data 2 (1 / 2) (1 / 4) 8 6 pi))) 0)
   = map (\<lambda>i. mb_verts (DrawTaperedTorusMesh_data 2 (1 / 2) (1 / 4) 8 6 pi) ! i)
         (mb_indices (DrawTaperedTorusMesh_data 2 (1 / 2) (1 / 4) 8 6 pi))"
proof -
  have r: "registry_inv (load_names TaperedTorus ShapeMeshes_init)"
    by (rule load_names_inv [OF registry_inv_init]) simp
  have v: "vao (meshes (load_names TaperedTorus ShapeMeshes_init) TaperedTorus) \<noteq> 0"
    by (simp add: load_names_eq ShapeMeshes_init_def gl_init_def)
  show ?thesis using dynamic_draw_refines [OF r _ v custom_meshes_wf(2)] by simp
qed


text \<open>The call \<open>DrawPlaneMesh\<close> logs after \<open>LoadPlaneMesh\<close>: an indexed draw of the six
  uploaded indices in the mode written at line 1900.\<close>

lemma plane_last_call:
  assumes "registry_inv s"
  shows "ev_call (last (gl_events (gl (DrawPlaneMesh wireframe (LoadPlaneMesh width height s)))))
           = DrawElementsCall GL_TRIANGLE_STRIP 6 0"
proof -
  have l: "\<not> m_bMemoryLayoutDone s" and n: "0 < gl_next (gl s)"
    using assms by (simp_all add: registry_inv_def)
  have ne: "mb_indices (LoadPlaneMesh_data width height) \<noteq> []"
    and six: "length (mb_indices (LoadPlaneMesh_data width height)) = 6"
    by (simp_all add: LoadPlaneMesh_data_def Let_def)
  show ?thesis
    by (simp add: LoadPlaneMesh_def upload_def InitializeMesh_indexed [OF l n ne] six
                  DrawPlaneMesh_def draw_whole_def Let_def SetWireframeMode_def glDrawElements_def)
qed

text \<open>C28. The triangles of the draw call that \<open>DrawPlaneMesh\<close> issues after
  \<open>LoadPlaneMesh\<close>, in any state of the invariant: the call draws the triangle-list indices
  \<open>0, 1, 2, 0, 2, 3\<close> as \<open>GL_TRIANGLE_STRIP\<close> (line 1900), where the comment of
  \<open>LoadPlaneMesh\<close> names \<open>GL_TRIANGLES\<close>, so the primitive assembly makes four triangles
  instead of two, one of them degenerate, and the second half of the quad comes out as
  \<open>(2, 0, 3)\<close>, facing down against the normal \<open>+y\<close>, where the list order \<open>(0, 2, 3)\<close>
  faces up.\<close>

theorem DrawPlaneMesh_strip:
  assumes "registry_inv s" and "0 < width" and "0 < height"
  shows "(case ev_call (last (gl_events (gl (DrawPlaneMesh wireframe (LoadPlaneMesh width height s))))) of
            DrawElementsCall mode count first \<Rightarrow> draw_elements mode count first (mb_indices (LoadPlaneMesh_data width height))
          | DrawArraysCall mode first count \<Rightarrow> [])
         = [(0, 1, 2), (2, 1, 0), (2, 0, 2), (2, 0, 3)]
       \<and> 0 < front_dot (mb_verts (LoadPlaneMesh_data width height)) [0, 2, 3]
       \<and> front_dot (mb_verts (LoadPlaneMesh_data width height)) [2, 0, 3] < 0"
  using assms(2,3) plane_last_call [OF assms(1)]
  by (simp add: LoadPlaneMesh_data_def Let_def mk_vertex_def draw_elements_def strip_triangles_def)

theorem DrawPlaneMesh_strip_witness:
  "registry_inv ShapeMeshes_init \<and> (0::real) < 1
   \<and> (case ev_call (last (gl_events (gl (DrawPlaneMesh False (LoadPlaneMesh 1 1 ShapeMeshes_init))))) of
            DrawElementsCall mode count first \<Rightarrow> draw_elements mode count first (mb_indices (LoadPlaneMesh_data 1 1))
          | DrawArraysCall mode first count \<Rightarrow> [])
         = [(0, 1, 2), (2, 1, 0), (2, 0, 2), (2, 0, 3)]
   \<and> 0 < front_dot (mb_verts (LoadPlaneMesh_data 1 1)) [0, 2, 3]
   \<and> front_dot (mb_verts (LoadPlaneMesh_data 1 1)) [2, 0, 3] < 0"
  using registry_inv_init DrawPlaneMesh_strip [OF registry_inv_init, of 1 1 False] by simp

end
