(* ===== verification/Int32_Loops.thy ===== *)
theory Int32_Loops
  imports Custom_Surfaces "HOL-Library.Word" "HOL-Library.While_Combinator" "HOL-Library.Monad_Syntax"
begin

text \<open>
  The C++ \<open>int\<close> of the sources at its width. The generators of the other theories count
  with unbounded integers (\<open>loop_lt\<close>, \<open>loop_le\<close> of \<open>Mesh_Prelude\<close>) and compute indices
  on \<open>nat\<close>; here the counters and the index and size arithmetic of
  \<open>DrawSuperellipsoidMesh\<close> are \<open>32 word\<close> values read with \<open>sint\<close>, a signed overflow
  (undefined behaviour in C++) is the value \<open>None\<close>, and a \<open>for\<close> loop is a
  \<open>while_option\<close> over the counter, \<open>None\<close> when it does not stop. The lemmas show
  when the loops stop and when the 32-bit generator computes exactly the buffer of
  \<open>DrawSuperellipsoidMesh_data\<close>, and where it overflows instead.
\<close>

section \<open>Signed 32-bit arithmetic\<close>

text \<open>The range of \<open>int\<close>; \<open>+\<close> and \<open>*\<close> on \<open>int\<close> operands, \<open>None\<close> where the exact result
  leaves the range (the \<open>uSegments + 1\<close> of lines 3508--3511 and the products of lines
  3536--3537 and 3601--3604).\<close>

definition int32_ok :: "int \<Rightarrow> bool" where
  "int32_ok k \<longleftrightarrow> - (2 ^ 31) \<le> k \<and> k < 2 ^ 31"

definition add32 :: "32 word \<Rightarrow> 32 word \<Rightarrow> 32 word option" where
  "add32 a b = (if int32_ok (sint a + sint b) then Some (a + b) else None)"

definition mul32 :: "32 word \<Rightarrow> 32 word \<Rightarrow> 32 word option" where
  "mul32 a b = (if int32_ok (sint a * sint b) then Some (a * b) else None)"

section \<open>Counting loops\<close>

text \<open>\<open>for (int i = 0; i < n; ++i)\<close> and \<open>for (int i = 0; i <= n; ++i)\<close> (the index loops,
  lines 3597--3599, and the vertex loops, lines 3546--3548): the counter values the body
  runs with, in order. \<open>++i\<close> is the 32-bit increment; the loop is \<open>None\<close> when the guard
  never fails. That happens only for \<open>i <= INT_MAX\<close>, where C++'s \<open>++i\<close> overflows
  (undefined behaviour) and no result is defined either; the generator below computes
  \<open>uSegments + 1\<close> with \<open>add32\<close> before its loops, so it never reaches that case.\<close>

definition for_lt32 :: "32 word \<Rightarrow> 32 word list option" where
  "for_lt32 n = map_option snd (while_option (\<lambda>(i, acc). i <s n) (\<lambda>(i, acc). (i + 1, acc @ [i])) (0, []))"

definition for_le32 :: "32 word \<Rightarrow> 32 word list option" where
  "for_le32 n = map_option snd (while_option (\<lambda>(i, acc). i \<le>s n) (\<lambda>(i, acc). (i + 1, acc @ [i])) (0, []))"

section \<open>DrawSuperellipsoidMesh at 32 bits\<close>

text \<open>\<open>if (uSegments < 3) uSegments = 3;\<close> (lines 3490--3491), a signed comparison.\<close>

definition clamp_segments32 :: "32 word \<Rightarrow> 32 word" where
  "clamp_segments32 n = (if n <s 3 then 3 else n)"

text \<open>The angle tables (lines 3514--3520 and 3523--3529): \<open>t = (float) i / (float) uSegments\<close>
  for each counter value of the \<open><=\<close> loop, \<open>cosU[i]\<close> and \<open>sinU[i]\<close> of the angle.\<close>

definition superellipsoid_u_table32 :: "32 word \<Rightarrow> (real list \<times> real list) option" where
  "superellipsoid_u_table32 uSegments =
     map_option (\<lambda>is. let ang = (\<lambda>i. - pi * 0.5 + real_of_int (sint i) / real_of_int (sint uSegments) * pi)
                      in (map (\<lambda>i. cos (ang i)) is, map (\<lambda>i. sin (ang i)) is))
       (for_le32 uSegments)"

definition superellipsoid_v_table32 :: "32 word \<Rightarrow> (real list \<times> real list) option" where
  "superellipsoid_v_table32 vSegments =
     map_option (\<lambda>js. let ang = (\<lambda>j. - pi + real_of_int (sint j) / real_of_int (sint vSegments) * (2 * pi))
                      in (map (\<lambda>j. cos (ang j)) js, map (\<lambda>j. sin (ang j)) js))
       (for_le32 vSegments)"

text \<open>\<open>i * (vSegments + 1) + j\<close> in \<open>int\<close> (line 3601), and the cell of the index loop
  (lines 3601--3613): \<open>idx0\<close> to \<open>idx3\<close> computed as written, each cast to \<open>GLuint\<close>
  (the same 32 bits), pushed in the order \<open>idx0, idx1, idx2, idx2, idx1, idx3\<close>.\<close>

definition grid_index32 :: "32 word \<Rightarrow> 32 word \<Rightarrow> 32 word \<Rightarrow> 32 word option" where
  "grid_index32 i vSegments j = do { cols \<leftarrow> add32 vSegments 1; r \<leftarrow> mul32 i cols; add32 r j }"

definition superellipsoid_cell32 :: "32 word \<Rightarrow> 32 word \<Rightarrow> 32 word \<Rightarrow> 32 word list option" where
  "superellipsoid_cell32 vSegments i j = do {
     idx0 \<leftarrow> grid_index32 i vSegments j;
     idx1 \<leftarrow> do { i1 \<leftarrow> add32 i 1; grid_index32 i1 vSegments j };
     idx2 \<leftarrow> do { j1 \<leftarrow> add32 j 1; grid_index32 i vSegments j1 };
     idx3 \<leftarrow> do { i1 \<leftarrow> add32 i 1; j1 \<leftarrow> add32 j 1; grid_index32 i1 vSegments j1 };
     Some [idx0, idx1, idx2, idx2, idx1, idx3] }"

text \<open>The host buffer of \<open>DrawSuperellipsoidMesh\<close> (lines 3488--3617) with \<open>int\<close> segment
  counts: the clamps, the four table sizes \<open>uSegments + 1\<close>, \<open>vSegments + 1\<close> (lines
  3508--3511, the same two sums), the tables, the two \<open>reserve\<close> arguments (lines
  3536--3537), the vertex loops and the index loops; the indices are read back as
  \<open>GLuint\<close> with \<open>unat\<close>. The float parameters are clamped as in
  \<open>DrawSuperellipsoidMesh_data\<close>.\<close>

definition DrawSuperellipsoidMesh_data32 ::
  "real \<Rightarrow> real \<Rightarrow> real \<Rightarrow> real \<Rightarrow> real \<Rightarrow> 32 word \<Rightarrow> 32 word \<Rightarrow> mesh_buffer option" where
  "DrawSuperellipsoidMesh_data32 scaleX0 scaleY0 scaleZ0 verticalExponent0 horizontalExponent0 uSegments0 vSegments0 =
     (let uSegments = clamp_segments32 uSegments0; vSegments = clamp_segments32 vSegments0;
          scaleX = clamp_positive scaleX0; scaleY = clamp_positive scaleY0; scaleZ = clamp_positive scaleZ0;
          verticalExponent = clamp_positive verticalExponent0;
          horizontalExponent = clamp_positive horizontalExponent0
      in do {
        uSize \<leftarrow> add32 uSegments 1;
        vSize \<leftarrow> add32 vSegments 1;
        (cosU, sinU) \<leftarrow> superellipsoid_u_table32 uSegments;
        (cosV, sinV) \<leftarrow> superellipsoid_v_table32 vSegments;
        gridSize \<leftarrow> mul32 uSize vSize;
        mul32 gridSize 8;
        cellCount \<leftarrow> mul32 uSegments vSegments;
        mul32 cellCount 6;
        is \<leftarrow> for_le32 uSegments;
        js \<leftarrow> for_le32 vSegments;
        let verts = concat (map (\<lambda>i. map (\<lambda>j. superellipsoid_vertex scaleX scaleY scaleZ verticalExponent
                                                horizontalExponent (sint uSegments) (sint vSegments)
                                                (cosU ! nat (sint i)) (sinU ! nat (sint i))
                                                (cosV ! nat (sint j)) (sinV ! nat (sint j))
                                                (nat (sint i)) (nat (sint j))) js) is);
        ci \<leftarrow> for_lt32 uSegments;
        cj \<leftarrow> for_lt32 vSegments;
        cells \<leftarrow> those (concat (map (\<lambda>i. map (superellipsoid_cell32 vSegments i) cj) ci));
        Some \<lparr>mb_verts = verts, mb_indices = map unat (concat cells)\<rparr>
      })"

section \<open>Word lemmas\<close>

lemma sint_succ32:
  fixes i :: "32 word"
  assumes "sint i < 2 ^ 31 - 1"
  shows "sint (i + 1) = sint i + 1"
proof -
  have "- (2 ^ 31) \<le> sint i" using sint_ge [of i] by simp
  then show ?thesis using assms
    by (simp add: sint_word_ariths signed_take_bit_int_eq_self)
qed

lemma sint_of_nat32: "k < 2 ^ 31 \<Longrightarrow> sint (word_of_nat k :: 32 word) = int k"
  by (simp add: sint_uint unsigned_of_nat take_bit_nat_eq_self signed_take_bit_int_eq_self)

lemma of_nat_nat_sint32: "0 \<le> sint i \<Longrightarrow> word_of_nat (nat (sint i)) = (i :: 32 word)"
  by (simp add: of_nat_nat)

lemma sint_of_int32: "int32_ok k \<Longrightarrow> sint (word_of_int k :: 32 word) = k"
  unfolding int32_ok_def
  by (simp add: sint_uint uint_word_of_int_eq signed_take_bit_take_bit signed_take_bit_int_eq_self)

lemma add32_ok: "int32_ok (sint a + sint b) \<Longrightarrow> add32 a b = Some (a + b) \<and> sint (a + b) = sint a + sint b"
  using sint_of_int32 [of "sint a + sint b"] by (simp add: add32_def)

lemma mul32_ok: "int32_ok (sint a * sint b) \<Longrightarrow> mul32 a b = Some (a * b) \<and> sint (a * b) = sint a * sint b"
  using sint_of_int32 [of "sint a * sint b"] by (simp add: mul32_def)

lemma add32_nat:
  "a + b < 2 ^ 31 \<Longrightarrow> add32 (word_of_nat a) (word_of_nat b) = Some (word_of_nat (a + b))"
  using add32_ok [of "word_of_nat a" "word_of_nat b"] by (simp add: sint_of_nat32 int32_ok_def)

lemma mul32_nat:
  assumes "a * b < 2 ^ 31" "a < 2 ^ 31" "b < 2 ^ 31"
  shows "mul32 (word_of_nat a) (word_of_nat b) = Some (word_of_nat (a * b))"
proof -
  have "int32_ok (int a * int b)" using assms(1) by (simp add: int32_ok_def flip: of_nat_mult)
  then show ?thesis using mul32_ok [of "word_of_nat a" "word_of_nat b"] assms(2,3)
    by (simp add: sint_of_nat32)
qed

lemma clamp_segments32_sint: "sint (clamp_segments32 n) = clamp_min 3 (sint n)"
  by (simp add: clamp_segments32_def clamp_min_def word_sless_alt)

lemma those_map_Some: "those (map Some xs) = Some xs"
  by (induction xs) simp_all

lemma unat_map_of_nat32:
  "(\<And>k. k \<in> set xs \<Longrightarrow> k < 2 ^ 32) \<Longrightarrow> map unat (map word_of_nat xs :: 32 word list) = xs"
  by (induction xs) (simp_all add: unsigned_of_nat take_bit_nat_eq_self)

section \<open>Loops\<close>

text \<open>A loop whose guard is \<open>sint i < L\<close> for a limit \<open>L\<close> below \<open>2^31\<close> stops after the
  counter values \<open>0, ..., L - 1\<close>: the measure \<open>L - sint i\<close> decreases, and the increment
  cannot overflow below the limit.\<close>

lemma counting_loop32:
  fixes g :: "32 word \<Rightarrow> bool"
  assumes g: "\<And>i. g i \<longleftrightarrow> sint i < L" and L: "L < 2 ^ 31"
  shows "map_option snd (while_option (\<lambda>(i, acc). g i) (\<lambda>(i, acc). (i + 1, acc @ [i])) (0, []))
           = Some (map word_of_nat [0..<nat L])"
proof -
  let ?P = "\<lambda>(i :: 32 word, acc). 0 \<le> sint i \<and> sint i \<le> max 0 L \<and> acc = map word_of_nat [0..<nat (sint i)]"
  let ?f = "\<lambda>(i :: 32 word, acc :: 32 word list). nat (L - sint i)"
  have step1: "?P (i + 1, acc @ [i]) \<and> ?f (i + 1, acc @ [i]) < ?f (i, acc)"
    if P: "?P (i, acc)" and gi: "g i" for i acc
  proof -
    have lt: "sint i < L" using gi g by simp
    then have suc: "sint (i + 1) = sint i + 1" using L by (intro sint_succ32) simp
    have "0 \<le> sint i" using P by simp
    then have n: "nat (sint i + 1) = Suc (nat (sint i))" by (simp add: nat_add_distrib)
    have "acc @ [i] = map word_of_nat [0..<nat (sint i + 1)]"
      using P by (simp add: n of_nat_nat_sint32)
    moreover have "0 \<le> sint (i + 1) \<and> sint (i + 1) \<le> max 0 L \<and> nat (L - sint (i + 1)) < nat (L - sint i)"
      unfolding suc using \<open>0 \<le> sint i\<close> lt by linarith
    ultimately show ?thesis by (simp add: suc)
  qed
  have step: "?P ((\<lambda>(i, acc). (i + 1, acc @ [i])) s) \<and>
              ?f ((\<lambda>(i, acc). (i + 1, acc @ [i])) s) < ?f s"
    if "?P s" "(\<lambda>(i, acc). g i) s" for s
    using that step1 by (cases s) simp
  let ?W = "while_option (\<lambda>(i, acc). g i) (\<lambda>(i, acc). (i + 1, acc @ [i])) (0, [])"
  have P0: "?P (0, [])" by simp
  obtain t where t: "?W = Some t"
    using measure_while_option_Some [where P = ?P and f = ?f, OF step P0] by blast
  have Pt: "?P t"
    by (rule while_option_rule [where P = ?P, OF _ t P0]) (erule (1) step [THEN conjunct1])
  have nb: "\<not> (\<lambda>(i, acc). g i) t" using while_option_stop [OF t] .
  obtain i acc where ti: "t = (i, acc)" by (cases t)
  with Pt nb g have "sint i = max 0 L" and acc: "acc = map word_of_nat [0..<nat (sint i)]" by auto
  then have "acc = map word_of_nat [0..<nat L]" by (simp add: max_def)
  then have "map_option snd ?W = Some (map word_of_nat [0..<nat L])" by (simp only: t ti option.map snd_conv)
  then show ?thesis .
qed

lemma for_lt32_Some: "for_lt32 n = Some (map word_of_nat (loop_lt (sint n)))"
  unfolding for_lt32_def loop_lt_def
proof (rule counting_loop32)
  show "sint n < 2 ^ 31" using sint_lt [of n] by simp
qed (simp add: word_sless_alt)

lemma for_le32_Some: "sint n < 2 ^ 31 - 1 \<Longrightarrow> for_le32 n = Some (map word_of_nat (loop_le (sint n)))"
  unfolding for_le32_def loop_le_def
  by (rule counting_loop32) (simp_all add: word_sle_eq)

lemma sint_loop_le:
  "k \<in> set (loop_le n) \<Longrightarrow> n < 2 ^ 31 - 1 \<Longrightarrow> sint (word_of_nat k :: 32 word) = int k"
  by (simp add: sint_of_nat32)

lemma signed_loop_le:
  "k \<in> set (loop_le n) \<Longrightarrow> n < 2 ^ 31 - 1 \<Longrightarrow> (signed (word_of_nat k :: 32 word) :: real) = real k"
  using arg_cong [where f = real_of_int, OF sint_loop_le] by simp

section \<open>The 32-bit generator\<close>

lemma grid_index32_nat:
  assumes "a * (c + 1) + b < 2 ^ 31" "c + 1 < 2 ^ 31"
  shows "grid_index32 (word_of_nat a) (word_of_nat c) (word_of_nat b) = Some (word_of_nat (a * (c + 1) + b))"
proof -
  have "a * (c + 1) < 2 ^ 31" "b < 2 ^ 31" using assms(1) by linarith+
  moreover have "a < 2 ^ 31"
  proof (cases "a = 0")
    case False
    then have "a \<le> a * (c + 1)" by simp
    then show ?thesis using \<open>a * (c + 1) < 2 ^ 31\<close> by linarith
  qed simp
  ultimately have h2: "mul32 (word_of_nat a) (word_of_nat (c + 1)) = Some (word_of_nat (a * (c + 1)))"
    using assms(2) by (intro mul32_nat)
  have h1: "add32 (word_of_nat c) 1 = Some (word_of_nat (c + 1))"
    using add32_nat [of c 1, OF assms(2)] by (simp only: of_nat_1)
  have h3: "add32 (word_of_nat (a * (c + 1))) (word_of_nat b) = Some (word_of_nat (a * (c + 1) + b))"
    using assms(1) by (rule add32_nat)
  show ?thesis by (simp only: grid_index32_def h1 h2 h3 Option.bind.simps)
qed

lemma superellipsoid_cell32_nat:
  assumes "i < u" "j < c" "(u + 1) * (c + 1) \<le> 2 ^ 31"
  shows "superellipsoid_cell32 (word_of_nat c) (word_of_nat i) (word_of_nat j)
           = Some (map word_of_nat (grid_cell c i j))"
proof -
  have "(i + 1) * (c + 1) \<le> u * (c + 1)" using assms(1) by (intro mult_right_mono) simp_all
  moreover have "(u + 1) * (c + 1) = u * (c + 1) + c + 1" by simp
  ultimately have big: "(i + 1) * (c + 1) + (j + 1) < 2 ^ 31" using assms(2,3) by linarith
  have "i * (c + 1) \<le> (i + 1) * (c + 1)" by simp
  then have b0: "i * (c + 1) + j < 2 ^ 31" and b2: "i * (c + 1) + (j + 1) < 2 ^ 31"
    and b1: "(i + 1) * (c + 1) + j < 2 ^ 31" using big by linarith+
  have c1: "c + 1 < 2 ^ 31" using big by (simp add: algebra_simps)
  have i1: "i + 1 < 2 ^ 31" and j1: "j + 1 < 2 ^ 31" using big c1 b0 by (simp_all add: algebra_simps)
  have hi: "add32 (word_of_nat i) 1 = Some (word_of_nat (i + 1))"
    using add32_nat [of i 1, OF i1] by (simp only: of_nat_1)
  have hj: "add32 (word_of_nat j) 1 = Some (word_of_nat (j + 1))"
    using add32_nat [of j 1, OF j1] by (simp only: of_nat_1)
  show ?thesis
    by (simp only: superellipsoid_cell32_def hi hj Option.bind.simps grid_index32_nat [OF b0 c1]
                   grid_index32_nat [OF b1 c1] grid_index32_nat [OF b2 c1] grid_index32_nat [OF big c1])
       (simp add: grid_cell_def Let_def)
qed

lemma superellipsoid_cells32:
  assumes "(u + 1) * (c + 1) \<le> 2 ^ 31"
  shows "those (concat (map (\<lambda>i. map (superellipsoid_cell32 (word_of_nat c) i) (map word_of_nat [0..<c]))
                          (map word_of_nat [0..<u])))
           = Some (concat (map (\<lambda>i. map (\<lambda>j. map word_of_nat (grid_cell c i j)) [0..<c]) [0..<u]))"
proof -
  have "concat (map (\<lambda>i. map (superellipsoid_cell32 (word_of_nat c) i) (map word_of_nat [0..<c]))
                    (map word_of_nat [0..<u]))
        = map Some (concat (map (\<lambda>i. map (\<lambda>j. map word_of_nat (grid_cell c i j)) [0..<c]) [0..<u]))"
  proof -
    have cell: "superellipsoid_cell32 (word_of_nat c) (word_of_nat i) (word_of_nat j)
                  = Some (map word_of_nat (grid_cell c i j))" if "i < u" "j < c" for i j
      using superellipsoid_cell32_nat [OF that assms] .
    have "map (\<lambda>i. map (\<lambda>j. superellipsoid_cell32 (word_of_nat c) (word_of_nat i) (word_of_nat j)) [0..<c]) [0..<u]
          = map (\<lambda>i. map (\<lambda>j. Some (map word_of_nat (grid_cell c i j))) [0..<c]) [0..<u]"
      by (rule map_cong [OF refl], rule map_cong [OF refl]) (simp add: cell)
    then show ?thesis by (simp add: map_concat comp_def del: map_eq_conv)
  qed
  then show ?thesis by (simp add: those_map_Some)
qed

lemma superellipsoid_indices32:
  assumes "(u + 1) * (c + 1) \<le> 2 ^ 31"
  shows "map unat (concat (concat (map (\<lambda>i. map (\<lambda>j. map word_of_nat (grid_cell c i j)) [0..<c]) [0..<u])) :: 32 word list)
           = grid_indices u c"
proof -
  have "concat (concat (map (\<lambda>i. map (\<lambda>j. map word_of_nat (grid_cell c i j)) [0..<c]) [0..<u]))
        = (map word_of_nat (grid_indices u c) :: 32 word list)"
    by (induction u) (simp_all add: grid_indices_def map_concat comp_def)
  moreover have "k < 2 ^ 32" if "k \<in> set (grid_indices u c)" for k
    using grid_indices_below [of u c] that assms by (auto simp: indices_below_iff)
  then have "map unat (map word_of_nat (grid_indices u c) :: 32 word list) = grid_indices u c"
    by (rule unat_map_of_nat32)
  ultimately show ?thesis by (simp only:)
qed

lemma superellipsoid_u_table32_eq:
  assumes "sint U < 2 ^ 31 - 1"
  shows "superellipsoid_u_table32 U =
           Some (map (\<lambda>i. cos (- pi * 0.5 + real i / real_of_int (sint U) * pi)) (loop_le (sint U)),
                 map (\<lambda>i. sin (- pi * 0.5 + real i / real_of_int (sint U) * pi)) (loop_le (sint U)))"
  using assms signed_loop_le [OF _ assms]
  by (simp add: superellipsoid_u_table32_def for_le32_Some Let_def cong: map_cong)

lemma superellipsoid_v_table32_eq:
  assumes "sint V < 2 ^ 31 - 1"
  shows "superellipsoid_v_table32 V =
           Some (map (\<lambda>j. cos (- pi + real j / real_of_int (sint V) * (2 * pi))) (loop_le (sint V)),
                 map (\<lambda>j. sin (- pi + real j / real_of_int (sint V) * (2 * pi))) (loop_le (sint V)))"
  using assms signed_loop_le [OF _ assms]
  by (simp add: superellipsoid_v_table32_def for_le32_Some Let_def cong: map_cong)

lemma DrawSuperellipsoidMesh_data32_fits:
  assumes fits: "(clamp_min 3 (sint u) + 1) * (clamp_min 3 (sint v) + 1) * 8 < 2 ^ 31"
  shows "DrawSuperellipsoidMesh_data32 sx sy sz ve he u v
           = Some (DrawSuperellipsoidMesh_data sx sy sz ve he (sint u) (sint v))"
proof -
  define U V where "U = clamp_segments32 u" and "V = clamp_segments32 v"
  define uS vS where "uS = clamp_min 3 (sint u)" and "vS = clamp_min 3 (sint v)"
  have sU: "sint U = uS" and sV: "sint V = vS"
    by (simp_all add: U_def V_def uS_def vS_def clamp_segments32_sint)
  have u3: "3 \<le> uS" and v3: "3 \<le> vS" by (simp_all add: uS_def vS_def)
  have prod: "(uS + 1) * (vS + 1) * 8 < 2 ^ 31" using fits by (simp add: uS_def vS_def)
  have "(uS + 1) * 1 \<le> (uS + 1) * (vS + 1)" using u3 v3 by (intro mult_left_mono) simp_all
  moreover have "1 * (vS + 1) \<le> (uS + 1) * (vS + 1)" using u3 v3 by (intro mult_right_mono) simp_all
  moreover have "uS * vS \<le> (uS + 1) * (vS + 1)" using u3 v3 by (intro mult_mono) simp_all
  moreover have "0 \<le> uS * vS" using u3 v3 by simp
  ultimately have uS1: "uS + 1 < 2 ^ 31 - 1" and vS1: "vS + 1 < 2 ^ 31 - 1"
    and g: "(uS + 1) * (vS + 1) < 2 ^ 31" and c6: "uS * vS * 6 < 2 ^ 31"
    using prod unfolding numeral_pow by simp_all
  have p0: "0 \<le> (uS + 1) * (vS + 1)" "0 \<le> uS * vS" using u3 v3 by simp_all
  have okU: "add32 U 1 = Some (U + 1) \<and> sint (U + 1) = uS + 1"
    using add32_ok [of U 1] uS1 u3 by (simp add: sU int32_ok_def)
  have okV: "add32 V 1 = Some (V + 1) \<and> sint (V + 1) = vS + 1"
    using add32_ok [of V 1] vS1 v3 by (simp add: sV int32_ok_def)
  have okG: "mul32 (U + 1) (V + 1) = Some ((U + 1) * (V + 1)) \<and> sint ((U + 1) * (V + 1)) = (uS + 1) * (vS + 1)"
    using mul32_ok [of "U + 1" "V + 1"] okU okV g p0 by (simp add: int32_ok_def)
  have okG8: "mul32 ((U + 1) * (V + 1)) 8 = Some ((U + 1) * (V + 1) * 8)"
    using mul32_ok [of "(U + 1) * (V + 1)" 8] okG prod p0 by (simp add: int32_ok_def)
  have okC: "mul32 U V = Some (U * V) \<and> sint (U * V) = uS * vS"
    using mul32_ok [of U V] c6 p0 by (simp add: sU sV int32_ok_def)
  have okC6: "mul32 (U * V) 6 = Some (U * V * 6)"
    using mul32_ok [of "U * V" 6] okC c6 p0 by (simp add: int32_ok_def)
  have cellsU: "(nat uS + 1) * (nat vS + 1) \<le> 2 ^ 31"
  proof -
    have "int ((nat uS + 1) * (nat vS + 1)) = (uS + 1) * (vS + 1)" using u3 v3 by (simp add: algebra_simps)
    then have "int ((nat uS + 1) * (nat vS + 1)) < 2 ^ 31" using g by simp
    then have "(nat uS + 1) * (nat vS + 1) < 2 ^ 31" by (simp only: of_nat_less_numeral_power_cancel_iff)
    then show ?thesis by (rule less_imp_le)
  qed
  have Vw: "word_of_nat (nat vS) = V" using sV v3 of_nat_nat_sint32 [of V] by simp
  have hu: "nat (sint (word_of_nat k :: 32 word)) = k" if "int k \<le> uS" for k
    using sint_of_nat32 [of k] that uS1 by simp
  have hv: "nat (sint (word_of_nat k :: 32 word)) = k" if "int k \<le> vS" for k
    using sint_of_nat32 [of k] that vS1 by simp
  have fU: "for_le32 U = Some (map word_of_nat (loop_le uS))" using for_le32_Some [of U] uS1 by (simp add: sU)
  have fV: "for_le32 V = Some (map word_of_nat (loop_le vS))" using for_le32_Some [of V] vS1 by (simp add: sV)
  have lU: "for_lt32 U = Some (map word_of_nat [0..<nat uS])" by (simp add: for_lt32_Some sU loop_lt_def)
  have lV: "for_lt32 V = Some (map word_of_nat [0..<nat vS])" by (simp add: for_lt32_Some sV loop_lt_def)
  have tU: "superellipsoid_u_table32 U =
           Some (map (\<lambda>i. cos (- pi * 0.5 + real i / real_of_int uS * pi)) (loop_le uS),
                 map (\<lambda>i. sin (- pi * 0.5 + real i / real_of_int uS * pi)) (loop_le uS))"
    using superellipsoid_u_table32_eq [of U] uS1 sU by simp
  have tV: "superellipsoid_v_table32 V =
           Some (map (\<lambda>j. cos (- pi + real j / real_of_int vS * (2 * pi))) (loop_le vS),
                 map (\<lambda>j. sin (- pi + real j / real_of_int vS * (2 * pi))) (loop_le vS))"
    using superellipsoid_v_table32_eq [of V] vS1 sV by simp
  have cells: "those (concat (map (\<lambda>i. map (superellipsoid_cell32 V i) (map word_of_nat [0..<nat vS]))
                          (map word_of_nat [0..<nat uS])))
           = Some (concat (map (\<lambda>i. map (\<lambda>j. map word_of_nat (grid_cell (nat vS) i j)) [0..<nat vS]) [0..<nat uS]))"
    using superellipsoid_cells32 [OF cellsU] by (simp only: Vw)
  have idx: "map unat (concat (concat (map (\<lambda>i. map (\<lambda>j. map word_of_nat (grid_cell (nat vS) i j)) [0..<nat vS]) [0..<nat uS])) :: 32 word list)
           = grid_indices (nat uS) (nat vS)"
    by (rule superellipsoid_indices32 [OF cellsU])
  show ?thesis
    unfolding DrawSuperellipsoidMesh_data32_def Let_def U_def [symmetric] V_def [symmetric]
    apply (simp del: map_map add: okU okV okG okG8 okC okC6 fU fV lU lV tU tV cells idx sU sV)
    apply (simp add: DrawSuperellipsoidMesh_data_def Let_def uS_def [symmetric] vS_def [symmetric] comp_def)
    apply (rule arg_cong [where f = concat], rule map_cong [OF refl], rule map_cong [OF refl])
    apply (simp add: hu hv)
    done
qed

lemma DrawSuperellipsoidMesh_data32_overflow:
  assumes over: "\<not> (clamp_min 3 (sint u) + 1) * (clamp_min 3 (sint v) + 1) * 8 < 2 ^ 31"
  shows "DrawSuperellipsoidMesh_data32 sx sy sz ve he u v = None"
proof -
  define U V where "U = clamp_segments32 u" and "V = clamp_segments32 v"
  define uS vS where "uS = clamp_min 3 (sint u)" and "vS = clamp_min 3 (sint v)"
  have sU: "sint U = uS" and sV: "sint V = vS"
    by (simp_all add: U_def V_def uS_def vS_def clamp_segments32_sint)
  have u3: "3 \<le> uS" and v3: "3 \<le> vS" by (simp_all add: uS_def vS_def)
  have over': "\<not> (uS + 1) * (vS + 1) * 8 < 2 ^ 31" using over by (simp add: uS_def vS_def)
  have p0: "0 \<le> (uS + 1) * (vS + 1)" using u3 v3 by simp
  have unf: "DrawSuperellipsoidMesh_data32 sx sy sz ve he u v = X" if "add32 U 1 = None \<or> add32 V 1 = None \<or>
               (\<exists>a b. add32 U 1 = Some a \<and> add32 V 1 = Some b \<and> superellipsoid_u_table32 U \<noteq> None \<and>
                 superellipsoid_v_table32 V \<noteq> None \<and> (mul32 a b = None \<or> (\<exists>g. mul32 a b = Some g \<and> mul32 g 8 = None)))"
    and "X = None" for X
    using that unfolding DrawSuperellipsoidMesh_data32_def Let_def U_def [symmetric] V_def [symmetric]
    by (auto split: option.splits)
  show ?thesis
  proof (cases "uS + 1 < 2 ^ 31 \<and> vS + 1 < 2 ^ 31")
    case False
    then have "add32 U 1 = None \<or> add32 V 1 = None" by (auto simp: add32_def int32_ok_def sU sV)
    then show ?thesis by (intro unf) blast+
  next
    case True
    have okU: "add32 U 1 = Some (U + 1) \<and> sint (U + 1) = uS + 1"
      using add32_ok [of U 1] True u3 by (simp add: sU int32_ok_def)
    have okV: "add32 V 1 = Some (V + 1) \<and> sint (V + 1) = vS + 1"
      using add32_ok [of V 1] True v3 by (simp add: sV int32_ok_def)
    have tabs: "superellipsoid_u_table32 U \<noteq> None" "superellipsoid_v_table32 V \<noteq> None"
      using True by (simp_all add: superellipsoid_u_table32_eq superellipsoid_v_table32_eq sU sV)
    have "mul32 (U + 1) (V + 1) = None \<or>
          (\<exists>g. mul32 (U + 1) (V + 1) = Some g \<and> mul32 g 8 = None)"
    proof (cases "(uS + 1) * (vS + 1) < 2 ^ 31")
      case False
      then show ?thesis using okU okV p0 by (simp add: mul32_def int32_ok_def)
    next
      case True
      then have "mul32 (U + 1) (V + 1) = Some ((U + 1) * (V + 1)) \<and> sint ((U + 1) * (V + 1)) = (uS + 1) * (vS + 1)"
        using mul32_ok [of "U + 1" "V + 1"] okU okV p0 by (simp add: int32_ok_def)
      then show ?thesis using over' p0 by (simp add: mul32_def int32_ok_def)
    qed
    then show ?thesis using okU okV tabs by (intro unf) blast+
  qed
qed

section \<open>Properties\<close>



text \<open>C9. Refinement of the unbounded-integer model by the 32-bit one: with \<open>int\<close> segment
  counts \<open>DrawSuperellipsoidMesh\<close> computes exactly the host buffer
  \<open>DrawSuperellipsoidMesh_data\<close> of the clamped counts when
  \<open>(uSegments + 1) * (vSegments + 1) * 8\<close>, its vertex \<open>reserve\<close> argument, fits an
  \<open>int\<close>; otherwise that product overflows (undefined behaviour) before any vertex is
  made.\<close>

theorem DrawSuperellipsoidMesh_data32_refines:
  "DrawSuperellipsoidMesh_data32 sx sy sz ve he u v =
     (if (clamp_min 3 (sint u) + 1) * (clamp_min 3 (sint v) + 1) * 8 < 2 ^ 31
      then Some (DrawSuperellipsoidMesh_data sx sy sz ve he (sint u) (sint v)) else None)"
  using DrawSuperellipsoidMesh_data32_fits DrawSuperellipsoidMesh_data32_overflow by simp

end
