(* ===== verification/Spec2Isabelle.thy ===== *)
theory Spec2Isabelle
  imports Vertex_Fetch Spiral Int32_Loops
begin

text \<open>
  Verification development of \<open>src/artifact-two/enhanced/3DShapes/ShapeMeshes.cpp\<close>
  and its header \<open>ShapeMeshes.h\<close>: a procedural mesh library that builds interleaved
  vertex buffers and index buffers for primitive shapes, uploads them to OpenGL and
  draws them.

  \<^bold>\<open>The program.\<close> Each built-in shape has a \<open>Load*Mesh\<close> member function that
  computes a host-side vertex list (position, normal, texture coordinate; the
  \<open>Vertex\<close> struct, 8 floats) and an index list, then hands both to
  \<open>InitializeMesh\<close>, which creates a VAO, a VBO and (for indexed shapes) an EBO,
  uploads the data and sets the attribute layout (\<open>SetShaderMemoryLayout\<close>). The
  result is stored in one \<open>GLMesh\<close> member per shape. The matching \<open>Draw*Mesh\<close>
  function sets the polygon mode, binds the VAO and issues \<open>glDrawElements\<close> or
  \<open>glDrawArrays\<close> over ranges computed from the stored counts. Deprecated
  \<open>Draw*MeshLines\<close> wrappers print a warning once and forward. Four custom shapes
  (tapered torus, spiral, sine cone, superellipsoid) work differently: their \<open>Load\<close>
  function only allocates a VAO, a VBO and an EBO, and every call of their \<open>Draw\<close>
  function generates the geometry from its parameters, re-uploads it into those three
  objects and draws it.

  \<^bold>\<open>Theories.\<close>
  \<^item> \<open>Mesh_Prelude\<close>: the vector algebra of glm over exact reals (\<open>vadd\<close>, \<open>vsub\<close>,
    \<open>cross\<close>, \<open>dot\<close>, \<open>normalize\<close>, \<open>CalculateTriangleNormal\<close>, \<open>QuadCrossProduct\<close>),
    the \<open>Vertex\<close> record and its 8-float interleaving, the C++ loop shapes
    \<open>for (i = 0; i < n; ++i)\<close> (\<open>loop_lt\<close>) and \<open>i <= n\<close> (\<open>loop_le\<close>), truncating
    integer division \<open>cdiv\<close>, the slice clamp \<open>clamp_min\<close>, and the shared predicates
    \<open>mesh_wf\<close> (indices in range, whole triangles) and \<open>unit_normals\<close>.
  \<^item> \<open>Topology\<close>: the index patterns (\<open>grid_indices\<close>, \<open>sphere_indices\<close>) and the
    OpenGL primitive assembly of \<open>GL_TRIANGLES\<close>, \<open>GL_TRIANGLE_STRIP\<close> and
    \<open>GL_TRIANGLE_FAN\<close> (\<open>assemble\<close>, \<open>draw_arrays\<close>, \<open>draw_elements\<close>), from the
    OpenGL specification.
  \<^item> \<open>Disk_Solids\<close>: the host buffers of \<open>LoadConeMesh\<close>, \<open>LoadCylinderMesh\<close>,
    \<open>LoadTaperedCylinderMesh\<close>, \<open>LoadTubeMesh\<close> and \<open>DrawPartialConeMesh\<close>
    (\<open>*_data\<close>), one definition per loop body.
  \<^item> \<open>Grid_Surfaces\<close>: the host buffers of \<open>LoadSphereMesh\<close>, \<open>LoadHemisphereMesh\<close>,
    \<open>LoadTorusMesh\<close>, \<open>LoadSpringMesh\<close> and \<open>LoadExtraTorusMesh1/2\<close>.
  \<^item> \<open>Fixed_Shapes\<close>: the vertex tables of the box, plane, prism, two pyramids and the
    fin, and the face selection of \<open>DrawBoxMeshSide\<close>.
  \<^item> \<open>Custom_Surfaces\<close>: the host buffers of the per-draw surfaces
    \<open>LoadCurvedConeMesh\<close>, \<open>DrawTaperedTorusMesh\<close>, \<open>DrawSineConeMesh\<close> (with its
    area-weighted normal accumulation \<open>sine_cone_accum\<close>, a \<open>fold\<close> over the grid cells) and
    \<open>DrawSuperellipsoidMesh\<close> (with its parameter clamps and angle tables).
  \<^item> \<open>Spiral\<close>: the host buffer of \<open>DrawSpiralMesh\<close>: the centreline loop with its
    \<open>break\<close>, the unchecked \<open>static_cast<int>\<close> of the start segment, tangents, frames
    propagated with \<open>glm::rotate\<close>, tube rings, the 8-ring hemispherical cap and the index
    bands. The call's two undefined behaviours (reading \<open>centers[1]\<close> of a shorter
    centreline, an \<open>int\<close> overflow of the cast) are the \<open>Inl\<close> values of its result.
  \<^item> \<open>GL_Context\<close>: the part of the OpenGL state the registry uses, modelled from the
    OpenGL 4.6 specification (a library the sources only call): names from a counter,
    buffers holding floats or indices, VAOs holding their element buffer and attribute
    pointers, and a log of draw calls, each with the verdict \<open>draw_ok\<close> whether it read
    inside the buffers it read from.
  \<^item> \<open>Registry\<close>: the \<open>ShapeMeshes\<close> object as a record (a \<open>GLMesh\<close> per \<open>shape\<close>, the
    twelve warning flags, the layout flags and the GL context), every \<open>Load*\<close> and
    \<open>Draw*\<close> member function of the 16 built-in and the 5 custom shapes and the
    deprecated wrappers as explicit GL command sequences (the per-draw shapes through
    \<open>load_names\<close> and the shared upload-and-draw tail \<open>dynamic_upload_draw\<close>), the datatype \<open>op\<close> of public calls with the step
    function \<open>exec\<close>, and the inductive set \<open>reachable\<close> of states reachable from the
    constructor's state. The only precondition, \<open>op_pre\<close>, is the caller's duty of spec
    section 7 where the code does not check it itself: the four fin sub-range draws
    follow \<open>LoadFinMesh\<close>, a per-draw shape is drawn only after its \<open>Load\<close>, and a
    spiral is drawn only with parameters for which its generation is defined.
  \<^item> \<open>Registry_Effects\<close>: each load's command sequence shown equal to one update of the
    registry (fresh names, uploaded buffers, the standard layout \<open>layout_vao\<close>), and
    claims about single operations.
  \<^item> \<open>Registry_Safety\<close>: the invariant \<open>registry_inv\<close> and its preservation by every
    operation. It has two parts. Each mesh drawn from its stored counts is unloaded or
    names a live VAO whose buffers cover every range a draw of that shape reads. The
    ownership part \<open>owners_ok\<close> says the GL names of the meshes are below \<open>gl_next\<close> and
    pairwise disjoint, each VAO reads only its own mesh's buffers, and a loaded per-draw
    shape holds two live buffers. The typing part \<open>typed_ok\<close> says element buffers hold
    indices and attribute buffers hold floats. This confines the re-uploads of the per-draw shapes to
    their own objects.
  \<^item> \<open>Vertex_Fetch\<close>: the vertex fetch of the pipeline (\<open>gl_fetch\<close>, \<open>gl_vertex\<close>) and
    the vertices a draw call hands to the vertex shader (\<open>drawn_vertices\<close>), with the
    refinement lemmas that the registry's draws render the generators' buffers.
  \<^item> \<open>Int32_Loops\<close>: the C++ \<open>int\<close> at its width. Counting loops
    \<open>for (int i = 0; i < n; ++i)\<close> and \<open>i <= n\<close> as \<open>while_option\<close> over a
    \<open>32 word\<close> counter (\<open>for_lt32\<close>, \<open>for_le32\<close>), signed \<open>+\<close> and \<open>*\<close> with overflow
    (undefined behaviour) as \<open>None\<close> (\<open>add32\<close>, \<open>mul32\<close>), and the generation of
    \<open>DrawSuperellipsoidMesh\<close> at that width (\<open>DrawSuperellipsoidMesh_data32\<close>: clamps,
    table sizes, angle tables, the two \<open>reserve\<close> arguments, vertex and index loops).

  \<^bold>\<open>What is shown.\<close> Refinement and round trip: reading an interleaved buffer
  through the layout of \<open>SetShaderMemoryLayout\<close> gives back every vertex (C5); after
  \<open>InitializeMesh\<close> the whole-mesh draw renders exactly the generator's vertices in
  index order (C3); a per-draw shape's draw renders exactly its new buffer in any
  invariant state, whatever an earlier draw left in its objects (C4). Progress: from
  every reachable state a superellipsoid can be loaded and drawn, with an in-range draw
  of all its indices (C6). Termination and bounds: whenever the superellipsoid's table size
  \<open>uSegments + 1\<close> is a defined \<open>int\<close>, its \<open>int\<close> loops over \<open>uSegments\<close> stop after
  exactly the indices of the tables \<open>cosU\<close> and \<open>sinU\<close> (C8). Width: the 32-bit superellipsoid generator
  computes the unbounded-integer buffer exactly when its vertex \<open>reserve\<close> product
  \<open>(u + 1) * (v + 1) * 8\<close> fits an \<open>int\<close> and overflows otherwise (C9); the product first
  overflows at 16383 segments each way. Typing: in every reachable state each loaded VAO is live, its
  element buffer holds indices and its attributes read float buffers (C7). For the
  generators: every index names a vertex of the same call, for all integer parameters
  (C1, C10); counts and clamping; unit normals; and, against
  the comments and the spec, the winding and normal direction of each shape's faces,
  which expose several shapes drawn inside out. For the draw modes: what
  \<open>GL_TRIANGLE_STRIP\<close> makes of index lists laid out as triangle lists, taken from the
  call the registry's \<open>DrawPlaneMesh\<close> issues (C28). For the
  registry: every reachable state has logged only in-range draws, including every
  re-upload draw of the per-draw shapes (C2, by the invariant and rule induction over
  \<open>reachable\<close>); draws before the matching load, of the fin and of the per-draw shapes,
  are not guarded (C23); the layout flag is never set; the \<open>Lines\<close> wrappers of three shapes draw filled; reloading
  leaks GL objects; the fin never gets a vertex count. For the custom surfaces: well-formed
  index lists for all parameters (C17), unit normals of the tapered torus and the
  superellipsoid, the curved cone's zero (NaN in glm) tip normals, the unclamped tapered
  torus drawing nothing for non-positive counts, and the sine cone's texture coordinates
  recomputed by division agreeing with the generation loops. For the spiral: well-formed
  indices whenever the call is defined (C19), undefined behaviour for every spiral of at
  most half a turn, and the cap joined to the tube with a half-turn twist.

  \<^bold>\<open>Modelling choices.\<close> Floats are exact reals and angle accumulation is exact
  multiplication, so rounding is not modelled; \<open>normalize\<close> of the zero vector is the zero
  vector (NaN in glm). Unsigned GL counts are \<open>nat\<close>, C++ \<open>int\<close> parameters are \<open>int\<close>
  and negative loop bounds give empty loops, as in the code; \<open>Int32_Loops\<close> justifies
  this for the superellipsoid (C9): below the overflow bound the 32-bit computation
  agrees with the unbounded one, and the loops' termination there is C8. The counting loops are \<open>while_option\<close>
  loops in \<open>Int32_Loops\<close> only, where \<open>None\<close> is non-termination; \<open>++i\<close> is the
  32-bit increment, which wraps only in a \<open><=\<close> loop up to \<open>INT_MAX\<close> (undefined
  behaviour in C++), a case the generator's checked \<open>uSegments + 1\<close> excludes. Real
  division by zero is 0 in HOL where C++ float division gives NaN or infinity: the
  generators divide by segment counts (for example \<open>lat * Pi / latitudeSegments\<close>), so
  every claim about normals or positions that such a division reaches assumes the
  counts are not 0 (C15, C20, C33, C35). No loop of the modelled code runs on data-dependent bounds except the spiral's centreline loop, whose \<open>break\<close> is a
  \<open>takeWhile\<close> over the bounded range \<open>[startSegment..spiralSegments]\<close>; all definitions are
  structural recursion and need no fuel. The GL context tracks only what the sources read back or draw from.

  \<^bold>\<open>Not modelled.\<close> The \<open>int\<close> width of the counts of the generators other
  than the superellipsoid: they use the same loops and products, so their overflow
  bounds follow the same pattern, and their unbounded models are kept. Messages on \<open>std::cerr\<close> are not modelled (the wrappers'
  warning flags are). The \<open>GLMesh\<close> fields \<open>vbos\<close> (beyond the one the extra tori use),
  \<open>ibo\<close> and the uninitialised \<open>curveSteps\<close> are never read by the code; \<open>curveSteps\<close>
  is kept as the value \<open>LoadCurvedConeMesh\<close> stores. The buffer usage hints
  (\<open>GL_STATIC_DRAW\<close>, \<open>GL_DYNAMIC_DRAW\<close>) do not affect what is drawn. Shader programs, textures and the window system are
  outside the sources.
\<close>

end
